(* ===== verification/FL_Prelude.thy ===== *)
theory FL_Prelude
  imports Complex_Main
begin

text \<open>
  Shared material of the development: the collections of simplification rules the component
  theories fill, sequencing of computations that may throw, and small facts on association lists
  and on lists of tests that several components use.

  An operation of the source that may throw returns a value of \<open>'e + 'a\<close>: \<open>Inl e\<close> is the thrown
  value, \<open>Inr v\<close> the returned one.
\<close>

named_theorems access_defs
  \<open>definitions of the constant tables and guards of the source, to be unfolded on demand\<close>

named_theorems result_simps
  \<open>how a result that was returned (or thrown) determines the computation that produced it\<close>

section \<open>Sequencing computations that may throw\<close>

definition bindE :: "'e + 'a \<Rightarrow> ('a \<Rightarrow> 'e + 'b) \<Rightarrow> 'e + 'b" where
  "bindE m f = (case m of Inl e \<Rightarrow> Inl e | Inr v \<Rightarrow> f v)"

lemma bindE_simps [simp]:
  "bindE (Inl e) f = Inl e"
  "bindE (Inr v) f = f v"
  by (simp_all add: bindE_def)

lemma bindE_Inr_iff [result_simps]: "bindE m f = Inr w \<longleftrightarrow> (\<exists>v. m = Inr v \<and> f v = Inr w)"
  by (cases m) simp_all

lemma bindE_Inl_iff [result_simps]:
  "bindE m f = Inl e \<longleftrightarrow> m = Inl e \<or> (\<exists>v. m = Inr v \<and> f v = Inl e)"
  by (cases m) auto

lemma bindE_cases:
  obtains (thrown) e where "m = Inl e" "bindE m f = Inl e"
  | (returned) v where "m = Inr v" "bindE m f = f v"
  by (cases m) auto

section \<open>Association lists\<close>

lemma map_of_SomeD_fst: "map_of xs k = Some v \<Longrightarrow> k \<in> fst ` set xs"
  by (force dest: map_of_SomeD)

lemma map_of_map_values:
  "map_of (map (\<lambda>(k, t). (k, f k t)) xs) k = map_option (f k) (map_of xs k)"
  by (induction xs) auto

lemma filter_empty_iff: "filter P xs = [] \<longleftrightarrow> (\<forall>x \<in> set xs. \<not> P x)"
  by (induction xs) auto

section \<open>Concatenated lists of findings\<close>

text \<open>
  Validators of the source collect findings by appending; nothing is found exactly when no test
  found anything.
\<close>

lemma concat_map_Nil_iff: "concat (map f xs) = [] \<longleftrightarrow> (\<forall>x \<in> set xs. f x = [])"
  by (induction xs) auto

lemma if_singleton_Nil_iff [simp]:
  "(if b then [x] else []) = [] \<longleftrightarrow> \<not> b"
  "(if b then [] else [x]) = [] \<longleftrightarrow> b"
  by simp_all

end
