(* ===== verification/JS_Values.thy ===== *)
theory JS_Values
  imports FL_Prelude
begin

text \<open>
  The JavaScript values, numbers, strings and exceptions the source computes with.

  \<^item> A finite double is the rational number it denotes. The source compares doubles and asks whether
    they are (safe) integers; both are exact on rationals. The two zeros are one value here: none of
    the modelled code tells them apart.
  \<^item> A string is a list of code units, those up to 255. Lengths, comparisons, trimming and case
    conversion are exact on that range; code units above it are not represented.
  \<^item> An object has its own data properties and those it inherits from its prototype chain. Accessors
    and proxies are not represented, so reading a property has no effect and does not throw.
\<close>

section \<open>Numbers\<close>

datatype jsnum = NaN | PosInf | NegInf | Fin rat

definition is_finite :: "jsnum \<Rightarrow> bool" where
  "is_finite n \<longleftrightarrow> (case n of Fin _ \<Rightarrow> True | _ \<Rightarrow> False)"

definition is_integer :: "jsnum \<Rightarrow> bool" where
  "is_integer n \<longleftrightarrow> (case n of Fin q \<Rightarrow> of_int \<lfloor>q\<rfloor> = q | _ \<Rightarrow> False)"

definition max_safe_integer :: int where
  "max_safe_integer = 9007199254740991"

definition is_safe_integer :: "jsnum \<Rightarrow> bool" where
  "is_safe_integer n \<longleftrightarrow>
     (case n of Fin q \<Rightarrow> of_int \<lfloor>q\<rfloor> = q \<and> \<bar>\<lfloor>q\<rfloor>\<bar> \<le> max_safe_integer | _ \<Rightarrow> False)"

fun num_less :: "jsnum \<Rightarrow> jsnum \<Rightarrow> bool" where
  "num_less NaN _ = False"
| "num_less _ NaN = False"
| "num_less PosInf _ = False"
| "num_less _ NegInf = False"
| "num_less NegInf _ = True"
| "num_less _ PosInf = True"
| "num_less (Fin a) (Fin b) = (a < b)"

fun num_eq :: "jsnum \<Rightarrow> jsnum \<Rightarrow> bool" where
  "num_eq NaN _ = False"
| "num_eq _ NaN = False"
| "num_eq a b = (a = b)"

definition num_le :: "jsnum \<Rightarrow> jsnum \<Rightarrow> bool" where
  "num_le a b \<longleftrightarrow> num_less a b \<or> num_eq a b"

abbreviation int_num :: "int \<Rightarrow> jsnum" where
  "int_num i \<equiv> Fin (of_int i)"

definition safe_int :: "int \<Rightarrow> bool" where
  "safe_int i \<longleftrightarrow> \<bar>i\<bar> \<le> max_safe_integer"

lemma of_int_floor_eq_iff: "of_int \<lfloor>q\<rfloor> = q \<longleftrightarrow> (\<exists>i. q = of_int i)" for q :: rat
  by (metis floor_of_int)

lemma is_safe_integer_iff: "is_safe_integer n \<longleftrightarrow> (\<exists>i. n = int_num i \<and> safe_int i)"
  by (cases n) (auto simp: is_safe_integer_def safe_int_def of_int_floor_eq_iff)

lemma is_integer_iff: "is_integer n \<longleftrightarrow> (\<exists>i. n = int_num i)"
  by (cases n) (auto simp: is_integer_def of_int_floor_eq_iff)

lemma is_integer_int [simp]: "is_integer (int_num i)"
  by (simp add: is_integer_def)

lemma is_integer_nat [simp]: "is_integer (Fin (of_nat n))"
  using is_integer_int [of "int n"] by simp

lemma is_safe_integer_int [simp]: "is_safe_integer (int_num i) \<longleftrightarrow> safe_int i"
  by (simp add: is_safe_integer_def safe_int_def)

lemma num_eq_int [simp]: "num_eq (int_num i) (int_num j) \<longleftrightarrow> i = j"
  by simp

lemma num_le_int [simp]: "num_le (int_num i) (int_num j) \<longleftrightarrow> i \<le> j"
  by (auto simp: num_le_def)

lemma num_le_zero_int [simp]: "num_le (int_num i) (Fin 0) \<longleftrightarrow> i \<le> 0"
  using num_le_int [of i 0] by (simp del: num_le_int)

lemma num_le_one_int [simp]: "num_le (int_num i) (Fin 1) \<longleftrightarrow> i \<le> 1"
  using num_le_int [of i 1] by (simp del: num_le_int)

section \<open>Values\<close>

datatype jsval =
    JUndef
  | JNull
  | JBool bool
  | JNum jsnum
  | JBigInt int
  | JStr string
  | JArr "jsval list"
  | JObj "(string \<times> jsval) list" "(string \<times> jsval) list" \<comment> \<open>own and inherited properties\<close>
  | JFun

abbreviation JInt :: "int \<Rightarrow> jsval" where
  "JInt i \<equiv> JNum (int_num i)"

fun js_typeof :: "jsval \<Rightarrow> string" where
  "js_typeof JUndef = ''undefined''"
| "js_typeof JNull = ''object''"
| "js_typeof (JBool _) = ''boolean''"
| "js_typeof (JNum _) = ''number''"
| "js_typeof (JBigInt _) = ''bigint''"
| "js_typeof (JStr _) = ''string''"
| "js_typeof (JArr _) = ''object''"
| "js_typeof (JObj _ _) = ''object''"
| "js_typeof JFun = ''function''"

fun is_array :: "jsval \<Rightarrow> bool" where
  "is_array (JArr _) = True"
| "is_array _ = False"

fun own_props :: "jsval \<Rightarrow> (string \<times> jsval) list" where
  "own_props (JObj own inh) = own"
| "own_props _ = []"

fun inherited_props :: "jsval \<Rightarrow> (string \<times> jsval) list" where
  "inherited_props (JObj own inh) = inh"
| "inherited_props _ = []"

text \<open>\<open>js_get v k\<close> is \<open>v[k]\<close>, \<open>js_has_own v k\<close> is \<open>Object.prototype.hasOwnProperty.call(v, k)\<close>.\<close>

definition js_get :: "jsval \<Rightarrow> string \<Rightarrow> jsval" where
  "js_get v k =
     (case map_of (own_props v) k of
        Some w \<Rightarrow> w
      | None \<Rightarrow> (case map_of (inherited_props v) k of Some w \<Rightarrow> w | None \<Rightarrow> JUndef))"

definition js_has_own :: "jsval \<Rightarrow> string \<Rightarrow> bool" where
  "js_has_own v k \<longleftrightarrow> map_of (own_props v) k \<noteq> None"

definition object_keys :: "jsval \<Rightarrow> string list" where
  "object_keys v = map fst (own_props v)"

text \<open>
  Strict equality. Objects, arrays and functions are equal only to themselves; every comparison of
  the source has a string, a number, \<open>null\<close> or \<open>undefined\<close> on one side, where they are unequal.
\<close>

fun js_eq :: "jsval \<Rightarrow> jsval \<Rightarrow> bool" where
  "js_eq JUndef JUndef = True"
| "js_eq JNull JNull = True"
| "js_eq (JBool a) (JBool b) = (a = b)"
| "js_eq (JNum a) (JNum b) = num_eq a b"
| "js_eq (JBigInt a) (JBigInt b) = (a = b)"
| "js_eq (JStr a) (JStr b) = (a = b)"
| "js_eq _ _ = False"

fun js_num_le :: "jsval \<Rightarrow> jsval \<Rightarrow> bool" where
  "js_num_le (JNum a) (JNum b) = num_le a b"
| "js_num_le _ _ = False"

fun js_num_less :: "jsval \<Rightarrow> jsval \<Rightarrow> bool" where
  "js_num_less (JNum a) (JNum b) = num_less a b"
| "js_num_less _ _ = False"

lemma js_get_own [simp]: "map_of own k = Some w \<Longrightarrow> js_get (JObj own inh) k = w"
  by (simp add: js_get_def)

lemma js_has_own_get: "js_has_own v k \<Longrightarrow> map_of (own_props v) k = Some (js_get v k)"
  by (auto simp: js_has_own_def js_get_def)

lemma js_get_non_object [simp]:
  "own_props v = [] \<Longrightarrow> inherited_props v = [] \<Longrightarrow> js_get v k = JUndef"
  by (simp add: js_get_def)

lemma js_eq_JStr_iff [simp]:
  "js_eq v (JStr s) \<longleftrightarrow> v = JStr s"
  "js_eq (JStr s) v \<longleftrightarrow> v = JStr s"
  by (cases v; auto)+

lemma js_eq_JInt_iff [simp]:
  "js_eq v (JInt i) \<longleftrightarrow> v = JInt i"
  "js_eq (JInt i) v \<longleftrightarrow> v = JInt i"
proof -
  have "num_eq n (int_num i) \<longleftrightarrow> n = int_num i" and "num_eq (int_num i) n \<longleftrightarrow> n = int_num i" for n
    by (cases n; auto)+
  then show "js_eq v (JInt i) \<longleftrightarrow> v = JInt i" and "js_eq (JInt i) v \<longleftrightarrow> v = JInt i"
    by (cases v; auto)+
qed

lemma js_eq_JUndef_iff [simp]: "js_eq v JUndef \<longleftrightarrow> v = JUndef"
  by (cases v) auto

text \<open>\<open>{ ...v, ...w }\<close>: the properties of \<open>v\<close>, those that \<open>w\<close> has too replaced, then the others of \<open>w\<close>.\<close>

definition object_spread :: "jsval \<Rightarrow> jsval \<Rightarrow> jsval" where
  "object_spread v w = JObj
     (map (\<lambda>(k, x). (k, case map_of (own_props w) k of Some y \<Rightarrow> y | None \<Rightarrow> x)) (own_props v)
      @ filter (\<lambda>(k, y). \<not> js_has_own v k) (own_props w)) []"

text \<open>The characters of a string, the integer of a number.\<close>

fun the_string :: "jsval \<Rightarrow> string" where
  "the_string (JStr s) = s"
| "the_string _ = []"

fun the_int :: "jsval \<Rightarrow> int" where
  "the_int (JNum (Fin q)) = \<lfloor>q\<rfloor>"
| "the_int _ = 0"

section \<open>The type tests the source writes\<close>

definition is_record :: "jsval \<Rightarrow> bool" where
  "is_record v \<longleftrightarrow> js_typeof v = ''object'' \<and> v \<noteq> JNull \<and> \<not> is_array v"

definition is_non_empty_string :: "jsval \<Rightarrow> bool" where
  "is_non_empty_string v \<longleftrightarrow> (case v of JStr s \<Rightarrow> 0 < length s | _ \<Rightarrow> False)"

lemma is_record_iff: "is_record v \<longleftrightarrow> (\<exists>own inh. v = JObj own inh)"
  by (cases v) (simp_all add: is_record_def)

lemma is_record_JObj [simp]: "is_record (JObj own inh)"
  by (simp add: is_record_iff)

lemma is_non_empty_string_iff: "is_non_empty_string v \<longleftrightarrow> (\<exists>s. v = JStr s \<and> s \<noteq> [])"
  by (cases v) (simp_all add: is_non_empty_string_def)

lemma is_non_empty_string_JStr [simp]: "is_non_empty_string (JStr s) \<longleftrightarrow> s \<noteq> []"
  by (simp add: is_non_empty_string_def)

text \<open>Truthiness, \<open>v ?? w\<close> and \<open>v?.k\<close>\<close>

fun js_truthy :: "jsval \<Rightarrow> bool" where
  "js_truthy JUndef = False"
| "js_truthy JNull = False"
| "js_truthy (JBool b) = b"
| "js_truthy (JNum n) = (n \<noteq> NaN \<and> n \<noteq> Fin 0)"
| "js_truthy (JBigInt i) = (i \<noteq> 0)"
| "js_truthy (JStr s) = (s \<noteq> [])"
| "js_truthy _ = True"

definition js_or :: "jsval \<Rightarrow> jsval \<Rightarrow> jsval" where
  "js_or v w = (if v = JUndef \<or> v = JNull then w else v)"

definition js_opt :: "jsval \<Rightarrow> string \<Rightarrow> jsval" where
  "js_opt v k = (if v = JUndef \<or> v = JNull then JUndef else js_get v k)"

section \<open>Strings\<close>

definition code_unit :: "char \<Rightarrow> nat" where
  "code_unit c = of_char c"

definition is_space :: "char \<Rightarrow> bool" where
  "is_space c \<longleftrightarrow> code_unit c \<in> {9, 10, 11, 12, 13, 32, 160}"

definition js_trim :: "string \<Rightarrow> string" where
  "js_trim s = rev (dropWhile is_space (rev (dropWhile is_space s)))"

definition lower_char :: "char \<Rightarrow> char" where
  "lower_char c =
     (let n = code_unit c
      in if 65 \<le> n \<and> n \<le> 90 \<or> 192 \<le> n \<and> n \<le> 222 \<and> n \<noteq> 215 then char_of (n + 32) else c)"

definition js_lower :: "string \<Rightarrow> string" where
  "js_lower s = map lower_char s"

definition starts_with :: "string \<Rightarrow> string \<Rightarrow> bool" where
  "starts_with s p \<longleftrightarrow> take (length p) s = p"

definition ends_with :: "string \<Rightarrow> string \<Rightarrow> bool" where
  "ends_with s p \<longleftrightarrow> starts_with (rev s) (rev p)"

text \<open>\<open>s.includes(p)\<close>\<close>

definition js_includes :: "string \<Rightarrow> string \<Rightarrow> bool" where
  "js_includes s p \<longleftrightarrow> list_ex (\<lambda>n. starts_with (drop n s) p) [0..<length s + 1]"

text \<open>\<open>s.split(sep)\<close> for a separator of one code unit.\<close>

fun js_split :: "char \<Rightarrow> string \<Rightarrow> string list" where
  "js_split sep [] = [[]]"
| "js_split sep (c # cs) =
     (if c = sep then [] # js_split sep cs
      else (case js_split sep cs of [] \<Rightarrow> [[c]] | w # ws \<Rightarrow> (c # w) # ws))"

text \<open>The UTF-8 length of a string of code units below 256.\<close>

definition utf8_length :: "string \<Rightarrow> nat" where
  "utf8_length s = sum_list (map (\<lambda>c. if code_unit c < 128 then 1 else 2) s)"

fun digit_char :: "nat \<Rightarrow> char" where
  "digit_char d = char_of (48 + d)"

text \<open>\<open>String(n)\<close> for a natural number.\<close>

fun nat_string :: "nat \<Rightarrow> string" where
  "nat_string n = (if n < 10 then [digit_char n] else nat_string (n div 10) @ [digit_char (n mod 10)])"

declare nat_string.simps [simp del]

lemma js_split_not_Nil [simp]: "js_split sep s \<noteq> []"
  by (induction s) (auto split: list.splits)

section \<open>Exceptions\<close>

text \<open>
  What the modelled code throws or catches. The JOSE library's errors are told apart by class and,
  for a failed claim check, by the claim's name, as the source's \<open>instanceof\<close> tests do.
\<close>

datatype jose_error =
    JWTClaimValidationFailed string
  | JWTExpired
  | JWTInvalid
  | JWSInvalid
  | JWSSignatureVerificationFailed
  | JOSEAlgNotAllowed
  | JOSENotSupported
  | JWKInvalid
  | JOSEOther string

record issue =
  issue_path :: "string list"
  issue_reason :: string

datatype js_exn =
    AccessReceiptValidationError "issue list"
  | AccessReceiptConfigurationError "issue list"
  | AccessReceiptVerificationError
  | JoseError jose_error
  | JSTypeError string
  | JSRangeError string
  | JSError string
  | PrismaError string \<comment> \<open>an error of the database client, with its \<open>code\<close>\<close>

end
