(* ===== verification/JS_Dates.thy ===== *)
theory JS_Dates
  imports JS_Values
begin

text \<open>
  \<open>Date\<close> values of JavaScript as far as the source uses them: a date is its time value, the
  milliseconds since the epoch, within the range that ECMAScript allows, and \<open>toISOString\<close> writes it in
  the proleptic Gregorian calendar.
\<close>

definition date_limit :: int where
  "date_limit = 8640000000000000"

text \<open>An arithmetic result as a date; whatever needs a valid date throws for the others.\<close>

definition valid_date :: "int \<Rightarrow> js_exn + int" where
  "valid_date t = (if \<bar>t\<bar> \<le> date_limit then Inr t else Inl (JSRangeError ''Invalid time value''))"

definition is_leap :: "int \<Rightarrow> bool" where
  "is_leap y \<longleftrightarrow> y mod 4 = 0 \<and> (y mod 100 \<noteq> 0 \<or> y mod 400 = 0)"

definition days_in_month :: "int \<Rightarrow> int \<Rightarrow> int" where
  "days_in_month y m =
     (if m = 2 then if is_leap y then 29 else 28 else if m \<in> {4, 6, 9, 11} then 30 else 31)"

text \<open>
  A year that begins in March, of the 400 years of an era, and the day in it: centuries of 36524 days,
  of which the last has one more, cycles of four years, and years.
\<close>

definition year_of_era :: "int \<Rightarrow> int \<times> int" where
  "year_of_era doe =
     (let c = min 3 (doe div 36524); r = doe - 36524 * c; q = r div 1461; s = r mod 1461;
          a = min 3 (s div 365)
      in (100 * c + 4 * q + a, s - 365 * a))"

text \<open>The number of whole months before a day of such a year.\<close>

definition march_month :: "int \<Rightarrow> int" where
  "march_month doy = (5 * doy + 2) div 153"

text \<open>Year, month and day of a day number, which counts from 1970.\<close>

definition civil_of_days :: "int \<Rightarrow> int \<times> int \<times> int" where
  "civil_of_days days =
     (let z = days + 719468; (yoe, doy) = year_of_era (z mod 146097); mp = march_month doy;
          m = (if mp < 10 then mp + 3 else mp - 9)
      in (yoe + z div 146097 * 400 + (if m \<le> 2 then 1 else 0), m, doy - (153 * mp + 2) div 5 + 1))"

text \<open>The last \<open>w\<close> decimal digits.\<close>

fun last_digits :: "nat \<Rightarrow> int \<Rightarrow> string" where
  "last_digits 0 n = []"
| "last_digits (Suc w) n = last_digits w (n div 10) @ [digit_char (nat (n mod 10))]"

definition year_string :: "int \<Rightarrow> string" where
  "year_string y =
     (if 0 \<le> y \<and> y \<le> 9999 then last_digits 4 y
      else (if 0 \<le> y then ''+'' else ''-'') @ last_digits 6 \<bar>y\<bar>)"

definition iso_string :: "int \<Rightarrow> string" where
  "iso_string t =
     (case civil_of_days (t div 86400000) of
        (y, m, d) \<Rightarrow>
          (let ms = t mod 86400000 in
           year_string y @ ''-'' @ last_digits 2 m @ ''-'' @ last_digits 2 d @ ''T''
             @ last_digits 2 (ms div 3600000) @ '':'' @ last_digits 2 (ms div 60000 mod 60) @ '':''
             @ last_digits 2 (ms div 1000 mod 60) @ ''.'' @ last_digits 3 (ms mod 1000) @ ''Z''))"

lemma valid_date_Inr_iff [result_simps]: "valid_date t = Inr u \<longleftrightarrow> u = t \<and> \<bar>t\<bar> \<le> date_limit"
  by (auto simp: valid_date_def)

section \<open>The calendar\<close>

lemma year_of_era_range:
  assumes "0 \<le> doe" and "doe \<le> 146096"
  shows "case year_of_era doe of (yoe, doy) \<Rightarrow>
      0 \<le> yoe \<and> yoe \<le> 399 \<and> 0 \<le> doy \<and> doy \<le> 365 \<and> (doy = 365 \<longrightarrow> is_leap (yoe + 1))
    \<and> (yoe = 399 \<longrightarrow> doe = 145731 + doy) \<and> (145731 \<le> doe \<longrightarrow> yoe = 399)"
proof -
  define c where "c = min 3 (doe div 36524)"
  define r where "r = doe - 36524 * c"
  define q where "q = r div 1461"
  define s where "s = r mod 1461"
  define a where "a = min 3 (s div 365)"
  have k: "doe = 36524 * (doe div 36524) + doe mod 36524" "0 \<le> doe mod 36524" "doe mod 36524 < 36524"
    by simp_all
  then have c: "0 \<le> c" "c \<le> 3" "0 \<le> r" "r \<le> 36524" "c < 3 \<Longrightarrow> r < 36524"
    using assms unfolding c_def r_def by linarith+
  have "r = 1461 * q + s" "0 \<le> s" "s < 1461" by (simp_all add: q_def s_def)
  with c have q: "0 \<le> q" "q \<le> 24" "q = 24 \<Longrightarrow> c < 3 \<Longrightarrow> s < 1460" "q = 24 \<Longrightarrow> s \<le> 1460" "r = 1461 * q + s"
    "0 \<le> s" "s \<le> 1460" by linarith+
  have "s = 365 * (s div 365) + s mod 365" "0 \<le> s mod 365" "s mod 365 < 365" by simp_all
  with q have a: "0 \<le> a" "a \<le> 3" "0 \<le> s - 365 * a" "s - 365 * a \<le> 365" "s - 365 * a = 365 \<Longrightarrow> a = 3 \<and> s = 1460"
    unfolding a_def by linarith+
  have leap: "is_leap (100 * c + 4 * q + a + 1)" if "s - 365 * a = 365"
  proof -
    from a(5) [OF that] have y: "100 * c + 4 * q + a + 1 = 100 * c + 4 * (q + 1)" "s = 1460" by simp_all
    show ?thesis
    proof (cases "q = 24")
      case True
      with q(3) y c(2) have "c = 3" by linarith
      with True y show ?thesis by (simp add: is_leap_def)
    next
      case False
      with q(1,2) have "0 < 4 * (q + 1)" "4 * (q + 1) < 100" by auto
      then have "(100 * c + 4 * (q + 1)) mod 100 = 4 * (q + 1)" by simp
      moreover have "(100 * c + 4 * (q + 1)) mod 4 = 0" by presburger
      ultimately show ?thesis using q(1) by (simp add: is_leap_def y)
    qed
  qed
  have "doe = 145731 + (s - 365 * a)" if "100 * c + 4 * q + a = 399"
  proof -
    have "c = 3" "q = 24" "a = 3" using that c q a by linarith+
    then show ?thesis using q(5) by (simp add: r_def)
  qed
  moreover have "100 * c + 4 * q + a = 399" if "145731 \<le> doe"
  proof -
    have "c = 3" using that k unfolding c_def by linarith
    then have "35064 + 1095 \<le> r" using that by (simp add: r_def)
    then have "q = 24" "1095 \<le> s" using q by linarith+
    moreover from this have "a = 3" unfolding a_def by linarith
    ultimately show ?thesis using \<open>c = 3\<close> by simp
  qed
  ultimately show ?thesis
    using c q a leap unfolding year_of_era_def Let_def c_def [symmetric] r_def [symmetric]
      q_def [symmetric] s_def [symmetric] a_def [symmetric] by auto
qed

lemma march_month_range:
  assumes "0 \<le> doy" and "doy \<le> 365"
  shows "0 \<le> march_month doy \<and> march_month doy \<le> 11
    \<and> 153 * march_month doy \<le> 5 * doy + 2 \<and> 5 * doy + 2 < 153 * march_month doy + 153"
  using assms unfolding march_month_def by linarith

lemma is_leap_era: "is_leap (y + e * 400) = is_leap y"
proof -
  have "(y + e * 100 * 4) mod 4 = y mod 4" "(y + e * 4 * 100) mod 100 = y mod 100"
    by (rule mod_mult_self1)+
  then show ?thesis by (simp add: is_leap_def mult.commute [of e])
qed

lemma civil_of_days_parts:
  assumes "civil_of_days n = (y, m, d)" and "year_of_era ((n + 719468) mod 146097) = (yoe, doy)"
  shows "m = (if march_month doy < 10 then march_month doy + 3 else march_month doy - 9)"
    and "y = yoe + (n + 719468) div 146097 * 400 + (if m \<le> 2 then 1 else 0)"
    and "d = doy - (153 * march_month doy + 2) div 5 + 1"
proof -
  let ?m = "if march_month doy < 10 then march_month doy + 3 else march_month doy - 9"
  have "civil_of_days n = (yoe + (n + 719468) div 146097 * 400 + (if ?m \<le> 2 then 1 else 0), ?m,
      doy - (153 * march_month doy + 2) div 5 + 1)"
    unfolding civil_of_days_def Let_def assms(2) prod.case ..
  then have "y = yoe + (n + 719468) div 146097 * 400 + (if ?m \<le> 2 then 1 else 0) \<and> m = ?m
      \<and> d = doy - (153 * march_month doy + 2) div 5 + 1"
    unfolding assms(1) prod.inject .
  then show "m = ?m" and "y = yoe + (n + 719468) div 146097 * 400 + (if m \<le> 2 then 1 else 0)"
    and "d = doy - (153 * march_month doy + 2) div 5 + 1"
    by (elim conjE, simp only:)+
qed

lemma civil_of_days_valid:
  assumes "civil_of_days n = (y, m, d)"
  shows "1 \<le> m \<and> m \<le> 12 \<and> 1 \<le> d \<and> d \<le> days_in_month y m"
proof -
  obtain yoe doy where e: "year_of_era ((n + 719468) mod 146097) = (yoe, doy)" by fastforce
  have doy: "0 \<le> doy" "doy \<le> 365" "doy = 365 \<longrightarrow> is_leap (yoe + 1)"
    using year_of_era_range [of "(n + 719468) mod 146097"] e by simp_all
  define mp where "mp = march_month doy"
  have mp: "0 \<le> mp" "mp \<le> 11" "153 * mp \<le> 5 * doy + 2" "5 * doy + 2 < 153 * mp + 153"
    using march_month_range [OF doy(1,2)] by (simp_all add: mp_def)
  let ?e = "(n + 719468) div 146097"
  note m = civil_of_days_parts(1) [OF assms e, folded mp_def]
    and y = civil_of_days_parts(2) [OF assms e] and d = civil_of_days_parts(3) [OF assms e, folded mp_def]
  have "mp \<in> {0, 1, 2, 3, 4, 5, 6, 7, 8, 9, 10, 11}"
    using mp(1,2) by (simp, presburger)
  then show ?thesis
  proof (elim insertE)
    assume 11: "mp = 11"
    then have "y = (yoe + 1) + ?e * 400" using y m by simp
    then have "is_leap y = is_leap (yoe + 1)" by (simp only: is_leap_era)
    then show ?thesis using 11 m d mp doy by (auto simp: days_in_month_def)
  qed (use m d mp in \<open>auto simp: days_in_month_def\<close>)
qed

text \<open>The dates that \<open>toISOString\<close> writes with a year of four digits.\<close>

definition common_era :: "int \<Rightarrow> bool" where
  "common_era t \<longleftrightarrow> - 62167219200000 \<le> t \<and> t < 253402300800000"

lemma common_era_year:
  assumes "common_era t" and "civil_of_days (t div 86400000) = (y, m, d)"
  shows "0 \<le> y \<and> y \<le> 9999"
proof -
  define z where "z = t div 86400000 + 719468"
  have "- 719528 \<le> t div 86400000" "t div 86400000 \<le> 2932896"
    using assms(1) unfolding common_era_def by linarith+
  then have z: "- 60 \<le> z" "z \<le> 3652364" by (simp_all add: z_def)
  define e where "e = z div 146097"
  have era: "z = 146097 * e + z mod 146097" "0 \<le> z mod 146097" "z mod 146097 < 146097"
    by (simp_all add: e_def)
  then have e: "- 1 \<le> e" "e \<le> 24" using z by linarith+
  obtain yoe doy where yd: "year_of_era (z mod 146097) = (yoe, doy)" by fastforce
  have r: "0 \<le> yoe" "yoe \<le> 399" "0 \<le> doy" "doy \<le> 365" "yoe = 399 \<Longrightarrow> z mod 146097 = 145731 + doy"
    "145731 \<le> z mod 146097 \<Longrightarrow> yoe = 399"
    using year_of_era_range [of "z mod 146097"] yd era by simp_all
  note mp = march_month_range [OF r(3,4)]
  note m = civil_of_days_parts(1) [OF assms(2) yd [unfolded z_def]]
    and y = civil_of_days_parts(2) [OF assms(2) yd [unfolded z_def], folded z_def e_def]
  have "0 \<le> y"
  proof (cases "e = - 1")
    case True
    then have "146037 \<le> z mod 146097" using era z by linarith
    then have "yoe = 399" "306 \<le> doy" using r(5,6) by linarith+
    moreover from this have "10 \<le> march_month doy" using mp by linarith
    ultimately show ?thesis using y m mp True by simp
  qed (use y e r in auto)
  moreover have "y \<le> 9999"
  proof (rule ccontr)
    assume "\<not> y \<le> 9999"
    then have "e = 24" "yoe = 399" "m \<le> 2" using y e r by (auto split: if_splits)
    then have "10 \<le> march_month doy" "doy \<le> 305" using m r(5) era z mp by (auto split: if_splits)
    then show False using mp by linarith
  qed
  ultimately show ?thesis ..
qed

end
