(* ===== verification/Zod_Schema.thy ===== *)
theory Zod_Schema
  imports JS_Dates
begin

text \<open>
  The schemas the source declares with the validation library zod, as data, and what the source
  relies on from \<open>safeParse\<close>.

  The library itself is not part of the repository: \<open>safeParse\<close> is an argument of every definition
  that validates. The locale \<open>zod_parser\<close> states its documented behaviour for the combinators used
  here; \<open>zod_reference\<close> is one executable function with that behaviour, so the assumptions can hold
  and witnesses can compute. Two majors of the library are in use: \<open>Zod4\<close> in the package
  \<open>packages/access\<close>, \<open>Zod3\<close> in the service; they differ in which numbers \<open>number()\<close> and \<open>int()\<close>
  accept.
\<close>

section \<open>Schemas as data\<close>

datatype zod_dialect = Zod3 | Zod4

datatype path_segment = SKey string | SIndex nat

record zod_issue =
  zod_code :: string
  zod_path :: "path_segment list"
  zod_message :: string

datatype string_check = SMin nat | SMax nat | SDatetime

datatype number_check = NInt | NPositive | NNonnegative

datatype zod_type =
    ZString "string_check list"
  | ZNumber "number_check list"
  | ZBoolean
  | ZEnum "string list"
  | ZLiteral jsval
  | ZUnknown
  | ZNullable zod_type
  | ZOptional zod_type
  | ZArray zod_type
  | ZRecord zod_type
  | ZObject "(string \<times> zod_type) list"
  | ZRefined zod_type "jsval \<Rightarrow> zod_issue list"
      \<comment> \<open>\<open>superRefine\<close>: the issues the callback adds for a parsed value\<close>

type_synonym safe_parse = "zod_type \<Rightarrow> jsval \<Rightarrow> js_exn + (zod_issue list + jsval)"

section \<open>What the combinators accept\<close>

text \<open>
  \<open>string().datetime()\<close>: an ISO 8601 date and time in UTC, of an existing day, where the seconds and
  their fraction may be left out.
\<close>

definition decimal_digit :: "char \<Rightarrow> nat option" where
  "decimal_digit c = (let n = code_unit c in if 48 \<le> n \<and> n \<le> 57 then Some (n - 48) else None)"

fun digits_number :: "nat \<Rightarrow> string \<Rightarrow> nat option" where
  "digits_number acc [] = Some acc"
| "digits_number acc (c # cs) =
     (case decimal_digit c of Some d \<Rightarrow> digits_number (10 * acc + d) cs | None \<Rightarrow> None)"

definition existing_day :: "nat option \<Rightarrow> nat option \<Rightarrow> nat option \<Rightarrow> bool" where
  "existing_day y m d \<longleftrightarrow>
     (case (y, m, d) of
        (Some y, Some m, Some d) \<Rightarrow>
          1 \<le> m \<and> m \<le> 12 \<and> 1 \<le> d \<and> int d \<le> days_in_month (int y) (int m)
      | _ \<Rightarrow> False)"

definition below :: "nat \<Rightarrow> nat option \<Rightarrow> bool" where
  "below b n \<longleftrightarrow> (case n of Some n \<Rightarrow> n < b | None \<Rightarrow> False)"

text \<open>What may follow the minutes: \<open>Z\<close>, or the seconds with an optional fraction and \<open>Z\<close>.\<close>

definition datetime_tail :: "string \<Rightarrow> bool" where
  "datetime_tail s \<longleftrightarrow>
     s = ''Z''
   \<or> take 1 s = '':'' \<and> length (take 2 (drop 1 s)) = 2 \<and> below 60 (digits_number 0 (take 2 (drop 1 s)))
     \<and> (let f = drop 3 s in
        f = ''Z'' \<or> take 1 f = ''.'' \<and> 3 \<le> length f \<and> last f = CHR ''Z''
          \<and> digits_number 0 (butlast (drop 1 f)) \<noteq> None)"

definition iso_datetime :: "string \<Rightarrow> bool" where
  "iso_datetime s \<longleftrightarrow>
     (let part = (\<lambda>i n. take n (drop i s)); number = (\<lambda>i n. digits_number 0 (take n (drop i s))) in
      17 \<le> length s
      \<and> part 4 1 = ''-'' \<and> part 7 1 = ''-'' \<and> part 10 1 = ''T'' \<and> part 13 1 = '':''
      \<and> existing_day (number 0 4) (number 5 2) (number 8 2)
      \<and> below 24 (number 11 2) \<and> below 60 (number 14 2) \<and> datetime_tail (drop 16 s))"

fun string_check_ok :: "string_check \<Rightarrow> string \<Rightarrow> bool" where
  "string_check_ok (SMin n) s = (n \<le> length s)"
| "string_check_ok (SMax n) s = (length s \<le> n)"
| "string_check_ok SDatetime s = iso_datetime s"

definition number_ok :: "zod_dialect \<Rightarrow> jsnum \<Rightarrow> bool" where
  "number_ok d n = (case d of Zod3 \<Rightarrow> n \<noteq> NaN | Zod4 \<Rightarrow> is_finite n)"

fun number_check_ok :: "zod_dialect \<Rightarrow> number_check \<Rightarrow> jsnum \<Rightarrow> bool" where
  "number_check_ok Zod3 NInt n = is_integer n"
| "number_check_ok Zod4 NInt n = is_safe_integer n"
| "number_check_ok d NPositive n = num_less (Fin 0) n"
| "number_check_ok d NNonnegative n = num_le (Fin 0) n"

text \<open>An optional property that is missing stays missing.\<close>

fun left_out :: "zod_type \<Rightarrow> jsval \<Rightarrow> bool" where
  "left_out (ZOptional t) v = (v = JUndef)"
| "left_out _ v = False"

fun zod_output :: "zod_type \<Rightarrow> jsval \<Rightarrow> jsval"
  and zod_output_fields :: "(string \<times> zod_type) list \<Rightarrow> jsval \<Rightarrow> (string \<times> jsval) list" where
  "zod_output (ZNullable t) v = (if v = JNull then JNull else zod_output t v)"
| "zod_output (ZObject shape) v = JObj (zod_output_fields shape v) []"
| "zod_output (ZRefined t r) v = zod_output t v"
| "zod_output (ZString cs) v = v"
| "zod_output (ZNumber cs) v = v"
| "zod_output ZBoolean v = v"
| "zod_output (ZEnum ss) v = v"
| "zod_output (ZLiteral w) v = v"
| "zod_output ZUnknown v = v"
| "zod_output (ZOptional t) v = (if v = JUndef then JUndef else zod_output t v)"
| "zod_output (ZArray t) v = (case v of JArr xs \<Rightarrow> JArr (map (zod_output t) xs) | _ \<Rightarrow> v)"
| "zod_output (ZRecord t) v = JObj (map (\<lambda>(k, w). (k, zod_output t w)) (own_props v)) []"
| "zod_output_fields [] v = []"
| "zod_output_fields ((k, t) # shape) v =
     (if left_out t (js_get v k) then zod_output_fields shape v
      else (k, zod_output t (js_get v k)) # zod_output_fields shape v)"

fun zod_accepts :: "zod_dialect \<Rightarrow> zod_type \<Rightarrow> jsval \<Rightarrow> bool"
  and zod_accepts_fields :: "zod_dialect \<Rightarrow> (string \<times> zod_type) list \<Rightarrow> jsval \<Rightarrow> bool" where
  "zod_accepts d (ZString cs) v = (case v of JStr s \<Rightarrow> list_all (\<lambda>c. string_check_ok c s) cs | _ \<Rightarrow> False)"
| "zod_accepts d (ZNumber cs) v =
     (case v of JNum n \<Rightarrow> number_ok d n \<and> list_all (\<lambda>c. number_check_ok d c n) cs | _ \<Rightarrow> False)"
| "zod_accepts d ZBoolean v = (case v of JBool _ \<Rightarrow> True | _ \<Rightarrow> False)"
| "zod_accepts d (ZEnum ss) v = (case v of JStr s \<Rightarrow> s \<in> set ss | _ \<Rightarrow> False)"
| "zod_accepts d (ZLiteral w) v = js_eq v w"
| "zod_accepts d ZUnknown v = True"
| "zod_accepts d (ZNullable t) v = (v = JNull \<or> zod_accepts d t v)"
| "zod_accepts d (ZOptional t) v = (v = JUndef \<or> zod_accepts d t v)"
| "zod_accepts d (ZArray t) v = (case v of JArr xs \<Rightarrow> list_all (zod_accepts d t) xs | _ \<Rightarrow> False)"
| "zod_accepts d (ZRecord t) v = (is_record v \<and> list_all (\<lambda>(k, w). zod_accepts d t w) (own_props v))"
| "zod_accepts d (ZObject shape) v = (is_record v \<and> zod_accepts_fields d shape v)"
| "zod_accepts d (ZRefined t r) v = (zod_accepts d t v \<and> r (zod_output t v) = [])"
| "zod_accepts_fields d [] v = True"
| "zod_accepts_fields d ((k, t) # shape) v =
     (zod_accepts d t (js_get v k) \<and> zod_accepts_fields d shape v)"

lemma zod_accepts_fields_iff:
  "zod_accepts_fields d shape v \<longleftrightarrow> (\<forall>(k, t) \<in> set shape. zod_accepts d t (js_get v k))"
  by (induction shape) auto

section \<open>The documented behaviour of safeParse\<close>

text \<open>
  \<open>safeParse\<close> returns the declared properties of an accepted value, and otherwise a non-empty list
  of issues: those the refinement added when only the refinement failed, and an issue that names
  each offending property when the value is an object.
\<close>

locale zod_parser =
  fixes d :: zod_dialect and sp :: safe_parse
  assumes accepted: "zod_accepts d t v \<Longrightarrow> sp t v = Inr (Inr (zod_output t v))"
    and rejected: "\<not> zod_accepts d t v \<Longrightarrow> \<exists>is. sp t v = Inr (Inl is) \<and> is \<noteq> []"
    and refinement_issues:
      "zod_accepts d t v \<Longrightarrow> r (zod_output t v) \<noteq> [] \<Longrightarrow>
       sp (ZRefined t r) v = Inr (Inl (r (zod_output t v)))"
    and field_issues:
      "is_record v \<Longrightarrow> (k, t) \<in> set shape \<Longrightarrow> \<not> zod_accepts d t (js_get v k) \<Longrightarrow>
       sp (ZRefined (ZObject shape) r) v = Inr (Inl is) \<Longrightarrow>
       \<exists>i \<in> set is. \<exists>p. zod_path i = SKey k # p"
begin

lemma sp_Inr_Inr_iff: "sp t v = Inr (Inr out) \<longleftrightarrow> zod_accepts d t v \<and> out = zod_output t v"
  using accepted [of t v] rejected [of t v] by (cases "zod_accepts d t v") auto

lemma sp_Inr_Inl_iff: "(\<exists>is. sp t v = Inr (Inl is)) \<longleftrightarrow> \<not> zod_accepts d t v"
  using accepted [of t v] rejected [of t v] by auto

lemma sp_no_throw: "sp t v \<noteq> Inl e"
  using accepted [of t v] rejected [of t v] by (cases "zod_accepts d t v") auto

lemma sp_issues_not_Nil: "sp t v = Inr (Inl is) \<Longrightarrow> is \<noteq> []"
  using accepted [of t v] rejected [of t v] by (cases "zod_accepts d t v") auto

lemma sp_cases:
  obtains (data) "zod_accepts d t v" "sp t v = Inr (Inr (zod_output t v))"
  | (issues) "is" where "\<not> zod_accepts d t v" "sp t v = Inr (Inl is)" "is \<noteq> []"
  using accepted [of t v] rejected [of t v] by blast

end

section \<open>A reference parser\<close>

definition prefix_issue :: "path_segment \<Rightarrow> zod_issue \<Rightarrow> zod_issue" where
  "prefix_issue seg i = i\<lparr>zod_path := seg # zod_path i\<rparr>"

definition mk_issue :: "string \<Rightarrow> zod_issue" where
  "mk_issue c = \<lparr>zod_code = c, zod_path = [], zod_message = []\<rparr>"

fun string_check_code :: "string_check \<Rightarrow> string" where
  "string_check_code (SMin _) = ''too_small''"
| "string_check_code (SMax _) = ''too_big''"
| "string_check_code SDatetime = ''invalid_string''"

fun number_check_code :: "number_check \<Rightarrow> string" where
  "number_check_code NInt = ''invalid_type''"
| "number_check_code NPositive = ''too_small''"
| "number_check_code NNonnegative = ''too_small''"

fun zod_issues :: "zod_dialect \<Rightarrow> zod_type \<Rightarrow> jsval \<Rightarrow> zod_issue list"
  and zod_field_issues :: "zod_dialect \<Rightarrow> (string \<times> zod_type) list \<Rightarrow> jsval \<Rightarrow> zod_issue list" where
  "zod_issues d (ZString cs) v =
     (case v of JStr s \<Rightarrow> map (mk_issue \<circ> string_check_code) (filter (\<lambda>c. \<not> string_check_ok c s) cs)
      | _ \<Rightarrow> [mk_issue ''invalid_type''])"
| "zod_issues d (ZNumber cs) v =
     (case v of JNum n \<Rightarrow>
        if number_ok d n
        then map (mk_issue \<circ> number_check_code) (filter (\<lambda>c. \<not> number_check_ok d c n) cs)
        else [mk_issue ''invalid_type'']
      | _ \<Rightarrow> [mk_issue ''invalid_type''])"
| "zod_issues d ZBoolean v = (case v of JBool _ \<Rightarrow> [] | _ \<Rightarrow> [mk_issue ''invalid_type''])"
| "zod_issues d (ZEnum ss) v =
     (case v of JStr s \<Rightarrow> if s \<in> set ss then [] else [mk_issue ''invalid_value'']
      | _ \<Rightarrow> [mk_issue ''invalid_value''])"
| "zod_issues d (ZLiteral w) v = (if js_eq v w then [] else [mk_issue ''invalid_literal''])"
| "zod_issues d ZUnknown v = []"
| "zod_issues d (ZNullable t) v = (if v = JNull then [] else zod_issues d t v)"
| "zod_issues d (ZOptional t) v = (if v = JUndef then [] else zod_issues d t v)"
| "zod_issues d (ZArray t) v =
     (case v of JArr xs \<Rightarrow>
        concat (map (\<lambda>(i, x). map (prefix_issue (SIndex i)) (zod_issues d t x)) (List.enumerate 0 xs))
      | _ \<Rightarrow> [mk_issue ''invalid_type''])"
| "zod_issues d (ZRecord t) v =
     (if is_record v
      then concat (map (\<lambda>(k, w). map (prefix_issue (SKey k)) (zod_issues d t w)) (own_props v))
      else [mk_issue ''invalid_type''])"
| "zod_issues d (ZObject shape) v =
     (if is_record v then zod_field_issues d shape v else [mk_issue ''invalid_type''])"
| "zod_issues d (ZRefined t r) v =
     (case zod_issues d t v of [] \<Rightarrow> r (zod_output t v) | is \<Rightarrow> is)"
| "zod_field_issues d [] v = []"
| "zod_field_issues d ((k, t) # shape) v =
     map (prefix_issue (SKey k)) (zod_issues d t (js_get v k)) @ zod_field_issues d shape v"

definition zod_reference :: "zod_dialect \<Rightarrow> safe_parse" where
  "zod_reference d t v =
     (case zod_issues d t v of [] \<Rightarrow> Inr (Inr (zod_output t v)) | is \<Rightarrow> Inr (Inl is))"

lemma list_all_enumerate: "list_all P xs \<longleftrightarrow> (\<forall>(i, x) \<in> set (List.enumerate n xs). P x)"
  by (induction xs arbitrary: n) auto

lemma zod_issues_Nil_iff:
  "zod_issues d t v = [] \<longleftrightarrow> zod_accepts d t v"
  "zod_field_issues d shape v = [] \<longleftrightarrow> zod_accepts_fields d shape v"
proof (induction d t v and d shape v rule: zod_issues_zod_field_issues.induct)
  case (1 d cs v)
  then show ?case by (auto simp: filter_empty_iff list_all_iff split: jsval.split)
next
  case (2 d cs v)
  then show ?case by (auto simp: filter_empty_iff list_all_iff split: jsval.split)
next
  case (9 d t v)
  show ?case
  proof (cases v)
    case (JArr xs)
    with 9 have "(zod_issues d t x = []) = zod_accepts d t x" if "(i, x) \<in> set (List.enumerate 0 xs)" for i x
      using that by blast
    with JArr show ?thesis by (fastforce simp: list_all_enumerate [of _ xs 0])
  qed simp_all
next
  case (10 d t v)
  then have "(zod_issues d t w = []) = zod_accepts d t w"
    if "is_record v" "(k, w) \<in> set (own_props v)" for k w
    using that by blast
  then show ?case
    by (cases "is_record v") (auto simp: list_all_iff split: prod.splits)
qed (auto split: jsval.split list.split)

lemma zod_field_issues_named:
  assumes "(k, t) \<in> set shape" and "\<not> zod_accepts d t (js_get v k)"
  shows "\<exists>i \<in> set (zod_field_issues d shape v). \<exists>p. zod_path i = SKey k # p"
  using assms
proof (induction shape)
  case (Cons a shape)
  obtain k' t' where a: "a = (k', t')" by (cases a)
  show ?case
  proof (cases "k' = k \<and> t' = t")
    case True
    with Cons.prems(2) have "zod_issues d t (js_get v k) \<noteq> []" by (simp add: zod_issues_Nil_iff)
    then obtain i where "i \<in> set (zod_issues d t (js_get v k))"
      by (blast intro: list.set_sel(1))
    with a True show ?thesis by (auto simp: prefix_issue_def intro!: bexI [of _ "prefix_issue (SKey k) i"])
  next
    case False
    with a Cons show ?thesis by auto
  qed
qed simp

lemma zod_reference_Inr_Inr: "zod_accepts d t v \<Longrightarrow> zod_reference d t v = Inr (Inr (zod_output t v))"
  by (simp add: zod_reference_def zod_issues_Nil_iff [THEN iffD2])

lemma zod_reference_Inr_Inl:
  "\<not> zod_accepts d t v \<Longrightarrow> zod_reference d t v = Inr (Inl (zod_issues d t v)) \<and> zod_issues d t v \<noteq> []"
  using zod_issues_Nil_iff(1) [of d t v] by (auto simp: zod_reference_def split: list.split)

interpretation reference: zod_parser d "zod_reference d" for d
proof (unfold_locales, goal_cases)
  case (1 t v)
  then show ?case by (rule zod_reference_Inr_Inr)
next
  case (2 t v)
  then show ?case by (blast dest: zod_reference_Inr_Inl)
next
  case (3 t v r)
  then have "zod_issues d (ZRefined t r) v = r (zod_output t v)"
    using zod_issues_Nil_iff(1) [of d t v] by simp
  with 3 show ?case by (auto simp: zod_reference_def split: list.split)
next
  case (4 v k t shape r "is")
  then have "\<not> zod_accepts_fields d shape v" by (auto simp: zod_accepts_fields_iff)
  with 4(1) have "zod_issues d (ZRefined (ZObject shape) r) v = zod_field_issues d shape v"
    using zod_issues_Nil_iff(2) [of d shape v] by (auto split: list.split)
  with 4 have "is = zod_field_issues d shape v"
    by (auto simp: zod_reference_def split: list.splits)
  with 4(2,3) show ?case by (simp add: zod_field_issues_named)
qed

end
