(* ===== verification/Receipt_Claims.thy ===== *)
theory Receipt_Claims
  imports Zod_Schema
begin

text \<open>
  The canonical receipt claims of the access package
  (\<^verbatim>\<open>packages/access/src/receipt-claims.ts\<close>, \<^verbatim>\<open>errors.ts\<close>): the schema, the relations between claims,
  and the builder that signer, verifier and binding check all go through.

  Claims travel as JavaScript values, since every entry point of the package validates untyped input.
  The record \<open>receipt_claims\<close> is the typed reading of a canonical claim object: \<open>claims_obj\<close> is the
  object of a record, and the builder returns exactly the objects of valid records.
\<close>

section \<open>The schema\<close>

definition grant_type_inconsistent :: zod_issue where
  "grant_type_inconsistent =
     \<lparr>zod_code = ''custom'', zod_path = [SKey ''grant_type''],
      zod_message = ''grant type is inconsistent with redemption limit''\<rparr>"

definition nbf_issue :: zod_issue where
  "nbf_issue =
     \<lparr>zod_code = ''custom'', zod_path = [SKey ''nbf''],
      zod_message = ''not-before time precedes issuance time''\<rparr>"

definition exp_issue :: zod_issue where
  "exp_issue =
     \<lparr>zod_code = ''custom'', zod_path = [SKey ''exp''],
      zod_message = ''expiration time must be after not-before time''\<rparr>"

definition claims_super_refine :: "jsval \<Rightarrow> zod_issue list" where
  "claims_super_refine claims =
     (if js_eq (js_get claims ''grant_type'') (JStr ''single_redemption'')
         \<and> \<not> js_eq (js_get claims ''max_redemptions'') (JInt 1)
      then [grant_type_inconsistent] else [])
   @ (if js_eq (js_get claims ''grant_type'') (JStr ''multi_redemption'')
         \<and> js_num_le (js_get claims ''max_redemptions'') (JInt 1)
      then [grant_type_inconsistent] else [])
   @ (if js_num_less (js_get claims ''nbf'') (js_get claims ''iat'')
      then [nbf_issue] else [])
   @ (if js_num_le (js_get claims ''exp'') (js_get claims ''nbf'')
      then [exp_issue] else [])"

definition claims_shape :: "(string \<times> zod_type) list" where
  "claims_shape =
    [(''iss'', ZString [SMin 1]),
     (''sub'', ZString [SMin 1]),
     (''aud'', ZString [SMin 1]),
     (''iat'', ZNumber [NInt]),
     (''nbf'', ZNumber [NInt]),
     (''exp'', ZNumber [NInt]),
     (''jti'', ZString [SMin 1]),
     (''intent_id'', ZString [SMin 1]),
     (''resource_id'', ZString [SMin 1]),
     (''policy_id'', ZString [SMin 1]),
     (''payment_ref'', ZNullable (ZString [])),
     (''grant_type'', ZEnum [''single_redemption'', ''multi_redemption'']),
     (''max_redemptions'', ZNumber [NInt, NPositive])]"

definition accessReceiptClaimsSchema :: zod_type where
  "accessReceiptClaimsSchema = ZRefined (ZObject claims_shape) claims_super_refine"

section \<open>The builder\<close>

text \<open>\<open>String(segment)\<close>.\<close>

fun segment_string :: "path_segment \<Rightarrow> string" where
  "segment_string (SKey k) = k"
| "segment_string (SIndex n) = nat_string n"

definition summariseIssue :: "zod_issue \<Rightarrow> issue" where
  "summariseIssue i =
     \<lparr>issue_path = map segment_string (zod_path i),
      issue_reason =
        (if zod_code i = ''invalid_type'' then ''invalid type''
         else if zod_code i = ''too_small'' then ''value is too small''
         else if zod_code i = ''custom'' then ''invalid claim relationship''
         else ''invalid value'')\<rparr>"

definition buildAccessReceiptClaims :: "safe_parse \<Rightarrow> jsval \<Rightarrow> js_exn + jsval" where
  "buildAccessReceiptClaims sp input =
     bindE (sp accessReceiptClaimsSchema input) (\<lambda>result.
       case result of
         Inl issues \<Rightarrow> Inl (AccessReceiptValidationError (map summariseIssue issues))
       | Inr data \<Rightarrow> Inr data)"

section \<open>The typed reading of canonical claims\<close>

datatype grant_type = SingleRedemption | MultiRedemption

fun grant_type_string :: "grant_type \<Rightarrow> string" where
  "grant_type_string SingleRedemption = ''single_redemption''"
| "grant_type_string MultiRedemption = ''multi_redemption''"

record receipt_claims =
  rc_iss :: string
  rc_sub :: string
  rc_aud :: string
  rc_iat :: int
  rc_nbf :: int
  rc_exp :: int
  rc_jti :: string
  rc_intent_id :: string
  rc_resource_id :: string
  rc_policy_id :: string
  rc_payment_ref :: "string option"
  rc_grant_type :: grant_type
  rc_max_redemptions :: int

definition payment_ref_val :: "string option \<Rightarrow> jsval" where
  "payment_ref_val p = (case p of None \<Rightarrow> JNull | Some s \<Rightarrow> JStr s)"

definition claims_props :: "receipt_claims \<Rightarrow> (string \<times> jsval) list" where
  "claims_props c =
    [(''iss'', JStr (rc_iss c)),
     (''sub'', JStr (rc_sub c)),
     (''aud'', JStr (rc_aud c)),
     (''iat'', JInt (rc_iat c)),
     (''nbf'', JInt (rc_nbf c)),
     (''exp'', JInt (rc_exp c)),
     (''jti'', JStr (rc_jti c)),
     (''intent_id'', JStr (rc_intent_id c)),
     (''resource_id'', JStr (rc_resource_id c)),
     (''policy_id'', JStr (rc_policy_id c)),
     (''payment_ref'', payment_ref_val (rc_payment_ref c)),
     (''grant_type'', JStr (grant_type_string (rc_grant_type c))),
     (''max_redemptions'', JInt (rc_max_redemptions c))]"

definition claims_obj :: "receipt_claims \<Rightarrow> jsval" where
  "claims_obj c = JObj (claims_props c) []"

definition claims_valid :: "receipt_claims \<Rightarrow> bool" where
  "claims_valid c \<longleftrightarrow>
     rc_iss c \<noteq> [] \<and> rc_sub c \<noteq> [] \<and> rc_aud c \<noteq> [] \<and> rc_jti c \<noteq> [] \<and> rc_intent_id c \<noteq> []
   \<and> rc_resource_id c \<noteq> [] \<and> rc_policy_id c \<noteq> []
   \<and> safe_int (rc_iat c) \<and> safe_int (rc_nbf c) \<and> safe_int (rc_exp c)
   \<and> safe_int (rc_max_redemptions c)
   \<and> rc_iat c \<le> rc_nbf c \<and> rc_nbf c < rc_exp c
   \<and> (case rc_grant_type c of
        SingleRedemption \<Rightarrow> rc_max_redemptions c = 1
      | MultiRedemption \<Rightarrow> 1 < rc_max_redemptions c)"

text \<open>\<open>v\<close> carries the claims \<open>c\<close>: reading each claim of \<open>v\<close> gives \<open>c\<close>'s.\<close>

definition carries :: "jsval \<Rightarrow> receipt_claims \<Rightarrow> bool" where
  "carries v c \<longleftrightarrow> is_record v \<and> (\<forall>(k, w) \<in> set (claims_props c). js_get v k = w)"


lemma claims_obj_record [simp]: "is_record (claims_obj c)"
  by (simp add: claims_obj_def)

lemma claims_obj_get [simp]:
  "js_get (claims_obj c) ''iss'' = JStr (rc_iss c)"
  "js_get (claims_obj c) ''sub'' = JStr (rc_sub c)"
  "js_get (claims_obj c) ''aud'' = JStr (rc_aud c)"
  "js_get (claims_obj c) ''iat'' = JInt (rc_iat c)"
  "js_get (claims_obj c) ''nbf'' = JInt (rc_nbf c)"
  "js_get (claims_obj c) ''exp'' = JInt (rc_exp c)"
  "js_get (claims_obj c) ''jti'' = JStr (rc_jti c)"
  "js_get (claims_obj c) ''intent_id'' = JStr (rc_intent_id c)"
  "js_get (claims_obj c) ''resource_id'' = JStr (rc_resource_id c)"
  "js_get (claims_obj c) ''policy_id'' = JStr (rc_policy_id c)"
  "js_get (claims_obj c) ''payment_ref'' = payment_ref_val (rc_payment_ref c)"
  "js_get (claims_obj c) ''grant_type'' = JStr (grant_type_string (rc_grant_type c))"
  "js_get (claims_obj c) ''max_redemptions'' = JInt (rc_max_redemptions c)"
  by (simp_all add: claims_obj_def claims_props_def js_get_def)

lemma carries_iff:
  "carries v c \<longleftrightarrow> is_record v
   \<and> js_get v ''iss'' = JStr (rc_iss c) \<and> js_get v ''sub'' = JStr (rc_sub c)
   \<and> js_get v ''aud'' = JStr (rc_aud c) \<and> js_get v ''iat'' = JInt (rc_iat c)
   \<and> js_get v ''nbf'' = JInt (rc_nbf c) \<and> js_get v ''exp'' = JInt (rc_exp c)
   \<and> js_get v ''jti'' = JStr (rc_jti c) \<and> js_get v ''intent_id'' = JStr (rc_intent_id c)
   \<and> js_get v ''resource_id'' = JStr (rc_resource_id c)
   \<and> js_get v ''policy_id'' = JStr (rc_policy_id c)
   \<and> js_get v ''payment_ref'' = payment_ref_val (rc_payment_ref c)
   \<and> js_get v ''grant_type'' = JStr (grant_type_string (rc_grant_type c))
   \<and> js_get v ''max_redemptions'' = JInt (rc_max_redemptions c)"
  by (simp add: carries_def claims_props_def)

lemma carries_claims_obj [simp]: "carries (claims_obj c) c"
  by (simp add: carries_iff)

lemma payment_ref_val_inj [simp]: "payment_ref_val p = payment_ref_val q \<longleftrightarrow> p = q"
  by (simp add: payment_ref_val_def split: option.splits)

lemma grant_type_string_inj [simp]: "grant_type_string g = grant_type_string h \<longleftrightarrow> g = h"
  by (cases g; cases h) simp_all

lemma carries_unique: "carries v c \<Longrightarrow> carries v c' \<Longrightarrow> c = c'"
  by (rule receipt_claims.equality) (simp_all add: carries_iff)

lemma claims_obj_inj [simp]: "claims_obj c = claims_obj c' \<longleftrightarrow> c = c'"
  by (metis carries_claims_obj carries_unique)

section \<open>What the schema accepts\<close>

lemma accepts_non_empty [simp]:
  "zod_accepts d (ZString [SMin (Suc 0)]) w \<longleftrightarrow> (\<exists>s. w = JStr s \<and> s \<noteq> [])"
  by (cases w) (auto simp: Suc_le_eq)

lemma accepts_safe_int [simp]:
  "zod_accepts Zod4 (ZNumber [NInt]) w \<longleftrightarrow> (\<exists>i. w = JInt i \<and> safe_int i)"
  by (cases w) (auto simp: is_safe_integer_iff number_ok_def is_finite_def)

lemma accepts_positive [simp]:
  "zod_accepts Zod4 (ZNumber [NInt, NPositive]) w \<longleftrightarrow> (\<exists>i. w = JInt i \<and> safe_int i \<and> 0 < i)"
  by (cases w) (auto simp: is_safe_integer_iff number_ok_def is_finite_def)

lemma accepts_payment_ref [simp]:
  "zod_accepts d (ZNullable (ZString [])) w \<longleftrightarrow> (\<exists>p. w = payment_ref_val p)"
  by (cases w) (auto simp: payment_ref_val_def intro: exI [of _ None] exI [of _ "Some x" for x] split: option.splits)

lemma accepts_grant_type [simp]:
  "zod_accepts d (ZEnum [''single_redemption'', ''multi_redemption'']) w
   \<longleftrightarrow> (\<exists>g. w = JStr (grant_type_string g))"
proof -
  have "(\<exists>g. s = grant_type_string g) \<longleftrightarrow> s = ''single_redemption'' \<or> s = ''multi_redemption''" for s
    by (metis grant_type.exhaust grant_type_string.simps)
  then show ?thesis by (cases w) auto
qed

text \<open>The part of \<open>claims_valid\<close> that concerns one claim at a time.\<close>

definition fields_ok :: "receipt_claims \<Rightarrow> bool" where
  "fields_ok c \<longleftrightarrow>
     rc_iss c \<noteq> [] \<and> rc_sub c \<noteq> [] \<and> rc_aud c \<noteq> [] \<and> rc_jti c \<noteq> []
   \<and> rc_intent_id c \<noteq> [] \<and> rc_resource_id c \<noteq> [] \<and> rc_policy_id c \<noteq> []
   \<and> safe_int (rc_iat c) \<and> safe_int (rc_nbf c) \<and> safe_int (rc_exp c)
   \<and> safe_int (rc_max_redemptions c) \<and> 0 < rc_max_redemptions c"

lemma accepts_claims_shape:
  "zod_accepts Zod4 (ZObject claims_shape) v \<longleftrightarrow> (\<exists>c. carries v c \<and> fields_ok c)"
  (is "?l \<longleftrightarrow> ?r")
proof
  assume ?l
  then obtain iss sub aud iat nbf ex jti intent res pol p g m where
    "is_record v" and gets: "js_get v ''iss'' = JStr iss" "js_get v ''sub'' = JStr sub"
    "js_get v ''aud'' = JStr aud" "js_get v ''iat'' = JInt iat" "js_get v ''nbf'' = JInt nbf"
    "js_get v ''exp'' = JInt ex" "js_get v ''jti'' = JStr jti"
    "js_get v ''intent_id'' = JStr intent" "js_get v ''resource_id'' = JStr res"
    "js_get v ''policy_id'' = JStr pol" "js_get v ''payment_ref'' = payment_ref_val p"
    "js_get v ''grant_type'' = JStr (grant_type_string g)" "js_get v ''max_redemptions'' = JInt m"
    and ok: "iss \<noteq> []" "sub \<noteq> []" "aud \<noteq> []" "jti \<noteq> []" "intent \<noteq> []" "res \<noteq> []" "pol \<noteq> []"
      "safe_int iat" "safe_int nbf" "safe_int ex" "safe_int m" "0 < m"
    by (auto simp: claims_shape_def simp del: zod_accepts.simps(1-4,7))
  let ?c = "\<lparr>rc_iss = iss, rc_sub = sub, rc_aud = aud, rc_iat = iat, rc_nbf = nbf,
      rc_exp = ex, rc_jti = jti, rc_intent_id = intent, rc_resource_id = res, rc_policy_id = pol,
      rc_payment_ref = p, rc_grant_type = g, rc_max_redemptions = m\<rparr>"
  have "carries v ?c"
    using \<open>is_record v\<close> gets by (simp add: carries_iff)
  moreover have "fields_ok ?c" using ok by (simp add: fields_ok_def)
  ultimately show ?r by blast
next
  assume ?r
  then show ?l
    by (auto simp: carries_iff fields_ok_def claims_shape_def simp del: zod_accepts.simps(1-4,7))
qed

lemma output_claims_shape: "carries v c \<Longrightarrow> zod_output (ZObject claims_shape) v = claims_obj c"
  by (simp add: claims_shape_def carries_iff claims_obj_def claims_props_def payment_ref_val_def)

lemma super_refine_claims_obj_Nil_iff:
  "0 < rc_max_redemptions c \<Longrightarrow>
   claims_super_refine (claims_obj c) = [] \<longleftrightarrow>
     rc_iat c \<le> rc_nbf c \<and> rc_nbf c < rc_exp c
   \<and> (case rc_grant_type c of
        SingleRedemption \<Rightarrow> rc_max_redemptions c = 1
      | MultiRedemption \<Rightarrow> 1 < rc_max_redemptions c)"
  by (cases "rc_grant_type c") (auto simp: claims_super_refine_def)

lemma claims_valid_split:
  "claims_valid c \<longleftrightarrow> fields_ok c \<and> claims_super_refine (claims_obj c) = []"
proof (cases "0 < rc_max_redemptions c")
  case True
  then show ?thesis
    by (simp only: claims_valid_def fields_ok_def super_refine_claims_obj_Nil_iff [OF True]) blast
next
  case False
  then show ?thesis by (auto simp: claims_valid_def fields_ok_def split: grant_type.splits)
qed

lemma accepts_claims_schema:
  "zod_accepts Zod4 accessReceiptClaimsSchema v \<longleftrightarrow> (\<exists>c. carries v c \<and> claims_valid c)"
proof -
  have "zod_accepts Zod4 accessReceiptClaimsSchema v \<longleftrightarrow>
    zod_accepts Zod4 (ZObject claims_shape) v
    \<and> claims_super_refine (zod_output (ZObject claims_shape) v) = []"
    by (simp only: accessReceiptClaimsSchema_def zod_accepts.simps)
  also have "\<dots> \<longleftrightarrow> (\<exists>c. carries v c \<and> claims_valid c)"
    unfolding accepts_claims_shape claims_valid_split by (metis output_claims_shape)
  finally show ?thesis .
qed

lemma output_claims_schema: "carries v c \<Longrightarrow> zod_output accessReceiptClaimsSchema v = claims_obj c"
  by (simp only: accessReceiptClaimsSchema_def zod_output.simps(3) output_claims_shape)


section \<open>The builder\<close>

definition issue_reasons :: "string set" where
  "issue_reasons = {''invalid type'', ''value is too small'', ''invalid claim relationship'',
     ''invalid value''}"

lemma summariseIssue_reason: "issue_reason (summariseIssue i) \<in> issue_reasons"
  by (simp add: summariseIssue_def issue_reasons_def)

context zod_parser
begin

lemma build_throws_no_other:
  "buildAccessReceiptClaims sp v = Inl e \<Longrightarrow> \<exists>is. e = AccessReceiptValidationError is \<and> is \<noteq> []"
  by (cases rule: sp_cases [of accessReceiptClaimsSchema v])
    (auto simp: buildAccessReceiptClaims_def)

lemma build_reasons:
  "buildAccessReceiptClaims sp v = Inl (AccessReceiptValidationError is) \<Longrightarrow> i \<in> set is \<Longrightarrow>
   issue_reason i \<in> issue_reasons"
  by (cases rule: sp_cases [of accessReceiptClaimsSchema v])
    (auto simp: buildAccessReceiptClaims_def summariseIssue_reason)

lemma build_offending:
  assumes "is_record v" and "(k, t) \<in> set claims_shape" and "\<not> zod_accepts d t (js_get v k)"
    and "buildAccessReceiptClaims sp v = Inl (AccessReceiptValidationError is)"
  shows "\<exists>i \<in> set is. \<exists>p. issue_path i = k # p"
proof -
  from assms(4) obtain js where js: "sp accessReceiptClaimsSchema v = Inr (Inl js)"
    and "is": "is = map summariseIssue js"
    by (cases rule: sp_cases [of accessReceiptClaimsSchema v])
      (auto simp: buildAccessReceiptClaims_def)
  from field_issues [OF assms(1-3)] js obtain i p where "i \<in> set js" "zod_path i = SKey k # p"
    unfolding accessReceiptClaimsSchema_def by blast
  then show ?thesis unfolding "is" by (auto simp: summariseIssue_def intro!: bexI [of _ i])
qed

end

lemma build_Inr_iff:
  assumes "zod_parser Zod4 sp"
  shows "buildAccessReceiptClaims sp v = Inr out
    \<longleftrightarrow> (\<exists>c. claims_valid c \<and> carries v c \<and> out = claims_obj c)"
proof -
  have "buildAccessReceiptClaims sp v = Inr out \<longleftrightarrow> sp accessReceiptClaimsSchema v = Inr (Inr out)"
    by (cases "sp accessReceiptClaimsSchema v")
      (auto simp: buildAccessReceiptClaims_def split: sum.splits)
  also have "\<dots> \<longleftrightarrow> zod_accepts Zod4 accessReceiptClaimsSchema v
      \<and> out = zod_output accessReceiptClaimsSchema v"
    by (rule zod_parser.sp_Inr_Inr_iff [OF assms])
  also have "\<dots> \<longleftrightarrow> (\<exists>c. claims_valid c \<and> carries v c \<and> out = claims_obj c)"
    unfolding accepts_claims_schema by (metis output_claims_schema)
  finally show ?thesis .
qed

lemma build_carries:
  assumes "zod_parser Zod4 sp" and "claims_valid c" and "carries v c"
  shows "buildAccessReceiptClaims sp v = Inr (claims_obj c)"
  using assms by (auto simp: build_Inr_iff)

lemma build_Inl:
  assumes "zod_parser Zod4 sp" and "\<And>c. claims_valid c \<Longrightarrow> \<not> carries v c"
  shows "\<exists>is. buildAccessReceiptClaims sp v = Inl (AccessReceiptValidationError is) \<and> is \<noteq> []"
proof (cases "buildAccessReceiptClaims sp v")
  case (Inl e)
  with zod_parser.build_throws_no_other [OF assms(1)] show ?thesis by metis
next
  case (Inr out)
  with assms show ?thesis by (auto simp: build_Inr_iff)
qed

section \<open>Sample claims for the witnesses\<close>

definition sample_claims :: receipt_claims where
  "sample_claims = \<lparr>rc_iss = ''host'', rc_sub = ''user'', rc_aud = ''api'', rc_iat = 100,
     rc_nbf = 100, rc_exp = 200, rc_jti = ''j1'', rc_intent_id = ''i1'', rc_resource_id = ''r1'',
     rc_policy_id = ''p1'', rc_payment_ref = None, rc_grant_type = MultiRedemption,
     rc_max_redemptions = 3\<rparr>"

lemma sample_claims_valid [simp]: "claims_valid sample_claims"
  by (simp add: sample_claims_def claims_valid_def safe_int_def max_safe_integer_def)

section \<open>Properties\<close>

text \<open>
  C1: the claim builder accepts a value exactly when it is an object whose thirteen claims have the
  required types, identifiers are non-empty, numbers are safe integers, \<open>iat \<le> nbf < exp\<close>, and the
  grant type agrees with the redemption limit; it then returns the canonical object of exactly those
  thirteen claims, whatever other properties the input had.
\<close>

theorem build_claims_characterised:
  assumes "zod_parser Zod4 sp"
  shows "buildAccessReceiptClaims sp v = Inr out
    \<longleftrightarrow> (\<exists>c. claims_valid c \<and> carries v c \<and> out = claims_obj c)"
  using assms by (rule build_Inr_iff)

theorem build_claims_characterised_witness:
  "buildAccessReceiptClaims (zod_reference Zod4)
     (JObj ((''role'', JStr ''admin'') # claims_props sample_claims) []) = Inr (claims_obj sample_claims)"
proof -
  have "carries (JObj ((''role'', JStr ''admin'') # claims_props sample_claims) []) sample_claims"
    by (simp add: carries_iff js_get_def claims_props_def)
  then show ?thesis
    using build_claims_characterised [OF reference.zod_parser_axioms] sample_claims_valid by blast
qed

text \<open>
  C2: for any other input the builder throws \<open>AccessReceiptValidationError\<close>, and nothing else, with at
  least one issue; every issue gives one of four fixed reasons, so no input value reaches the message,
  and for an object each claim of the wrong form is named by an issue.
\<close>

theorem build_claims_rejects:
  assumes "zod_parser Zod4 sp" and "\<And>c. claims_valid c \<Longrightarrow> \<not> carries v c"
  shows "\<exists>is. buildAccessReceiptClaims sp v = Inl (AccessReceiptValidationError is) \<and> is \<noteq> []
    \<and> issue_reason ` set is \<subseteq> issue_reasons
    \<and> (is_record v \<longrightarrow> (\<forall>(k, t) \<in> set claims_shape.
         \<not> zod_accepts Zod4 t (js_get v k) \<longrightarrow> (\<exists>i \<in> set is. \<exists>p. issue_path i = k # p)))"
proof -
  note parser = zod_parser.build_reasons [OF assms(1)] zod_parser.build_offending [OF assms(1)]
  from build_Inl [OF assms] obtain "is" where "is":
    "buildAccessReceiptClaims sp v = Inl (AccessReceiptValidationError is)" "is \<noteq> []" by blast
  then show ?thesis using parser by blast
qed

definition malformed_claims :: jsval where
  "malformed_claims = JObj ((''sub'', JNum NaN) # claims_props sample_claims) []"

theorem build_claims_rejects_witness:
  "\<exists>is. buildAccessReceiptClaims (zod_reference Zod4) malformed_claims
        = Inl (AccessReceiptValidationError is)
      \<and> (\<exists>i \<in> set is. \<exists>p. issue_path i = ''sub'' # p)"
proof -
  have sub: "js_get malformed_claims ''sub'' = JNum NaN"
    by (simp add: malformed_claims_def)
  then have "\<not> carries malformed_claims c" for c by (simp add: carries_iff)
  moreover have "(''sub'', ZString [SMin 1]) \<in> set claims_shape" by (simp add: claims_shape_def)
  moreover have "\<not> zod_accepts Zod4 (ZString [SMin 1]) (js_get malformed_claims ''sub'')"
    by (simp add: sub)
  moreover have "is_record malformed_claims" by (simp add: malformed_claims_def)
  ultimately show ?thesis
    using build_claims_rejects [OF reference.zod_parser_axioms, of malformed_claims] by blast
qed

end
