(* ===== verification/Jose_Library.thy ===== *)
theory Jose_Library
  imports JS_Values
begin

text \<open>
  The JOSE library as the source uses it. The library is not part of the repository: its functions
  are the fields of a record every signing or verifying definition takes, over an arbitrary type
  \<open>'k\<close> of imported keys. What the source relies on is stated by two predicates: a verification that
  returns has checked the signature and the options (\<open>jose_verifies\<close>), and a token signed with a
  private key verifies under its public key while its claims pass the options (\<open>jose_round_trip\<close>).
\<close>

datatype 'k import_result = ImportedKey 'k | ImportedBytes string

record jwt_options =
  opt_algorithms :: "string list"
  opt_issuer :: string
  opt_audience :: string
  opt_typ :: "string option"
  opt_clock_tolerance :: rat
  opt_required_claims :: "string list"

record 'k jose_lib =
  base64url_decode :: "string \<Rightarrow> js_exn + string"
  importJWK :: "jsval \<Rightarrow> string \<Rightarrow> js_exn + 'k import_result"
  decodeProtectedHeader :: "string \<Rightarrow> js_exn + jsval"
  jwtVerify :: "int \<Rightarrow> string \<Rightarrow> 'k \<Rightarrow> jwt_options \<Rightarrow> js_exn + jsval"
    \<comment> \<open>the first argument is the clock the call reads, in Unix seconds\<close>
  signJWT :: "jsval \<Rightarrow> jsval \<Rightarrow> 'k \<Rightarrow> js_exn + string"
    \<comment> \<open>\<open>new SignJWT(payload).setProtectedHeader(header).sign(key)\<close>\<close>

section \<open>What a verification checks\<close>

definition not_before_ok :: "int \<Rightarrow> rat \<Rightarrow> jsval \<Rightarrow> bool" where
  "not_before_ok now tol v \<longleftrightarrow>
     (case v of JUndef \<Rightarrow> True | JNum n \<Rightarrow> num_le n (Fin (of_int now + tol)) | _ \<Rightarrow> False)"

definition expiry_ok :: "int \<Rightarrow> rat \<Rightarrow> jsval \<Rightarrow> bool" where
  "expiry_ok now tol v \<longleftrightarrow>
     (case v of JUndef \<Rightarrow> True | JNum n \<Rightarrow> num_less (Fin (of_int now - tol)) n | _ \<Rightarrow> False)"

definition audience_ok :: "string \<Rightarrow> jsval \<Rightarrow> bool" where
  "audience_ok a v \<longleftrightarrow> v = JStr a \<or> (\<exists>xs. v = JArr xs \<and> JStr a \<in> set xs)"

definition jwt_checks :: "int \<Rightarrow> jwt_options \<Rightarrow> jsval \<Rightarrow> bool" where
  "jwt_checks now opts payload \<longleftrightarrow>
     is_record payload
   \<and> js_get payload ''iss'' = JStr (opt_issuer opts)
   \<and> audience_ok (opt_audience opts) (js_get payload ''aud'')
   \<and> (\<forall>c \<in> set (opt_required_claims opts). js_get payload c \<noteq> JUndef)
   \<and> not_before_ok now (opt_clock_tolerance opts) (js_get payload ''nbf'')
   \<and> expiry_ok now (opt_clock_tolerance opts) (js_get payload ''exp'')"

text \<open>\<open>signed k tok payload\<close>: \<open>tok\<close> carries \<open>payload\<close> and a signature that the public key \<open>k\<close> accepts.\<close>

definition jose_verifies :: "'k jose_lib \<Rightarrow> ('k \<Rightarrow> string \<Rightarrow> jsval \<Rightarrow> bool) \<Rightarrow> bool" where
  "jose_verifies lib signed \<longleftrightarrow>
     (\<forall>now tok k opts payload. jwtVerify lib now tok k opts = Inr payload \<longrightarrow>
        signed k tok payload \<and> jwt_checks now opts payload)"

section \<open>Compact tokens\<close>

definition base64url_char :: "char \<Rightarrow> bool" where
  "base64url_char c \<longleftrightarrow>
     (let n = code_unit c
      in 65 \<le> n \<and> n \<le> 90 \<or> 97 \<le> n \<and> n \<le> 122 \<or> 48 \<le> n \<and> n \<le> 57 \<or> n = 95 \<or> n = 45)"

text \<open>\<^verbatim>\<open>/^[A-Za-z0-9_-]+$/u\<close>\<close>

definition base64url_pattern :: "string \<Rightarrow> bool" where
  "base64url_pattern s \<longleftrightarrow> s \<noteq> [] \<and> list_all base64url_char s"

definition compact_form :: "string \<Rightarrow> bool" where
  "compact_form tok \<longleftrightarrow>
     length (js_split CHR ''.'' tok) = 3
   \<and> list_all (\<lambda>seg. base64url_pattern seg \<and> length seg mod 4 \<noteq> 1) (js_split CHR ''.'' tok)"

definition jose_round_trip :: "'k jose_lib \<Rightarrow> 'k \<Rightarrow> 'k \<Rightarrow> bool" where
  "jose_round_trip lib priv pub \<longleftrightarrow>
     (\<forall>payload header tok. signJWT lib payload header priv = Inr tok \<longrightarrow>
        decodeProtectedHeader lib tok = Inr header
      \<and> compact_form tok
      \<and> (\<forall>now opts. jwt_checks now opts payload
            \<and> (\<exists>a \<in> set (opt_algorithms opts). js_get header ''alg'' = JStr a)
            \<and> (case opt_typ opts of None \<Rightarrow> True | Some t \<Rightarrow> js_get header ''typ'' = JStr t)
          \<longrightarrow> jwtVerify lib now tok pub opts = Inr payload))"

section \<open>A concrete library\<close>

text \<open>
  A library that knows one token, \<open>tok\<close>, of \<open>header\<close> and \<open>payload\<close>, signed with the key \<open>''priv''\<close> and
  verified by \<open>''pub''\<close>. It has the behaviour the two predicates state, and computes.
\<close>

definition scripted_jose :: "jsval \<Rightarrow> jsval \<Rightarrow> string \<Rightarrow> string jose_lib" where
  "scripted_jose header payload tok =
     \<lparr>base64url_decode = (\<lambda>s. Inr (replicate (3 * length s div 4) CHR ''x'')),
      importJWK = (\<lambda>jwk alg. Inr (ImportedKey (if js_has_own jwk ''d'' then ''priv'' else ''pub''))),
      decodeProtectedHeader =
        (\<lambda>t. if t = tok then Inr header else Inl (JSTypeError ''Invalid Token'')),
      jwtVerify =
        (\<lambda>now t k opts.
           if t \<noteq> tok then Inl (JoseError JWSInvalid)
           else if k \<noteq> ''pub'' then Inl (JoseError JWSSignatureVerificationFailed)
           else if js_get payload ''iss'' \<noteq> JStr (opt_issuer opts)
           then Inl (JoseError (JWTClaimValidationFailed ''iss''))
           else if \<not> expiry_ok now (opt_clock_tolerance opts) (js_get payload ''exp'')
           then Inl (JoseError JWTExpired)
           else if jwt_checks now opts payload then Inr payload
           else Inl (JoseError (JWTClaimValidationFailed ''aud''))),
      signJWT =
        (\<lambda>p h k. if p = payload \<and> h = header \<and> k = ''priv'' then Inr tok
           else Inl (JSTypeError ''key''))\<rparr>"

lemma scripted_jose_verifies:
  "jose_verifies (scripted_jose header payload tok) (\<lambda>k t p. k = ''pub'' \<and> t = tok \<and> p = payload)"
  by (simp add: jose_verifies_def scripted_jose_def)

lemma scripted_jose_round_trip:
  "compact_form tok \<Longrightarrow> jose_round_trip (scripted_jose header payload tok) ''priv'' ''pub''"
  by (auto simp: jose_round_trip_def scripted_jose_def jwt_checks_def)

end
