(* ===== verification/Ed25519_Jwk.thy ===== *)
theory Ed25519_Jwk
  imports Jose_Library
begin

text \<open>
  Trusted key configuration of the access package (\<^verbatim>\<open>packages/access/src/ed25519-jwk.ts\<close>): the
  structural validation of a JWK, its import, and the two checks of a configuration object that the
  signer and the verifier share.
\<close>

section \<open>Validation\<close>

datatype key_kind = PrivateKey | PublicKey

record 'k imported_key =
  ik_kid :: string
  ik_key :: 'k

definition ED25519_BYTES :: nat where
  "ED25519_BYTES = 32"

definition mk_conf_issue :: "string list \<Rightarrow> string \<Rightarrow> issue" where
  "mk_conf_issue path reason = \<lparr>issue_path = path, issue_reason = reason\<rparr>"

definition isBase64Url32 :: "'k jose_lib \<Rightarrow> jsval \<Rightarrow> bool" where
  "isBase64Url32 lib v =
     (case v of
        JStr s \<Rightarrow>
          if length s = 0 \<or> \<not> base64url_pattern s then False
          else (case base64url_decode lib s of Inr bytes \<Rightarrow> length bytes = ED25519_BYTES | Inl _ \<Rightarrow> False)
      | _ \<Rightarrow> False)"

fun required_operation :: "key_kind \<Rightarrow> string" where
  "required_operation PrivateKey = ''sign''"
| "required_operation PublicKey = ''verify''"

fun allowed_operations :: "key_kind \<Rightarrow> string list" where
  "allowed_operations PrivateKey = [''sign'', ''verify'']"
| "allowed_operations PublicKey = [''verify'']"

definition array_includes :: "jsval list \<Rightarrow> jsval \<Rightarrow> bool" where
  "array_includes xs v = list_ex (js_eq v) xs"

definition validateKeyOperations :: "jsval \<Rightarrow> key_kind \<Rightarrow> string list \<Rightarrow> issue list" where
  "validateKeyOperations record kind path =
     (if \<not> js_has_own record ''key_ops'' then []
      else (let unsupported = [mk_conf_issue (path @ [''key_ops'']) ''unsupported key operations''] in
        case js_get record ''key_ops'' of
          JArr ops \<Rightarrow>
            if list_ex (\<lambda>op. js_typeof op \<noteq> ''string'') ops
             \<or> \<not> array_includes ops (JStr (required_operation kind))
             \<or> list_ex (\<lambda>op. \<not> array_includes (map JStr (allowed_operations kind)) op) ops
            then unsupported else []
        | _ \<Rightarrow> unsupported))"

definition validateJwk :: "'k jose_lib \<Rightarrow> jsval \<Rightarrow> key_kind \<Rightarrow> string list \<Rightarrow> jsval \<times> issue list" where
  "validateJwk lib v kind path =
     (if \<not> is_record v then (JObj [] [], [mk_conf_issue path ''must be an object''])
      else (v,
        (if \<not> js_eq (js_get v ''kty'') (JStr ''OKP'')
         then [mk_conf_issue (path @ [''kty'']) ''must be OKP''] else [])
      @ (if \<not> js_eq (js_get v ''crv'') (JStr ''Ed25519'')
         then [mk_conf_issue (path @ [''crv'']) ''must be Ed25519''] else [])
      @ (if \<not> is_non_empty_string (js_get v ''kid'')
         then [mk_conf_issue (path @ [''kid'']) ''must be a non-empty string''] else [])
      @ (if \<not> isBase64Url32 lib (js_get v ''x'')
         then [mk_conf_issue (path @ [''x'']) ''must be a valid Ed25519 public value''] else [])
      @ (case kind of
           PrivateKey \<Rightarrow>
             if \<not> isBase64Url32 lib (js_get v ''d'')
             then [mk_conf_issue (path @ [''d'']) ''must be a valid Ed25519 private value''] else []
         | PublicKey \<Rightarrow>
             if js_has_own v ''d''
             then [mk_conf_issue (path @ [''d'']) ''private material is not permitted''] else [])
      @ (if js_has_own v ''alg'' \<and> \<not> js_eq (js_get v ''alg'') (JStr ''EdDSA'')
         then [mk_conf_issue (path @ [''alg'']) ''must be EdDSA''] else [])
      @ (if js_has_own v ''use'' \<and> \<not> js_eq (js_get v ''use'') (JStr ''sig'')
         then [mk_conf_issue (path @ [''use'']) ''must be sig''] else [])
      @ validateKeyOperations v kind path))"

section \<open>Import\<close>

definition set_own :: "string \<Rightarrow> jsval \<Rightarrow> (string \<times> jsval) list \<Rightarrow> (string \<times> jsval) list" where
  "set_own k w own =
     (if k \<in> fst ` set own then map (\<lambda>(k', w'). (k', if k' = k then w else w')) own
      else own @ [(k, w)])"

definition copyForImport :: "jsval \<Rightarrow> jsval" where
  "copyForImport record =
     (case js_get record ''key_ops'' of
        JArr ops \<Rightarrow> JObj (set_own ''key_ops'' (JArr ops) (own_props record)) []
      | _ \<Rightarrow> JObj (own_props record) [])"

definition importKey ::
  "'k jose_lib \<Rightarrow> jsval \<Rightarrow> key_kind \<Rightarrow> string list \<Rightarrow> js_exn + 'k imported_key" where
  "importKey lib v kind path =
     (case validateJwk lib v kind path of (record, issues) \<Rightarrow>
        if issues \<noteq> [] then Inl (AccessReceiptConfigurationError issues)
        else (case importJWK lib (copyForImport record) ''EdDSA'' of
            Inr (ImportedKey key) \<Rightarrow> Inr \<lparr>ik_kid = the_string (js_get record ''kid''), ik_key = key\<rparr>
          | _ \<Rightarrow> Inl (AccessReceiptConfigurationError
                   [mk_conf_issue path ''key could not be imported for EdDSA''])))"

definition importTrustedPrivateKey :: "'k jose_lib \<Rightarrow> jsval \<Rightarrow> js_exn + 'k imported_key" where
  "importTrustedPrivateKey lib v = importKey lib v PrivateKey [''privateKey'']"

definition importTrustedPublicKey :: "'k jose_lib \<Rightarrow> jsval \<Rightarrow> nat \<Rightarrow> js_exn + 'k imported_key" where
  "importTrustedPublicKey lib v index =
     importKey lib v PublicKey [''publicKeys'', nat_string index]"

section \<open>Configuration objects\<close>

definition requireConfigurationRecord :: "jsval \<Rightarrow> js_exn + jsval" where
  "requireConfigurationRecord v =
     (if is_record v then Inr v
      else Inl (AccessReceiptConfigurationError [mk_conf_issue [''config''] ''must be an object'']))"

definition rejectUnsupportedConfiguration :: "jsval \<Rightarrow> string list \<Rightarrow> js_exn + unit" where
  "rejectUnsupportedConfiguration record properties =
     (let issues = map (\<lambda>p. mk_conf_issue [p] ''unsupported configuration'')
                     (filter (js_has_own record) properties)
      in if issues \<noteq> [] then Inl (AccessReceiptConfigurationError issues) else Inr ())"

section \<open>The specification of a trusted key\<close>

definition octets32 :: "'k jose_lib \<Rightarrow> jsval \<Rightarrow> bool" where
  "octets32 lib v \<longleftrightarrow>
     (\<exists>s bytes. v = JStr s \<and> base64url_pattern s
        \<and> base64url_decode lib s = Inr bytes \<and> length bytes = 32)"

definition operations_ok :: "key_kind \<Rightarrow> jsval \<Rightarrow> bool" where
  "operations_ok kind v \<longleftrightarrow>
     (\<exists>ops. v = JArr (map JStr ops) \<and> required_operation kind \<in> set ops
        \<and> set ops \<subseteq> set (allowed_operations kind))"

definition trusted_jwk :: "'k jose_lib \<Rightarrow> key_kind \<Rightarrow> jsval \<Rightarrow> bool" where
  "trusted_jwk lib kind v \<longleftrightarrow>
     is_record v
   \<and> js_get v ''kty'' = JStr ''OKP'' \<and> js_get v ''crv'' = JStr ''Ed25519''
   \<and> (\<exists>kid. js_get v ''kid'' = JStr kid \<and> kid \<noteq> [])
   \<and> octets32 lib (js_get v ''x'')
   \<and> (case kind of PrivateKey \<Rightarrow> octets32 lib (js_get v ''d'') | PublicKey \<Rightarrow> \<not> js_has_own v ''d'')
   \<and> (js_has_own v ''alg'' \<longrightarrow> js_get v ''alg'' = JStr ''EdDSA'')
   \<and> (js_has_own v ''use'' \<longrightarrow> js_get v ''use'' = JStr ''sig'')
   \<and> (js_has_own v ''key_ops'' \<longrightarrow> operations_ok kind (js_get v ''key_ops''))"

lemma isBase64Url32_iff: "isBase64Url32 lib v \<longleftrightarrow> octets32 lib v"
  by (cases v)
    (auto simp: isBase64Url32_def octets32_def ED25519_BYTES_def base64url_pattern_def split: sum.splits)

lemma array_includes_JStr [simp]: "array_includes xs (JStr s) \<longleftrightarrow> JStr s \<in> set xs"
  by (auto simp: array_includes_def list_ex_iff)

lemma typeof_string_iff: "js_typeof v = ''string'' \<longleftrightarrow> (\<exists>s. v = JStr s)"
  by (cases v) simp_all

lemma all_strings_iff: "list_all (\<lambda>op. js_typeof op = ''string'') ops \<longleftrightarrow> (\<exists>ss. ops = map JStr ss)"
  by (induction ops) (auto simp: typeof_string_iff intro: exI [of _ "s # ss" for s ss])

lemma array_includes_strings [simp]:
  "array_includes (map JStr ss) (JStr s) \<longleftrightarrow> s \<in> set ss"
  by auto

lemma validateKeyOperations_Nil_iff:
  "validateKeyOperations v kind path = [] \<longleftrightarrow>
     (js_has_own v ''key_ops'' \<longrightarrow> operations_ok kind (js_get v ''key_ops''))"
proof -
  have "(list_ex (\<lambda>op. js_typeof op \<noteq> ''string'') ops
      \<or> \<not> array_includes ops (JStr (required_operation kind))
      \<or> list_ex (\<lambda>op. \<not> array_includes (map JStr (allowed_operations kind)) op) ops)
    \<longleftrightarrow> \<not> operations_ok kind (JArr ops)" for ops
  proof (cases "\<exists>ss. ops = map JStr ss")
    case True
    then obtain ss where ops: "ops = map JStr ss" by blast
    have "operations_ok kind (JArr (map JStr ss)) \<longleftrightarrow>
        required_operation kind \<in> set ss \<and> set ss \<subseteq> set (allowed_operations kind)"
      by (auto simp: operations_ok_def inj_map_eq_map inj_def)
    then show ?thesis
      by (auto simp: ops list_ex_iff simp del: allowed_operations.simps required_operation.simps)
  next
    case False
    then show ?thesis
      by (auto simp: all_strings_iff [symmetric] operations_ok_def list_all_iff list_ex_iff)
  qed
  then show ?thesis
    by (cases "js_get v ''key_ops''") (simp_all add: validateKeyOperations_def operations_ok_def conj_ac)
qed

lemma validateJwk_Nil_iff: "snd (validateJwk lib v kind path) = [] \<longleftrightarrow> trusted_jwk lib kind v"
  by (cases kind)
    (auto simp: validateJwk_def trusted_jwk_def isBase64Url32_iff validateKeyOperations_Nil_iff
      is_non_empty_string_iff)

lemma validateJwk_record: "is_record v \<Longrightarrow> fst (validateJwk lib v kind path) = v"
  by (simp add: validateJwk_def)

lemma map_of_set_own_other: "k' \<noteq> k \<Longrightarrow> map_of (set_own k w own) k' = map_of own k'"
proof -
  assume "k' \<noteq> k"
  then have "map_of (map (\<lambda>(x, y). (x, if x = k then w else y)) own) k' = map_of own k'"
    by (induction own) auto
  with \<open>k' \<noteq> k\<close> show ?thesis by (simp add: set_own_def map_add_def split: option.splits)
qed

lemma copyForImport_get:
  "k \<noteq> ''key_ops'' \<Longrightarrow> \<not> js_has_own v k \<Longrightarrow> js_get (copyForImport v) k = JUndef"
  by (auto simp: copyForImport_def js_get_def js_has_own_def map_of_set_own_other split: jsval.split)

lemma importKey_Inr_iff:
  "importKey lib v kind path = Inr ik \<longleftrightarrow>
     trusted_jwk lib kind v \<and> js_get v ''kid'' = JStr (ik_kid ik)
   \<and> importJWK lib (copyForImport v) ''EdDSA'' = Inr (ImportedKey (ik_key ik))"
proof (cases "trusted_jwk lib kind v")
  case True
  then obtain kid where "is_record v" "js_get v ''kid'' = JStr kid"
    by (auto simp: trusted_jwk_def)
  moreover from this True validateJwk_Nil_iff [of lib v kind path]
  have "validateJwk lib v kind path = (v, [])"
    using validateJwk_record [of v lib kind path] by (metis prod.collapse)
  ultimately show ?thesis
    using True by (auto simp: importKey_def split: sum.splits import_result.splits)
next
  case False
  then have "snd (validateJwk lib v kind path) \<noteq> []" by (simp add: validateJwk_Nil_iff)
  with False show ?thesis by (auto simp: importKey_def split: prod.splits)
qed

lemma importKey_Inl:
  "importKey lib v kind path = Inl e \<Longrightarrow> \<exists>is. e = AccessReceiptConfigurationError is \<and> is \<noteq> []"
  by (auto simp: importKey_def split: prod.splits if_splits sum.splits import_result.splits)

section \<open>What the validation and the import guarantee\<close>

text \<open>
  Validation of a JWK finds no issue exactly for an OKP/Ed25519 key with a non-empty \<open>kid\<close>, a
  32-byte public value, a 32-byte private value when it is a private key and no own \<open>d\<close> when it is a
  public key, and with \<open>alg\<close>, \<open>use\<close> and \<open>key_ops\<close> absent or permitting the operation.
\<close>

lemma validateJwk_no_issue_iff:
  "snd (validateJwk lib v kind path) = [] \<longleftrightarrow> trusted_jwk lib kind v"
  by (rule validateJwk_Nil_iff)

text \<open>
  A public key is imported only when it is trusted and the JOSE import accepts it, under its own
  \<open>kid\<close>, and the object handed to the import carries no private value; every failure, a throwing
  import included, is an \<open>AccessReceiptConfigurationError\<close> with an issue.
\<close>

lemma import_public_key:
  "(importTrustedPublicKey lib v index = Inr ik \<longleftrightarrow>
      trusted_jwk lib PublicKey v \<and> js_get v ''kid'' = JStr (ik_kid ik)
    \<and> importJWK lib (copyForImport v) ''EdDSA'' = Inr (ImportedKey (ik_key ik))
    \<and> js_get (copyForImport v) ''d'' = JUndef)
  \<and> importTrustedPublicKey lib v index
      \<in> range Inr \<union> {Inl (AccessReceiptConfigurationError is) | is. is \<noteq> []}"
proof
  have "trusted_jwk lib PublicKey v \<Longrightarrow> js_get (copyForImport v) ''d'' = JUndef"
    by (simp add: trusted_jwk_def copyForImport_get)
  then show "importTrustedPublicKey lib v index = Inr ik \<longleftrightarrow>
      trusted_jwk lib PublicKey v \<and> js_get v ''kid'' = JStr (ik_kid ik)
    \<and> importJWK lib (copyForImport v) ''EdDSA'' = Inr (ImportedKey (ik_key ik))
    \<and> js_get (copyForImport v) ''d'' = JUndef"
    by (auto simp: importTrustedPublicKey_def importKey_Inr_iff)
next
  show "importTrustedPublicKey lib v index
      \<in> range Inr \<union> {Inl (AccessReceiptConfigurationError is) | is. is \<noteq> []}"
    using importKey_Inl [of lib v PublicKey "[''publicKeys'', nat_string index]"]
    by (cases "importTrustedPublicKey lib v index") (auto simp: importTrustedPublicKey_def)
qed

end
