(* ===== verification/Receipt_Signer.thy ===== *)
theory Receipt_Signer
  imports Receipt_Claims Ed25519_Jwk
begin

text \<open>
  The signer of the access package (\<^verbatim>\<open>packages/access/src/receipt-signer.ts\<close>). The factory validates
  its configuration and imports the key; the closure it returns is the function
  \<open>accessReceiptSigner\<close> applied to the imported key.
\<close>

definition signer_header :: "string \<Rightarrow> jsval" where
  "signer_header kid =
     JObj [(''alg'', JStr ''EdDSA''), (''typ'', JStr ''JWT''), (''kid'', JStr kid)] []"

definition createAccessReceiptSigner :: "'k jose_lib \<Rightarrow> jsval \<Rightarrow> js_exn + 'k imported_key" where
  "createAccessReceiptSigner lib config =
     bindE (requireConfigurationRecord config) (\<lambda>record.
     bindE (rejectUnsupportedConfiguration record
              [''algorithm'', ''algorithms'', ''alg'', ''protectedHeader'', ''header'']) (\<lambda>_.
     importTrustedPrivateKey lib (js_get record ''privateKey'')))"

definition accessReceiptSigner ::
  "safe_parse \<Rightarrow> 'k jose_lib \<Rightarrow> 'k imported_key \<Rightarrow> jsval \<Rightarrow> js_exn + string" where
  "accessReceiptSigner sp lib imported claims =
     bindE (buildAccessReceiptClaims sp claims) (\<lambda>canonicalClaims.
     signJWT lib canonicalClaims (signer_header (ik_kid imported)) (ik_key imported))"

lemma requireConfigurationRecord_Inr_iff [result_simps]:
  "requireConfigurationRecord v = Inr r \<longleftrightarrow> is_record v \<and> r = v"
  by (auto simp: requireConfigurationRecord_def)

lemma rejectUnsupportedConfiguration_Inr_iff [result_simps]:
  "rejectUnsupportedConfiguration v ps = Inr u \<longleftrightarrow> (\<forall>p \<in> set ps. \<not> js_has_own v p)"
  by (auto simp: rejectUnsupportedConfiguration_def Let_def filter_empty_iff)

lemma signer_Inr_iff:
  assumes "zod_parser Zod4 sp"
  shows "accessReceiptSigner sp lib ik v = Inr tok \<longleftrightarrow>
    (\<exists>c. claims_valid c \<and> carries v c
       \<and> signJWT lib (claims_obj c) (signer_header (ik_kid ik)) (ik_key ik) = Inr tok)"
  by (auto simp: accessReceiptSigner_def result_simps build_Inr_iff [OF assms])

lemma signer_invalid:
  assumes "zod_parser Zod4 sp" and "\<And>c. claims_valid c \<Longrightarrow> \<not> carries v c"
  shows "\<exists>is. accessReceiptSigner sp lib ik v = Inl (AccessReceiptValidationError is)"
  using build_Inl [OF assms] by (auto simp: accessReceiptSigner_def)

definition sample_imported_private_key :: "string imported_key" where
  "sample_imported_private_key = \<lparr>ik_kid = ''k1'', ik_key = ''priv''\<rparr>"

definition sample_token :: string where
  "sample_token = ''aaaa.bbbb.cccc''"

definition sample_jose :: "string jose_lib" where
  "sample_jose = scripted_jose (signer_header ''k1'') (claims_obj sample_claims) sample_token"

section \<open>Properties\<close>

text \<open>
  C6: a signer exists only for a configuration object that fixes no algorithm or header of its own
  and holds a trusted private key, and then uses that key under its \<open>kid\<close>.
\<close>

theorem signer_configuration:
  "createAccessReceiptSigner lib config = Inr ik \<longleftrightarrow>
     is_record config
   \<and> (\<nexists>p. p \<in> {''algorithm'', ''algorithms'', ''alg'', ''protectedHeader'', ''header''}
        \<and> js_has_own config p)
   \<and> trusted_jwk lib PrivateKey (js_get config ''privateKey'')
   \<and> js_get (js_get config ''privateKey'') ''kid'' = JStr (ik_kid ik)
   \<and> importJWK lib (copyForImport (js_get config ''privateKey'')) ''EdDSA''
       = Inr (ImportedKey (ik_key ik))"
  by (auto simp: createAccessReceiptSigner_def result_simps importTrustedPrivateKey_def
      importKey_Inr_iff)

text \<open>
  C7: only valid claims are ever signed: when the signer returns a token, the JOSE library signed the
  canonical object of valid claims that the input carries, under the fixed protected header; for any
  other input the signer throws the validation error and nothing is signed.
\<close>

theorem signer_signs_canonical_claims:
  assumes "zod_parser Zod4 sp"
  shows "(accessReceiptSigner sp lib ik v = Inr tok \<longleftrightarrow>
      (\<exists>c. claims_valid c \<and> carries v c
         \<and> signJWT lib (claims_obj c) (signer_header (ik_kid ik)) (ik_key ik) = Inr tok))
    \<and> ((\<exists>c. claims_valid c \<and> carries v c)
       \<or> (\<exists>is. accessReceiptSigner sp lib ik v = Inl (AccessReceiptValidationError is)))"
  using signer_Inr_iff [OF assms, of lib ik v tok] signer_invalid [OF assms, of v lib ik] by blast

theorem signer_signs_canonical_claims_witness:
  "accessReceiptSigner (zod_reference Zod4) sample_jose sample_imported_private_key
     (claims_obj sample_claims) = Inr sample_token"
proof -
  have "signJWT sample_jose (claims_obj sample_claims)
      (signer_header (ik_kid sample_imported_private_key)) (ik_key sample_imported_private_key)
    = Inr sample_token"
    by (simp add: sample_jose_def scripted_jose_def sample_imported_private_key_def)
  then show ?thesis
    using signer_signs_canonical_claims [OF reference.zod_parser_axioms] sample_claims_valid
      carries_claims_obj by blast
qed

end
