(* ===== verification/Receipt_Verifier.thy ===== *)
theory Receipt_Verifier
  imports Receipt_Signer
begin

text \<open>
  The verifier of the access package (\<^verbatim>\<open>packages/access/src/receipt-verifier.ts\<close>). The factory
  validates its options and imports the trusted keys into a state that never changes afterwards; the
  closure it returns is \<open>verifyToken\<close> on that state. The clock that the JOSE verification reads is the
  argument \<open>now\<close>.
\<close>

section \<open>Options and state\<close>

definition DEFAULT_MAX_TOKEN_SIZE :: rat where
  "DEFAULT_MAX_TOKEN_SIZE = 4096"

definition MIN_MAX_TOKEN_SIZE :: rat where
  "MIN_MAX_TOKEN_SIZE = 256"

definition MAX_MAX_TOKEN_SIZE :: rat where
  "MAX_MAX_TOKEN_SIZE = 16384"

definition MAX_CLOCK_TOLERANCE :: rat where
  "MAX_CLOCK_TOLERANCE = 60"

definition APPROVED_HEADER_KEYS :: "string list" where
  "APPROVED_HEADER_KEYS = [''alg'', ''typ'', ''kid'']"

definition REQUIRED_CLAIMS :: "string list" where
  "REQUIRED_CLAIMS =
    [''iss'', ''sub'', ''aud'', ''iat'', ''nbf'', ''exp'', ''jti'', ''intent_id'', ''resource_id'',
     ''policy_id'', ''payment_ref'', ''grant_type'', ''max_redemptions'']"

lemmas verifier_constants =
  DEFAULT_MAX_TOKEN_SIZE_def MIN_MAX_TOKEN_SIZE_def MAX_MAX_TOKEN_SIZE_def MAX_CLOCK_TOLERANCE_def

datatype verification_reason =
    MalformedToken
  | TokenTooLarge
  | UnsupportedHeader
  | UnknownKey
  | InvalidSignature
  | IssuerMismatch
  | AudienceMismatch
  | NotYetValid
  | Expired
  | InvalidClaims

record verifier_options =
  vo_issuer :: string
  vo_audience :: string
  vo_clockTolerance :: rat
  vo_maxTokenSize :: rat

record 'k verifier_state =
  vs_keys :: "(string \<times> 'k) list"
  vs_issuer :: string
  vs_audience :: string
  vs_clockTolerance :: rat
  vs_maxTokenSize :: rat

text \<open>The reason is dropped: every denial is the same error.\<close>

definition deny :: "verification_reason \<Rightarrow> js_exn" where
  "deny reason = AccessReceiptVerificationError"

definition isBase64UrlSegment :: "string \<Rightarrow> bool" where
  "isBase64UrlSegment v \<longleftrightarrow> 0 < length v \<and> length v mod 4 \<noteq> 1 \<and> base64url_pattern v"

definition validateNumberOption ::
  "jsval \<Rightarrow> string \<Rightarrow> rat \<Rightarrow> rat \<Rightarrow> bool \<Rightarrow> js_exn + rat" where
  "validateNumberOption v name minimum maximum integer =
     (case v of
        JNum (Fin q) \<Rightarrow>
          if q < minimum \<or> maximum < q \<or> (integer \<and> \<not> is_integer (Fin q))
          then Inl (JSError (name @ '' is invalid'')) else Inr q
      | _ \<Rightarrow> Inl (JSError (name @ '' is invalid'')))"

text \<open>
  An optional numeric property: the default when it is absent, and an issue when the validation
  throws.
\<close>

definition optional_number ::
  "jsval \<Rightarrow> string \<Rightarrow> rat \<Rightarrow> rat \<Rightarrow> rat \<Rightarrow> bool \<Rightarrow> string \<Rightarrow> rat \<times> issue list" where
  "optional_number record name fallback minimum maximum integer reason =
     (if js_has_own record name then
        (case validateNumberOption (js_get record name) name minimum maximum integer of
           Inr q \<Rightarrow> (q, [])
         | Inl _ \<Rightarrow> (fallback, [mk_conf_issue [name] reason]))
      else (fallback, []))"

definition parseVerifierOptions :: "jsval \<Rightarrow> js_exn + verifier_options" where
  "parseVerifierOptions record =
     (case optional_number record ''clockTolerance'' 0 0 MAX_CLOCK_TOLERANCE False
             ''must be a bounded non-negative number'' of (clockTolerance, toleranceIssues) \<Rightarrow>
      case optional_number record ''maxTokenSize'' DEFAULT_MAX_TOKEN_SIZE MIN_MAX_TOKEN_SIZE
             MAX_MAX_TOKEN_SIZE True ''must be a bounded positive integer''
        of (maxTokenSize, sizeIssues) \<Rightarrow>
      (let issues =
           (if is_non_empty_string (js_get record ''issuer'') then []
            else [mk_conf_issue [''issuer''] ''must be a non-empty string''])
         @ (if is_non_empty_string (js_get record ''audience'') then []
            else [mk_conf_issue [''audience''] ''must be a non-empty string''])
         @ toleranceIssues @ sizeIssues
       in if issues \<noteq> [] then Inl (AccessReceiptConfigurationError issues)
          else Inr \<lparr>vo_issuer = the_string (js_get record ''issuer''),
                    vo_audience = the_string (js_get record ''audience''),
                    vo_clockTolerance = clockTolerance, vo_maxTokenSize = maxTokenSize\<rparr>))"

section \<open>Verification of a token\<close>

definition parseHeader :: "'k jose_lib \<Rightarrow> string \<Rightarrow> rat \<Rightarrow> js_exn + jsval" where
  "parseHeader lib token maxTokenSize =
     (if length token = 0 then Inl (deny MalformedToken)
      else if maxTokenSize < of_nat (utf8_length token) then Inl (deny TokenTooLarge)
      else if length (js_split CHR ''.'' token) \<noteq> 3
           \<or> list_ex (\<lambda>seg. \<not> isBase64UrlSegment seg) (js_split CHR ''.'' token)
      then Inl (deny MalformedToken)
      else case decodeProtectedHeader lib token of
        Inl (JSTypeError _) \<Rightarrow> Inl (deny MalformedToken)
      | Inl (JoseError _) \<Rightarrow> Inl (deny MalformedToken)
      | Inl e \<Rightarrow> Inl e
      | Inr header \<Rightarrow>
          if \<not> is_record header then Inl (deny MalformedToken)
          else if list_ex (\<lambda>p. p \<notin> set APPROVED_HEADER_KEYS) (object_keys header)
          then Inl (deny UnsupportedHeader)
          else if \<not> js_eq (js_get header ''alg'') (JStr ''EdDSA'')
               \<or> \<not> js_eq (js_get header ''typ'') (JStr ''JWT'')
          then Inl (deny UnsupportedHeader)
          else if \<not> is_non_empty_string (js_get header ''kid'') then Inl (deny UnknownKey)
          else Inr header)"

fun isExpectedJoseFailure :: "js_exn \<Rightarrow> bool" where
  "isExpectedJoseFailure (JoseError (JOSEOther _)) = False"
| "isExpectedJoseFailure (JoseError _) = True"
| "isExpectedJoseFailure _ = False"

fun joseFailureReason :: "js_exn \<Rightarrow> verification_reason" where
  "joseFailureReason (JoseError JWTExpired) = Expired"
| "joseFailureReason (JoseError (JWTClaimValidationFailed claim)) =
     (if claim = ''iss'' then IssuerMismatch
      else if claim = ''aud'' then AudienceMismatch
      else if claim = ''nbf'' then NotYetValid
      else if claim = ''exp'' then Expired
      else InvalidClaims)"
| "joseFailureReason (JoseError JWSSignatureVerificationFailed) = InvalidSignature"
| "joseFailureReason (JoseError JOSEAlgNotAllowed) = UnsupportedHeader"
| "joseFailureReason (JoseError JOSENotSupported) = UnsupportedHeader"
| "joseFailureReason _ = MalformedToken"

definition verify_options :: "'k verifier_state \<Rightarrow> jwt_options" where
  "verify_options state =
     \<lparr>opt_algorithms = [''EdDSA''], opt_issuer = vs_issuer state, opt_audience = vs_audience state,
      opt_typ = Some ''JWT'', opt_clock_tolerance = vs_clockTolerance state,
      opt_required_claims = REQUIRED_CLAIMS\<rparr>"

definition verifyToken ::
  "safe_parse \<Rightarrow> 'k jose_lib \<Rightarrow> int \<Rightarrow> jsval \<Rightarrow> 'k verifier_state \<Rightarrow> js_exn + jsval" where
  "verifyToken sp lib now token state =
     (case token of
        JStr tok \<Rightarrow>
          bindE (parseHeader lib tok (vs_maxTokenSize state)) (\<lambda>header.
          case map_of (vs_keys state) (the_string (js_get header ''kid'')) of
            None \<Rightarrow> Inl (deny UnknownKey)
          | Some key \<Rightarrow>
              (case jwtVerify lib now tok key (verify_options state) of
                 Inl e \<Rightarrow>
                   if isExpectedJoseFailure e then Inl (deny (joseFailureReason e)) else Inl e
               | Inr payload \<Rightarrow>
                   (case buildAccessReceiptClaims sp payload of
                      Inl (AccessReceiptValidationError _) \<Rightarrow> Inl (deny InvalidClaims)
                    | Inl e \<Rightarrow> Inl e
                    | Inr claims \<Rightarrow> Inr claims)))
      | _ \<Rightarrow> Inl (deny MalformedToken))"

section \<open>The factory\<close>

fun import_keys ::
  "'k jose_lib \<Rightarrow> nat \<Rightarrow> jsval list \<Rightarrow> (string \<times> 'k) list \<Rightarrow> js_exn + (string \<times> 'k) list" where
  "import_keys lib index [] keys = Inr keys"
| "import_keys lib index (v # vs) keys =
     bindE (importTrustedPublicKey lib v index) (\<lambda>imported.
       if map_of keys (ik_kid imported) \<noteq> None
       then Inl (AccessReceiptConfigurationError
              [mk_conf_issue [''publicKeys'', nat_string index, ''kid''] ''must be unique''])
       else import_keys lib (index + 1) vs (keys @ [(ik_kid imported, ik_key imported)]))"

definition createAccessReceiptVerifier :: "'k jose_lib \<Rightarrow> jsval \<Rightarrow> js_exn + 'k verifier_state" where
  "createAccessReceiptVerifier lib config =
     bindE (requireConfigurationRecord config) (\<lambda>record.
     bindE (rejectUnsupportedConfiguration record
              [''algorithm'', ''algorithms'', ''keyResolver'', ''getKey'', ''jwks'', ''jwksUri'',
               ''remoteJwks'']) (\<lambda>_.
     bindE (parseVerifierOptions record) (\<lambda>options.
       (case (js_has_own record ''publicKeys'', js_get record ''publicKeys'') of
          (True, JArr (v # vs)) \<Rightarrow>
            bindE (import_keys lib 0 (v # vs) []) (\<lambda>keys.
            Inr \<lparr>vs_keys = keys, vs_issuer = vo_issuer options, vs_audience = vo_audience options,
                 vs_clockTolerance = vo_clockTolerance options,
                 vs_maxTokenSize = vo_maxTokenSize options\<rparr>)
        | _ \<Rightarrow> Inl (AccessReceiptConfigurationError
                 [mk_conf_issue [''publicKeys''] ''must be a non-empty array''])))))"

section \<open>What the factory guarantees\<close>

definition number_option_is :: "jsval \<Rightarrow> string \<Rightarrow> rat \<Rightarrow> rat \<Rightarrow> rat \<Rightarrow> bool \<Rightarrow> rat \<Rightarrow> bool" where
  "number_option_is record name fallback minimum maximum integer q \<longleftrightarrow>
     (if js_has_own record name
      then js_get record name = JNum (Fin q) \<and> minimum \<le> q \<and> q \<le> maximum
         \<and> (integer \<longrightarrow> is_integer (Fin q))
      else q = fallback)"

definition options_are :: "jsval \<Rightarrow> verifier_options \<Rightarrow> bool" where
  "options_are record opts \<longleftrightarrow>
     js_get record ''issuer'' = JStr (vo_issuer opts) \<and> vo_issuer opts \<noteq> []
   \<and> js_get record ''audience'' = JStr (vo_audience opts) \<and> vo_audience opts \<noteq> []
   \<and> number_option_is record ''clockTolerance'' 0 0 60 False (vo_clockTolerance opts)
   \<and> number_option_is record ''maxTokenSize'' 4096 256 16384 True (vo_maxTokenSize opts)"

lemma optional_number_iff:
  "optional_number record name fallback minimum maximum integer reason = (q, []) \<longleftrightarrow>
     number_option_is record name fallback minimum maximum integer q"
  by (auto simp: optional_number_def number_option_is_def validateNumberOption_def
      split: jsval.splits jsnum.splits sum.splits if_splits)

lemma parseVerifierOptions_Inr_iff [result_simps]:
  "parseVerifierOptions record = Inr opts \<longleftrightarrow> options_are record opts"
proof -
  obtain tol tis where tol: "optional_number record ''clockTolerance'' 0 0 MAX_CLOCK_TOLERANCE False
      ''must be a bounded non-negative number'' = (tol, tis)" by fastforce
  obtain size sis where size: "optional_number record ''maxTokenSize'' DEFAULT_MAX_TOKEN_SIZE
      MIN_MAX_TOKEN_SIZE MAX_MAX_TOKEN_SIZE True ''must be a bounded positive integer'' = (size, sis)"
    by fastforce
  have "number_option_is record ''clockTolerance'' 0 0 60 False q \<longleftrightarrow> tol = q \<and> tis = []" for q
    using tol optional_number_iff [of "record" "''clockTolerance''" "0" "0" MAX_CLOCK_TOLERANCE False
        "''must be a bounded non-negative number''" q] by (simp add: verifier_constants)
  moreover have "number_option_is record ''maxTokenSize'' 4096 256 16384 True q
      \<longleftrightarrow> size = q \<and> sis = []" for q
    using size optional_number_iff [of "record" "''maxTokenSize''" DEFAULT_MAX_TOKEN_SIZE
        MIN_MAX_TOKEN_SIZE MAX_MAX_TOKEN_SIZE True "''must be a bounded positive integer''" q]
    by (simp add: verifier_constants)
  ultimately show ?thesis
    by (cases opts)
      (auto simp: parseVerifierOptions_def tol size options_are_def is_non_empty_string_iff Let_def)
qed

definition configured_key :: "'k jose_lib \<Rightarrow> jsval \<Rightarrow> string \<times> 'k \<Rightarrow> bool" where
  "configured_key lib v kk \<longleftrightarrow>
     trusted_jwk lib PublicKey v \<and> js_get v ''kid'' = JStr (fst kk)
   \<and> importJWK lib (copyForImport v) ''EdDSA'' = Inr (ImportedKey (snd kk))"

lemma import_public_iff [result_simps]:
  "importTrustedPublicKey lib v index = Inr ik \<longleftrightarrow> configured_key lib v (ik_kid ik, ik_key ik)"
  by (simp add: importTrustedPublicKey_def importKey_Inr_iff configured_key_def)

text \<open>One step of the loop takes one configured key with a new identifier.\<close>

lemma import_keys_Cons:
  fixes lib :: "'k jose_lib"
  shows "import_keys lib index (v # vs) acc = Inr keys \<longleftrightarrow>
    (\<exists>kk. configured_key lib v kk \<and> fst kk \<notin> fst ` set acc
       \<and> import_keys lib (index + 1) vs (acc @ [kk]) = Inr keys)"
proof (cases "importTrustedPublicKey lib v index")
  case (Inl e)
  have "\<not> configured_key lib v kk" for kk
    using import_public_iff [of lib v index "\<lparr>ik_kid = fst kk, ik_key = snd kk\<rparr>"] Inl by simp
  with Inl show ?thesis by simp
next
  case (Inr im)
  have "configured_key lib v kk \<longleftrightarrow> kk = (ik_kid im, ik_key im)" for kk
    using import_public_iff [of lib v index "\<lparr>ik_kid = fst kk, ik_key = snd kk\<rparr>"] Inr
    by (cases kk; cases im) auto
  with Inr show ?thesis by (simp add: map_of_eq_None_iff)
qed

lemma import_keys_Inr_iff:
  "import_keys lib index vs acc = Inr keys \<longleftrightarrow>
     (\<exists>new. keys = acc @ new \<and> list_all2 (configured_key lib) vs new
        \<and> distinct (map fst new) \<and> fst ` set new \<inter> fst ` set acc = {})"
proof (induction vs arbitrary: index acc)
  case (Cons v vs)
  show ?case
    unfolding import_keys_Cons Cons.IH
  proof (intro iffI; elim exE conjE)
    fix kk new
    assume "configured_key lib v kk" and "fst kk \<notin> fst ` set acc" and "keys = (acc @ [kk]) @ new"
      and "list_all2 (configured_key lib) vs new" and "distinct (map fst new)"
      and "fst ` set new \<inter> fst ` set (acc @ [kk]) = {}"
    then show "\<exists>new. keys = acc @ new \<and> list_all2 (configured_key lib) (v # vs) new
        \<and> distinct (map fst new) \<and> fst ` set new \<inter> fst ` set acc = {}"
      by (intro exI [of _ "kk # new"]) auto
  next
    fix new
    assume "keys = acc @ new" and l: "list_all2 (configured_key lib) (v # vs) new"
      and d: "distinct (map fst new)" "fst ` set new \<inter> fst ` set acc = {}"
    moreover from l obtain kk new' where "new = kk # new'" "configured_key lib v kk"
      "list_all2 (configured_key lib) vs new'" by (auto simp: list_all2_Cons1)
    ultimately show "\<exists>kk. configured_key lib v kk \<and> fst kk \<notin> fst ` set acc
      \<and> (\<exists>new. keys = (acc @ [kk]) @ new \<and> list_all2 (configured_key lib) vs new
         \<and> distinct (map fst new) \<and> fst ` set new \<inter> fst ` set (acc @ [kk]) = {})"
      by (intro exI [of _ kk] conjI exI [of _ new']) auto
  qed
qed auto

definition unsupported_verifier_properties :: "string set" where
  "unsupported_verifier_properties =
     {''algorithm'', ''algorithms'', ''keyResolver'', ''getKey'', ''jwks'', ''jwksUri'', ''remoteJwks''}"

definition options_of :: "'k verifier_state \<Rightarrow> verifier_options" where
  "options_of st = \<lparr>vo_issuer = vs_issuer st, vo_audience = vs_audience st,
     vo_clockTolerance = vs_clockTolerance st, vo_maxTokenSize = vs_maxTokenSize st\<rparr>"

lemma create_verifier_Inr_iff:
  "createAccessReceiptVerifier lib config = Inr st \<longleftrightarrow>
     is_record config
   \<and> (\<nexists>p. p \<in> unsupported_verifier_properties \<and> js_has_own config p)
   \<and> options_are config (options_of st)
   \<and> js_has_own config ''publicKeys''
   \<and> (\<exists>vs. vs \<noteq> [] \<and> js_get config ''publicKeys'' = JArr vs
        \<and> list_all2 (configured_key lib) vs (vs_keys st) \<and> distinct (map fst (vs_keys st)))"
proof -
  have "(case (b, w) of
          (True, JArr (v # vs)) \<Rightarrow> bindE (import_keys lib 0 (v # vs) []) (\<lambda>keys.
            Inr \<lparr>vs_keys = keys, vs_issuer = vo_issuer opts, vs_audience = vo_audience opts,
                 vs_clockTolerance = vo_clockTolerance opts, vs_maxTokenSize = vo_maxTokenSize opts\<rparr>)
        | _ \<Rightarrow> Inl e) = Inr st
    \<longleftrightarrow> b \<and> opts = options_of st \<and> (\<exists>vs. vs \<noteq> [] \<and> w = JArr vs
        \<and> list_all2 (configured_key lib) vs (vs_keys st) \<and> distinct (map fst (vs_keys st)))"
    for b w opts e
    by (cases w; cases b; cases opts; cases st)
      (auto simp: result_simps import_keys_Inr_iff options_of_def simp del: import_keys.simps
        split: list.splits)
  then show ?thesis
    by (auto simp: createAccessReceiptVerifier_def result_simps unsupported_verifier_properties_def)
qed

section \<open>What a verification guarantees\<close>

text \<open>The protected header that the verifier accepts for a token: it has read it, and it names \<open>kid\<close>.\<close>

definition approved_header :: "jsval \<Rightarrow> string \<Rightarrow> bool" where
  "approved_header hdr kid \<longleftrightarrow>
     is_record hdr \<and> set (object_keys hdr) \<subseteq> {''alg'', ''typ'', ''kid''}
   \<and> js_get hdr ''alg'' = JStr ''EdDSA'' \<and> js_get hdr ''typ'' = JStr ''JWT''
   \<and> js_get hdr ''kid'' = JStr kid \<and> kid \<noteq> []"

definition within_size :: "'k verifier_state \<Rightarrow> string \<Rightarrow> bool" where
  "within_size st tok \<longleftrightarrow> of_nat (utf8_length tok) \<le> vs_maxTokenSize st"

definition in_validity_window :: "int \<Rightarrow> rat \<Rightarrow> receipt_claims \<Rightarrow> bool" where
  "in_validity_window now tol c \<longleftrightarrow>
     of_int (rc_nbf c) \<le> of_int now + tol \<and> of_int now - tol < (of_int (rc_exp c) :: rat)"

lemma compact_form_iff:
  "compact_form tok \<longleftrightarrow> length (js_split CHR ''.'' tok) = 3
     \<and> \<not> list_ex (\<lambda>seg. \<not> isBase64UrlSegment seg) (js_split CHR ''.'' tok)"
  by (auto simp: compact_form_def list_all_iff list_ex_iff isBase64UrlSegment_def
      base64url_pattern_def)

lemma compact_form_not_Nil [simp]: "\<not> compact_form []"
  by (simp add: compact_form_def)

lemma parseHeader_Inr_iff:
  "parseHeader lib tok limit = Inr hdr \<longleftrightarrow>
     compact_form tok \<and> of_nat (utf8_length tok) \<le> limit
   \<and> decodeProtectedHeader lib tok = Inr hdr \<and> (\<exists>kid. approved_header hdr kid)"
proof (cases "compact_form tok \<and> of_nat (utf8_length tok) \<le> limit")
  case True
  then have "tok \<noteq> []" by auto
  with True have "parseHeader lib tok limit = Inr hdr \<longleftrightarrow> decodeProtectedHeader lib tok = Inr hdr
      \<and> is_record hdr \<and> list_all (\<lambda>p. p \<in> set APPROVED_HEADER_KEYS) (object_keys hdr)
      \<and> js_get hdr ''alg'' = JStr ''EdDSA'' \<and> js_get hdr ''typ'' = JStr ''JWT''
      \<and> is_non_empty_string (js_get hdr ''kid'')"
    by (auto simp: parseHeader_def compact_form_iff list_all_iff list_ex_iff
        split: sum.split js_exn.split)
  also have "\<dots> \<longleftrightarrow> decodeProtectedHeader lib tok = Inr hdr \<and> (\<exists>kid. approved_header hdr kid)"
    by (auto simp: approved_header_def APPROVED_HEADER_KEYS_def list_all_iff
        is_non_empty_string_iff)
  finally show ?thesis using True by simp
next
  case False
  then show ?thesis by (auto simp: parseHeader_def compact_form_iff)
qed

lemma approved_header_kid: "approved_header hdr kid \<Longrightarrow> the_string (js_get hdr ''kid'') = kid"
  by (simp add: approved_header_def)

lemma jwt_checks_claims:
  assumes "jwt_checks now (verify_options st) payload" and "carries payload c"
  shows "rc_iss c = vs_issuer st \<and> rc_aud c = vs_audience st
    \<and> in_validity_window now (vs_clockTolerance st) c"
  using assms
  by (auto simp: jwt_checks_def verify_options_def carries_iff audience_ok_def not_before_ok_def
      expiry_ok_def in_validity_window_def num_le_def)

lemma jwt_checks_claims_obj:
  assumes "rc_iss c = vs_issuer st" and "rc_aud c = vs_audience st"
    and "in_validity_window now (vs_clockTolerance st) c"
  shows "jwt_checks now (verify_options st) (claims_obj c)"
  using assms
  by (auto simp: jwt_checks_def verify_options_def audience_ok_def not_before_ok_def
      expiry_ok_def in_validity_window_def num_le_def REQUIRED_CLAIMS_def payment_ref_val_def
      split: option.split)

lemma verifyToken_Inr_iff:
  assumes "zod_parser Zod4 sp"
  shows "verifyToken sp lib now token st = Inr out \<longleftrightarrow>
    (\<exists>tok hdr kid key payload c. token = JStr tok \<and> compact_form tok \<and> within_size st tok
       \<and> decodeProtectedHeader lib tok = Inr hdr \<and> approved_header hdr kid
       \<and> map_of (vs_keys st) kid = Some key
       \<and> jwtVerify lib now tok key (verify_options st) = Inr payload
       \<and> claims_valid c \<and> carries payload c \<and> out = claims_obj c)" (is "_ \<longleftrightarrow> ?r")
proof
  assume l: "verifyToken sp lib now token st = Inr out"
  then obtain tok where tok: "token = JStr tok"
    by (auto simp: verifyToken_def split: jsval.splits)
  with l obtain hdr where hdr: "parseHeader lib tok (vs_maxTokenSize st) = Inr hdr"
    by (auto simp: verifyToken_def result_simps)
  then obtain kid where kid: "approved_header hdr kid" by (auto simp: parseHeader_Inr_iff)
  from l tok hdr approved_header_kid [OF kid] obtain key payload where
    "map_of (vs_keys st) kid = Some key"
    "jwtVerify lib now tok key (verify_options st) = Inr payload"
    "buildAccessReceiptClaims sp payload = Inr out"
    by (auto simp: verifyToken_def split: option.splits sum.splits if_splits js_exn.splits)
  with tok hdr kid show ?r
    by (auto simp: parseHeader_Inr_iff within_size_def build_Inr_iff [OF assms])
next
  assume ?r
  then obtain tok hdr kid key payload c where *: "token = JStr tok" "compact_form tok"
    "within_size st tok" "decodeProtectedHeader lib tok = Inr hdr" "approved_header hdr kid"
    "map_of (vs_keys st) kid = Some key"
    "jwtVerify lib now tok key (verify_options st) = Inr payload"
    "claims_valid c" "carries payload c" "out = claims_obj c" by blast
  then have "parseHeader lib tok (vs_maxTokenSize st) = Inr hdr"
    by (auto simp: parseHeader_Inr_iff within_size_def)
  with * show "verifyToken sp lib now token st = Inr out"
    by (simp add: verifyToken_def approved_header_kid build_carries [OF assms])
qed

text \<open>An error that one of the two JOSE calls throws and that the verifier does not expect.\<close>

text \<open>
  What the library throws when it judges a token: a claim, the expiry, the form of the token, its
  signature, its algorithm, an option of its header, its key. These must never reach the caller.
\<close>

definition token_failures :: "js_exn set" where
  "token_failures =
     JoseError ` ({JWTExpired, JWTInvalid, JWSInvalid, JWSSignatureVerificationFailed, JOSEAlgNotAllowed,
        JOSENotSupported, JWKInvalid} \<union> range JWTClaimValidationFailed)"

text \<open>Any other error of the library's calls: of reading the header, and of the verification with a trusted key.\<close>

definition library_fault :: "'k jose_lib \<Rightarrow> int \<Rightarrow> string \<Rightarrow> 'k verifier_state \<Rightarrow> js_exn \<Rightarrow> bool" where
  "library_fault lib now tok st e \<longleftrightarrow>
     decodeProtectedHeader lib tok = Inl e \<and> (\<nexists>m. e = JSTypeError m) \<and> (\<nexists>j. e = JoseError j)
   \<or> (\<exists>kid key. map_of (vs_keys st) kid = Some key
        \<and> jwtVerify lib now tok key (verify_options st) = Inl e) \<and> e \<notin> token_failures"

lemma isExpectedJoseFailure_iff: "isExpectedJoseFailure e \<longleftrightarrow> e \<in> token_failures"
proof (cases e)
  case (JoseError j)
  then show ?thesis by (cases j) (auto simp: token_failures_def)
qed (auto simp: token_failures_def)

lemma parseHeader_Inl:
  "parseHeader lib tok limit = Inl e \<Longrightarrow> e = AccessReceiptVerificationError
   \<or> decodeProtectedHeader lib tok = Inl e \<and> (\<nexists>m. e = JSTypeError m) \<and> (\<nexists>j. e = JoseError j)"
  by (auto simp: parseHeader_def deny_def split: if_splits sum.splits js_exn.splits)

lemma verifyToken_Inl:
  assumes "zod_parser Zod4 sp" and l: "verifyToken sp lib now token st = Inl e"
  shows "e = AccessReceiptVerificationError \<or> (\<exists>tok. token = JStr tok \<and> library_fault lib now tok st e)"
proof (cases "\<exists>tok. token = JStr tok")
  case False
  with l show ?thesis by (auto simp: verifyToken_def deny_def split: jsval.splits)
next
  case True
  then obtain tok where tok: "token = JStr tok" by blast
  show ?thesis
  proof (cases "parseHeader lib tok (vs_maxTokenSize st)")
    case (Inl e')
    with l tok have "e' = e" by (simp add: verifyToken_def)
    with parseHeader_Inl [OF Inl] tok show ?thesis by (auto simp: library_fault_def)
  next
    case (Inr hdr)
    let ?kid = "the_string (js_get hdr ''kid'')"
    show ?thesis
    proof (cases "map_of (vs_keys st) ?kid")
      case None
      with Inr l tok show ?thesis by (simp add: verifyToken_def deny_def)
    next
      case (Some key)
      show ?thesis
      proof (cases "jwtVerify lib now tok key (verify_options st)")
        case (Inl e')
        with Inr Some l tok
        have "e = AccessReceiptVerificationError \<or> e = e' \<and> e' \<notin> token_failures"
          by (auto simp: verifyToken_def deny_def isExpectedJoseFailure_iff split: if_splits)
        with Inl Some tok show ?thesis unfolding library_fault_def by blast
      next
        case Inr': (Inr payload)
        show ?thesis
        proof (cases "buildAccessReceiptClaims sp payload")
          case (Inl e')
          with zod_parser.build_throws_no_other [OF assms(1)] obtain "is" where
            "e' = AccessReceiptValidationError is" by blast
          with Inl Inr Inr' Some l tok show ?thesis by (simp add: verifyToken_def deny_def)
        next
          case Inr'': (Inr out)
          with Inr Inr' Some l tok show ?thesis by (simp add: verifyToken_def)
        qed
      qed
    qed
  qed
qed

lemma signed_token_verifies:
  assumes "zod_parser Zod4 sp" and "jose_round_trip lib (ik_key ik) pub"
    and "accessReceiptSigner sp lib ik v = Inr tok" and "carries v c"
    and "ik_kid ik \<noteq> []" and "map_of (vs_keys st) (ik_kid ik) = Some pub"
    and "rc_iss c = vs_issuer st" and "rc_aud c = vs_audience st"
    and "in_validity_window now (vs_clockTolerance st) c" and "within_size st tok"
  shows "verifyToken sp lib now (JStr tok) st = Inr (claims_obj c)"
proof -
  let ?h = "signer_header (ik_kid ik)"
  from assms(3,4) carries_unique have c: "claims_valid c"
    and sign: "signJWT lib (claims_obj c) ?h (ik_key ik) = Inr tok"
    by (auto simp: signer_Inr_iff [OF assms(1)])
  have checks: "jwt_checks now (verify_options st) (claims_obj c)"
    using assms by (intro jwt_checks_claims_obj)
  have h: "approved_header ?h (ik_kid ik)"
    using assms(5) by (simp add: approved_header_def signer_header_def object_keys_def)
  then have "jwtVerify lib now tok pub (verify_options st) = Inr (claims_obj c)"
    using assms(2) sign checks
    by (simp add: jose_round_trip_def verify_options_def approved_header_def)
  moreover have "compact_form tok" "decodeProtectedHeader lib tok = Inr ?h"
    using assms(2) sign by (simp_all add: jose_round_trip_def)
  ultimately show ?thesis
    unfolding verifyToken_Inr_iff [OF assms(1)]
    using assms(6,10) c h carries_claims_obj by blast
qed

section \<open>Properties\<close>

text \<open>
  C8: a verifier exists only for a configuration object that names no algorithm or key resolver of
  its own, has a non-empty issuer and audience, a tolerance of 0 to 60 seconds and a token size of
  256 to 16384 bytes (or their defaults), and a non-empty list of trusted public keys with distinct
  \<open>kid\<close>s; its state is then exactly those options and those imported keys, in order.
\<close>

theorem verifier_configuration:
  "createAccessReceiptVerifier lib config = Inr st \<longleftrightarrow>
     is_record config
   \<and> (\<nexists>p. p \<in> unsupported_verifier_properties \<and> js_has_own config p)
   \<and> options_are config (options_of st)
   \<and> js_has_own config ''publicKeys''
   \<and> (\<exists>vs. vs \<noteq> [] \<and> js_get config ''publicKeys'' = JArr vs
        \<and> list_all2 (configured_key lib) vs (vs_keys st) \<and> distinct (map fst (vs_keys st)))"
  by (rule create_verifier_Inr_iff)

text \<open>
  C9: a token is accepted only when it is a compact token within the size limit whose header has the
  three approved parameters and names a configured key, that key's signature over the payload was
  checked, and the payload carries valid claims of the configured issuer and audience that are within
  their validity window at the verifier's clock; the result is the canonical object of those claims.
\<close>

theorem verified_token_sound:
  assumes "zod_parser Zod4 sp" and "jose_verifies lib signed"
    and "verifyToken sp lib now token st = Inr out"
  shows "\<exists>tok hdr kid key payload c. token = JStr tok \<and> compact_form tok \<and> within_size st tok
    \<and> decodeProtectedHeader lib tok = Inr hdr \<and> approved_header hdr kid
    \<and> map_of (vs_keys st) kid = Some key \<and> signed key tok payload
    \<and> claims_valid c \<and> carries payload c \<and> out = claims_obj c
    \<and> rc_iss c = vs_issuer st \<and> rc_aud c = vs_audience st
    \<and> in_validity_window now (vs_clockTolerance st) c"
proof -
  from assms(3) [unfolded verifyToken_Inr_iff [OF assms(1)]]
  obtain tok hdr kid key payload c where *: "token = JStr tok" "compact_form tok"
    "within_size st tok" "decodeProtectedHeader lib tok = Inr hdr" "approved_header hdr kid"
    "map_of (vs_keys st) kid = Some key" "claims_valid c" "carries payload c" "out = claims_obj c"
    and v: "jwtVerify lib now tok key (verify_options st) = Inr payload" by blast
  from assms(2) v have "signed key tok payload" "jwt_checks now (verify_options st) payload"
    by (auto simp: jose_verifies_def)
  with * jwt_checks_claims show ?thesis by blast
qed

definition sample_verifier_state :: "string verifier_state" where
  "sample_verifier_state = \<lparr>vs_keys = [(''k1'', ''pub'')], vs_issuer = ''host'',
     vs_audience = ''api'', vs_clockTolerance = 5, vs_maxTokenSize = 4096\<rparr>"

lemma sample_token_compact [simp]: "compact_form sample_token"
  by (simp add: sample_token_def compact_form_def base64url_pattern_def base64url_char_def
      code_unit_def)

lemma sample_token_size [simp]: "within_size sample_verifier_state sample_token"
  by (simp add: sample_token_def within_size_def utf8_length_def sample_verifier_state_def
      code_unit_def)

lemma sample_window [simp]:
  "in_validity_window 150 (vs_clockTolerance sample_verifier_state) sample_claims"
  by (simp add: in_validity_window_def sample_verifier_state_def sample_claims_def)

lemma sample_header_approved: "approved_header (signer_header ''k1'') ''k1''"
  by (simp add: approved_header_def signer_header_def object_keys_def)

lemma sample_verifies:
  "jwtVerify sample_jose 150 sample_token ''pub'' (verify_options sample_verifier_state)
     = Inr (claims_obj sample_claims)"
proof -
  have c: "jwt_checks 150 (verify_options sample_verifier_state) (claims_obj sample_claims)"
    using sample_window by (intro jwt_checks_claims_obj)
      (simp_all add: sample_claims_def sample_verifier_state_def)
  then show ?thesis
    by (simp add: sample_jose_def scripted_jose_def jwt_checks_def)
qed

lemma sample_verifyToken:
  "verifyToken (zod_reference Zod4) sample_jose 150 (JStr sample_token) sample_verifier_state
     = Inr (claims_obj sample_claims)"
proof -
  have "decodeProtectedHeader sample_jose sample_token = Inr (signer_header ''k1'')"
    by (simp add: sample_jose_def scripted_jose_def)
  moreover have "map_of (vs_keys sample_verifier_state) ''k1'' = Some ''pub''"
    by (simp add: sample_verifier_state_def)
  ultimately show ?thesis
    unfolding verifyToken_Inr_iff [OF reference.zod_parser_axioms]
    using sample_verifies sample_header_approved sample_claims_valid carries_claims_obj
      sample_token_compact sample_token_size by blast
qed

theorem verified_token_sound_witness:
  "\<exists>kid key. map_of (vs_keys sample_verifier_state) kid = Some key \<and> key = ''pub''"
proof -
  have "jose_verifies sample_jose (\<lambda>k t p. k = ''pub'' \<and> t = sample_token \<and> p = claims_obj sample_claims)"
    unfolding sample_jose_def by (rule scripted_jose_verifies)
  from verified_token_sound [OF reference.zod_parser_axioms this sample_verifyToken]
  show ?thesis by blast
qed

text \<open>
  C10: verification is uniform in its denials: it returns, or throws the one verification error that
  carries no reason. In particular each of the library's eight classes of token failures - a signature
  that does not verify among them - comes out as this error, and so does every failure of the claim
  validation; what else can come out is an error of the library's two calls outside these classes.
\<close>

theorem denial_is_uniform:
  assumes "zod_parser Zod4 sp" and "verifyToken sp lib now token st = Inl e"
  shows "(e = AccessReceiptVerificationError \<or> (\<exists>tok. token = JStr tok \<and> library_fault lib now tok st e))
    \<and> e \<notin> token_failures"
proof -
  have "e \<notin> token_failures" if "library_fault lib now tok st e" for tok
    using that by (auto simp: library_fault_def token_failures_def)
  then show ?thesis using verifyToken_Inl [OF assms] by (auto simp: token_failures_def)
qed

text \<open>A token whose signature does not verify.\<close>

definition sample_forging_jose :: "string jose_lib" where
  "sample_forging_jose = sample_jose
     \<lparr>jwtVerify := \<lambda>now tok key opts. Inl (JoseError JWSSignatureVerificationFailed)\<rparr>"

theorem denial_is_uniform_witness:
  "verifyToken (zod_reference Zod4) sample_forging_jose 150 (JStr sample_token) sample_verifier_state
     = Inl AccessReceiptVerificationError"
proof -
  have "verifyToken (zod_reference Zod4) sample_forging_jose 150 (JStr sample_token) sample_verifier_state \<noteq> Inr out"
    for out
    unfolding verifyToken_Inr_iff [OF reference.zod_parser_axioms] by (simp add: sample_forging_jose_def)
  then obtain e where e: "verifyToken (zod_reference Zod4) sample_forging_jose 150 (JStr sample_token)
      sample_verifier_state = Inl e" by (metis sum.exhaust)
  have "\<not> library_fault sample_forging_jose 150 sample_token sample_verifier_state e"
    by (auto simp: library_fault_def sample_forging_jose_def sample_jose_def scripted_jose_def token_failures_def
        split: if_splits)
  with denial_is_uniform [OF reference.zod_parser_axioms e] e show ?thesis by auto
qed

text \<open>
  C11: what the signer signs, the verifier accepts: a token made from valid claims with a key whose
  public half the verifier has under the signer's \<open>kid\<close> verifies to the canonical object of those
  claims, as long as issuer, audience, validity window and token size fit the verifier.
\<close>

theorem sign_verify_round_trip:
  assumes "zod_parser Zod4 sp" and "jose_round_trip lib (ik_key ik) pub"
    and "accessReceiptSigner sp lib ik v = Inr tok" and "carries v c"
    and "ik_kid ik \<noteq> []" and "map_of (vs_keys st) (ik_kid ik) = Some pub"
    and "rc_iss c = vs_issuer st" and "rc_aud c = vs_audience st"
    and "in_validity_window now (vs_clockTolerance st) c" and "within_size st tok"
  shows "verifyToken sp lib now (JStr tok) st = Inr (claims_obj c)"
  using assms by (rule signed_token_verifies)

theorem sign_verify_round_trip_witness:
  "verifyToken (zod_reference Zod4) sample_jose 150 (JStr sample_token) sample_verifier_state
     = Inr (claims_obj sample_claims)"
proof -
  have "jose_round_trip sample_jose (ik_key sample_imported_private_key) ''pub''"
    using scripted_jose_round_trip [OF sample_token_compact]
    by (simp add: sample_jose_def sample_imported_private_key_def)
  moreover have "accessReceiptSigner (zod_reference Zod4) sample_jose sample_imported_private_key
      (claims_obj sample_claims) = Inr sample_token"
    unfolding signer_Inr_iff [OF reference.zod_parser_axioms]
    by (rule exI [of _ sample_claims])
      (simp add: sample_jose_def scripted_jose_def sample_imported_private_key_def)
  ultimately show ?thesis
    using sign_verify_round_trip [OF reference.zod_parser_axioms, of sample_jose
        sample_imported_private_key "''pub''" "claims_obj sample_claims" sample_token
        sample_claims sample_verifier_state 150]
      sample_window sample_token_size
    by (simp add: sample_claims_def sample_verifier_state_def sample_imported_private_key_def)
qed

end
