(* ===== verification/Receipt_Bindings.thy ===== *)
theory Receipt_Bindings
  imports Receipt_Claims
begin

text \<open>
  The binding check of the access package (\<^verbatim>\<open>packages/access/src/receipt-bindings.ts\<close>): verified
  claims are compared with the values the host expects. Both sides are untyped values.
\<close>

section \<open>The check\<close>

datatype binding_result = Matched | BindingDenied

definition isValidExpectedBindings :: "jsval \<Rightarrow> bool" where
  "isValidExpectedBindings v \<longleftrightarrow>
     is_record v
   \<and> list_all (\<lambda>p. js_has_own v p \<and> is_non_empty_string (js_get v p))
       [''sub'', ''resource_id'', ''policy_id'', ''intent_id'']
   \<and> (js_has_own v ''max_redemptions'' \<longrightarrow>
        (case js_get v ''max_redemptions'' of
           JNum n \<Rightarrow> is_safe_integer n \<and> \<not> num_le n (Fin 0)
         | _ \<Rightarrow> False))"

definition evaluateAccessReceiptBindings ::
  "safe_parse \<Rightarrow> jsval \<Rightarrow> jsval \<Rightarrow> js_exn + binding_result" where
  "evaluateAccessReceiptBindings sp claims expected =
     (if \<not> isValidExpectedBindings expected then Inr BindingDenied
      else case buildAccessReceiptClaims sp claims of
        Inl (AccessReceiptValidationError is) \<Rightarrow> Inr BindingDenied
      | Inl e \<Rightarrow> Inl e
      | Inr canonical \<Rightarrow>
          if \<not> js_eq (js_get canonical ''sub'') (js_get expected ''sub'')
           \<or> \<not> js_eq (js_get canonical ''resource_id'') (js_get expected ''resource_id'')
           \<or> \<not> js_eq (js_get canonical ''policy_id'') (js_get expected ''policy_id'')
           \<or> \<not> js_eq (js_get canonical ''intent_id'') (js_get expected ''intent_id'')
          then Inr BindingDenied
          else if js_get expected ''max_redemptions'' \<noteq> JUndef
                \<and> \<not> js_eq (js_get canonical ''max_redemptions'') (js_get expected ''max_redemptions'')
          then Inr BindingDenied
          else Inr Matched)"

section \<open>The specification\<close>

text \<open>
  What a host means by its expected bindings: four identifiers of its own, and a redemption limit
  or none. A limit is read through the prototype chain, as the source's \<open>expected.max_redemptions\<close> is.
\<close>

definition bindings_agree :: "jsval \<Rightarrow> receipt_claims \<Rightarrow> bool" where
  "bindings_agree expected c \<longleftrightarrow>
     js_get expected ''sub'' = JStr (rc_sub c)
   \<and> js_get expected ''resource_id'' = JStr (rc_resource_id c)
   \<and> js_get expected ''policy_id'' = JStr (rc_policy_id c)
   \<and> js_get expected ''intent_id'' = JStr (rc_intent_id c)
   \<and> (js_get expected ''max_redemptions'' = JUndef
      \<or> js_get expected ''max_redemptions'' = JInt (rc_max_redemptions c))"

lemma evaluate_not_valid:
  "\<not> isValidExpectedBindings expected \<Longrightarrow>
   evaluateAccessReceiptBindings sp claims expected = Inr BindingDenied"
  by (simp add: evaluateAccessReceiptBindings_def)

lemma evaluate_canonical:
  assumes "isValidExpectedBindings expected"
    and "buildAccessReceiptClaims sp claims = Inr (claims_obj c)"
  shows "evaluateAccessReceiptBindings sp claims expected
    = Inr (if bindings_agree expected c then Matched else BindingDenied)"
  using assms by (simp add: evaluateAccessReceiptBindings_def bindings_agree_def eq_commute)

lemma evaluate_invalid_claims:
  "buildAccessReceiptClaims sp claims = Inl (AccessReceiptValidationError is) \<Longrightarrow>
   evaluateAccessReceiptBindings sp claims expected = Inr BindingDenied"
  by (simp add: evaluateAccessReceiptBindings_def)

lemma evaluate_Matched_iff:
  assumes "zod_parser Zod4 sp"
  shows "evaluateAccessReceiptBindings sp claims expected = Inr Matched \<longleftrightarrow>
    isValidExpectedBindings expected
    \<and> (\<exists>c. claims_valid c \<and> carries claims c \<and> bindings_agree expected c)"
proof (cases "isValidExpectedBindings expected \<and> (\<exists>c. claims_valid c \<and> carries claims c)")
  case True
  then obtain c where c: "claims_valid c" "carries claims c" by blast
  from c have "buildAccessReceiptClaims sp claims = Inr (claims_obj c)"
    by (rule build_carries [OF assms])
  with True have "evaluateAccessReceiptBindings sp claims expected = Inr Matched
      \<longleftrightarrow> bindings_agree expected c"
    by (simp add: evaluate_canonical)
  moreover have "carries claims c' \<longleftrightarrow> c' = c" for c'
    using c carries_unique by blast
  ultimately show ?thesis using True c by auto
next
  case False
  show ?thesis
  proof (cases "isValidExpectedBindings expected")
    case True
    with False have "\<And>c. claims_valid c \<Longrightarrow> \<not> carries claims c" by blast
    from build_Inl [OF assms this] obtain "is" where
      "buildAccessReceiptClaims sp claims = Inl (AccessReceiptValidationError is)" by blast
    with False show ?thesis by (auto simp: evaluate_invalid_claims)
  next
    case invalid: False
    then show ?thesis by (simp add: evaluate_not_valid)
  qed
qed

lemma evaluate_returns:
  assumes "zod_parser Zod4 sp"
  shows "evaluateAccessReceiptBindings sp claims expected \<in> {Inr Matched, Inr BindingDenied}"
proof (cases "buildAccessReceiptClaims sp claims")
  case (Inl e)
  from zod_parser.build_throws_no_other [OF assms Inl] obtain "is" where
    "e = AccessReceiptValidationError is" by blast
  with Inl show ?thesis by (simp add: evaluate_invalid_claims)
next
  case (Inr out)
  then show ?thesis by (simp add: evaluateAccessReceiptBindings_def)
qed

section \<open>Properties\<close>

text \<open>
  C3: the binding check matches exactly when the host's expectation is well formed, the claims are
  valid, and they agree on subject, resource, policy, intent and, when the host gives one, on the
  redemption limit; in every other case it is a denial, and it never throws.
\<close>

theorem bindings_match_iff:
  assumes "zod_parser Zod4 sp"
  shows "evaluateAccessReceiptBindings sp claims expected =
    Inr (if isValidExpectedBindings expected
            \<and> (\<exists>c. claims_valid c \<and> carries claims c \<and> bindings_agree expected c)
         then Matched else BindingDenied)"
  using evaluate_Matched_iff [OF assms, of claims expected]
    evaluate_returns [OF assms, of claims expected]
  by (cases "isValidExpectedBindings expected
      \<and> (\<exists>c. claims_valid c \<and> carries claims c \<and> bindings_agree expected c)") auto

definition sample_expected :: jsval where
  "sample_expected = JObj [(''sub'', JStr ''user''), (''resource_id'', JStr ''r1''),
     (''policy_id'', JStr ''p1''), (''intent_id'', JStr ''i1''), (''max_redemptions'', JInt 3)] []"

lemma sample_expected_valid [simp]: "isValidExpectedBindings sample_expected"
  by (simp add: sample_expected_def isValidExpectedBindings_def js_has_own_def safe_int_def
      max_safe_integer_def is_safe_integer_def num_le_def)

lemma sample_expected_agrees [simp]: "bindings_agree sample_expected sample_claims"
  by (simp add: sample_expected_def bindings_agree_def sample_claims_def)

theorem bindings_match_iff_witness:
  "evaluateAccessReceiptBindings (zod_reference Zod4) (claims_obj sample_claims) sample_expected
     = Inr Matched"
proof -
  have "\<exists>c. claims_valid c \<and> carries (claims_obj sample_claims) c \<and> bindings_agree sample_expected c"
    using sample_claims_valid carries_claims_obj sample_expected_agrees by blast
  then show ?thesis
    by (simp only: bindings_match_iff [OF reference.zod_parser_axioms] sample_expected_valid) simp
qed

end
