(* ===== verification/Access_Receipt_Store.thy ===== *)
theory Access_Receipt_Store
  imports JS_Values
begin

text \<open>
  The store interface of the access package (\<^verbatim>\<open>packages/access/src/access-receipt-store.ts\<close>): the
  command a redemption hands to the host, the nine outcomes, and the contract of one authoritative
  atomic consumption, as a locale. The facts inside the locale hold for every store that keeps the
  contract, over any interleaving of consumption attempts and of the host's own changes.
\<close>

section \<open>Commands and outcomes\<close>

record consume_command =
  cmd_jti :: jsval
  cmd_iss :: jsval
  cmd_sub :: jsval
  cmd_aud :: jsval
  cmd_intent_id :: jsval
  cmd_resource_id :: jsval
  cmd_policy_id :: jsval
  cmd_grant_type :: jsval
  cmd_max_redemptions :: jsval
  cmd_exp :: jsval
  cmd_current_time :: jsval
  cmd_expected_max_redemptions :: jsval \<comment> \<open>\<open>JUndef\<close> when the property is absent\<close>

datatype consume_result =
    Consumed bool \<comment> \<open>whether the receipt is now exhausted\<close>
  | ReceiptMissing
  | ReceiptRevoked
  | ReceiptExhausted
  | ReceiptExpired
  | AuthorityMismatch
  | ConcurrencyConflict
  | SystemFailure

fun outcome_string :: "consume_result \<Rightarrow> string" where
  "outcome_string (Consumed b) = ''consumed''"
| "outcome_string ReceiptMissing = ''receipt_missing''"
| "outcome_string ReceiptRevoked = ''receipt_revoked''"
| "outcome_string ReceiptExhausted = ''receipt_exhausted''"
| "outcome_string ReceiptExpired = ''receipt_expired''"
| "outcome_string AuthorityMismatch = ''authority_mismatch''"
| "outcome_string ConcurrencyConflict = ''concurrency_conflict''"
| "outcome_string SystemFailure = ''system_failure''"

text \<open>The object a store returns.\<close>

fun result_obj :: "consume_result \<Rightarrow> jsval" where
  "result_obj (Consumed b) = JObj [(''outcome'', JStr ''consumed''), (''exhausted'', JBool b)] []"
| "result_obj r = JObj [(''outcome'', JStr (outcome_string r))] []"

lemma outcome_string_consumed [simp]: "outcome_string r = ''consumed'' \<longleftrightarrow> (\<exists>b. r = Consumed b)"
  by (cases r) simp_all

lemma outcome_string_inj:
  "outcome_string r = outcome_string r' \<Longrightarrow> (\<nexists>b. r = Consumed b) \<Longrightarrow> r = r'"
  by (cases r; cases r') simp_all

lemma result_obj_get [simp]:
  "js_get (result_obj r) ''outcome'' = JStr (outcome_string r)"
  "js_get (result_obj (Consumed b)) ''exhausted'' = JBool b"
  "is_record (result_obj r)"
  by (cases r; simp add: js_get_def)+

lemma result_obj_inj [simp]: "result_obj r = result_obj r' \<longleftrightarrow> r = r'"
  by (cases r; cases r') simp_all

declare result_obj.simps [simp del]

section \<open>The authoritative receipt\<close>

record auth_receipt =
  ar_iss :: string
  ar_sub :: string
  ar_aud :: string
  ar_intent_id :: string
  ar_resource_id :: string
  ar_policy_id :: string
  ar_grant_type :: string
  ar_max :: int
  ar_exp :: int
  ar_count :: int
  ar_revoked :: bool

type_synonym authority = "string \<Rightarrow> auth_receipt option"

text \<open>The command's signed authority and the host's own limit are those of the receipt.\<close>

definition authority_matches :: "consume_command \<Rightarrow> auth_receipt \<Rightarrow> bool" where
  "authority_matches cmd r \<longleftrightarrow>
     cmd_iss cmd = JStr (ar_iss r) \<and> cmd_sub cmd = JStr (ar_sub r) \<and> cmd_aud cmd = JStr (ar_aud r)
   \<and> cmd_intent_id cmd = JStr (ar_intent_id r) \<and> cmd_resource_id cmd = JStr (ar_resource_id r)
   \<and> cmd_policy_id cmd = JStr (ar_policy_id r) \<and> cmd_grant_type cmd = JStr (ar_grant_type r)
   \<and> cmd_max_redemptions cmd = JInt (ar_max r) \<and> cmd_exp cmd = JInt (ar_exp r)
   \<and> cmd_expected_max_redemptions cmd \<in> {JUndef, JInt (ar_max r)}"

definition admissible :: "consume_command \<Rightarrow> auth_receipt \<Rightarrow> bool" where
  "admissible cmd r \<longleftrightarrow>
     authority_matches cmd r \<and> \<not> ar_revoked r \<and> ar_count r < ar_max r
   \<and> (\<exists>t. cmd_current_time cmd = JInt t \<and> 0 \<le> t \<and> t < ar_exp r)"

text \<open>A command with a time that a redemption sends: every store has to judge these correctly.\<close>

definition timely :: "consume_command \<Rightarrow> bool" where
  "timely cmd \<longleftrightarrow> (\<exists>t. cmd_current_time cmd = JInt t \<and> 0 \<le> t)"

text \<open>One consumption: an admissible command takes one redemption of its receipt and nothing else.\<close>

definition consumes :: "authority \<Rightarrow> consume_command \<Rightarrow> bool \<Rightarrow> authority \<Rightarrow> bool" where
  "consumes a cmd exhausted a' \<longleftrightarrow>
     (\<exists>jti r. cmd_jti cmd = JStr jti \<and> a jti = Some r \<and> admissible cmd r
        \<and> a' = a(jti \<mapsto> r\<lparr>ar_count := ar_count r + 1\<rparr>)
        \<and> exhausted = (ar_count r + 1 = ar_max r))"

text \<open>
  What the host may do to existing receipts between attempts: revoke them, for good. (That it undoes uses by
  rolling back its own transactions is modelled on top of this contract, in \<open>Host_Transactions\<close>.)
\<close>

definition host_keeps :: "authority \<Rightarrow> authority \<Rightarrow> bool" where
  "host_keeps a a' \<longleftrightarrow>
     (\<forall>jti r. a jti = Some r \<longrightarrow> (\<exists>b. (ar_revoked r \<longrightarrow> b) \<and> a' jti = Some (r\<lparr>ar_revoked := b\<rparr>)))"

section \<open>Executions\<close>

text \<open>
  A trace of a store: consumption attempts, each with its own circumstances \<open>w\<close> (clock readings,
  faults), in any order, and between them the host's changes.
\<close>

type_synonym ('w, 's) consume_fun = "'w \<Rightarrow> consume_command \<Rightarrow> 's \<Rightarrow> (js_exn + jsval) \<times> 's"

type_synonym attempt = "consume_command \<times> (js_exn + jsval)"

inductive store_trace ::
  "('w, 's) consume_fun \<Rightarrow> ('s \<Rightarrow> 's \<Rightarrow> bool) \<Rightarrow> 's \<Rightarrow> attempt list \<Rightarrow> 's \<Rightarrow> bool"
  for consume host s0 where
  start: "store_trace consume host s0 [] s0"
| attempt: "store_trace consume host s0 es s \<Longrightarrow> consume w cmd s = (res, s') \<Longrightarrow>
    store_trace consume host s0 (es @ [(cmd, res)]) s'"
| host: "store_trace consume host s0 es s \<Longrightarrow> host s s' \<Longrightarrow> store_trace consume host s0 es s'"

fun is_consumption :: "string \<Rightarrow> attempt \<Rightarrow> bool" where
  "is_consumption jti (cmd, res) \<longleftrightarrow>
     cmd_jti cmd = JStr jti \<and> (\<exists>b. res = Inr (result_obj (Consumed b)))"

fun is_uncertain :: "attempt \<Rightarrow> bool" where
  "is_uncertain (cmd, res) \<longleftrightarrow> (\<nexists>r. r \<noteq> SystemFailure \<and> res = Inr (result_obj r))"

definition consumptions :: "string \<Rightarrow> attempt list \<Rightarrow> nat" where
  "consumptions jti es = length (filter (is_consumption jti) es)"

lemma consumptions_simps [simp]:
  "consumptions jti [] = 0"
  "consumptions jti (es @ [e]) = consumptions jti es + (if is_consumption jti e then 1 else 0)"
  by (simp_all add: consumptions_def)

section \<open>The contract\<close>

locale access_receipt_store =
  fixes consume :: "'w \<Rightarrow> consume_command \<Rightarrow> 's \<Rightarrow> (js_exn + jsval) \<times> 's"
    and host :: "'s \<Rightarrow> 's \<Rightarrow> bool"
    and receipts :: "'s \<Rightarrow> authority"
    and invar :: "'s \<Rightarrow> bool"
  assumes inv_consume: "invar s \<Longrightarrow> consume w cmd s = (res, s') \<Longrightarrow> invar s'"
    and inv_host: "invar s \<Longrightarrow> host s s' \<Longrightarrow> invar s'"
    and inv_count: "invar s \<Longrightarrow> receipts s jti = Some r \<Longrightarrow> 0 \<le> ar_count r \<and> ar_count r \<le> ar_max r"
    and host_step: "invar s \<Longrightarrow> host s s' \<Longrightarrow> host_keeps (receipts s) (receipts s')"
    and well_typed: "invar s \<Longrightarrow> consume w cmd s = (Inr v, s') \<Longrightarrow> \<exists>out. v = result_obj out"
    and consumed:
      "invar s \<Longrightarrow> timely cmd \<Longrightarrow> consume w cmd s = (Inr (result_obj (Consumed b)), s') \<Longrightarrow>
       consumes (receipts s) cmd b (receipts s')"
    and denied:
      "invar s \<Longrightarrow> consume w cmd s = (Inr (result_obj out), s') \<Longrightarrow> out \<notin> {SystemFailure, Consumed False, Consumed True}
       \<Longrightarrow> receipts s' = receipts s"
    and uncertain:
      "invar s \<Longrightarrow> consume w cmd s = (res, s') \<Longrightarrow> (\<nexists>out. out \<noteq> SystemFailure \<and> res = Inr (result_obj out)) \<Longrightarrow>
       receipts s' = receipts s \<or> (\<exists>b. consumes (receipts s) cmd b (receipts s'))"
begin

text \<open>How one attempt changes a receipt: not at all, or by one redemption of an admissible command.\<close>

lemma attempt_receipt:
  assumes "invar s" and "consume w cmd s = (res, s')" and "receipts s jti = Some r" and "timely cmd"
  obtains (unchanged) "receipts s' jti = Some r" "\<not> is_consumption jti (cmd, res)"
  | (taken) "receipts s' jti = Some (r\<lparr>ar_count := ar_count r + 1\<rparr>)" "admissible cmd r"
      "cmd_jti cmd = JStr jti" "is_consumption jti (cmd, res) \<or> is_uncertain (cmd, res)"
proof (cases "\<exists>rr. rr \<noteq> SystemFailure \<and> res = Inr (result_obj rr)")
  case False
  with uncertain [OF assms(1,2)] consider "receipts s' = receipts s"
    | b where "consumes (receipts s) cmd b (receipts s')" by blast
  then show ?thesis
  proof cases
    case 1
    with False assms(3) show ?thesis by (intro unchanged) auto
  next
    case 2
    with False assms(3) show ?thesis
      by (cases "cmd_jti cmd = JStr jti") (auto simp: consumes_def intro: unchanged taken)
  qed
next
  case True
  then obtain rr where rr: "rr \<noteq> SystemFailure" "res = Inr (result_obj rr)" by blast
  show ?thesis
  proof (cases "\<exists>b. rr = Consumed b")
    case True
    with rr assms(2) consumed [OF assms(1,4)] obtain b where
      "consumes (receipts s) cmd b (receipts s')" by blast
    with True rr assms(3) show ?thesis
      by (cases "cmd_jti cmd = JStr jti") (auto simp: consumes_def intro: unchanged taken)
  next
    case False
    with rr assms(2) denied [OF assms(1)] have "receipts s' = receipts s"
      by (metis (full_types) empty_iff insert_iff)
    with rr False assms(3) show ?thesis by (intro unchanged) auto
  qed
qed

lemma trace_inv: "store_trace consume host s es s' \<Longrightarrow> invar s \<Longrightarrow> invar s'"
  by (induction rule: store_trace.induct) (auto intro: inv_consume inv_host)

text \<open>
  Along a trace a receipt keeps its authority and its limit, stays revoked once it is, and counts at
  least every reported consumption.
\<close>

lemma trace_receipt:
  assumes "store_trace consume host s es s'" and "invar s" and "receipts s jti = Some r"
    and "\<forall>e \<in> set es. timely (fst e)"
  shows "\<exists>r'. receipts s' jti = Some r'
    \<and> r' = r\<lparr>ar_count := ar_count r', ar_revoked := ar_revoked r'\<rparr>
    \<and> ar_count r + int (consumptions jti es) \<le> ar_count r'
    \<and> (ar_revoked r \<longrightarrow> ar_revoked r' \<and> consumptions jti es = 0)"
  using assms(1,4)
proof (induction rule: store_trace.induct)
  case start
  show ?case using assms(3) by simp
next
  case (attempt es s1 w cmd res s2)
  then obtain r1 where r1: "receipts s1 jti = Some r1"
    "r1 = r\<lparr>ar_count := ar_count r1, ar_revoked := ar_revoked r1\<rparr>"
    "ar_count r + int (consumptions jti es) \<le> ar_count r1"
    "ar_revoked r \<longrightarrow> ar_revoked r1 \<and> consumptions jti es = 0" by auto
  from attempt.hyps(1) assms(2) have inv1: "invar s1" by (rule trace_inv)
  have t: "timely cmd" using attempt.prems by simp
  from inv1 attempt.hyps(2) r1(1) t show ?case
  proof (cases rule: attempt_receipt)
    case unchanged
    with r1 show ?thesis by auto
  next
    case taken
    then have "\<not> ar_revoked r1" by (simp add: admissible_def)
    with taken r1 show ?thesis by (cases r; cases r1) auto
  qed
next
  case (host es s1 s2)
  then obtain r1 where r1: "receipts s1 jti = Some r1"
    "r1 = r\<lparr>ar_count := ar_count r1, ar_revoked := ar_revoked r1\<rparr>"
    "ar_count r + int (consumptions jti es) \<le> ar_count r1"
    "ar_revoked r \<longrightarrow> ar_revoked r1 \<and> consumptions jti es = 0" by blast
  from host.hyps(1) assms(2) have "invar s1" by (rule trace_inv)
  from host_step [OF this host.hyps(2)] r1(1) obtain b where
    "ar_revoked r1 \<longrightarrow> b" "receipts s2 jti = Some (r1\<lparr>ar_revoked := b\<rparr>)"
    unfolding host_keeps_def by blast
  with r1 show ?case by (cases r; cases r1) auto
qed

theorem trace_capacity:
  assumes "store_trace consume host s es s'" and "invar s" and "receipts s jti = Some r"
    and "\<forall>e \<in> set es. timely (fst e)"
  shows "int (consumptions jti es) \<le> ar_max r - ar_count r"
proof -
  from trace_receipt [OF assms] obtain r' where r': "receipts s' jti = Some r'"
    "r' = r\<lparr>ar_count := ar_count r', ar_revoked := ar_revoked r'\<rparr>"
    "ar_count r + int (consumptions jti es) \<le> ar_count r'" by blast
  from r'(2) have "ar_max r' = ar_max r" by (metis auth_receipt.simps(8) auth_receipt.select_convs(8) auth_receipt.surjective auth_receipt.update_convs(10) auth_receipt.update_convs(11))
  with inv_count [OF trace_inv [OF assms(1,2)] r'(1)] r'(3) show ?thesis by simp
qed

theorem trace_revoked:
  assumes "store_trace consume host s es s'" and "invar s" and "receipts s jti = Some r"
    and "\<forall>e \<in> set es. timely (fst e)" and "ar_revoked r"
  shows "consumptions jti es = 0"
  using trace_receipt [OF assms(1-4)] assms(5) by blast

text \<open>Without uncertain outcomes the count is exact.\<close>

theorem trace_exact:
  assumes "store_trace consume host s es s'" and "invar s" and "receipts s jti = Some r"
    and "\<forall>e \<in> set es. timely (fst e) \<and> \<not> is_uncertain e"
  shows "\<exists>r'. receipts s' jti = Some r' \<and> ar_count r' = ar_count r + int (consumptions jti es)"
  using assms(1,4)
proof (induction rule: store_trace.induct)
  case start
  show ?case using assms(3) by simp
next
  case (attempt es s1 w cmd res s2)
  then obtain r1 where r1: "receipts s1 jti = Some r1"
    "ar_count r1 = ar_count r + int (consumptions jti es)" by auto
  from attempt.hyps(1) assms(2) have inv1: "invar s1" by (rule trace_inv)
  have t: "timely cmd" using attempt.prems by simp
  from inv1 attempt.hyps(2) r1(1) t show ?case
    using r1 attempt.prems by (cases rule: attempt_receipt) auto
next
  case (host es s1 s2)
  then obtain r1 where r1: "receipts s1 jti = Some r1"
    "ar_count r1 = ar_count r + int (consumptions jti es)" by auto
  from host.hyps(1) assms(2) have "invar s1" by (rule trace_inv)
  from host_step [OF this host.hyps(2)] r1 show ?case by (fastforce simp: host_keeps_def)
qed

end

end
