(* ===== verification/Redeem_Access_Receipt.thy ===== *)
theory Redeem_Access_Receipt
  imports Receipt_Bindings Access_Receipt_Store
begin

text \<open>
  The redemption of the access package (\<^verbatim>\<open>packages/access/src/redeem-access-receipt.ts\<close>): verify
  the token, check the host's bindings, consume once through the host's store, and turn whatever
  happens into one of six results. The verifier and the store are values of the call; the store is
  state-passing, and its state is the one at the time of its call (nothing before it touches it).
\<close>

section \<open>Inputs and results\<close>

type_synonym receipt_verifier = "jsval \<Rightarrow> js_exn + jsval"

type_synonym 's receipt_store = "consume_command \<Rightarrow> 's \<Rightarrow> (js_exn + jsval) \<times> 's"

text \<open>
  The untyped input: not an object, or an object. A verifier that is not a function is \<open>None\<close>, and so
  is a store that is not an object with a function \<open>consume\<close>.
\<close>

datatype 's redeem_input =
    NotARecord
  | RedeemInput (in_token: jsval) (in_expected: jsval) (in_verifier: "receipt_verifier option")
      (in_store: "'s receipt_store option") (in_current_time: jsval)

text \<open>
  The reason of a consumption denial is one of the six outcomes that neither consume nor report a
  failure.
\<close>

datatype redemption_result =
    Success bool
  | VerificationDenied
  | RedemptionBindingDenied
  | ConsumptionDenied consume_result
  | RedemptionSystemFailure

section \<open>The steps\<close>

definition isValidCurrentTime :: "jsval \<Rightarrow> bool" where
  "isValidCurrentTime v \<longleftrightarrow>
     (case v of JNum n \<Rightarrow> is_finite n \<and> is_safe_integer n \<and> num_le (Fin 0) n | _ \<Rightarrow> False)"

definition isAccessReceiptConsumeResult :: "jsval \<Rightarrow> bool" where
  "isAccessReceiptConsumeResult v \<longleftrightarrow>
     is_record v \<and>
     (case js_get v ''outcome'' of
        JStr outcome \<Rightarrow>
          if outcome = ''consumed''
          then (case js_get v ''exhausted'' of JBool _ \<Rightarrow> True | _ \<Rightarrow> False)
          else outcome \<in> {''receipt_missing'', ''receipt_revoked'', ''receipt_exhausted'',
                 ''receipt_expired'', ''authority_mismatch'', ''concurrency_conflict'',
                 ''system_failure''}
      | _ \<Rightarrow> False)"

definition buildConsumeCommand :: "jsval \<Rightarrow> jsval \<Rightarrow> jsval \<Rightarrow> consume_command" where
  "buildConsumeCommand claims expected currentTime =
     (let baseCommand =
        \<lparr>cmd_jti = js_get claims ''jti'',
         cmd_iss = js_get claims ''iss'',
         cmd_sub = js_get claims ''sub'',
         cmd_aud = js_get claims ''aud'',
         cmd_intent_id = js_get claims ''intent_id'',
         cmd_resource_id = js_get claims ''resource_id'',
         cmd_policy_id = js_get claims ''policy_id'',
         cmd_grant_type = js_get claims ''grant_type'',
         cmd_max_redemptions = js_get claims ''max_redemptions'',
         cmd_exp = js_get claims ''exp'',
         cmd_current_time = currentTime,
         cmd_expected_max_redemptions = JUndef\<rparr>
      in if js_has_own expected ''max_redemptions''
         then (if js_get expected ''max_redemptions'' \<noteq> JUndef
               then baseCommand\<lparr>cmd_expected_max_redemptions := js_get expected ''max_redemptions''\<rparr>
               else baseCommand)
         else baseCommand)"

text \<open>The denial that a result's \<open>outcome\<close> names.\<close>

definition denial_of :: "string \<Rightarrow> consume_result" where
  "denial_of outcome =
     (if outcome = ''receipt_missing'' then ReceiptMissing
      else if outcome = ''receipt_revoked'' then ReceiptRevoked
      else if outcome = ''receipt_exhausted'' then ReceiptExhausted
      else if outcome = ''receipt_expired'' then ReceiptExpired
      else if outcome = ''authority_mismatch'' then AuthorityMismatch
      else ConcurrencyConflict)"

definition mapConsumeResult :: "jsval \<Rightarrow> redemption_result" where
  "mapConsumeResult result =
     (case js_get result ''outcome'' of
        JStr outcome \<Rightarrow>
          if outcome = ''consumed''
          then Success (js_get result ''exhausted'' = JBool True)
          else if outcome = ''system_failure'' then RedemptionSystemFailure
          else ConsumptionDenied (denial_of outcome)
      | _ \<Rightarrow> RedemptionSystemFailure)"

definition redeemAccessReceipt ::
  "safe_parse \<Rightarrow> 's redeem_input \<Rightarrow> 's \<Rightarrow> redemption_result \<times> 's" where
  "redeemAccessReceipt sp input s =
     (case input of
        NotARecord \<Rightarrow> (RedemptionSystemFailure, s)
      | RedeemInput token expected verifier store currentTime \<Rightarrow>
          (case (verifier, store) of
             (Some verify, Some consume) \<Rightarrow>
               if \<not> isValidCurrentTime currentTime then (RedemptionSystemFailure, s)
               else (case verify token of
                 Inl AccessReceiptVerificationError \<Rightarrow> (VerificationDenied, s)
               | Inl _ \<Rightarrow> (RedemptionSystemFailure, s)
               | Inr claims \<Rightarrow>
                   (case evaluateAccessReceiptBindings sp claims expected of
                      Inl _ \<Rightarrow> (RedemptionSystemFailure, s)
                    | Inr BindingDenied \<Rightarrow> (RedemptionBindingDenied, s)
                    | Inr Matched \<Rightarrow>
                        (case consume (buildConsumeCommand claims expected currentTime) s of
                           (Inl _, s') \<Rightarrow> (RedemptionSystemFailure, s')
                         | (Inr consumeResult, s') \<Rightarrow>
                             if \<not> isAccessReceiptConsumeResult consumeResult
                             then (RedemptionSystemFailure, s')
                             else (mapConsumeResult consumeResult, s'))))
           | _ \<Rightarrow> (RedemptionSystemFailure, s)))"

section \<open>The command of a call\<close>

text \<open>
  \<open>reaches_store sp input c cmd consume\<close>: the call verifies a token that carries the valid claims \<open>c\<close>,
  the host's bindings agree with them, and \<open>cmd\<close> is handed to the store function \<open>consume\<close>.
\<close>

definition command_of :: "receipt_claims \<Rightarrow> jsval \<Rightarrow> jsval \<Rightarrow> consume_command" where
  "command_of c expected currentTime =
     \<lparr>cmd_jti = JStr (rc_jti c), cmd_iss = JStr (rc_iss c), cmd_sub = JStr (rc_sub c),
      cmd_aud = JStr (rc_aud c), cmd_intent_id = JStr (rc_intent_id c),
      cmd_resource_id = JStr (rc_resource_id c), cmd_policy_id = JStr (rc_policy_id c),
      cmd_grant_type = JStr (grant_type_string (rc_grant_type c)),
      cmd_max_redemptions = JInt (rc_max_redemptions c), cmd_exp = JInt (rc_exp c),
      cmd_current_time = currentTime,
      cmd_expected_max_redemptions =
        (if js_has_own expected ''max_redemptions'' then js_get expected ''max_redemptions''
         else JUndef)\<rparr>"

definition reaches_store ::
  "'s redeem_input \<Rightarrow> receipt_claims \<Rightarrow> consume_command \<Rightarrow> 's receipt_store \<Rightarrow> bool" where
  "reaches_store input c cmd consume \<longleftrightarrow>
     (\<exists>token expected verify currentTime claims t.
        input = RedeemInput token expected (Some verify) (Some consume) currentTime
      \<and> currentTime = JInt t \<and> 0 \<le> t \<and> safe_int t
      \<and> verify token = Inr claims \<and> claims_valid c \<and> carries claims c
      \<and> isValidExpectedBindings expected \<and> bindings_agree expected c
      \<and> cmd = command_of c expected currentTime)"

lemma isValidCurrentTime_iff:
  "isValidCurrentTime v \<longleftrightarrow> (\<exists>t. v = JInt t \<and> 0 \<le> t \<and> safe_int t)"
proof (cases v)
  case (JNum n)
  have "num_le (Fin 0) (int_num t) \<longleftrightarrow> 0 \<le> t" for t
    using num_le_int [of 0 t] by (simp del: num_le_int)
  with JNum show ?thesis
    by (auto simp: isValidCurrentTime_def is_safe_integer_iff is_finite_def)
qed (simp_all add: isValidCurrentTime_def)

lemma buildConsumeCommand_carries:
  "carries claims c \<Longrightarrow> buildConsumeCommand claims expected t = command_of c expected t"
  by (auto simp: buildConsumeCommand_def command_of_def carries_iff Let_def)

lemma isAccessReceiptConsumeResult_result_obj [simp]: "isAccessReceiptConsumeResult (result_obj r)"
  by (cases r) (simp_all add: isAccessReceiptConsumeResult_def)

lemma mapConsumeResult_result_obj [simp]:
  "mapConsumeResult (result_obj (Consumed b)) = Success b"
  "mapConsumeResult (result_obj SystemFailure) = RedemptionSystemFailure"
  "r \<notin> {SystemFailure, Consumed False, Consumed True} \<Longrightarrow>
   mapConsumeResult (result_obj r) = ConsumptionDenied r"
proof -
  show "mapConsumeResult (result_obj (Consumed b)) = Success b"
    and "mapConsumeResult (result_obj SystemFailure) = RedemptionSystemFailure"
    by (simp_all add: mapConsumeResult_def)
next
  assume "r \<notin> {SystemFailure, Consumed False, Consumed True}"
  then have "r \<noteq> SystemFailure" "\<nexists>b. r = Consumed b" by (auto simp: all_bool_eq)
  then show "mapConsumeResult (result_obj r) = ConsumptionDenied r"
    by (cases r) (simp_all add: mapConsumeResult_def denial_of_def)
qed

lemma reaches_store_timely: "reaches_store input c cmd consume \<Longrightarrow> timely cmd"
  by (auto simp: reaches_store_def timely_def command_of_def)

text \<open>A call that reaches the store has the store's result; every other call leaves the state alone.\<close>

definition store_result :: "js_exn + jsval \<Rightarrow> redemption_result" where
  "store_result res =
     (case res of Inl _ \<Rightarrow> RedemptionSystemFailure
      | Inr v \<Rightarrow> if isAccessReceiptConsumeResult v then mapConsumeResult v else RedemptionSystemFailure)"

lemma redeem_reaches:
  assumes "zod_parser Zod4 sp" and "reaches_store input c cmd consume"
  shows "redeemAccessReceipt sp input s = map_prod store_result id (consume cmd s)"
proof -
  from assms(2) obtain token expected verify currentTime claims where
    input: "input = RedeemInput token expected (Some verify) (Some consume) currentTime"
    and t: "isValidCurrentTime currentTime" and v: "verify token = Inr claims"
    and c: "claims_valid c" "carries claims c"
    and e: "isValidExpectedBindings expected" "bindings_agree expected c"
    and cmd: "cmd = command_of c expected currentTime"
    unfolding reaches_store_def isValidCurrentTime_iff by blast
  from c e have "evaluateAccessReceiptBindings sp claims expected = Inr Matched"
    by (auto simp: evaluate_Matched_iff [OF assms(1)])
  with input t v c cmd show ?thesis
    by (simp add: redeemAccessReceipt_def buildConsumeCommand_carries store_result_def
        split: prod.split sum.split)
qed

lemma redeem_not_reaches:
  assumes "zod_parser Zod4 sp" and n: "\<nexists>c cmd consume. reaches_store input c cmd consume"
  shows "redeemAccessReceipt sp input s
    \<in> {VerificationDenied, RedemptionBindingDenied, RedemptionSystemFailure} \<times> {s}"
proof (cases input)
  case NotARecord
  then show ?thesis by (simp add: redeemAccessReceipt_def)
next
  case (RedeemInput token expected verifier store currentTime)
  show ?thesis
  proof (cases "(\<exists>verify consume. verifier = Some verify \<and> store = Some consume)
      \<and> isValidCurrentTime currentTime")
    case False
    with RedeemInput show ?thesis by (auto simp: redeemAccessReceipt_def split: option.split)
  next
    case True
    then obtain verify consume where vs: "verifier = Some verify" "store = Some consume"
      and t: "isValidCurrentTime currentTime" by blast
    show ?thesis
    proof (cases "verify token")
      case (Inl e)
      with RedeemInput vs t show ?thesis
        by (cases e) (simp_all add: redeemAccessReceipt_def)
    next
      case (Inr claims)
      have "evaluateAccessReceiptBindings sp claims expected \<noteq> Inr Matched"
      proof
        assume "evaluateAccessReceiptBindings sp claims expected = Inr Matched"
        then obtain c where "isValidExpectedBindings expected" "claims_valid c" "carries claims c"
          "bindings_agree expected c" by (auto simp: evaluate_Matched_iff [OF assms(1)])
        with n RedeemInput vs t Inr show False
          unfolding reaches_store_def isValidCurrentTime_iff by blast
      qed
      then have "evaluateAccessReceiptBindings sp claims expected = Inr BindingDenied"
        using evaluate_returns [OF assms(1), of claims expected] by blast
      with RedeemInput vs t Inr show ?thesis by (simp add: redeemAccessReceipt_def)
    qed
  qed
qed

lemma reaches_store_unique:
  assumes "reaches_store input c cmd consume" and "reaches_store input c' cmd' consume'"
  shows "c' = c \<and> cmd' = cmd \<and> consume' = consume"
proof -
  from assms obtain expected currentTime claims where
    "carries claims c" "carries claims c'" "cmd = command_of c expected currentTime"
    "cmd' = command_of c' expected currentTime" "consume' = consume"
    unfolding reaches_store_def by auto
  then show ?thesis using carries_unique by blast
qed

lemma mapConsumeResult_Success_iff:
  "isAccessReceiptConsumeResult v \<Longrightarrow> mapConsumeResult v = Success b
    \<longleftrightarrow> js_get v ''outcome'' = JStr ''consumed'' \<and> js_get v ''exhausted'' = JBool b"
  by (auto simp: isAccessReceiptConsumeResult_def mapConsumeResult_def split: jsval.splits if_splits)

section \<open>Redemption sequences\<close>

text \<open>
  Redemption calls on one store in any order, each with its own token, expectation, verifier and
  time, and the host's changes between them.
\<close>

type_synonym 's redemption = "'s redeem_input \<times> redemption_result"

inductive redemption_trace ::
  "safe_parse \<Rightarrow> ('w, 's) consume_fun \<Rightarrow> ('s \<Rightarrow> 's \<Rightarrow> bool) \<Rightarrow> 's \<Rightarrow> 's redemption list \<Rightarrow> 's \<Rightarrow> bool"
  for sp consume host s0 where
  start: "redemption_trace sp consume host s0 [] s0"
| redeem: "redemption_trace sp consume host s0 es s \<Longrightarrow> in_store input \<in> {None, Some (consume w)} \<Longrightarrow>
    redeemAccessReceipt sp input s = (res, s') \<Longrightarrow>
    redemption_trace sp consume host s0 (es @ [(input, res)]) s'"
| host: "redemption_trace sp consume host s0 es s \<Longrightarrow> host s s' \<Longrightarrow>
    redemption_trace sp consume host s0 es s'"

text \<open>A success on the receipt \<open>jti\<close>.\<close>

fun is_success :: "string \<Rightarrow> 's redemption \<Rightarrow> bool" where
  "is_success jti (input, res) \<longleftrightarrow>
     (\<exists>b. res = Success b) \<and> (\<exists>c cmd consume. reaches_store input c cmd consume \<and> rc_jti c = jti)"

definition successes :: "string \<Rightarrow> 's redemption list \<Rightarrow> nat" where
  "successes jti es = length (filter (is_success jti) es)"

lemma successes_simps [simp]:
  "successes jti [] = 0"
  "successes jti (es @ [e]) = successes jti es + (if is_success jti e then 1 else 0)"
  by (simp_all add: successes_def)

context access_receipt_store
begin

lemma store_result_Success:
  assumes "invar s" and "consume w cmd s = (res, s')"
  shows "store_result res = Success b \<longleftrightarrow> res = Inr (result_obj (Consumed b))"
proof (cases res)
  case (Inr v)
  with well_typed [OF assms(1)] assms(2) obtain out where "v = result_obj out" by blast
  with Inr show ?thesis
    by (cases out) (simp_all add: store_result_def)
qed (simp add: store_result_def)

text \<open>A redemption sequence is a trace of its store, with as many consumptions as successes.\<close>

lemma redemption_store_trace:
  assumes "zod_parser Zod4 sp" and "redemption_trace sp consume host s es s'" and "invar s"
  shows "\<exists>atts. store_trace consume host s atts s' \<and> successes jti es = consumptions jti atts
    \<and> (\<forall>e \<in> set atts. timely (fst e))"
  using assms(2)
proof (induction rule: redemption_trace.induct)
  case start
  show ?case by (intro exI [of _ "[]"]) (simp add: store_trace.start)
next
  case (redeem es s1 input w res s2)
  then obtain atts where atts: "store_trace consume host s atts s1"
    "successes jti es = consumptions jti atts" and times: "\<forall>e \<in> set atts. timely (fst e)" by blast
  from atts assms(3) have inv1: "invar s1" by (blast intro: trace_inv)
  show ?case
  proof (cases "\<exists>c cmd f. reaches_store input c cmd f")
    case False
    with redeem_not_reaches [OF assms(1), of input s1] redeem.hyps(3)
    have "s2 = s1" "\<not> is_success jti (input, res)" by auto
    with atts times show ?thesis by (intro exI [of _ atts]) (simp del: is_success.simps)
  next
    case True
    then obtain c cmd f where r: "reaches_store input c cmd f" by blast
    with redeem.hyps(2) have f: "f = consume w" by (auto simp: reaches_store_def)
    obtain out where out: "consume w cmd s1 = (out, s2)" and res: "res = store_result out"
      using redeem_reaches [OF assms(1) r, of s1] redeem.hyps(3) f
      by (cases "consume w cmd s1") auto
    from r have jti: "cmd_jti cmd = JStr (rc_jti c)"
      by (auto simp: reaches_store_def command_of_def)
    have "is_success jti (input, res) \<longleftrightarrow> (\<exists>b. res = Success b) \<and> rc_jti c = jti"
    proof -
      have "reaches_store input c' cmd' f' \<longleftrightarrow> c' = c \<and> cmd' = cmd \<and> f' = f" for c' cmd' f'
        using r reaches_store_unique [OF r] by blast
      then show ?thesis by simp
    qed
    also have "\<dots> \<longleftrightarrow> is_consumption jti (cmd, out)"
      using store_result_Success [OF inv1 out] res jti by auto
    finally have "successes jti (es @ [(input, res)]) = consumptions jti (atts @ [(cmd, out)])"
      using atts(2) by (simp del: is_success.simps is_consumption.simps)
    moreover have "store_trace consume host s (atts @ [(cmd, out)]) s2"
      using atts(1) out by (rule store_trace.attempt)
    moreover have "\<forall>e \<in> set (atts @ [(cmd, out)]). timely (fst e)"
      using times reaches_store_timely [OF r] by simp
    ultimately show ?thesis by blast
  qed
next
  case (host es s1 s2)
  then show ?case by (blast intro: store_trace.host)
qed

text \<open>What a redemption sequence makes of a receipt.\<close>

lemma redemptions_of_receipt:
  assumes "zod_parser Zod4 sp" and "redemption_trace sp consume host s es s'" and "invar s"
    and "receipts s jti = Some r"
  shows "\<exists>r'. receipts s' jti = Some r' \<and> r' = r\<lparr>ar_count := ar_count r', ar_revoked := ar_revoked r'\<rparr>
    \<and> ar_count r + int (successes jti es) \<le> ar_count r'
    \<and> (ar_revoked r \<longrightarrow> ar_revoked r' \<and> successes jti es = 0)"
  using redemption_store_trace [OF assms(1-3), of jti] trace_receipt assms(3,4) by metis

lemma redemptions_invar:
  assumes "zod_parser Zod4 sp" and "redemption_trace sp consume host s es s'" and "invar s"
  shows "invar s'"
  using redemption_store_trace [OF assms] trace_inv assms(3) by blast

lemma success_was_admissible:
  assumes "zod_parser Zod4 sp" and "invar s" and "in_store input = Some (consume w)"
    and "redeemAccessReceipt sp input s = (Success b, s')"
  shows "\<exists>c cmd. reaches_store input c cmd (consume w) \<and> consumes (receipts s) cmd b (receipts s')"
proof (cases "\<exists>c cmd f. reaches_store input c cmd f")
  case False
  with redeem_not_reaches [OF assms(1), of input s] assms(4) show ?thesis by auto
next
  case True
  then obtain c cmd f where r: "reaches_store input c cmd f" by blast
  with assms(3) have f: "f = consume w" by (auto simp: reaches_store_def)
  obtain out where out: "consume w cmd s = (out, s')" "Success b = store_result out"
    using redeem_reaches [OF assms(1) r, of s] assms(4) f by (cases "consume w cmd s") auto
  then have "out = Inr (result_obj (Consumed b))"
    using store_result_Success [OF assms(2) out(1), of b] out(2) by simp
  with out(1) consumed [OF assms(2) reaches_store_timely [OF r]] have "consumes (receipts s) cmd b (receipts s')" by blast
  with r f show ?thesis by blast
qed

end

section \<open>Properties\<close>

text \<open>
  C12: a redemption succeeds exactly when the verifier returned a value that carries valid claims, the
  host's expectation is well formed and agrees with them, the time is a non-negative safe integer, and
  the store, called with the command of exactly those claims, reports a consumption; the result
  carries the store's exhaustion flag.
\<close>

theorem redeem_success_iff:
  assumes "zod_parser Zod4 sp"
  shows "redeemAccessReceipt sp input s = (Success b, s') \<longleftrightarrow>
    (\<exists>c cmd consume v. reaches_store input c cmd consume \<and> consume cmd s = (Inr v, s')
       \<and> is_record v \<and> js_get v ''outcome'' = JStr ''consumed'' \<and> js_get v ''exhausted'' = JBool b)"
proof (cases "\<exists>c cmd consume. reaches_store input c cmd consume")
  case False
  with redeem_not_reaches [OF assms, of input s] show ?thesis by auto
next
  case True
  then obtain c cmd consume where r: "reaches_store input c cmd consume" by blast
  have "redeemAccessReceipt sp input s = (Success b, s') \<longleftrightarrow>
      (\<exists>v. consume cmd s = (Inr v, s') \<and> isAccessReceiptConsumeResult v
         \<and> mapConsumeResult v = Success b)"
    unfolding redeem_reaches [OF assms r]
    by (cases "consume cmd s") (auto simp: store_result_def split: sum.splits if_splits)
  also have "\<dots> \<longleftrightarrow> (\<exists>v. consume cmd s = (Inr v, s') \<and> is_record v
      \<and> js_get v ''outcome'' = JStr ''consumed'' \<and> js_get v ''exhausted'' = JBool b)"
    using mapConsumeResult_Success_iff
    by (auto simp: isAccessReceiptConsumeResult_def)
  finally show ?thesis using r reaches_store_unique [OF r] by blast
qed

definition sample_redemption :: "unit redeem_input" where
  "sample_redemption = RedeemInput (JStr ''token'') sample_expected
     (Some (\<lambda>token. Inr (claims_obj sample_claims)))
     (Some (\<lambda>cmd s. (Inr (result_obj (Consumed False)), s))) (JInt 150)"

lemma sample_redemption_reaches:
  "reaches_store sample_redemption sample_claims (command_of sample_claims sample_expected (JInt 150))
     (\<lambda>cmd s. (Inr (result_obj (Consumed False)), s))"
  by (auto simp: reaches_store_def sample_redemption_def safe_int_def max_safe_integer_def
      intro!: exI [of _ "JInt 150"] exI [of _ "150 :: int"])

theorem redeem_success_iff_witness:
  "redeemAccessReceipt (zod_reference Zod4) sample_redemption () = (Success False, ())"
proof -
  have "is_record (result_obj (Consumed False))
    \<and> js_get (result_obj (Consumed False)) ''outcome'' = JStr ''consumed''
    \<and> js_get (result_obj (Consumed False)) ''exhausted'' = JBool False" by simp
  with sample_redemption_reaches show ?thesis
    using redeem_success_iff [OF reference.zod_parser_axioms, of sample_redemption "()" False "()"]
    by blast
qed

text \<open>
  C13: a redemption calls the store at most once, and only after verification and binding succeeded:
  either the call reaches the store and its outcome is the one store call's, or the result is a
  denial of verification or binding, or a system failure, and the store's state is untouched. It never
  throws.
\<close>

theorem redeem_at_most_one_store_call:
  assumes "zod_parser Zod4 sp"
  shows "(\<exists>c cmd consume. reaches_store input c cmd consume
        \<and> redeemAccessReceipt sp input s = map_prod store_result id (consume cmd s))
    \<or> (\<nexists>c cmd consume. reaches_store input c cmd consume)
      \<and> redeemAccessReceipt sp input s
          \<in> {VerificationDenied, RedemptionBindingDenied, RedemptionSystemFailure} \<times> {s}"
proof (cases "\<exists>c cmd consume. reaches_store input c cmd consume")
  case True
  then show ?thesis using redeem_reaches [OF assms] by metis
next
  case False
  with redeem_not_reaches [OF assms False, of s] show ?thesis by simp
qed

definition sample_foreign_redemption :: "nat redeem_input" where
  "sample_foreign_redemption = RedeemInput (JStr ''token'') sample_expected
     (Some (\<lambda>token. Inr (claims_obj (sample_claims\<lparr>rc_sub := ''other''\<rparr>))))
     (Some (\<lambda>cmd s. (Inr (result_obj (Consumed False)), s + 1))) (JInt 150)"

theorem redeem_at_most_one_store_call_witness:
  "snd (redeemAccessReceipt (zod_reference Zod4) sample_foreign_redemption 7) = 7"
proof -
  have "\<not> reaches_store sample_foreign_redemption c cmd consume" for c cmd consume
  proof
    assume "reaches_store sample_foreign_redemption c cmd consume"
    then have "carries (claims_obj (sample_claims\<lparr>rc_sub := ''other''\<rparr>)) c"
      and "bindings_agree sample_expected c"
      by (auto simp: reaches_store_def sample_foreign_redemption_def)
    then have "''other'' = rc_sub c" and "''user'' = rc_sub c"
      by (simp_all add: carries_iff bindings_agree_def sample_expected_def)
    then have "''other'' = ''user''" by simp
    then show False by simp
  qed
  then show ?thesis
    using redeem_at_most_one_store_call [OF reference.zod_parser_axioms,
        of sample_foreign_redemption 7] by auto
qed

end
