(* ===== verification/Postgres_Store.thy ===== *)
theory Postgres_Store
  imports Redeem_Access_Receipt
begin

text \<open>
  The PostgreSQL store of the access package (\<^verbatim>\<open>packages/postgres-store/src/index.ts\<close>,
  \<^verbatim>\<open>sql/001_access_receipts.sql\<close>): the receipt table with its constraints, the one SQL statement
  as a function on the table, and the TypeScript around it. The statement is executed by the host's
  own query executor, which is a parameter; the locale \<open>statement_executor\<close> states what the source
  expects of it, that the statement runs at most once and atomically (its row lock and the guarded
  update belong to one statement), whatever is reported back.
\<close>

section \<open>The table\<close>

record receipt_row =
  row_jti :: string
  row_iss :: string
  row_sub :: string
  row_aud :: string
  row_intent_id :: string
  row_resource_id :: string
  row_policy_id :: string
  row_grant_type :: string
  row_max_redemptions :: int
  row_redemption_count :: int
  row_iat :: int
  row_nbf :: int
  row_exp :: int
  row_payment_ref :: "string option"
  row_revoked_at :: "int option"

text \<open>The table is a map by its primary key.\<close>

type_synonym receipt_table = "string \<Rightarrow> receipt_row option"

text \<open>The CHECK constraints of the migration.\<close>

definition row_checks :: "receipt_row \<Rightarrow> bool" where
  "row_checks r \<longleftrightarrow>
     0 < length (row_jti r) \<and> 0 < length (row_iss r) \<and> 0 < length (row_sub r)
   \<and> 0 < length (row_aud r) \<and> 0 < length (row_intent_id r) \<and> 0 < length (row_resource_id r)
   \<and> 0 < length (row_policy_id r)
   \<and> 1 \<le> row_max_redemptions r \<and> row_max_redemptions r \<le> 9007199254740991
   \<and> - 9007199254740991 \<le> row_iat r \<and> row_iat r \<le> 9007199254740991
   \<and> - 9007199254740991 \<le> row_nbf r \<and> row_nbf r \<le> 9007199254740991
   \<and> - 9007199254740991 \<le> row_exp r \<and> row_exp r \<le> 9007199254740991
   \<and> 0 \<le> row_redemption_count r \<and> row_redemption_count r \<le> row_max_redemptions r
   \<and> row_iat r \<le> row_nbf r \<and> row_nbf r < row_exp r
   \<and> (row_grant_type r = ''single_redemption'' \<and> row_max_redemptions r = 1
      \<or> row_grant_type r = ''multi_redemption'' \<and> 1 < row_max_redemptions r)"

definition table_ok :: "receipt_table \<Rightarrow> bool" where
  "table_ok t \<longleftrightarrow> (\<forall>jti r. t jti = Some r \<longrightarrow> row_jti r = jti \<and> row_checks r)"

section \<open>The statement\<close>

text \<open>A bound parameter; \<open>$n::text\<close> and \<open>$n::bigint\<close> read one, \<open>None\<close> being SQL's NULL.\<close>

datatype sql_param = SqlText string | SqlBigint int | SqlNull

fun text_of :: "sql_param \<Rightarrow> string option" where
  "text_of (SqlText s) = Some s"
| "text_of _ = None"

fun bigint_of :: "sql_param \<Rightarrow> int option" where
  "bigint_of (SqlBigint i) = Some i"
| "bigint_of _ = None"

text \<open>Comparisons of a column with a parameter: not true when the parameter is NULL.\<close>

definition sql_ne :: "'a \<Rightarrow> 'a option \<Rightarrow> bool" where
  "sql_ne x p \<longleftrightarrow> (case p of None \<Rightarrow> False | Some v \<Rightarrow> x \<noteq> v)"

definition sql_le :: "int \<Rightarrow> int option \<Rightarrow> bool" where
  "sql_le x p \<longleftrightarrow> (case p of None \<Rightarrow> False | Some v \<Rightarrow> x \<le> v)"

definition sql_gt :: "int \<Rightarrow> int option \<Rightarrow> bool" where
  "sql_gt x p \<longleftrightarrow> (case p of None \<Rightarrow> False | Some v \<Rightarrow> v < x)"

text \<open>
  The CTE \<open>decision\<close>. The statement reads \<open>clock_timestamp()\<close> once for expiry and once for
  not-before; \<open>clk\<close> holds the two readings in whole Unix seconds.
\<close>

definition decision_outcome :: "int \<times> int \<Rightarrow> sql_param list \<Rightarrow> receipt_row \<Rightarrow> string" where
  "decision_outcome clk ps r =
     (if sql_ne (row_iss r) (text_of (ps ! 1)) \<or> sql_ne (row_sub r) (text_of (ps ! 2))
       \<or> sql_ne (row_aud r) (text_of (ps ! 3)) \<or> sql_ne (row_intent_id r) (text_of (ps ! 4))
       \<or> sql_ne (row_resource_id r) (text_of (ps ! 5)) \<or> sql_ne (row_policy_id r) (text_of (ps ! 6))
       \<or> sql_ne (row_grant_type r) (text_of (ps ! 7))
       \<or> sql_ne (row_max_redemptions r) (bigint_of (ps ! 8)) \<or> sql_ne (row_exp r) (bigint_of (ps ! 9))
       \<or> (bigint_of (ps ! 11) \<noteq> None \<and> sql_ne (row_max_redemptions r) (bigint_of (ps ! 11)))
      then ''authority_mismatch''
      else if row_revoked_at r \<noteq> None then ''receipt_revoked''
      else if sql_le (row_exp r) (bigint_of (ps ! 10)) \<or> row_exp r \<le> fst clk then ''receipt_expired''
      else if sql_gt (row_nbf r) (bigint_of (ps ! 10)) \<or> snd clk < row_nbf r then ''authority_mismatch''
      else if row_max_redemptions r \<le> row_redemption_count r then ''receipt_exhausted''
      else ''admit'')"

text \<open>The CTE \<open>consumed\<close> on the locked row: the incremented row, when the update applies.\<close>

definition consumed_row :: "string \<Rightarrow> receipt_row \<Rightarrow> receipt_row option" where
  "consumed_row outcome r =
     (if outcome = ''admit'' \<and> row_redemption_count r < row_max_redemptions r
      then Some (r\<lparr>row_redemption_count := row_redemption_count r + 1\<rparr>) else None)"

definition result_row :: "string \<Rightarrow> jsval \<Rightarrow> jsval" where
  "result_row outcome exhausted = JObj [(''outcome'', JStr outcome), (''exhausted'', exhausted)] []"

text \<open>
  The statement: the answer rows and the new table. An update that breaks a CHECK constraint fails
  the statement and changes nothing.
\<close>

definition consumeSql ::
  "int \<times> int \<Rightarrow> sql_param list \<Rightarrow> receipt_table \<Rightarrow> (js_exn + jsval list) \<times> receipt_table" where
  "consumeSql clk ps t =
     (case Option.bind (text_of (ps ! 0)) t of
        None \<Rightarrow> (Inr [result_row ''receipt_missing'' JNull], t)
      | Some r \<Rightarrow>
          (let outcome = decision_outcome clk ps r in
           case consumed_row outcome r of
             None \<Rightarrow>
               (Inr [result_row (if outcome = ''admit'' then ''concurrency_conflict'' else outcome) JNull], t)
           | Some r' \<Rightarrow>
               if \<not> row_checks r' then (Inl (JSError ''violates check constraint''), t)
               else (Inr [result_row ''consumed'' (JBool (row_redemption_count r' = row_max_redemptions r'))],
                     t(row_jti r \<mapsto> r'))))"

section \<open>The store\<close>

definition positive_safe_integer :: "jsval \<Rightarrow> bool" where
  "positive_safe_integer v \<longleftrightarrow>
     (case v of JNum n \<Rightarrow> is_safe_integer n \<and> num_less (Fin 0) n | _ \<Rightarrow> False)"

definition safe_integer_value :: "jsval \<Rightarrow> bool" where
  "safe_integer_value v \<longleftrightarrow> (case v of JNum n \<Rightarrow> is_safe_integer n | _ \<Rightarrow> False)"

definition validCommand :: "consume_command \<Rightarrow> bool" where
  "validCommand cmd \<longleftrightarrow>
     list_all is_non_empty_string
       [cmd_jti cmd, cmd_iss cmd, cmd_sub cmd, cmd_aud cmd, cmd_intent_id cmd, cmd_resource_id cmd,
        cmd_policy_id cmd]
   \<and> positive_safe_integer (cmd_max_redemptions cmd)
   \<and> safe_integer_value (cmd_exp cmd)
   \<and> safe_integer_value (cmd_current_time cmd)
   \<and> js_num_le (JInt 0) (cmd_current_time cmd)
   \<and> (cmd_expected_max_redemptions cmd = JUndef
      \<or> positive_safe_integer (cmd_expected_max_redemptions cmd))
   \<and> (js_eq (cmd_grant_type cmd) (JStr ''single_redemption'') \<and> js_eq (cmd_max_redemptions cmd) (JInt 1)
      \<or> js_eq (cmd_grant_type cmd) (JStr ''multi_redemption'')
        \<and> js_num_less (JInt 1) (cmd_max_redemptions cmd))"

text \<open>How the driver binds a value of a validated command; an absent limit is bound as NULL.\<close>

fun to_param :: "jsval \<Rightarrow> sql_param" where
  "to_param (JStr s) = SqlText s"
| "to_param (JNum (Fin q)) = SqlBigint \<lfloor>q\<rfloor>"
| "to_param _ = SqlNull"

definition command_params :: "consume_command \<Rightarrow> sql_param list" where
  "command_params cmd =
     map to_param
       [cmd_jti cmd, cmd_iss cmd, cmd_sub cmd, cmd_aud cmd, cmd_intent_id cmd, cmd_resource_id cmd,
        cmd_policy_id cmd, cmd_grant_type cmd, cmd_max_redemptions cmd, cmd_exp cmd,
        cmd_current_time cmd, cmd_expected_max_redemptions cmd]"

type_synonym 's query_executor = "sql_param list \<Rightarrow> 's \<Rightarrow> (js_exn + jsval list) \<times> 's"

text \<open>What the store makes of the answer rows.\<close>

definition result_of_rows :: "jsval list \<Rightarrow> jsval" where
  "result_of_rows rows =
     (case rows of
        [row] \<Rightarrow>
          if js_typeof row \<noteq> ''object'' \<or> row = JNull then result_obj SystemFailure
          else if js_eq (js_get row ''outcome'') (JStr ''consumed'')
                \<and> js_typeof (js_get row ''exhausted'') = ''boolean''
          then result_obj (Consumed (js_get row ''exhausted'' = JBool True))
          else if js_get row ''exhausted'' \<noteq> JNull then result_obj SystemFailure
          else (case js_get row ''outcome'' of
                  JStr outcome \<Rightarrow>
                    if outcome \<in> {''receipt_missing'', ''authority_mismatch'', ''receipt_revoked'',
                        ''receipt_expired'', ''receipt_exhausted'', ''concurrency_conflict''}
                    then JObj [(''outcome'', JStr outcome)] []
                    else result_obj SystemFailure
                | _ \<Rightarrow> result_obj SystemFailure)
      | _ \<Rightarrow> result_obj SystemFailure)"

definition postgres_consume ::
  "'s query_executor \<Rightarrow> consume_command \<Rightarrow> 's \<Rightarrow> (js_exn + jsval) \<times> 's" where
  "postgres_consume query cmd s =
     (if \<not> validCommand cmd then (Inr (result_obj SystemFailure), s)
      else (case query (command_params cmd) s of
              (Inl e, s') \<Rightarrow> (Inr (result_obj SystemFailure), s')
            | (Inr rows, s') \<Rightarrow> (Inr (result_of_rows rows), s')))"

section \<open>The authority of the table\<close>

definition receipt_of :: "receipt_row \<Rightarrow> auth_receipt" where
  "receipt_of r =
     \<lparr>ar_iss = row_iss r, ar_sub = row_sub r, ar_aud = row_aud r, ar_intent_id = row_intent_id r,
      ar_resource_id = row_resource_id r, ar_policy_id = row_policy_id r,
      ar_grant_type = row_grant_type r, ar_max = row_max_redemptions r, ar_exp = row_exp r,
      ar_count = row_redemption_count r, ar_revoked = (row_revoked_at r \<noteq> None)\<rparr>"

definition table_receipts :: "receipt_table \<Rightarrow> authority" where
  "table_receipts t jti = map_option receipt_of (t jti)"

text \<open>
  The store's decision on a validated command, over typed rows: the outcome the statement must give.
\<close>

definition spec_decision :: "int \<times> int \<Rightarrow> consume_command \<Rightarrow> receipt_row option \<Rightarrow> consume_result" where
  "spec_decision clk cmd row =
     (case row of
        None \<Rightarrow> ReceiptMissing
      | Some r \<Rightarrow>
          if \<not> authority_matches cmd (receipt_of r) then AuthorityMismatch
          else if row_revoked_at r \<noteq> None then ReceiptRevoked
          else if js_num_le (JInt (row_exp r)) (cmd_current_time cmd) \<or> row_exp r \<le> fst clk
          then ReceiptExpired
          else if js_num_less (cmd_current_time cmd) (JInt (row_nbf r)) \<or> snd clk < row_nbf r
          then AuthorityMismatch
          else if row_redemption_count r = row_max_redemptions r then ReceiptExhausted
          else Consumed (row_redemption_count r + 1 = row_max_redemptions r))"

definition spec_consume ::
  "int \<times> int \<Rightarrow> consume_command \<Rightarrow> receipt_table \<Rightarrow> consume_result \<times> receipt_table" where
  "spec_consume clk cmd t =
     (let row = (case cmd_jti cmd of JStr jti \<Rightarrow> t jti | _ \<Rightarrow> None) in
      case (row, spec_decision clk cmd row) of
        (Some r, Consumed b) \<Rightarrow>
          (Consumed b, t(row_jti r \<mapsto> r\<lparr>row_redemption_count := row_redemption_count r + 1\<rparr>))
      | (_, out) \<Rightarrow> (out, t))"

lemma positive_safe_integer_iff:
  "positive_safe_integer v \<longleftrightarrow> (\<exists>i. v = JInt i \<and> safe_int i \<and> 0 < i)"
  by (cases v) (auto simp: positive_safe_integer_def is_safe_integer_iff)

lemma safe_integer_value_iff: "safe_integer_value v \<longleftrightarrow> (\<exists>i. v = JInt i \<and> safe_int i)"
  by (cases v) (auto simp: safe_integer_value_def is_safe_integer_iff)

lemma num_less_int: "num_less (int_num i) (int_num j) \<longleftrightarrow> i < j"
  by simp

text \<open>A valid command, as typed values.\<close>

lemma validCommand_cases:
  assumes "validCommand cmd"
  obtains jti iss sub aud intent res pol gt m ex now lim where
    "cmd = \<lparr>cmd_jti = JStr jti, cmd_iss = JStr iss, cmd_sub = JStr sub, cmd_aud = JStr aud,
       cmd_intent_id = JStr intent, cmd_resource_id = JStr res, cmd_policy_id = JStr pol,
       cmd_grant_type = JStr gt, cmd_max_redemptions = JInt m, cmd_exp = JInt ex,
       cmd_current_time = JInt now,
       cmd_expected_max_redemptions = (case lim of None \<Rightarrow> JUndef | Some l \<Rightarrow> JInt l)\<rparr>"
    "0 < m" "0 \<le> now"
proof -
  from assms obtain jti iss sub aud intent res pol gt m ex now where
    *: "cmd_jti cmd = JStr jti" "cmd_iss cmd = JStr iss" "cmd_sub cmd = JStr sub"
    "cmd_aud cmd = JStr aud" "cmd_intent_id cmd = JStr intent" "cmd_resource_id cmd = JStr res"
    "cmd_policy_id cmd = JStr pol" "cmd_grant_type cmd = JStr gt"
    "cmd_max_redemptions cmd = JInt m" "cmd_exp cmd = JInt ex" "cmd_current_time cmd = JInt now"
    "0 < m" and t: "js_num_le (JInt 0) (cmd_current_time cmd)"
    by (auto simp: validCommand_def is_non_empty_string_iff positive_safe_integer_iff
        safe_integer_value_iff)
  from t * num_le_int [of 0 now] have "0 \<le> now" by simp
  moreover from assms obtain lim where
    "cmd_expected_max_redemptions cmd = (case lim of None \<Rightarrow> JUndef | Some l \<Rightarrow> JInt l)"
    by (metis option.simps(4,5) positive_safe_integer_iff validCommand_def)
  ultimately show thesis using * by (intro that [of jti iss sub aud intent res pol gt m ex now lim]) simp_all
qed

text \<open>The parameters of a valid command, and the decision of the statement on a row.\<close>

lemma command_params_valid:
  assumes "validCommand cmd"
  obtains jti iss sub aud intent res pol gt m ex now lim where
    "cmd = \<lparr>cmd_jti = JStr jti, cmd_iss = JStr iss, cmd_sub = JStr sub, cmd_aud = JStr aud,
       cmd_intent_id = JStr intent, cmd_resource_id = JStr res, cmd_policy_id = JStr pol,
       cmd_grant_type = JStr gt, cmd_max_redemptions = JInt m, cmd_exp = JInt ex,
       cmd_current_time = JInt now,
       cmd_expected_max_redemptions = (case lim of None \<Rightarrow> JUndef | Some l \<Rightarrow> JInt l)\<rparr>"
    "command_params cmd = [SqlText jti, SqlText iss, SqlText sub, SqlText aud, SqlText intent, SqlText res,
      SqlText pol, SqlText gt, SqlBigint m, SqlBigint ex, SqlBigint now,
      case lim of None \<Rightarrow> SqlNull | Some l \<Rightarrow> SqlBigint l]"
  using assms by (rule validCommand_cases) (auto simp: command_params_def intro!: that split: option.split)

lemma decision_refines:
  assumes "row_checks r" and "validCommand cmd" and "cmd_jti cmd = JStr (row_jti r)"
  shows "decision_outcome clk (command_params cmd) r = (case spec_decision clk cmd (Some r) of
      Consumed b \<Rightarrow> ''admit'' | out \<Rightarrow> outcome_string out)"
proof -
  from assms(2) obtain jti iss sub aud intent res pol gt m ex now lim where
    cmd: "cmd = \<lparr>cmd_jti = JStr jti, cmd_iss = JStr iss, cmd_sub = JStr sub, cmd_aud = JStr aud,
       cmd_intent_id = JStr intent, cmd_resource_id = JStr res, cmd_policy_id = JStr pol,
       cmd_grant_type = JStr gt, cmd_max_redemptions = JInt m, cmd_exp = JInt ex,
       cmd_current_time = JInt now,
       cmd_expected_max_redemptions = (case lim of None \<Rightarrow> JUndef | Some l \<Rightarrow> JInt l)\<rparr>"
    and ps: "command_params cmd = [SqlText jti, SqlText iss, SqlText sub, SqlText aud, SqlText intent, SqlText res,
      SqlText pol, SqlText gt, SqlBigint m, SqlBigint ex, SqlBigint now,
      case lim of None \<Rightarrow> SqlNull | Some l \<Rightarrow> SqlBigint l]" by (rule command_params_valid)
  from cmd have f: "cmd_jti cmd = JStr jti" "cmd_iss cmd = JStr iss" "cmd_sub cmd = JStr sub"
    "cmd_aud cmd = JStr aud" "cmd_intent_id cmd = JStr intent" "cmd_resource_id cmd = JStr res"
    "cmd_policy_id cmd = JStr pol" "cmd_grant_type cmd = JStr gt"
    "cmd_max_redemptions cmd = JInt m" "cmd_exp cmd = JInt ex" "cmd_current_time cmd = JInt now"
    "cmd_expected_max_redemptions cmd = (case lim of None \<Rightarrow> JUndef | Some l \<Rightarrow> JInt l)"
    by simp_all
  show ?thesis
    using assms(1,3)
    by (cases lim) (auto simp: decision_outcome_def ps spec_decision_def f authority_matches_def
        receipt_of_def sql_ne_def sql_le_def sql_gt_def row_checks_def)
qed

lemma consumeSql_refines:
  assumes "table_ok t" and "validCommand cmd"
  shows "consumeSql clk (command_params cmd) t
    = (Inr [case fst (spec_consume clk cmd t) of
              Consumed b \<Rightarrow> result_row ''consumed'' (JBool b)
            | out \<Rightarrow> result_row (outcome_string out) JNull],
       snd (spec_consume clk cmd t))"
proof -
  from assms(2) obtain jti ps where jti: "cmd_jti cmd = JStr jti" and ps: "command_params cmd = SqlText jti # ps"
    by (rule command_params_valid) (auto intro: that)
  show ?thesis
  proof (cases "t jti")
    case None
    then show ?thesis by (simp add: consumeSql_def ps spec_consume_def spec_decision_def jti)
  next
    case (Some r)
    with assms(1) have r: "row_jti r = jti" "row_checks r" by (auto simp: table_ok_def)
    have out: "decision_outcome clk (SqlText jti # ps) r = (case spec_decision clk cmd (Some r) of
        Consumed b \<Rightarrow> ''admit'' | out \<Rightarrow> outcome_string out)"
      using decision_refines [OF r(2) assms(2)] by (simp add: jti r(1) ps)
    show ?thesis
    proof (cases "\<exists>b. spec_decision clk cmd (Some r) = Consumed b")
      case False
      then have "decision_outcome clk (SqlText jti # ps) r = outcome_string (spec_decision clk cmd (Some r))"
        and "decision_outcome clk (SqlText jti # ps) r \<noteq> ''admit''"
        using out by (cases "spec_decision clk cmd (Some r)"; simp)+
      with False Some show ?thesis
        by (cases "spec_decision clk cmd (Some r)")
          (simp_all add: consumeSql_def spec_consume_def consumed_row_def ps jti)
    next
      case True
      then obtain b where b: "spec_decision clk cmd (Some r) = Consumed b" by blast
      then have c: "row_redemption_count r < row_max_redemptions r"
        and b': "b = (row_redemption_count r + 1 = row_max_redemptions r)"
        using r(2) by (auto simp: spec_decision_def row_checks_def split: if_splits)
      from c r(2) have "row_checks (r\<lparr>row_redemption_count := row_redemption_count r + 1\<rparr>)"
        by (simp add: row_checks_def)
      with b c Some out show ?thesis
        by (simp add: consumeSql_def spec_consume_def consumed_row_def ps jti b')
    qed
  qed
qed

lemma spec_consume_cases:
  assumes "table_ok t" and "validCommand cmd"
  obtains (consumed) b where "fst (spec_consume clk cmd t) = Consumed b"
      "consumes (table_receipts t) cmd b (table_receipts (snd (spec_consume clk cmd t)))"
      "table_ok (snd (spec_consume clk cmd t))"
  | (denied) "fst (spec_consume clk cmd t) \<notin> {SystemFailure, Consumed False, Consumed True}"
      "snd (spec_consume clk cmd t) = t"
proof -
  from assms(2) obtain jti now where cmd: "cmd_jti cmd = JStr jti" "cmd_current_time cmd = JInt now"
    "0 \<le> now" by (rule validCommand_cases) auto
  show thesis
  proof (cases "\<exists>r b. t jti = Some r \<and> spec_decision clk cmd (Some r) = Consumed b")
    case True
    then obtain r b where r: "t jti = Some r" and d: "spec_decision clk cmd (Some r) = Consumed b"
      by blast
    with assms(1) have ok: "row_jti r = jti" "row_checks r" by (auto simp: table_ok_def)
    let ?r' = "r\<lparr>row_redemption_count := row_redemption_count r + 1\<rparr>"
    have s: "spec_consume clk cmd t = (Consumed b, t(jti \<mapsto> ?r'))"
      using r d cmd ok by (simp add: spec_consume_def)
    from d ok have a: "admissible cmd (receipt_of r)"
      and b: "b = (row_redemption_count r + 1 = row_max_redemptions r)"
      using cmd by (auto simp: spec_decision_def admissible_def receipt_of_def row_checks_def
          split: if_splits)
    have "table_receipts (t(jti \<mapsto> ?r')) = (table_receipts t)(jti \<mapsto> receipt_of ?r')"
      by (rule ext) (simp add: table_receipts_def)
    with a b r cmd have "consumes (table_receipts t) cmd b (table_receipts (t(jti \<mapsto> ?r')))"
      by (auto simp: consumes_def table_receipts_def receipt_of_def)
    moreover from d ok assms(1) have "table_ok (t(jti \<mapsto> ?r'))"
      by (auto simp: table_ok_def row_checks_def spec_decision_def split: if_splits)
    ultimately show thesis using s by (intro consumed [of b]) simp_all
  next
    case False
    then have "spec_consume clk cmd t = (spec_decision clk cmd (t jti), t)"
      using cmd by (cases "t jti"; cases "spec_decision clk cmd (t jti)")
        (auto simp: spec_consume_def)
    moreover have "spec_decision clk cmd (t jti) \<notin> {SystemFailure, Consumed False, Consumed True}"
      using False by (cases "t jti") (auto simp: spec_decision_def)
    ultimately show thesis by (intro denied) simp_all
  qed
qed

lemma result_of_spec_row:
  "out \<noteq> SystemFailure \<Longrightarrow>
   result_of_rows [case out of Consumed b \<Rightarrow> result_row ''consumed'' (JBool b)
                   | out \<Rightarrow> result_row (outcome_string out) JNull] = result_obj out"
  by (cases out) (simp_all add: result_of_rows_def result_row_def result_obj.simps)

lemma result_of_rows_typed: "\<exists>out. result_of_rows rows = result_obj out"
proof -
  have "outcome \<in> {''receipt_missing'', ''authority_mismatch'', ''receipt_revoked'',
      ''receipt_expired'', ''receipt_exhausted'', ''concurrency_conflict''} \<Longrightarrow>
    \<exists>out. JObj [(''outcome'', JStr outcome)] [] = result_obj out" for outcome
    by (elim insertE emptyE) (metis result_obj.simps outcome_string.simps)+
  then show ?thesis
    unfolding result_of_rows_def by (auto split: list.split jsval.split)
qed

section \<open>The executor and the store contract\<close>

text \<open>
  What the store expects of the host's executor: rows that come back are the statement's, executed
  once on the current table; an error leaves open whether the statement took effect. Between
  statements the host changes the table, keeping its constraints and, for existing receipts,
  everything but a revocation.
\<close>

locale statement_executor =
  fixes query :: "'w \<Rightarrow> sql_param list \<Rightarrow> 's \<Rightarrow> (js_exn + jsval list) \<times> 's"
    and host :: "'s \<Rightarrow> 's \<Rightarrow> bool"
    and table :: "'s \<Rightarrow> receipt_table"
  assumes answered:
      "query w ps s = (Inr rows, s') \<Longrightarrow> \<exists>clk. consumeSql clk ps (table s) = (Inr rows, table s')"
    and failed:
      "query w ps s = (Inl e, s') \<Longrightarrow>
       table s' = table s \<or> (\<exists>clk. table s' = snd (consumeSql clk ps (table s)))"
    and host_ok: "table_ok (table s) \<Longrightarrow> host s s' \<Longrightarrow> table_ok (table s')"
    and host_keeps_receipts:
      "table_ok (table s) \<Longrightarrow> host s s' \<Longrightarrow>
       host_keeps (table_receipts (table s)) (table_receipts (table s'))"
begin

text \<open>
  Every outcome of one call: a consumption reported as such, a denial that changed nothing, or a
  reported failure, behind which the table is unchanged or one redemption was taken.
\<close>

lemma postgres_outcomes:
  assumes "table_ok (table s)" and "postgres_consume (query w) cmd s = (res, s')"
  obtains (consumed) b where "res = Inr (result_obj (Consumed b))"
      "consumes (table_receipts (table s)) cmd b (table_receipts (table s'))" "table_ok (table s')"
  | (denied) out where "res = Inr (result_obj out)"
      "out \<notin> {SystemFailure, Consumed False, Consumed True}" "table s' = table s"
  | (unchanged) "res = Inr (result_obj SystemFailure)" "table s' = table s"
  | (lost) b where "res = Inr (result_obj SystemFailure)"
      "consumes (table_receipts (table s)) cmd b (table_receipts (table s'))" "table_ok (table s')"
proof (cases "validCommand cmd")
  case False
  with assms(2) show thesis by (intro unchanged) (auto simp: postgres_consume_def)
next
  case True
  note spec = spec_consume_cases [OF assms(1) True]
  note run = consumeSql_refines [OF assms(1) True]
  obtain ans s1 where q: "query w (command_params cmd) s = (ans, s1)" by fastforce
  with True assms(2) have s1: "s1 = s'" by (auto simp: postgres_consume_def split: sum.splits)
  show thesis
  proof (cases ans)
    case (Inl e)
    with q True assms(2) have res: "res = Inr (result_obj SystemFailure)"
      by (simp add: postgres_consume_def)
    from failed q Inl s1 consider "table s' = table s"
      | clk where "table s' = snd (consumeSql clk (command_params cmd) (table s))" by blast
    then show thesis
    proof cases
      case 1
      with res show thesis by (intro unchanged)
    next
      case 2
      then have t: "table s' = snd (spec_consume clk cmd (table s))" by (simp add: run)
      show thesis
      proof (cases rule: spec [of clk])
        case (1 b)
        with t res show thesis by (intro lost) simp_all
      next
        case 2
        with t res show thesis by (intro unchanged) simp_all
      qed
    qed
  next
    case (Inr rows)
    with answered q s1 obtain clk where
      "consumeSql clk (command_params cmd) (table s) = (Inr rows, table s')" by blast
    then have t: "table s' = snd (spec_consume clk cmd (table s))"
      and rows: "rows = [case fst (spec_consume clk cmd (table s)) of
              Consumed b \<Rightarrow> result_row ''consumed'' (JBool b)
            | out \<Rightarrow> result_row (outcome_string out) JNull]"
      by (simp_all add: run)
    have "res = Inr (result_of_rows rows)"
      using q Inr True assms(2) by (simp add: postgres_consume_def)
    moreover have "fst (spec_consume clk cmd (table s)) \<noteq> SystemFailure"
      by (cases rule: spec [of clk]) auto
    ultimately have res: "res = Inr (result_obj (fst (spec_consume clk cmd (table s))))"
      using result_of_spec_row rows by simp
    show thesis
    proof (cases rule: spec [of clk])
      case (1 b)
      with t res show thesis by (intro consumed) simp_all
    next
      case 2
      with t res show thesis by (intro denied) simp_all
    qed
  qed
qed

end

text \<open>The store over any such executor keeps the contract of the package's store interface.\<close>

sublocale statement_executor \<subseteq> store: access_receipt_store
  "\<lambda>w. postgres_consume (query w)" host "\<lambda>s. table_receipts (table s)" "\<lambda>s. table_ok (table s)"
proof (unfold_locales, goal_cases)
  case (1 s w cmd res s')
  from 1 show ?case by (cases rule: postgres_outcomes) (use 1(1) in auto)
next
  case (2 s s')
  then show ?case by (rule host_ok)
next
  case (3 s jti r)
  then show ?case by (auto simp: table_ok_def table_receipts_def receipt_of_def row_checks_def)
next
  case (4 s s')
  then show ?case by (rule host_keeps_receipts)
next
  case (5 s w cmd v s')
  then show ?case by (cases rule: postgres_outcomes) auto
next
  case (6 s cmd w b s')
  from 6(1,3) show ?case by (cases rule: postgres_outcomes) auto
next
  case (7 s w cmd out s')
  then show ?case by (cases rule: postgres_outcomes) auto
next
  case (8 s w cmd res s')
  then show ?case by (cases rule: postgres_outcomes) (auto; metis)+
qed

context statement_executor
begin

lemma is_store:
  "access_receipt_store (\<lambda>w. postgres_consume (query w)) host
     (\<lambda>s. table_receipts (table s)) (\<lambda>s. table_ok (table s))"
  by (rule store.access_receipt_store_axioms)

end

section \<open>A database\<close>

text \<open>
  An executor over a table: circumstances are the two clock readings and a connection fault, which
  may come before or after the statement took effect. The host revokes receipts and issues new ones.
\<close>

datatype fault = NoFault | FailsBefore | FailsAfter

record circumstances =
  cs_clock :: "int \<times> int"
  cs_fault :: fault

definition pg_query ::
  "circumstances \<Rightarrow> sql_param list \<Rightarrow> receipt_table \<Rightarrow> (js_exn + jsval list) \<times> receipt_table" where
  "pg_query w ps t =
     (case cs_fault w of
        NoFault \<Rightarrow> consumeSql (cs_clock w) ps t
      | FailsBefore \<Rightarrow> (Inl (JSError ''connection''), t)
      | FailsAfter \<Rightarrow> (Inl (JSError ''connection''), snd (consumeSql (cs_clock w) ps t)))"

definition pg_host :: "receipt_table \<Rightarrow> receipt_table \<Rightarrow> bool" where
  "pg_host t t' \<longleftrightarrow>
     (\<exists>jti r ts. t jti = Some r \<and> t' = t(jti \<mapsto> r\<lparr>row_revoked_at := Some ts\<rparr>))
   \<or> (\<exists>r. t (row_jti r) = None \<and> row_checks r \<and> row_redemption_count r = 0 \<and> t' = t(row_jti r \<mapsto> r))"

lemma pg_host_ok: "table_ok t \<Longrightarrow> pg_host t t' \<Longrightarrow> table_ok t'"
  unfolding pg_host_def
proof (elim disjE exE conjE)
  fix jti r ts
  assume *: "table_ok t" "t jti = Some r" "t' = t(jti \<mapsto> r\<lparr>row_revoked_at := Some ts\<rparr>)"
  then have "row_jti r = jti" "row_checks r" by (auto simp: table_ok_def)
  then have "row_jti (r\<lparr>row_revoked_at := Some ts\<rparr>) = jti" "row_checks (r\<lparr>row_revoked_at := Some ts\<rparr>)"
    by (simp_all add: row_checks_def)
  with * show ?thesis by (simp add: table_ok_def)
next
  fix r
  assume "table_ok t" "t (row_jti r) = None" "row_checks r" "t' = t(row_jti r \<mapsto> r)"
  then show ?thesis by (simp add: table_ok_def)
qed

lemma pg_host_keeps: "pg_host t t' \<Longrightarrow> host_keeps (table_receipts t) (table_receipts t')"
  unfolding pg_host_def
proof (elim disjE exE conjE)
  fix jti r ts
  assume "t jti = Some r" "t' = t(jti \<mapsto> r\<lparr>row_revoked_at := Some ts\<rparr>)"
  then show ?thesis
    by (auto simp: host_keeps_def table_receipts_def receipt_of_def)
next
  fix r
  assume "t (row_jti r) = None" "t' = t(row_jti r \<mapsto> r)"
  then show ?thesis
    by (auto simp: host_keeps_def table_receipts_def receipt_of_def)
qed

lemma consumeSql_Inl: "fst (consumeSql clk ps t) = Inl e \<Longrightarrow> snd (consumeSql clk ps t) = t"
  by (auto simp: consumeSql_def Let_def split: option.splits if_splits)

interpretation pg: statement_executor pg_query pg_host "\<lambda>t. t"
proof (unfold_locales, goal_cases)
  case (1 w ps s rows s')
  then have "consumeSql (cs_clock w) ps s = (Inr rows, s')"
    by (auto simp: pg_query_def split: fault.splits)
  then show ?case by blast
next
  case (2 w ps s e s')
  then have "s' = s \<or> s' = snd (consumeSql (cs_clock w) ps s)"
    using consumeSql_Inl [of "cs_clock w" ps s]
    by (auto simp: pg_query_def split: fault.splits)
  then show ?case by blast
next
  case (3 s s')
  then show ?case by (rule pg_host_ok)
next
  case (4 s s')
  then show ?case by (intro pg_host_keeps)
qed

section \<open>Sample table for the witnesses\<close>

definition sample_row :: receipt_row where
  "sample_row = \<lparr>row_jti = ''j1'', row_iss = ''host'', row_sub = ''user'', row_aud = ''api'',
     row_intent_id = ''i1'', row_resource_id = ''r1'', row_policy_id = ''p1'',
     row_grant_type = ''multi_redemption'', row_max_redemptions = 3, row_redemption_count = 1,
     row_iat = 100, row_nbf = 100, row_exp = 200, row_payment_ref = None, row_revoked_at = None\<rparr>"

definition sample_table :: receipt_table where
  "sample_table = [''j1'' \<mapsto> sample_row]"

definition sample_circumstances :: circumstances where
  "sample_circumstances = \<lparr>cs_clock = (150, 150), cs_fault = NoFault\<rparr>"

lemma sample_table_ok [simp]: "table_ok sample_table"
  by (simp add: table_ok_def sample_table_def sample_row_def row_checks_def)

lemma sample_table_receipt:
  "table_receipts sample_table ''j1'' = Some (receipt_of sample_row)"
  by (simp add: table_receipts_def sample_table_def)

definition sample_command :: consume_command where
  "sample_command = command_of sample_claims sample_expected (JInt 150)"

lemma sample_command_fields:
  "sample_command = \<lparr>cmd_jti = JStr ''j1'', cmd_iss = JStr ''host'', cmd_sub = JStr ''user'',
     cmd_aud = JStr ''api'', cmd_intent_id = JStr ''i1'', cmd_resource_id = JStr ''r1'',
     cmd_policy_id = JStr ''p1'', cmd_grant_type = JStr ''multi_redemption'',
     cmd_max_redemptions = JInt 3, cmd_exp = JInt 200, cmd_current_time = JInt 150,
     cmd_expected_max_redemptions = JInt 3\<rparr>"
  by (simp add: sample_command_def command_of_def sample_claims_def sample_expected_def js_has_own_def)

lemma sample_command_valid [simp]: "validCommand sample_command"
  unfolding sample_command_fields
  by (simp add: validCommand_def positive_safe_integer_def safe_integer_value_def
      is_safe_integer_def max_safe_integer_def num_le_def)

lemma sample_spec_consume:
  "spec_consume (150, 150) sample_command sample_table
     = (Consumed False, sample_table(''j1'' \<mapsto> sample_row\<lparr>row_redemption_count := 2\<rparr>))"
  unfolding sample_command_fields
  by (simp add: spec_consume_def spec_decision_def sample_table_def sample_row_def
      authority_matches_def receipt_of_def num_le_def)

section \<open>Properties\<close>

text \<open>
  C14: on a table that satisfies its constraints and for a valid command, one store call over the
  statement decides exactly as the typed specification does, in its order of precedence (missing,
  authority, revoked, expired, not yet valid, exhausted, consumed), and changes the table exactly as
  it does; the update never breaks a constraint, and a conflict is never reported.
\<close>

theorem postgres_refines_specification:
  assumes "table_ok t" and "validCommand cmd"
  shows "postgres_consume (consumeSql clk) cmd t
    = (Inr (result_obj (fst (spec_consume clk cmd t))), snd (spec_consume clk cmd t))"
proof -
  have "fst (spec_consume clk cmd t) \<noteq> SystemFailure"
    by (cases rule: spec_consume_cases [OF assms, of clk]) auto
  then show ?thesis
    using assms by (simp add: postgres_consume_def consumeSql_refines result_of_spec_row)
qed

theorem postgres_refines_specification_witness:
  "postgres_consume (consumeSql (150, 150)) sample_command sample_table
     = (Inr (result_obj (Consumed False)),
        sample_table(''j1'' \<mapsto> sample_row\<lparr>row_redemption_count := 2\<rparr>))"
  using postgres_refines_specification [OF sample_table_ok sample_command_valid, of "(150, 150)"]
  by (simp add: sample_spec_consume)

text \<open>A first redemption over the sample table, with the sample claims.\<close>

definition pg_redemption :: "circumstances \<Rightarrow> receipt_table redeem_input" where
  "pg_redemption w = RedeemInput (JStr ''token'') sample_expected
     (Some (\<lambda>token. Inr (claims_obj sample_claims))) (Some (postgres_consume (pg_query w))) (JInt 150)"

lemma pg_redemption_reaches:
  "reaches_store (pg_redemption w) sample_claims sample_command (postgres_consume (pg_query w))"
  by (auto simp: reaches_store_def pg_redemption_def safe_int_def max_safe_integer_def
      sample_command_def intro!: exI [of _ "JInt 150"] exI [of _ "150 :: int"])

lemma pg_redemption_result:
  "redeemAccessReceipt (zod_reference Zod4) (pg_redemption sample_circumstances) sample_table
     = (Success False, sample_table(''j1'' \<mapsto> sample_row\<lparr>row_redemption_count := 2\<rparr>))"
proof -
  have "pg_query sample_circumstances = consumeSql (150, 150)"
    by (simp add: pg_query_def sample_circumstances_def fun_eq_iff)
  then have "postgres_consume (pg_query sample_circumstances) sample_command sample_table
      = (Inr (result_obj (Consumed False)),
         sample_table(''j1'' \<mapsto> sample_row\<lparr>row_redemption_count := 2\<rparr>))"
    by (simp add: postgres_consume_def consumeSql_refines sample_spec_consume result_of_rows_def
        result_row_def)
  then show ?thesis
    unfolding redeem_reaches [OF reference.zod_parser_axioms pg_redemption_reaches]
    by (simp add: store_result_def)
qed

text \<open>
  C16: every outcome of a store call is one of the nine, never an exception, and tells the truth about
  the table: a reported consumption took exactly one redemption of an admissible receipt, a reported
  denial changed nothing, and a system failure changed nothing or took one redemption that is lost;
  the table's constraints are kept in each case.
\<close>

theorem postgres_outcome_is_truthful:
  assumes "statement_executor query host table" and "table_ok (table s)"
  shows "table_ok (table (snd (postgres_consume (query w) cmd s)))
    \<and> (\<exists>out. fst (postgres_consume (query w) cmd s) = Inr (result_obj out)
       \<and> (case out of
            Consumed b \<Rightarrow> consumes (table_receipts (table s)) cmd b
                (table_receipts (table (snd (postgres_consume (query w) cmd s))))
          | SystemFailure \<Rightarrow> table (snd (postgres_consume (query w) cmd s)) = table s
              \<or> (\<exists>b. consumes (table_receipts (table s)) cmd b
                  (table_receipts (table (snd (postgres_consume (query w) cmd s)))))
          | _ \<Rightarrow> table (snd (postgres_consume (query w) cmd s)) = table s))"
proof -
  obtain res s' where r: "postgres_consume (query w) cmd s = (res, s')" by fastforce
  show ?thesis
  proof (cases rule: statement_executor.postgres_outcomes [OF assms r])
    case (1 b)
    with r show ?thesis by (auto intro!: exI [of _ "Consumed b"])
  next
    case (2 out)
    with r assms(2) show ?thesis
      by (cases out) (auto intro!: exI [of _ out] simp: all_bool_eq)
  next
    case 3
    with r assms(2) show ?thesis by (auto intro!: exI [of _ SystemFailure])
  next
    case (4 b)
    with r show ?thesis by (auto intro!: exI [of _ SystemFailure])
  qed
qed

theorem postgres_outcome_is_truthful_witness:
  "table_ok (snd (postgres_consume (pg_query (sample_circumstances\<lparr>cs_fault := FailsAfter\<rparr>))
     sample_command sample_table))"
  using postgres_outcome_is_truthful [where table = "\<lambda>t. t",
      OF pg.statement_executor_axioms sample_table_ok] by blast

end
