(* ===== verification/Host_Transactions.thy ===== *)
theory Host_Transactions
  imports Postgres_Store
begin

text \<open>
  The PostgreSQL store inside the host's own transactions (\<^verbatim>\<open>packages/postgres-store/README.md\<close>,
  section Transactions, and the test \<open>host transaction rollback and commit\<close> of \<^verbatim>\<open>test/neon.ts\<close>): the host
  binds the executor to its transaction's client, so a use is undone when the transaction is rolled back.
  The database's part in this is the documented behaviour of read-committed execution: a statement sees
  the rows that others committed and those its own transaction wrote, a row that a transaction wrote is
  locked until its end, and a rollback restores the rows as they were.
\<close>

section \<open>The database under transactions\<close>

text \<open>
  The table with the writes of all open transactions in it; a row that an open transaction wrote is
  locked by it, and kept as it was before (\<open>None\<close> when it did not exist).
\<close>

record 't tx_state =
  tx_table :: receipt_table
  tx_locks :: "string \<Rightarrow> ('t \<times> receipt_row option) option"

text \<open>What a statement sees, in a transaction \<open>Some u\<close> or in autocommit.\<close>

definition seen :: "'t option \<Rightarrow> 't tx_state \<Rightarrow> receipt_table" where
  "seen tx s jti =
     (case tx_locks s jti of
        Some (u, before) \<Rightarrow> if tx = Some u then tx_table s jti else before
      | None \<Rightarrow> tx_table s jti)"

text \<open>A statement that would write a row that another transaction has locked waits.\<close>

definition may_write :: "'t option \<Rightarrow> 't tx_state \<Rightarrow> receipt_table \<Rightarrow> bool" where
  "may_write tx s t \<longleftrightarrow>
     (\<forall>jti u before. t jti \<noteq> seen tx s jti \<longrightarrow> tx_locks s jti = Some (u, before) \<longrightarrow> tx = Some u)"

definition written :: "'t option \<Rightarrow> receipt_table \<Rightarrow> 't tx_state \<Rightarrow> 't tx_state" where
  "written tx t s =
     \<lparr>tx_table = (\<lambda>jti. if t jti = seen tx s jti then tx_table s jti else t jti),
      tx_locks = (\<lambda>jti. if t jti = seen tx s jti \<or> tx_locks s jti \<noteq> None then tx_locks s jti
        else map_option (\<lambda>u. (u, tx_table s jti)) tx)\<rparr>"

definition unlocked :: "'t \<Rightarrow> 't tx_state \<Rightarrow> string \<Rightarrow> ('t \<times> receipt_row option) option" where
  "unlocked u s jti =
     (case tx_locks s jti of Some (u', before) \<Rightarrow> if u' = u then None else Some (u', before) | None \<Rightarrow> None)"

definition commit_tx :: "'t \<Rightarrow> 't tx_state \<Rightarrow> 't tx_state" where
  "commit_tx u s = s\<lparr>tx_locks := unlocked u s\<rparr>"

definition rollback_tx :: "'t \<Rightarrow> 't tx_state \<Rightarrow> 't tx_state" where
  "rollback_tx u s =
     \<lparr>tx_table = (\<lambda>jti. case tx_locks s jti of
        Some (u', before) \<Rightarrow> if u' = u then before else tx_table s jti | None \<Rightarrow> tx_table s jti),
      tx_locks = unlocked u s\<rparr>"

section \<open>Histories\<close>

text \<open>What became of a redemption that was answered: it belongs to an open transaction, it stands, or it was undone.\<close>

datatype 't fate = InTx 't | Stands | Undone

type_synonym 't history = "('t fate \<times> receipt_table redemption) list"

definition fate_in :: "'t option \<Rightarrow> 't fate" where
  "fate_in tx = (case tx of Some u \<Rightarrow> InTx u | None \<Rightarrow> Stands)"

definition settle :: "'t \<Rightarrow> 't fate \<Rightarrow> 't history \<Rightarrow> 't history" where
  "settle u f = map (\<lambda>(g, e). (if g = InTx u then f else g, e))"

text \<open>
  Redemptions, changes of the host, commits and rollbacks in any order; each redemption has its own
  token, verifier, expectation, time and circumstances, and runs in a transaction or in autocommit.
\<close>

inductive host_history ::
  "safe_parse \<Rightarrow> ('w \<Rightarrow> sql_param list \<Rightarrow> receipt_table \<Rightarrow> (js_exn + jsval list) \<times> receipt_table)
   \<Rightarrow> (receipt_table \<Rightarrow> receipt_table \<Rightarrow> bool) \<Rightarrow> receipt_table \<Rightarrow> 't history \<Rightarrow> 't tx_state \<Rightarrow> bool"
  for sp query host t0 where
  start: "host_history sp query host t0 [] \<lparr>tx_table = t0, tx_locks = Map.empty\<rparr>"
| redeem: "host_history sp query host t0 es s \<Longrightarrow> in_store input \<in> {None, Some (postgres_consume (query w))} \<Longrightarrow>
    redeemAccessReceipt sp input (seen tx s) = (res, t) \<Longrightarrow> may_write tx s t \<Longrightarrow>
    host_history sp query host t0 (es @ [(fate_in tx, input, res)]) (written tx t s)"
| host: "host_history sp query host t0 es s \<Longrightarrow> host (seen tx s) t \<Longrightarrow> may_write tx s t \<Longrightarrow>
    host_history sp query host t0 es (written tx t s)"
| commit: "host_history sp query host t0 es s \<Longrightarrow>
    host_history sp query host t0 (settle u Stands es) (commit_tx u s)"
| rollback: "host_history sp query host t0 es s \<Longrightarrow>
    host_history sp query host t0 (settle u Undone es) (rollback_tx u s)"

text \<open>The redemptions that were not undone, and those among them that no rollback of \<open>u\<close> can undo.\<close>

definition standing :: "'t history \<Rightarrow> receipt_table redemption list" where
  "standing es = map snd (filter (\<lambda>e. fst e \<noteq> Undone) es)"

definition standing_without :: "'t \<Rightarrow> 't history \<Rightarrow> receipt_table redemption list" where
  "standing_without u es = map snd (filter (\<lambda>e. fst e \<notin> {Undone, InTx u}) es)"

lemma standing_simps [simp]:
  "standing [] = []" "standing (es @ es') = standing es @ standing es'"
  "standing (e # es) = (if fst e = Undone then [] else [snd e]) @ standing es"
  "standing_without u [] = []" "standing_without u (es @ es') = standing_without u es @ standing_without u es'"
  "standing_without u (e # es) = (if fst e \<in> {Undone, InTx u} then [] else [snd e]) @ standing_without u es"
  by (simp_all add: standing_def standing_without_def)

lemma successes_append [simp]: "successes jti (es @ es') = successes jti es + successes jti es'"
  by (simp add: successes_def)

lemma successes_without: "successes jti (standing_without u es) \<le> successes jti (standing es)"
  by (induction es) (auto simp: successes_def)

lemma standing_settled [simp]:
  "standing (settle u Stands es) = standing es" "standing (settle u Undone es) = standing_without u es"
  by (induction es) (auto simp: settle_def split: if_splits)

lemma standing_without_settled:
  "v \<noteq> u \<Longrightarrow> standing_without v (settle u Stands es) = standing_without v es"
  "v \<noteq> u \<Longrightarrow> successes jti (standing_without v (settle u Undone es)) \<le> successes jti (standing_without v es)"
  by (induction es) (auto simp: settle_def successes_def split: if_splits)

section \<open>The invariant of a receipt\<close>

text \<open>The row \<open>r\<close> of a receipt that was \<open>r0\<close> at the start accounts for \<open>n\<close> uses.\<close>

definition accounts_for :: "auth_receipt \<Rightarrow> nat \<Rightarrow> receipt_row option \<Rightarrow> bool" where
  "accounts_for r0 n row \<longleftrightarrow>
     (\<exists>r. map_option receipt_of row = Some r \<and> r = r0\<lparr>ar_count := ar_count r, ar_revoked := ar_revoked r\<rparr>
        \<and> ar_count r0 + int n \<le> ar_count r \<and> (ar_revoked r0 \<longrightarrow> ar_revoked r \<and> n = 0))"

lemma accounts_for_mono: "accounts_for r0 n row \<Longrightarrow> m \<le> n \<Longrightarrow> accounts_for r0 m row"
  by (auto simp: accounts_for_def)

definition row_ok :: "string \<Rightarrow> receipt_row option \<Rightarrow> bool" where
  "row_ok jti row \<longleftrightarrow> (\<forall>r. row = Some r \<longrightarrow> row_jti r = jti \<and> row_checks r)"

lemma table_ok_rows: "table_ok t \<longleftrightarrow> (\<forall>jti. row_ok jti (t jti))"
  by (simp add: table_ok_def row_ok_def)

definition tx_ok :: "'t tx_state \<Rightarrow> bool" where
  "tx_ok s \<longleftrightarrow> table_ok (tx_table s) \<and> (\<forall>jti u before. tx_locks s jti = Some (u, before) \<longrightarrow> row_ok jti before)"

text \<open>
  The current row accounts for all the uses that were not undone; a row that would be restored, for those
  that would then remain.
\<close>

definition tx_accounts :: "string \<Rightarrow> auth_receipt \<Rightarrow> 't history \<Rightarrow> 't tx_state \<Rightarrow> bool" where
  "tx_accounts jti r0 es s \<longleftrightarrow>
     accounts_for r0 (successes jti (standing es)) (tx_table s jti)
   \<and> (\<forall>u before. tx_locks s jti = Some (u, before) \<longrightarrow>
        accounts_for r0 (successes jti (standing_without u es)) before)"

lemma seen_ok: "tx_ok s \<Longrightarrow> table_ok (seen tx s)"
  by (auto simp: tx_ok_def table_ok_rows seen_def split: option.split)

lemma written_ok: "tx_ok s \<Longrightarrow> table_ok t \<Longrightarrow> tx_ok (written tx t s)"
  by (auto simp: tx_ok_def table_ok_rows written_def split: if_splits)

lemma settled_ok: "tx_ok s \<Longrightarrow> tx_ok (commit_tx u s)" "tx_ok s \<Longrightarrow> tx_ok (rollback_tx u s)"
  by (auto simp: tx_ok_def table_ok_rows commit_tx_def rollback_tx_def unlocked_def split: option.splits if_splits)

lemma commit_accounts:
  assumes "tx_accounts jti r0 es s"
  shows "tx_accounts jti r0 (settle u Stands es) (commit_tx u s)"
  using assms
  by (auto simp: tx_accounts_def commit_tx_def unlocked_def standing_without_settled split: option.splits if_splits)

lemma rollback_accounts:
  assumes "tx_accounts jti r0 es s"
  shows "tx_accounts jti r0 (settle u Undone es) (rollback_tx u s)"
  using assms
  by (auto simp: tx_accounts_def rollback_tx_def unlocked_def split: option.splits if_splits
      intro: accounts_for_mono [OF _ successes_without] accounts_for_mono [OF _ standing_without_settled(2)])

text \<open>
  One statement, or one change of the host, on what it sees: a sequence with no or one redemption. A row that
  it leaves as it sees it had no success.
\<close>

lemma written_accounts:
  assumes store: "statement_executor query host (\<lambda>t. t)" and sp: "zod_parser Zod4 sp"
    and trace: "redemption_trace sp (\<lambda>w. postgres_consume (query w)) host (seen tx s) ev t"
    and w: "may_write tx s t" and ok: "tx_ok s" and acc: "tx_accounts jti r0 es s"
  shows "tx_accounts jti r0 (es @ map (Pair (fate_in tx)) ev) (written tx t s)"
proof -
  note c = statement_executor.is_store [OF store]
  have [simp]: "standing (map (Pair (fate_in tx)) ev) = ev"
    by (induction ev) (auto simp: fate_in_def split: option.splits)
  have mine: "standing_without u (map (Pair (fate_in tx)) ev) = (if tx = Some u then [] else ev)" for u
    by (induction ev) (auto simp: fate_in_def split: option.splits)
  have step: "accounts_for r0 (n + successes jti ev) (t jti) \<and> (t jti = seen tx s jti \<longrightarrow> successes jti ev = 0)"
    if n: "accounts_for r0 n (seen tx s jti)" for n
  proof -
    from n obtain r where r: "table_receipts (seen tx s) jti = Some r"
      "r = r0\<lparr>ar_count := ar_count r, ar_revoked := ar_revoked r\<rparr>" "ar_count r0 + int n \<le> ar_count r"
      "ar_revoked r0 \<longrightarrow> ar_revoked r \<and> n = 0" by (auto simp: accounts_for_def table_receipts_def)
    from access_receipt_store.redemptions_of_receipt [OF c, OF sp trace seen_ok [OF ok] r(1)] obtain r' where
      r': "table_receipts t jti = Some r'" "r' = r\<lparr>ar_count := ar_count r', ar_revoked := ar_revoked r'\<rparr>"
      "ar_count r + int (successes jti ev) \<le> ar_count r'"
      "ar_revoked r \<longrightarrow> ar_revoked r' \<and> successes jti ev = 0" by blast
    have "accounts_for r0 (n + successes jti ev) (t jti)"
      unfolding accounts_for_def using r r' by (intro exI [of _ r']) (cases r0; cases r; cases r', auto simp: table_receipts_def)
    moreover have "successes jti ev = 0" if "t jti = seen tx s jti"
      using that r(1) r'(1,3) by (auto simp: table_receipts_def)
    ultimately show ?thesis by blast
  qed
  show ?thesis
  proof (cases "\<exists>u before. tx_locks s jti = Some (u, before) \<and> tx \<noteq> Some u")
    case True
    then obtain u before where l: "tx_locks s jti = Some (u, before)" "tx \<noteq> Some u" by blast
    then have sees: "seen tx s jti = before" by (simp add: seen_def)
    have before: "accounts_for r0 (successes jti (standing_without u es)) (seen tx s jti)"
      using acc l(1) sees by (simp add: tx_accounts_def)
    moreover have "t jti = seen tx s jti" using w l by (auto simp: may_write_def)
    ultimately have "successes jti ev = 0" using step by blast
    with acc l \<open>t jti = seen tx s jti\<close> show ?thesis by (simp add: tx_accounts_def written_def mine)
  next
    case False
    then have sees: "seen tx s jti = tx_table s jti" by (auto simp: seen_def split: option.split)
    have n: "accounts_for r0 (successes jti (standing es)) (seen tx s jti)"
      using acc sees by (simp add: tx_accounts_def)
    have "tx_table (written tx t s) jti = t jti" using sees by (simp add: written_def)
    moreover have "accounts_for r0 (successes jti (standing_without u (es @ map (Pair (fate_in tx)) ev))) before"
      if "tx_locks (written tx t s) jti = Some (u, before)" for u before
    proof (cases "tx_locks s jti")
      case None
      with that have "tx = Some u" "before = tx_table s jti" by (auto simp: written_def split: if_splits)
      moreover have "standing_without u (map (Pair (fate_in tx)) ev) = []"
        unfolding mine using \<open>tx = Some u\<close> by simp
      ultimately show ?thesis using n sees by (simp add: accounts_for_mono [OF _ successes_without])
    next
      case (Some p)
      with that False have "tx = Some u" "tx_locks s jti = Some (u, before)" by (auto simp: written_def)
      moreover have "standing_without u (map (Pair (fate_in tx)) ev) = []"
        unfolding mine using \<open>tx = Some u\<close> by simp
      ultimately show ?thesis using acc by (simp add: tx_accounts_def)
    qed
    ultimately show ?thesis using step [OF n] by (simp add: tx_accounts_def)
  qed
qed

lemma history_accounts:
  assumes store: "statement_executor query host (\<lambda>t. t)" and sp: "zod_parser Zod4 sp"
    and "host_history sp query host t0 es s" and t0: "table_ok t0" "t0 jti = Some row"
  shows "tx_ok s \<and> tx_accounts jti (receipt_of row) es s"
  using assms(3)
proof (induction rule: host_history.induct)
  case start
  show ?case using t0 by (simp add: tx_ok_def tx_accounts_def accounts_for_def)
next
  case (redeem es s input w tx res t)
  have "redemption_trace sp (\<lambda>w. postgres_consume (query w)) host (seen tx s) ([] @ [(input, res)]) t"
    using redeem.hyps(2,3) by (intro redemption_trace.redeem [OF redemption_trace.start])
  then have trace: "redemption_trace sp (\<lambda>w. postgres_consume (query w)) host (seen tx s) [(input, res)] t" by simp
  from redeem.IH have ok: "tx_ok s" by blast
  from access_receipt_store.redemptions_invar [OF statement_executor.is_store [OF store], OF sp trace seen_ok [OF ok]]
  have "table_ok t" .
  with written_ok [OF ok] written_accounts [OF store sp trace redeem.hyps(4) ok] redeem.IH show ?case by simp
next
  case (host es s tx t)
  have trace: "redemption_trace sp (\<lambda>w. postgres_consume (query w)) host (seen tx s) [] t"
    by (rule redemption_trace.host [OF redemption_trace.start]) (rule host.hyps(2))
  from host.IH have ok: "tx_ok s" by blast
  from access_receipt_store.redemptions_invar [OF statement_executor.is_store [OF store], OF sp trace seen_ok [OF ok]]
  have "table_ok t" .
  with written_ok [OF ok] written_accounts [OF store sp trace host.hyps(3) ok, of jti _ es] host.IH show ?case by simp
next
  case (commit es s u)
  then show ?case by (simp add: settled_ok commit_accounts)
next
  case (rollback es s u)
  then show ?case by (simp add: settled_ok rollback_accounts)
qed

section \<open>Properties\<close>

text \<open>
  C15: over any executor that runs the statement at most once, and any history of redemptions (each with its
  own token, verifier, expectation, time and transaction or none), commits, rollbacks and changes of the host
  that leave existing receipts as they are but for a revocation: the successful redemptions of a receipt that
  were not rolled back - those committed and those of open transactions together - never exceed the capacity
  it had at the start, and a receipt that was revoked at the start has none. A success that is rolled back is
  no use: it may be answered again.
\<close>

theorem redemptions_never_exceed_capacity:
  assumes "zod_parser Zod4 sp" and "statement_executor query host (\<lambda>t. t)"
    and "host_history sp query host t0 es s" and "table_ok t0" and "t0 jti = Some row"
  shows "int (successes jti (standing es)) \<le> row_max_redemptions row - row_redemption_count row
    \<and> (row_revoked_at row \<noteq> None \<longrightarrow> successes jti (standing es) = 0)"
proof -
  from history_accounts [OF assms(2,1,3-5)] have ok: "table_ok (tx_table s)"
    and acc: "accounts_for (receipt_of row) (successes jti (standing es)) (tx_table s jti)"
    by (simp_all add: tx_ok_def tx_accounts_def)
  then obtain q where q: "tx_table s jti = Some q"
    "receipt_of q = (receipt_of row)\<lparr>ar_count := ar_count (receipt_of q), ar_revoked := ar_revoked (receipt_of q)\<rparr>"
    "ar_count (receipt_of row) + int (successes jti (standing es)) \<le> ar_count (receipt_of q)"
    "ar_revoked (receipt_of row) \<longrightarrow> successes jti (standing es) = 0"
    by (auto simp: accounts_for_def)
  from arg_cong [OF q(2), of ar_max] have "row_max_redemptions q = row_max_redemptions row"
    by (simp add: receipt_of_def)
  moreover
  from ok q(1) have "row_redemption_count q \<le> row_max_redemptions q"
    by (simp add: table_ok_def row_checks_def)
  ultimately show ?thesis using q(3,4) by (simp add: receipt_of_def)
qed

text \<open>
  A use in a transaction that is rolled back, and one in autocommit: the first success is undone, and the
  row is as before when the second begins.
\<close>

definition sample_history :: "nat history" where
  "sample_history =
     [(Undone, pg_redemption sample_circumstances, Success False),
      (Stands, pg_redemption sample_circumstances, Success False)]"

lemma sample_history_reached:
  "host_history (zod_reference Zod4) pg_query pg_host sample_table sample_history
     \<lparr>tx_table = sample_table(''j1'' \<mapsto> sample_row\<lparr>row_redemption_count := 2\<rparr>), tx_locks = Map.empty\<rparr>"
proof -
  let ?sp = "zod_reference Zod4" and ?in = "pg_redemption sample_circumstances"
  let ?t = "sample_table(''j1'' \<mapsto> sample_row\<lparr>row_redemption_count := 2\<rparr>)"
  let ?h = "host_history ?sp pg_query pg_host sample_table :: nat history \<Rightarrow> nat tx_state \<Rightarrow> bool"
  let ?start = "\<lparr>tx_table = sample_table, tx_locks = Map.empty\<rparr> :: nat tx_state"
  have sees: "seen tx ?start = sample_table" for tx by (rule ext) (simp add: seen_def)
  have free: "may_write tx ?start t" for tx t by (simp add: may_write_def)
  have redeem: "redeemAccessReceipt ?sp ?in (seen tx ?start) = (Success False, ?t)" for tx
    unfolding sees by (rule pg_redemption_result)
  have store: "in_store ?in \<in> {None, Some (postgres_consume (pg_query sample_circumstances))}"
    by (simp add: pg_redemption_def)
  have one: "?h ([] @ [(fate_in (Some 0), ?in, Success False)]) (written (Some 0) ?t ?start)"
    by (rule host_history.redeem [where query = pg_query and w = sample_circumstances and tx = "Some 0",
        OF host_history.start store redeem free])
  have undone: "rollback_tx 0 (written (Some 0) ?t ?start) = ?start"
    by (auto simp: rollback_tx_def written_def unlocked_def sees fun_eq_iff split: option.split)
  have two: "?h [(Undone, ?in, Success False)] ?start"
    using host_history.rollback [OF one, of 0] by (simp add: undone settle_def fate_in_def)
  have "?h ([(Undone, ?in, Success False)] @ [(fate_in None, ?in, Success False)]) (written None ?t ?start)"
    by (rule host_history.redeem [where query = pg_query and w = sample_circumstances and tx = None,
        OF two store redeem free])
  moreover have "written None ?t ?start = \<lparr>tx_table = ?t, tx_locks = Map.empty\<rparr>"
    by (auto simp: written_def sees fun_eq_iff)
  ultimately show ?thesis by (simp add: sample_history_def fate_in_def)
qed

theorem redemptions_never_exceed_capacity_witness:
  "successes ''j1'' (map snd sample_history) = 2 \<and> successes ''j1'' (standing sample_history) = 1
     \<and> int (successes ''j1'' (standing sample_history)) \<le> 3 - 1"
proof -
  have "is_success ''j1'' (pg_redemption sample_circumstances, Success False)"
    unfolding is_success.simps
    using pg_redemption_reaches [of sample_circumstances] by (intro conjI exI [of _ sample_claims]) (auto simp: sample_claims_def)
  then have "successes ''j1'' (map snd sample_history) = 2" "successes ''j1'' (standing sample_history) = 1"
    by (simp_all add: sample_history_def successes_def)
  with redemptions_never_exceed_capacity [OF reference.zod_parser_axioms pg.statement_executor_axioms
      sample_history_reached sample_table_ok, of "''j1''" sample_row]
  show ?thesis by (simp add: sample_table_def sample_row_def)
qed

end
