(* ===== verification/Paid_Resource.thy ===== *)
theory Paid_Resource
  imports Receipt_Verifier Redeem_Access_Receipt
begin

text \<open>
  The paid-resource example (\<^verbatim>\<open>examples/paid-resource/src/paid-resource-service.mjs\<close>): a host of the
  access package that keeps its receipts in memory, issues one single-use receipt for a verified
  payment fixture and redeems it. Its store is a second provider of the store contract, interpreted
  here. The clock of a call, the random identifier and the generated key pair are arguments.

  A \<open>Map\<close> is a function into \<open>option\<close>; its keys are the identifiers of receipts, which are strings.
\<close>

section \<open>Constants and fixtures\<close>

definition VERIFIED_PAYMENT_FIXTURE_ID :: string where
  "VERIFIED_PAYMENT_FIXTURE_ID = ''demo-payment-001''"

definition DEMO_KEY_ID :: string where
  "DEMO_KEY_ID = ''paid-resource-demo-key''"

definition DEMO_ISSUER :: string where
  "DEMO_ISSUER = ''https://paid-resource.example.test''"

definition DEMO_AUDIENCE :: string where
  "DEMO_AUDIENCE = ''paid-resource-example''"

definition RECEIPT_LIFETIME_SECONDS :: int where
  "RECEIPT_LIFETIME_SECONDS = 300"

definition PROTECTED_RESOURCE_CONTENT :: string where
  "PROTECTED_RESOURCE_CONTENT = ''Premium article content available after one verified payment.''"

record payment_fixture =
  fx_payment_ref :: string
  fx_sub :: string
  fx_intent_id :: string
  fx_resource_id :: string
  fx_policy_id :: string

definition VERIFIED_PAYMENT_FIXTURES :: "(string \<times> payment_fixture) list" where
  "VERIFIED_PAYMENT_FIXTURES =
    [(VERIFIED_PAYMENT_FIXTURE_ID,
      \<lparr>fx_payment_ref = VERIFIED_PAYMENT_FIXTURE_ID, fx_sub = ''demo-user'',
       fx_intent_id = ''demo-intent-001'', fx_resource_id = ''premium-article'',
       fx_policy_id = ''single-use-access''\<rparr>)]"

definition HOST_EXPECTED_BINDINGS :: jsval where
  "HOST_EXPECTED_BINDINGS = JObj
    [(''sub'', JStr ''demo-user''),
     (''resource_id'', JStr ''premium-article''),
     (''policy_id'', JStr ''single-use-access''),
     (''intent_id'', JStr ''demo-intent-001''),
     (''max_redemptions'', JInt 1)] []"

definition AUTHORITY_FIELDS :: "string list" where
  "AUTHORITY_FIELDS =
    [''jti'', ''iss'', ''sub'', ''aud'', ''intent_id'', ''resource_id'', ''policy_id'',
     ''grant_type'', ''max_redemptions'', ''exp'']"

definition verifyPaymentFixture :: "jsval \<Rightarrow> payment_fixture option" where
  "verifyPaymentFixture fixtureId =
     (case fixtureId of JStr s \<Rightarrow> map_of VERIFIED_PAYMENT_FIXTURES s | _ \<Rightarrow> None)"

section \<open>The in-memory store\<close>

record demo_record =
  dm_authority :: jsval
  dm_expiresAt :: jsval
  dm_redemptionCount :: int
  dm_revoked :: bool
  dm_exhausted :: bool

record demo_store =
  ds_records :: "jsval \<Rightarrow> demo_record option"
  ds_consumeCalls :: nat

definition newDemoStore :: demo_store where
  "newDemoStore = \<lparr>ds_records = (\<lambda>_. None), ds_consumeCalls = 0\<rparr>"

definition authorityFromClaims :: "jsval \<Rightarrow> jsval" where
  "authorityFromClaims claims = JObj (map (\<lambda>field. (field, js_get claims field)) AUTHORITY_FIELDS) []"

text \<open>\<open>command[field]\<close>\<close>

definition cmd_field :: "consume_command \<Rightarrow> string \<Rightarrow> jsval" where
  "cmd_field cmd field =
     (case map_of
        [(''jti'', cmd_jti cmd), (''iss'', cmd_iss cmd), (''sub'', cmd_sub cmd),
         (''aud'', cmd_aud cmd), (''intent_id'', cmd_intent_id cmd),
         (''resource_id'', cmd_resource_id cmd), (''policy_id'', cmd_policy_id cmd),
         (''grant_type'', cmd_grant_type cmd), (''max_redemptions'', cmd_max_redemptions cmd),
         (''exp'', cmd_exp cmd), (''current_time'', cmd_current_time cmd),
         (''expected_max_redemptions'', cmd_expected_max_redemptions cmd)] field of
        Some v \<Rightarrow> v | None \<Rightarrow> JUndef)"

definition authorityMatches :: "consume_command \<Rightarrow> jsval \<Rightarrow> bool" where
  "authorityMatches cmd authority \<longleftrightarrow>
     list_all (\<lambda>field. js_eq (cmd_field cmd field) (js_get authority field)) AUTHORITY_FIELDS"

definition registerIssuedReceipt :: "jsval \<Rightarrow> demo_store \<Rightarrow> (js_exn + unit) \<times> demo_store" where
  "registerIssuedReceipt claims s =
     (if ds_records s (js_get claims ''jti'') \<noteq> None
      then (Inl (JSError ''Receipt identity is already registered.''), s)
      else (Inr (), s\<lparr>ds_records := (ds_records s)(js_get claims ''jti'' \<mapsto>
             \<lparr>dm_authority = authorityFromClaims claims, dm_expiresAt = js_get claims ''exp'',
              dm_redemptionCount = 0, dm_revoked = False, dm_exhausted = False\<rparr>)\<rparr>))"

text \<open>
  The operands of the two \<open>>=\<close> are numbers wherever the store is used (its own records and the time of a
  redemption), and they are compared as numbers.
\<close>

definition demo_consume :: "consume_command \<Rightarrow> demo_store \<Rightarrow> (js_exn + jsval) \<times> demo_store" where
  "demo_consume cmd s0 =
     (let s = s0\<lparr>ds_consumeCalls := ds_consumeCalls s0 + 1\<rparr> in
      case ds_records s (cmd_jti cmd) of
        None \<Rightarrow> (Inr (result_obj ReceiptMissing), s)
      | Some d \<Rightarrow>
          if \<not> authorityMatches cmd (dm_authority d) then (Inr (result_obj AuthorityMismatch), s)
          else if cmd_expected_max_redemptions cmd \<noteq> JUndef
                \<and> \<not> js_eq (cmd_expected_max_redemptions cmd) (js_get (dm_authority d) ''max_redemptions'')
          then (Inr (result_obj AuthorityMismatch), s)
          else if dm_revoked d then (Inr (result_obj ReceiptRevoked), s)
          else if js_num_le (dm_expiresAt d) (cmd_current_time cmd)
          then (Inr (result_obj ReceiptExpired), s)
          else (let persistedLimit = js_get (dm_authority d) ''max_redemptions'' in
            if dm_exhausted d \<or> js_num_le persistedLimit (JInt (dm_redemptionCount d))
            then (Inr (result_obj ReceiptExhausted), s)
            else (let nextRedemptionCount = dm_redemptionCount d + 1;
                      exhausted = js_num_le persistedLimit (JInt nextRedemptionCount)
              in (Inr (result_obj (Consumed exhausted)),
                  s\<lparr>ds_records := (ds_records s)(cmd_jti cmd \<mapsto>
                      d\<lparr>dm_redemptionCount := nextRedemptionCount, dm_exhausted := exhausted\<rparr>)\<rparr>))))"

definition demo_revoke :: "jsval \<Rightarrow> demo_store \<Rightarrow> demo_store" where
  "demo_revoke jti s =
     (case ds_records s jti of
        Some d \<Rightarrow> s\<lparr>ds_records := (ds_records s)(jti \<mapsto> d\<lparr>dm_revoked := True\<rparr>)\<rparr>
      | None \<Rightarrow> s)"

definition demo_expire :: "jsval \<Rightarrow> demo_store \<Rightarrow> demo_store" where
  "demo_expire jti s =
     (case ds_records s jti of
        Some d \<Rightarrow> s\<lparr>ds_records := (ds_records s)(jti \<mapsto> d\<lparr>dm_expiresAt := JInt 0\<rparr>)\<rparr>
      | None \<Rightarrow> s)"

definition tamperAuthorityForTest :: "jsval \<Rightarrow> jsval \<Rightarrow> demo_store \<Rightarrow> demo_store" where
  "tamperAuthorityForTest jti changes s =
     (case ds_records s jti of
        Some d \<Rightarrow> s\<lparr>ds_records := (ds_records s)(jti \<mapsto>
                    d\<lparr>dm_authority := object_spread (dm_authority d) changes\<rparr>)\<rparr>
      | None \<Rightarrow> s)"

definition getPersistedStateForTest :: "jsval \<Rightarrow> demo_store \<Rightarrow> demo_record option" where
  "getPersistedStateForTest jti s = ds_records s jti"

section \<open>The service\<close>

record 'k paid_service =
  ps_signer :: "'k imported_key"
  ps_verifier :: "'k verifier_state"
  ps_expectedBindings :: jsval

definition demo_jwk :: "jsval \<Rightarrow> jsval" where
  "demo_jwk exported =
     object_spread exported (JObj [(''alg'', JStr ''EdDSA''), (''kid'', JStr DEMO_KEY_ID)] [])"

text \<open>The exported halves of the generated key pair are given.\<close>

definition generateDemoKeys :: "jsval \<times> jsval \<Rightarrow> jsval \<times> jsval" where
  "generateDemoKeys exported = (demo_jwk (fst exported), demo_jwk (snd exported))"

definition createPaidResourceService ::
  "'k jose_lib \<Rightarrow> jsval \<times> jsval \<Rightarrow> js_exn + 'k paid_service \<times> demo_store" where
  "createPaidResourceService lib exported =
     (case generateDemoKeys exported of (privateKey, publicKey) \<Rightarrow>
      bindE (createAccessReceiptSigner lib (JObj [(''privateKey'', privateKey)] [])) (\<lambda>signer.
      bindE (createAccessReceiptVerifier lib (JObj [(''publicKeys'', JArr [publicKey]),
               (''issuer'', JStr DEMO_ISSUER), (''audience'', JStr DEMO_AUDIENCE)] [])) (\<lambda>verifier.
      Inr (\<lparr>ps_signer = signer, ps_verifier = verifier,
            ps_expectedBindings = HOST_EXPECTED_BINDINGS\<rparr>, newDemoStore))))"

text \<open>\<open>Math.floor\<close> and \<open>+\<close>.\<close>

fun num_floor :: "jsnum \<Rightarrow> jsnum" where
  "num_floor (Fin q) = int_num \<lfloor>q\<rfloor>"
| "num_floor n = n"

fun num_add_int :: "jsnum \<Rightarrow> int \<Rightarrow> jsnum" where
  "num_add_int (Fin q) i = Fin (q + of_int i)"
| "num_add_int n i = n"

datatype issue_result = PaymentNotVerified | Issued string

definition receipt_input :: "payment_fixture \<Rightarrow> jsnum \<Rightarrow> string \<Rightarrow> jsval" where
  "receipt_input verifiedPayment issuedAt uuid = JObj
    [(''iss'', JStr DEMO_ISSUER),
     (''sub'', JStr (fx_sub verifiedPayment)),
     (''aud'', JStr DEMO_AUDIENCE),
     (''iat'', JNum issuedAt),
     (''nbf'', JNum issuedAt),
     (''exp'', JNum (num_add_int issuedAt RECEIPT_LIFETIME_SECONDS)),
     (''jti'', JStr uuid),
     (''intent_id'', JStr (fx_intent_id verifiedPayment)),
     (''resource_id'', JStr (fx_resource_id verifiedPayment)),
     (''policy_id'', JStr (fx_policy_id verifiedPayment)),
     (''payment_ref'', JStr (fx_payment_ref verifiedPayment)),
     (''grant_type'', JStr ''single_redemption''),
     (''max_redemptions'', JInt 1)] []"

definition demo_issueReceipt ::
  "safe_parse \<Rightarrow> 'k jose_lib \<Rightarrow> 'k paid_service \<Rightarrow> jsnum \<Rightarrow> string \<Rightarrow> jsval \<Rightarrow> demo_store
   \<Rightarrow> (js_exn + issue_result) \<times> demo_store" where
  "demo_issueReceipt sp lib service clock uuid paymentFixtureId s =
     (case verifyPaymentFixture paymentFixtureId of
        None \<Rightarrow> (Inr PaymentNotVerified, s)
      | Some verifiedPayment \<Rightarrow>
          (case buildAccessReceiptClaims sp (receipt_input verifiedPayment (num_floor clock) uuid) of
             Inl e \<Rightarrow> (Inl e, s)
           | Inr claims \<Rightarrow>
               (case accessReceiptSigner sp lib (ps_signer service) claims of
                  Inl e \<Rightarrow> (Inl e, s)
                | Inr receipt \<Rightarrow>
                    (case registerIssuedReceipt claims s of
                       (Inl e, s') \<Rightarrow> (Inl e, s')
                     | (Inr _, s') \<Rightarrow> (Inr (Issued receipt), s')))))"

text \<open>
  The verifier reads a clock of its own, \<open>now\<close>; the time handed to the redemption is the service's.
\<close>

definition redemption_input ::
  "safe_parse \<Rightarrow> 'k jose_lib \<Rightarrow> 'k paid_service \<Rightarrow> int \<Rightarrow> jsnum \<Rightarrow> jsval \<Rightarrow> jsval
   \<Rightarrow> demo_store redeem_input" where
  "redemption_input sp lib service now clock token bindings =
     RedeemInput token bindings (Some (\<lambda>t. verifyToken sp lib now t (ps_verifier service)))
       (Some demo_consume) (JNum (num_floor clock))"

definition demo_redeemReceipt ::
  "safe_parse \<Rightarrow> 'k jose_lib \<Rightarrow> 'k paid_service \<Rightarrow> int \<Rightarrow> jsnum \<Rightarrow> jsval \<Rightarrow> jsval
   \<Rightarrow> demo_store \<Rightarrow> redemption_result \<times> demo_store" where
  "demo_redeemReceipt sp lib service now clock token bindings s =
     redeemAccessReceipt sp (redemption_input sp lib service now clock token bindings) s"

section \<open>The store keeps the contract\<close>

text \<open>
  The authoritative receipt of a record. An expiry that the host forced (\<open>expire\<close>) is permanent, and
  counts as a revocation.
\<close>

definition demo_receipt :: "demo_record \<Rightarrow> auth_receipt" where
  "demo_receipt d =
     (let field = (\<lambda>f. js_get (dm_authority d) f) in
      \<lparr>ar_iss = the_string (field ''iss''), ar_sub = the_string (field ''sub''),
       ar_aud = the_string (field ''aud''), ar_intent_id = the_string (field ''intent_id''),
       ar_resource_id = the_string (field ''resource_id''),
       ar_policy_id = the_string (field ''policy_id''),
       ar_grant_type = the_string (field ''grant_type''),
       ar_max = the_int (field ''max_redemptions''), ar_exp = the_int (field ''exp''),
       ar_count = dm_redemptionCount d,
       ar_revoked = (dm_revoked d \<or> js_num_le (dm_expiresAt d) (JInt 0))\<rparr>)"

definition demo_receipts :: "demo_store \<Rightarrow> authority" where
  "demo_receipts s jti = map_option demo_receipt (ds_records s (JStr jti))"

text \<open>\<open>holds_claims c d\<close>: the record \<open>d\<close> was registered for the claims \<open>c\<close>.\<close>

definition holds_claims :: "receipt_claims \<Rightarrow> demo_record \<Rightarrow> bool" where
  "holds_claims c d \<longleftrightarrow>
     claims_valid c \<and> dm_authority d = authorityFromClaims (claims_obj c)
   \<and> (dm_expiresAt d = JInt (rc_exp c) \<or> dm_expiresAt d = JInt 0)
   \<and> 0 \<le> dm_redemptionCount d \<and> dm_redemptionCount d \<le> rc_max_redemptions c
   \<and> dm_exhausted d = (rc_max_redemptions c \<le> dm_redemptionCount d)"

definition demo_ok :: "demo_store \<Rightarrow> bool" where
  "demo_ok s \<longleftrightarrow>
     (\<forall>k d. ds_records s k = Some d \<longrightarrow> (\<exists>c. k = JStr (rc_jti c) \<and> holds_claims c d))"

definition demo_host :: "demo_store \<Rightarrow> demo_store \<Rightarrow> bool" where
  "demo_host s s' \<longleftrightarrow>
     (\<exists>c. claims_valid c \<and> s' = snd (registerIssuedReceipt (claims_obj c) s))
   \<or> (\<exists>jti. s' = demo_revoke jti s) \<or> (\<exists>jti. s' = demo_expire jti s)"

lemma authority_get:
  "js_get (authorityFromClaims v) f = (if f \<in> set AUTHORITY_FIELDS then js_get v f else JUndef)"
proof -
  have "map_of (map (\<lambda>f. (f, g f)) fs) f = (if f \<in> set fs then Some (g f) else None)"
    for g :: "string \<Rightarrow> jsval" and fs
    by (induction fs) auto
  then show ?thesis by (simp add: authorityFromClaims_def js_get_def)
qed

lemma authority_of_claims [simp]:
  "js_get (authorityFromClaims (claims_obj c)) ''jti'' = JStr (rc_jti c)"
  "js_get (authorityFromClaims (claims_obj c)) ''iss'' = JStr (rc_iss c)"
  "js_get (authorityFromClaims (claims_obj c)) ''sub'' = JStr (rc_sub c)"
  "js_get (authorityFromClaims (claims_obj c)) ''aud'' = JStr (rc_aud c)"
  "js_get (authorityFromClaims (claims_obj c)) ''intent_id'' = JStr (rc_intent_id c)"
  "js_get (authorityFromClaims (claims_obj c)) ''resource_id'' = JStr (rc_resource_id c)"
  "js_get (authorityFromClaims (claims_obj c)) ''policy_id'' = JStr (rc_policy_id c)"
  "js_get (authorityFromClaims (claims_obj c)) ''grant_type'' = JStr (grant_type_string (rc_grant_type c))"
  "js_get (authorityFromClaims (claims_obj c)) ''max_redemptions'' = JInt (rc_max_redemptions c)"
  "js_get (authorityFromClaims (claims_obj c)) ''exp'' = JInt (rc_exp c)"
  by (simp_all add: authority_get AUTHORITY_FIELDS_def)

lemma num_le_zero_left [simp]: "num_le (Fin 0) (int_num i) \<longleftrightarrow> 0 \<le> i"
  using num_le_int [of 0 i] by (simp del: num_le_int)

lemma num_le_int_add_one [simp]: "num_le (int_num m) (Fin (of_int k + 1)) \<longleftrightarrow> m \<le> k + 1"
  using num_le_int [of m "k + 1"] by (simp del: num_le_int)

lemma authorityMatches_claims:
  "authorityMatches cmd (authorityFromClaims (claims_obj c)) \<longleftrightarrow>
     cmd_jti cmd = JStr (rc_jti c) \<and> cmd_iss cmd = JStr (rc_iss c) \<and> cmd_sub cmd = JStr (rc_sub c)
   \<and> cmd_aud cmd = JStr (rc_aud c) \<and> cmd_intent_id cmd = JStr (rc_intent_id c)
   \<and> cmd_resource_id cmd = JStr (rc_resource_id c) \<and> cmd_policy_id cmd = JStr (rc_policy_id c)
   \<and> cmd_grant_type cmd = JStr (grant_type_string (rc_grant_type c))
   \<and> cmd_max_redemptions cmd = JInt (rc_max_redemptions c) \<and> cmd_exp cmd = JInt (rc_exp c)"
  by (simp add: authorityMatches_def AUTHORITY_FIELDS_def cmd_field_def)

lemma demo_receipt_claims:
  "holds_claims c d \<Longrightarrow> demo_receipt d =
     \<lparr>ar_iss = rc_iss c, ar_sub = rc_sub c, ar_aud = rc_aud c, ar_intent_id = rc_intent_id c,
      ar_resource_id = rc_resource_id c, ar_policy_id = rc_policy_id c,
      ar_grant_type = grant_type_string (rc_grant_type c), ar_max = rc_max_redemptions c,
      ar_exp = rc_exp c, ar_count = dm_redemptionCount d,
      ar_revoked = (dm_revoked d \<or> js_num_le (dm_expiresAt d) (JInt 0))\<rparr>"
  by (simp add: holds_claims_def demo_receipt_def Let_def)

lemma demo_calls [simp]:
  "demo_receipts (s\<lparr>ds_consumeCalls := n\<rparr>) = demo_receipts s"
  "demo_ok (s\<lparr>ds_consumeCalls := n\<rparr>) = demo_ok s"
  by (simp_all add: demo_receipts_def demo_ok_def fun_eq_iff)

lemma num_le_zero_zero [simp]: "num_le (Fin 0) (Fin 0)"
  by (simp add: num_le_def)

lemma demo_okD:
  "demo_ok s \<Longrightarrow> ds_records s (JStr jti) = Some d \<Longrightarrow> \<exists>c. rc_jti c = jti \<and> holds_claims c d"
  by (fastforce simp: demo_ok_def)

lemma demo_ok_update:
  assumes "demo_ok s" and "ds_records s' = (ds_records s)(JStr (rc_jti c) \<mapsto> d)" and "holds_claims c d"
  shows "demo_ok s'"
  using assms by (auto simp: demo_ok_def)

text \<open>What one call does: it reports the truth, and only a consumption changes a record.\<close>

definition demo_outcome :: "consume_command \<Rightarrow> demo_store \<Rightarrow> consume_result" where
  "demo_outcome cmd s =
     (case ds_records s (cmd_jti cmd) of
        None \<Rightarrow> ReceiptMissing
      | Some d \<Rightarrow>
          if \<not> authority_matches cmd (demo_receipt d) then AuthorityMismatch
          else if dm_revoked d then ReceiptRevoked
          else if js_num_le (dm_expiresAt d) (cmd_current_time cmd) then ReceiptExpired
          else if ar_max (demo_receipt d) \<le> dm_redemptionCount d then ReceiptExhausted
          else Consumed (ar_max (demo_receipt d) \<le> dm_redemptionCount d + 1))"

definition demo_taken :: "consume_command \<Rightarrow> demo_store \<Rightarrow> demo_store" where
  "demo_taken cmd s =
     (case (demo_outcome cmd s, ds_records s (cmd_jti cmd)) of
        (Consumed b, Some d) \<Rightarrow> s\<lparr>ds_records := (ds_records s)(cmd_jti cmd \<mapsto>
            d\<lparr>dm_redemptionCount := dm_redemptionCount d + 1, dm_exhausted := b\<rparr>)\<rparr>
      | _ \<Rightarrow> s)"

lemma demo_consume_spec:
  assumes "demo_ok s"
  shows "demo_consume cmd s = (Inr (result_obj (demo_outcome cmd s)),
    (demo_taken cmd s)\<lparr>ds_consumeCalls := ds_consumeCalls s + 1\<rparr>)"
proof (cases "ds_records s (cmd_jti cmd)")
  case None
  then show ?thesis by (simp add: demo_consume_def demo_outcome_def demo_taken_def Let_def)
next
  case (Some d)
  with assms obtain c where c: "cmd_jti cmd = JStr (rc_jti c)" "holds_claims c d"
    by (auto simp: demo_ok_def)
  have a: "dm_authority d = authorityFromClaims (claims_obj c)"
    and e: "dm_exhausted d = (rc_max_redemptions c \<le> dm_redemptionCount d)"
    using c(2) by (simp_all add: holds_claims_def)
  have m: "(authorityMatches cmd (dm_authority d)
      \<and> (cmd_expected_max_redemptions cmd = JUndef
         \<or> js_eq (cmd_expected_max_redemptions cmd) (js_get (dm_authority d) ''max_redemptions'')))
    \<longleftrightarrow> authority_matches cmd (demo_receipt d)"
    using c by (auto simp: a authorityMatches_claims demo_receipt_claims authority_matches_def)
  have mx: "ar_max (demo_receipt d) = rc_max_redemptions c"
    using c(2) by (simp add: demo_receipt_claims)
  show ?thesis
  proof (cases "authority_matches cmd (demo_receipt d)")
    case True
    with m have "authorityMatches cmd (dm_authority d)" "\<not> (cmd_expected_max_redemptions cmd \<noteq> JUndef
        \<and> \<not> js_eq (cmd_expected_max_redemptions cmd) (js_get (dm_authority d) ''max_redemptions''))"
      by auto
    with True show ?thesis
      by (simp add: demo_consume_def demo_outcome_def demo_taken_def Let_def Some mx e)
        (simp add: a)
  next
    case False
    with m show ?thesis
      by (auto simp: demo_consume_def demo_outcome_def demo_taken_def Let_def Some)
  qed
qed

lemma demo_outcome_Consumed:
  assumes "demo_ok s" and "demo_outcome cmd s = Consumed b"
  obtains c d where "cmd_jti cmd = JStr (rc_jti c)" "ds_records s (JStr (rc_jti c)) = Some d"
    "holds_claims c d" "authority_matches cmd (demo_receipt d)" "\<not> dm_revoked d"
    "\<not> js_num_le (dm_expiresAt d) (cmd_current_time cmd)"
    "dm_redemptionCount d < rc_max_redemptions c"
    "b = (rc_max_redemptions c \<le> dm_redemptionCount d + 1)"
    "demo_taken cmd s = s\<lparr>ds_records := (ds_records s)(JStr (rc_jti c) \<mapsto>
       d\<lparr>dm_redemptionCount := dm_redemptionCount d + 1, dm_exhausted := b\<rparr>)\<rparr>"
proof -
  from assms(2) obtain d where d: "ds_records s (cmd_jti cmd) = Some d"
    by (auto simp: demo_outcome_def split: option.splits)
  with assms(1) obtain c where c: "cmd_jti cmd = JStr (rc_jti c)" "holds_claims c d"
    by (auto simp: demo_ok_def)
  have mx: "ar_max (demo_receipt d) = rc_max_redemptions c"
    using c(2) by (simp add: demo_receipt_claims)
  from assms(2) d c(1) mx show ?thesis
    by (intro that [of c d])
      (auto simp: demo_outcome_def demo_taken_def c(2) split: if_splits)
qed

lemma demo_taken_denied: "(\<nexists>b. demo_outcome cmd s = Consumed b) \<Longrightarrow> demo_taken cmd s = s"
  by (cases "demo_outcome cmd s") (simp_all add: demo_taken_def split: option.split)

lemma holds_claims_taken:
  "holds_claims c d \<Longrightarrow> dm_redemptionCount d < rc_max_redemptions c \<Longrightarrow>
   holds_claims c (d\<lparr>dm_redemptionCount := dm_redemptionCount d + 1,
     dm_exhausted := rc_max_redemptions c \<le> dm_redemptionCount d + 1\<rparr>)"
  by (auto simp: holds_claims_def)

lemma demo_taken_ok: "demo_ok s \<Longrightarrow> demo_ok (demo_taken cmd s)"
proof (cases "\<exists>b. demo_outcome cmd s = Consumed b")
  case True
  assume ok: "demo_ok s"
  from True obtain b where "demo_outcome cmd s = Consumed b" by blast
  from ok this show ?thesis
    by (cases rule: demo_outcome_Consumed)
      (simp add: demo_ok_update [OF ok _ holds_claims_taken])
qed (simp add: demo_taken_denied)

lemma demo_receipts_update:
  "ds_records s' = (ds_records s)(JStr jti \<mapsto> d) \<Longrightarrow>
   demo_receipts s' = (demo_receipts s)(jti \<mapsto> demo_receipt d)"
  by (auto simp: demo_receipts_def)

lemma demo_taken_consumes:
  assumes "demo_ok s" and "timely cmd" and "demo_outcome cmd s = Consumed b"
  shows "consumes (demo_receipts s) cmd b (demo_receipts (demo_taken cmd s))"
proof -
  from assms(2) obtain t where t: "cmd_current_time cmd = JInt t" "0 \<le> t" by (auto simp: timely_def)
  from assms(1,3) show ?thesis
  proof (cases rule: demo_outcome_Consumed)
    case (1 c d)
    have "dm_expiresAt d \<noteq> JInt 0" using 1(6) t by auto
    then have e: "dm_expiresAt d = JInt (rc_exp c)" using 1(3) by (auto simp: holds_claims_def)
    then have x: "t < rc_exp c" using 1(6) t by simp
    then have "\<not> js_num_le (dm_expiresAt d) (JInt 0)" using t(2) e by simp
    then have adm: "admissible cmd (demo_receipt d)"
      using 1 t x by (auto simp: admissible_def demo_receipt_claims)
    have r: "demo_receipts (demo_taken cmd s) = (demo_receipts s)(rc_jti c \<mapsto> demo_receipt
        (d\<lparr>dm_redemptionCount := dm_redemptionCount d + 1, dm_exhausted := b\<rparr>))"
      using 1(9) by (intro demo_receipts_update) simp
    have d': "demo_receipt (d\<lparr>dm_redemptionCount := dm_redemptionCount d + 1, dm_exhausted := b\<rparr>)
        = (demo_receipt d)\<lparr>ar_count := ar_count (demo_receipt d) + 1\<rparr>"
      by (simp add: demo_receipt_def Let_def)
    have "ar_count (demo_receipt d) = dm_redemptionCount d"
      and "ar_max (demo_receipt d) = rc_max_redemptions c"
      using 1(3) by (simp_all add: demo_receipt_claims)
    then have "b = (ar_count (demo_receipt d) + 1 = ar_max (demo_receipt d))"
      using 1(7,8) by auto
    then show ?thesis
      unfolding consumes_def r d' using 1(1,2) adm
      by (intro exI [of _ "rc_jti c"] exI [of _ "demo_receipt d"]) (simp add: demo_receipts_def)
  qed
qed

lemma registerIssuedReceipt_claims:
  "registerIssuedReceipt (claims_obj c) s =
     (if ds_records s (JStr (rc_jti c)) \<noteq> None
      then (Inl (JSError ''Receipt identity is already registered.''), s)
      else (Inr (), s\<lparr>ds_records := (ds_records s)(JStr (rc_jti c) \<mapsto>
             \<lparr>dm_authority = authorityFromClaims (claims_obj c), dm_expiresAt = JInt (rc_exp c),
              dm_redemptionCount = 0, dm_revoked = False, dm_exhausted = False\<rparr>)\<rparr>))"
  by (simp add: registerIssuedReceipt_def)

lemma claims_valid_limit: "claims_valid c \<Longrightarrow> 1 \<le> rc_max_redemptions c"
  by (auto simp: claims_valid_def split: grant_type.splits)

lemma holds_claims_fresh:
  "claims_valid c \<Longrightarrow> holds_claims c
     \<lparr>dm_authority = authorityFromClaims (claims_obj c), dm_expiresAt = JInt (rc_exp c),
      dm_redemptionCount = 0, dm_revoked = False, dm_exhausted = False\<rparr>"
  using claims_valid_limit [of c] by (simp add: holds_claims_def)

lemma demo_host_ok: "demo_ok s \<Longrightarrow> demo_host s s' \<Longrightarrow> demo_ok s'"
  unfolding demo_host_def
proof (elim disjE exE conjE)
  fix c assume *: "demo_ok s" "claims_valid c" "s' = snd (registerIssuedReceipt (claims_obj c) s)"
  show ?thesis
  proof (cases "ds_records s (JStr (rc_jti c))")
    case None
    with * show ?thesis
      by (intro demo_ok_update [OF *(1) _ holds_claims_fresh [OF *(2)]])
        (simp add: registerIssuedReceipt_claims)
  qed (use * in \<open>simp add: registerIssuedReceipt_claims\<close>)
next
  fix jti assume ok: "demo_ok s" and s': "s' = demo_revoke jti s"
  show ?thesis
  proof (cases "ds_records s jti")
    case (Some d)
    with ok obtain c where c: "jti = JStr (rc_jti c)" "holds_claims c d" by (auto simp: demo_ok_def)
    from c(2) have h: "holds_claims c (d\<lparr>dm_revoked := True\<rparr>)" by (simp add: holds_claims_def)
    have "ds_records s' = (ds_records s)(JStr (rc_jti c) \<mapsto> d\<lparr>dm_revoked := True\<rparr>)"
      unfolding s' demo_revoke_def by (simp only: Some option.case c(1) [symmetric]) simp
    from ok this h show ?thesis by (rule demo_ok_update)
  qed (use ok s' in \<open>simp add: demo_revoke_def\<close>)
next
  fix jti assume ok: "demo_ok s" and s': "s' = demo_expire jti s"
  show ?thesis
  proof (cases "ds_records s jti")
    case (Some d)
    with ok obtain c where c: "jti = JStr (rc_jti c)" "holds_claims c d" by (auto simp: demo_ok_def)
    from c(2) have h: "holds_claims c (d\<lparr>dm_expiresAt := JInt 0\<rparr>)" by (simp add: holds_claims_def)
    have "ds_records s' = (ds_records s)(JStr (rc_jti c) \<mapsto> d\<lparr>dm_expiresAt := JInt 0\<rparr>)"
      unfolding s' demo_expire_def by (simp only: Some option.case c(1) [symmetric]) simp
    from ok this h show ?thesis by (rule demo_ok_update)
  qed (use ok s' in \<open>simp add: demo_expire_def\<close>)
qed

lemma demo_host_receipts:
  assumes "demo_host s s'"
  shows "host_keeps (demo_receipts s) (demo_receipts s')"
  using assms unfolding demo_host_def
proof (elim disjE exE conjE)
  fix c assume "s' = snd (registerIssuedReceipt (claims_obj c) s)"
  then show ?thesis
    by (auto simp: registerIssuedReceipt_claims host_keeps_def demo_receipts_def)
next
  fix jti assume "s' = demo_revoke jti s"
  then show ?thesis
    by (auto simp: demo_revoke_def host_keeps_def demo_receipts_def demo_receipt_def Let_def
        split: option.split)
next
  fix jti assume "s' = demo_expire jti s"
  then show ?thesis
    by (auto simp: demo_expire_def host_keeps_def demo_receipts_def demo_receipt_def Let_def
        split: option.split)
qed

interpretation demo: access_receipt_store "\<lambda>_ :: unit. demo_consume" demo_host demo_receipts demo_ok
proof (unfold_locales, goal_cases)
  case (1 s w cmd res s')
  then have "s' = (demo_taken cmd s)\<lparr>ds_consumeCalls := ds_consumeCalls s + 1\<rparr>"
    by (simp add: demo_consume_spec)
  with demo_taken_ok [OF 1(1), of cmd] show ?case by (simp add: demo_ok_def)
next
  case (2 s s')
  then show ?case by (rule demo_host_ok)
next
  case (3 s jti r)
  then obtain d where d: "ds_records s (JStr jti) = Some d" "r = demo_receipt d"
    by (auto simp: demo_receipts_def)
  with demo_okD [OF 3(1)] obtain c where "holds_claims c d" by blast
  with d show ?case by (simp add: demo_receipt_claims) (simp add: holds_claims_def)
next
  case (4 s s')
  then show ?case by (intro demo_host_receipts)
next
  case (5 s w cmd v s')
  then show ?case by (auto simp: demo_consume_spec)
next
  case (6 s cmd w b s')
  then show ?case using demo_taken_consumes [OF 6(1,2)]
    by (auto simp: demo_consume_spec demo_receipts_def fun_eq_iff)
next
  case (7 s w cmd out s')
  then have "demo_taken cmd s = s" by (intro demo_taken_denied) (auto simp: demo_consume_spec)
  with 7 show ?case by (auto simp: demo_consume_spec demo_receipts_def fun_eq_iff)
next
  case (8 s w cmd res s')
  then have "demo_outcome cmd s = SystemFailure" by (auto simp: demo_consume_spec)
  then show ?case by (auto simp: demo_outcome_def split: option.splits if_splits)
qed

end
