(* ===== verification/Paid_Resource_Server.thy ===== *)
theory Paid_Resource_Server
  imports Paid_Resource
begin

text \<open>
  What the paid-resource service guarantees, and its HTTP server
  (\<^verbatim>\<open>examples/paid-resource/src/server.mjs\<close>): issuing for the verified fixture, redemption of an issued
  receipt, and the two routes. The body of a request arrives in chunks; the parsing of its JSON and of
  the request's URL, and the circumstances of a call (clocks, random identifier), are arguments.
\<close>

section \<open>Issuing\<close>

definition paid_claims :: "int \<Rightarrow> string \<Rightarrow> receipt_claims" where
  "paid_claims t uuid =
     \<lparr>rc_iss = DEMO_ISSUER, rc_sub = ''demo-user'', rc_aud = DEMO_AUDIENCE, rc_iat = t, rc_nbf = t,
      rc_exp = t + RECEIPT_LIFETIME_SECONDS, rc_jti = uuid, rc_intent_id = ''demo-intent-001'',
      rc_resource_id = ''premium-article'', rc_policy_id = ''single-use-access'',
      rc_payment_ref = Some VERIFIED_PAYMENT_FIXTURE_ID, rc_grant_type = SingleRedemption,
      rc_max_redemptions = 1\<rparr>"

definition registered :: "receipt_claims \<Rightarrow> demo_store \<Rightarrow> demo_store" where
  "registered c s = s\<lparr>ds_records := (ds_records s)(JStr (rc_jti c) \<mapsto>
     \<lparr>dm_authority = authorityFromClaims (claims_obj c), dm_expiresAt = JInt (rc_exp c),
      dm_redemptionCount = 0, dm_revoked = False, dm_exhausted = False\<rparr>)\<rparr>"

lemma verifyPaymentFixture_Some_iff:
  "verifyPaymentFixture v = Some p \<longleftrightarrow> v = JStr VERIFIED_PAYMENT_FIXTURE_ID
   \<and> p = \<lparr>fx_payment_ref = VERIFIED_PAYMENT_FIXTURE_ID, fx_sub = ''demo-user'',
       fx_intent_id = ''demo-intent-001'', fx_resource_id = ''premium-article'',
       fx_policy_id = ''single-use-access''\<rparr>"
  by (cases v) (auto simp: verifyPaymentFixture_def VERIFIED_PAYMENT_FIXTURES_def)

lemma paid_claims_valid_iff:
  "claims_valid (paid_claims t uuid) \<longleftrightarrow>
     uuid \<noteq> [] \<and> safe_int t \<and> safe_int (t + RECEIPT_LIFETIME_SECONDS)"
  by (auto simp: claims_valid_def paid_claims_def DEMO_ISSUER_def DEMO_AUDIENCE_def
      RECEIPT_LIFETIME_SECONDS_def safe_int_def max_safe_integer_def)

lemma paid_input_carries:
  assumes "verifyPaymentFixture v = Some p"
  shows "carries (receipt_input p (int_num t) uuid) (paid_claims t uuid)"
proof -
  have p: "p = \<lparr>fx_payment_ref = VERIFIED_PAYMENT_FIXTURE_ID, fx_sub = ''demo-user'',
       fx_intent_id = ''demo-intent-001'', fx_resource_id = ''premium-article'',
       fx_policy_id = ''single-use-access''\<rparr>"
    using assms verifyPaymentFixture_Some_iff by blast
  show ?thesis
    unfolding p carries_iff
    by (simp add: receipt_input_def js_get_def paid_claims_def payment_ref_val_def)
qed

lemma receipt_input_iat: "js_get (receipt_input p n uuid) ''iat'' = JNum n"
  by (simp add: receipt_input_def)

lemma receipt_input_carries:
  assumes "verifyPaymentFixture v = Some p"
  shows "carries (receipt_input p (num_floor clock) uuid) c \<longleftrightarrow>
    (\<exists>q. clock = Fin q \<and> c = paid_claims \<lfloor>q\<rfloor> uuid)"
proof
  assume l: "carries (receipt_input p (num_floor clock) uuid) c"
  then have "js_get (receipt_input p (num_floor clock) uuid) ''iat'' = JInt (rc_iat c)"
    unfolding carries_iff by blast
  then have "num_floor clock = int_num (rc_iat c)" by (simp only: receipt_input_iat jsval.inject)
  then obtain q where q: "clock = Fin q" by (cases clock) simp_all
  with l paid_input_carries [OF assms] have "c = paid_claims \<lfloor>q\<rfloor> uuid"
    by (metis carries_unique num_floor.simps(1))
  with q show "\<exists>q. clock = Fin q \<and> c = paid_claims \<lfloor>q\<rfloor> uuid" by blast
next
  assume "\<exists>q. clock = Fin q \<and> c = paid_claims \<lfloor>q\<rfloor> uuid"
  then obtain q where q: "clock = Fin q" "c = paid_claims \<lfloor>q\<rfloor> uuid" by blast
  show "carries (receipt_input p (num_floor clock) uuid) c"
    unfolding q num_floor.simps by (rule paid_input_carries [OF assms])
qed

lemma issueReceipt_Issued_iff:
  assumes "zod_parser Zod4 sp"
  shows "demo_issueReceipt sp lib service clock uuid v s = (Inr (Issued tok), s') \<longleftrightarrow>
    (\<exists>q. v = JStr VERIFIED_PAYMENT_FIXTURE_ID \<and> clock = Fin q
       \<and> claims_valid (paid_claims \<lfloor>q\<rfloor> uuid)
       \<and> signJWT lib (claims_obj (paid_claims \<lfloor>q\<rfloor> uuid)) (signer_header (ik_kid (ps_signer service)))
           (ik_key (ps_signer service)) = Inr tok
       \<and> ds_records s (JStr uuid) = None \<and> s' = registered (paid_claims \<lfloor>q\<rfloor> uuid) s)"
proof (cases "verifyPaymentFixture v")
  case None
  moreover have "verifyPaymentFixture (JStr VERIFIED_PAYMENT_FIXTURE_ID) \<noteq> None"
    by (simp add: verifyPaymentFixture_def VERIFIED_PAYMENT_FIXTURES_def)
  ultimately have "v \<noteq> JStr VERIFIED_PAYMENT_FIXTURE_ID" by metis
  with None show ?thesis by (simp add: demo_issueReceipt_def)
next
  case (Some p)
  let ?in = "receipt_input p (num_floor clock) uuid"
  have v: "v = JStr VERIFIED_PAYMENT_FIXTURE_ID"
    using Some by (simp add: verifyPaymentFixture_Some_iff)
  have uuid: "rc_jti (paid_claims t uuid) = uuid" for t by (simp add: paid_claims_def)
  show ?thesis
  proof (cases "\<exists>q. clock = Fin q \<and> claims_valid (paid_claims \<lfloor>q\<rfloor> uuid)")
    case True
    then obtain q where q: "clock = Fin q" and c: "claims_valid (paid_claims \<lfloor>q\<rfloor> uuid)" by blast
    have "carries ?in (paid_claims \<lfloor>q\<rfloor> uuid)"
      unfolding receipt_input_carries [OF Some] using q by blast
    from build_carries [OF assms c this]
    have b: "buildAccessReceiptClaims sp ?in = Inr (claims_obj (paid_claims \<lfloor>q\<rfloor> uuid))" .
    have sign: "accessReceiptSigner sp lib ik (claims_obj (paid_claims \<lfloor>q\<rfloor> uuid))
        = signJWT lib (claims_obj (paid_claims \<lfloor>q\<rfloor> uuid)) (signer_header (ik_kid ik)) (ik_key ik)" for ik
      using build_carries [OF assms c carries_claims_obj] by (simp add: accessReceiptSigner_def)
    let ?signed = "signJWT lib (claims_obj (paid_claims \<lfloor>q\<rfloor> uuid))
        (signer_header (ik_kid (ps_signer service))) (ik_key (ps_signer service))"
    have "demo_issueReceipt sp lib service clock uuid v s = (case ?signed of Inl e \<Rightarrow> (Inl e, s)
        | Inr receipt \<Rightarrow> if ds_records s (JStr uuid) \<noteq> None
            then (Inl (JSError ''Receipt identity is already registered.''), s)
            else (Inr (Issued receipt), registered (paid_claims \<lfloor>q\<rfloor> uuid) s))"
      by (simp add: demo_issueReceipt_def Some b sign registerIssuedReceipt_claims registered_def uuid
          split: sum.split)
    then show ?thesis using c v by (auto simp: q split: sum.split)
  next
    case False
    then have "\<And>c. claims_valid c \<Longrightarrow> \<not> carries ?in c"
      by (auto simp: receipt_input_carries [OF Some])
    from build_Inl [OF assms this] obtain "is" where
      "buildAccessReceiptClaims sp ?in = Inl (AccessReceiptValidationError is)" by blast
    with False show ?thesis by (auto simp: demo_issueReceipt_def Some)
  qed
qed

text \<open>Anything but an issued receipt leaves the store as it was.\<close>

lemma issueReceipt_otherwise:
  "demo_issueReceipt sp lib service clock uuid v s = (res, s') \<Longrightarrow> (\<nexists>tok. res = Inr (Issued tok)) \<Longrightarrow> s' = s"
  by (auto simp: demo_issueReceipt_def registerIssuedReceipt_def split: option.splits sum.splits if_splits)

section \<open>The service's keys\<close>

lemma demo_jwk_kid: "js_get (demo_jwk exported) ''kid'' = JStr DEMO_KEY_ID"
proof -
  let ?f = "\<lambda>(k, x). (k, case map_of [(''alg'', JStr ''EdDSA''), (''kid'', JStr DEMO_KEY_ID)] k of
      Some y \<Rightarrow> y | None \<Rightarrow> x)"
  have m: "map_of (map ?f xs) ''kid'' = map_option (\<lambda>_. JStr DEMO_KEY_ID) (map_of xs ''kid'')" for xs
    by (induction xs) (auto split: option.split)
  show ?thesis
    using m [of "own_props exported"]
    by (cases "map_of (own_props exported) ''kid''")
      (auto simp: demo_jwk_def object_spread_def js_get_def js_has_own_def map_add_def)
qed

lemma service_created:
  assumes "createPaidResourceService lib exported = Inr (service, s0)"
  obtains pub where "ik_kid (ps_signer service) = DEMO_KEY_ID"
    "ps_verifier service = \<lparr>vs_keys = [(DEMO_KEY_ID, pub)], vs_issuer = DEMO_ISSUER,
       vs_audience = DEMO_AUDIENCE, vs_clockTolerance = 0, vs_maxTokenSize = 4096\<rparr>"
    "ps_expectedBindings service = HOST_EXPECTED_BINDINGS" "s0 = newDemoStore"
proof -
  let ?config = "JObj [(''publicKeys'', JArr [demo_jwk (snd exported)]), (''issuer'', JStr DEMO_ISSUER),
      (''audience'', JStr DEMO_AUDIENCE)] []"
  from assms obtain ik st where
    ik: "createAccessReceiptSigner lib (JObj [(''privateKey'', demo_jwk (fst exported))] []) = Inr ik"
    and st: "createAccessReceiptVerifier lib ?config = Inr st"
    and service: "service = \<lparr>ps_signer = ik, ps_verifier = st,
      ps_expectedBindings = HOST_EXPECTED_BINDINGS\<rparr>" "s0 = newDemoStore"
    by (auto simp: createPaidResourceService_def generateDemoKeys_def result_simps)
  from ik have "js_get (demo_jwk (fst exported)) ''kid'' = JStr (ik_kid ik)"
    by (auto simp: createAccessReceiptSigner_def result_simps importTrustedPrivateKey_def
        importKey_Inr_iff)
  then have kid: "ik_kid ik = DEMO_KEY_ID" by (simp add: demo_jwk_kid)
  from st have o: "options_are ?config (options_of st)"
    and k: "list_all2 (configured_key lib) [demo_jwk (snd exported)] (vs_keys st)"
    by (auto simp: create_verifier_Inr_iff)
  from k obtain kk where kk: "vs_keys st = [kk]" "configured_key lib (demo_jwk (snd exported)) kk"
    by (auto simp: list_all2_Cons1)
  from kk(2) have "fst kk = DEMO_KEY_ID" by (simp add: configured_key_def demo_jwk_kid)
  with kk(1) have "vs_keys st = [(DEMO_KEY_ID, snd kk)]" by (cases kk) simp
  with o have "st = \<lparr>vs_keys = [(DEMO_KEY_ID, snd kk)], vs_issuer = DEMO_ISSUER,
       vs_audience = DEMO_AUDIENCE, vs_clockTolerance = 0, vs_maxTokenSize = 4096\<rparr>"
    by (cases st) (auto simp: options_are_def options_of_def number_option_is_def js_has_own_def)
  with kid service that show thesis by simp
qed

section \<open>Redeeming an issued receipt\<close>

lemma host_bindings_valid [simp]: "isValidExpectedBindings HOST_EXPECTED_BINDINGS"
  by (simp add: isValidExpectedBindings_def HOST_EXPECTED_BINDINGS_def js_has_own_def
      is_safe_integer_def max_safe_integer_def num_le_def)

lemma host_bindings_agree [simp]: "bindings_agree HOST_EXPECTED_BINDINGS (paid_claims t uuid)"
  by (simp add: bindings_agree_def HOST_EXPECTED_BINDINGS_def paid_claims_def)

definition paid_command :: "int \<Rightarrow> string \<Rightarrow> int \<Rightarrow> consume_command" where
  "paid_command t uuid time = command_of (paid_claims t uuid) HOST_EXPECTED_BINDINGS (JInt time)"

lemma redemption_reaches:
  assumes "zod_parser Zod4 sp"
    and "verifyToken sp lib now token (ps_verifier service) = Inr (claims_obj (paid_claims t uuid))"
    and "claims_valid (paid_claims t uuid)" and "0 \<le> \<lfloor>q\<rfloor>" and "safe_int \<lfloor>q\<rfloor>"
  shows "reaches_store (redemption_input sp lib service now (Fin q) token HOST_EXPECTED_BINDINGS)
    (paid_claims t uuid) (paid_command t uuid \<lfloor>q\<rfloor>) demo_consume"
  using assms by (auto simp: reaches_store_def redemption_input_def paid_command_def
      intro!: exI [of _ "\<lfloor>q\<rfloor>"] exI [of _ "JInt \<lfloor>q\<rfloor>"])

lemma paid_command_matches:
  assumes "holds_claims (paid_claims t uuid) d"
  shows "authority_matches (paid_command t uuid time) (demo_receipt d)"
  unfolding demo_receipt_claims [OF assms]
  by (simp add: authority_matches_def paid_command_def command_of_def HOST_EXPECTED_BINDINGS_def
      js_has_own_def paid_claims_def)

lemma paid_command_fields [simp]:
  "cmd_jti (paid_command t uuid time) = JStr uuid"
  "cmd_current_time (paid_command t uuid time) = JInt time"
  by (simp_all add: paid_command_def command_of_def paid_claims_def)

lemma paid_command_outcome:
  assumes "ds_records s (JStr uuid) = Some d" and "holds_claims (paid_claims t uuid) d"
    and "\<not> dm_revoked d" and "dm_expiresAt d = JInt (t + RECEIPT_LIFETIME_SECONDS)"
    and "time < t + RECEIPT_LIFETIME_SECONDS"
  shows "demo_outcome (paid_command t uuid time) s =
    (if dm_redemptionCount d = 0 then Consumed True else ReceiptExhausted)"
proof -
  have mx: "ar_max (demo_receipt d) = 1"
    using demo_receipt_claims [OF assms(2)] by (simp add: paid_claims_def)
  have "\<not> js_num_le (dm_expiresAt d) (JInt time)"
    unfolding assms(4) js_num_le.simps num_le_int using assms(5) by simp
  moreover have "0 \<le> dm_redemptionCount d" "dm_redemptionCount d \<le> 1"
    using assms(2) by (simp_all add: holds_claims_def paid_claims_def)
  ultimately show ?thesis
    using assms(1,3) paid_command_matches [OF assms(2)] by (auto simp: demo_outcome_def mx)
qed

text \<open>The first redemption of a fresh receipt takes it, every later one finds it exhausted.\<close>

lemma redeem_registered:
  assumes sp: "zod_parser Zod4 sp" and ok: "demo_ok s"
    and d: "ds_records s (JStr uuid) = Some d" "holds_claims (paid_claims t uuid) d"
      "\<not> dm_revoked d" "dm_expiresAt d = JInt (t + RECEIPT_LIFETIME_SECONDS)"
    and v: "verifyToken sp lib now token (ps_verifier service) = Inr (claims_obj (paid_claims t uuid))"
    and time: "0 \<le> \<lfloor>q\<rfloor>" "\<lfloor>q\<rfloor> < t + RECEIPT_LIFETIME_SECONDS"
    and res: "demo_redeemReceipt sp lib service now (Fin q) token HOST_EXPECTED_BINDINGS s = (res, s')"
  shows "res = (if dm_redemptionCount d = 0 then Success True else ConsumptionDenied ReceiptExhausted)
    \<and> demo_ok s' \<and> (\<exists>d'. ds_records s' (JStr uuid) = Some d' \<and> holds_claims (paid_claims t uuid) d'
         \<and> \<not> dm_revoked d' \<and> dm_expiresAt d' = dm_expiresAt d \<and> dm_redemptionCount d' \<noteq> 0)"
proof -
  let ?cmd = "paid_command t uuid \<lfloor>q\<rfloor>"
  have c: "claims_valid (paid_claims t uuid)" using d(2) by (simp add: holds_claims_def)
  then have "safe_int \<lfloor>q\<rfloor>"
    using time by (auto simp: paid_claims_valid_iff safe_int_def)
  from redeem_reaches [OF sp redemption_reaches [OF sp v c time(1) this], of s] res
  have r: "res = store_result (Inr (result_obj (demo_outcome ?cmd s)))"
    and s': "s' = (demo_taken ?cmd s)\<lparr>ds_consumeCalls := ds_consumeCalls s + 1\<rparr>"
    by (simp_all add: demo_redeemReceipt_def demo_consume_spec [OF ok])
  have o: "demo_outcome ?cmd s
      = (if dm_redemptionCount d = 0 then Consumed True else ReceiptExhausted)"
    by (rule paid_command_outcome [OF d time(2)])
  have "res = (if dm_redemptionCount d = 0 then Success True else ConsumptionDenied ReceiptExhausted)"
    unfolding r o by (simp add: store_result_def)
  moreover have "demo_ok s'"
    using demo_taken_ok [OF ok] by (simp add: s')
  moreover have "\<exists>d'. ds_records s' (JStr uuid) = Some d' \<and> holds_claims (paid_claims t uuid) d'
         \<and> \<not> dm_revoked d' \<and> dm_expiresAt d' = dm_expiresAt d \<and> dm_redemptionCount d' \<noteq> 0"
  proof (cases "dm_redemptionCount d = 0")
    case True
    let ?d = "d\<lparr>dm_redemptionCount := dm_redemptionCount d + 1, dm_exhausted := True\<rparr>"
    have "holds_claims (paid_claims t uuid) ?d"
      using holds_claims_taken [OF d(2)] True by (simp add: paid_claims_def)
    with True o d show ?thesis
      by (intro exI [of _ ?d]) (simp add: s' demo_taken_def)
  next
    case False
    with o d show ?thesis
      by (intro exI [of _ d]) (simp add: s' demo_taken_denied)
  qed
  ultimately show ?thesis by blast
qed

lemma registered_record:
  assumes "claims_valid (paid_claims t uuid)"
  obtains d where "ds_records (registered (paid_claims t uuid) s) (JStr uuid) = Some d"
    "holds_claims (paid_claims t uuid) d" "\<not> dm_revoked d"
    "dm_expiresAt d = JInt (t + RECEIPT_LIFETIME_SECONDS)" "dm_redemptionCount d = 0"
proof -
  let ?c = "paid_claims t uuid"
  have "rc_jti ?c = uuid" "rc_exp ?c = t + RECEIPT_LIFETIME_SECONDS"
    by (simp_all add: paid_claims_def)
  with holds_claims_fresh [OF assms] that show thesis by (simp add: registered_def)
qed

lemma registered_ok:
  assumes "demo_ok s" and "claims_valid c"
  shows "demo_ok (registered c s)"
  using demo_ok_update [OF assms(1) _ holds_claims_fresh [OF assms(2)]]
  by (simp add: registered_def)

lemma issued_token_verifies:
  assumes "zod_parser Zod4 sp" and "createPaidResourceService lib exported = Inr (service, s0)"
    and "jose_round_trip lib (ik_key (ps_signer service)) (snd (hd (vs_keys (ps_verifier service))))"
    and "claims_valid (paid_claims t uuid)"
    and "signJWT lib (claims_obj (paid_claims t uuid)) (signer_header (ik_kid (ps_signer service)))
           (ik_key (ps_signer service)) = Inr tok"
    and "within_size (ps_verifier service) tok"
    and "t \<le> now" and "now < t + RECEIPT_LIFETIME_SECONDS"
  shows "verifyToken sp lib now (JStr tok) (ps_verifier service) = Inr (claims_obj (paid_claims t uuid))"
proof -
  let ?c = "paid_claims t uuid"
  from assms(2) obtain pub where kid: "ik_kid (ps_signer service) = DEMO_KEY_ID"
    and st: "ps_verifier service = \<lparr>vs_keys = [(DEMO_KEY_ID, pub)], vs_issuer = DEMO_ISSUER,
       vs_audience = DEMO_AUDIENCE, vs_clockTolerance = 0, vs_maxTokenSize = 4096\<rparr>"
    by (rule service_created)
  have w: "in_validity_window now (vs_clockTolerance (ps_verifier service)) ?c"
    using assms(7,8) by (simp add: in_validity_window_def st paid_claims_def flip: of_int_add)
  have rt: "jose_round_trip lib (ik_key (ps_signer service)) pub" using assms(3) by (simp add: st)
  have sg: "accessReceiptSigner sp lib (ps_signer service) (claims_obj ?c) = Inr tok"
    unfolding signer_Inr_iff [OF assms(1)] using assms(4,5) carries_claims_obj by blast
  show ?thesis
    by (rule signed_token_verifies [OF assms(1) rt sg carries_claims_obj _ _ _ _ w assms(6)])
      (simp_all add: kid st paid_claims_def DEMO_KEY_ID_def)
qed

section \<open>The server\<close>

definition MAX_BODY_BYTES :: nat where
  "MAX_BODY_BYTES = 16 * 1024"

record server_request =
  rq_method :: string
  rq_url :: "string option"
  rq_authorization :: jsval \<comment> \<open>the header, \<open>JUndef\<close> when there is none\<close>
  rq_chunks :: "string list" \<comment> \<open>the bytes of the body as they arrive\<close>

record server_response =
  resp_status :: int
  resp_body :: jsval

definition writeJson :: "int \<Rightarrow> (string \<times> jsval) list \<Rightarrow> server_response" where
  "writeJson statusCode body = \<lparr>resp_status = statusCode, resp_body = JObj body []\<rparr>"

fun read_chunks :: "nat \<Rightarrow> string list \<Rightarrow> string list \<Rightarrow> js_exn + string list" where
  "read_chunks sz [] chunks = Inr chunks"
| "read_chunks sz (chunk # rest) chunks =
     (if sz + length chunk > MAX_BODY_BYTES then Inl (JSError ''request body too large'')
      else read_chunks (sz + length chunk) rest (chunks @ [chunk]))"

text \<open>\<open>json_parse\<close> decodes UTF-8 bytes and parses the text, or throws.\<close>

definition readJson :: "(string \<Rightarrow> js_exn + jsval) \<Rightarrow> server_request \<Rightarrow> js_exn + jsval" where
  "readJson json_parse request =
     bindE (read_chunks 0 (rq_chunks request) []) (\<lambda>chunks.
       if length chunks = 0 then Inr (JObj [] []) else json_parse (concat chunks))"

text \<open>\<^verbatim>\<open>/^Bearer ([^\s]+)$/u\<close>\<close>

definition bearerToken :: "server_request \<Rightarrow> string option" where
  "bearerToken request =
     (case rq_authorization request of
        JStr authorization \<Rightarrow>
          (let token = drop 7 authorization in
           if take 7 authorization = ''Bearer '' \<and> token \<noteq> [] \<and> list_all (\<lambda>c. \<not> is_space c) token
           then Some token else None)
      | _ \<Rightarrow> None)"

text \<open>What the environment gives one request: the service's clock, the verifier's, and an identifier.\<close>

record request_env =
  env_clock :: jsnum
  env_now :: int
  env_uuid :: string

definition handleRequest ::
  "safe_parse \<Rightarrow> 'k jose_lib \<Rightarrow> (string \<Rightarrow> js_exn + jsval) \<Rightarrow> (string \<Rightarrow> js_exn + string)
   \<Rightarrow> 'k paid_service \<Rightarrow> request_env \<Rightarrow> server_request \<Rightarrow> demo_store
   \<Rightarrow> (js_exn + server_response) \<times> demo_store" where
  "handleRequest sp lib json_parse url_pathname service env request s =
     (case url_pathname (case rq_url request of Some u \<Rightarrow> u | None \<Rightarrow> ''/'') of
        Inl e \<Rightarrow> (Inl e, s)
      | Inr pathname \<Rightarrow>
          if rq_method request = ''POST'' \<and> pathname = ''/receipt''
          then (case readJson json_parse request of
              Inl _ \<Rightarrow> (Inr (writeJson 400 [(''error'', JStr ''invalid_request'')]), s)
            | Inr body \<Rightarrow>
                (case demo_issueReceipt sp lib service (env_clock env) (env_uuid env)
                        (js_get body ''payment_fixture_id'') s of
                   (Inl e, s') \<Rightarrow> (Inl e, s')
                 | (Inr PaymentNotVerified, s') \<Rightarrow>
                     (Inr (writeJson 403 [(''error'', JStr ''payment_not_verified'')]), s')
                 | (Inr (Issued receipt), s') \<Rightarrow>
                     (Inr (writeJson 201 [(''receipt'', JStr receipt)]), s')))
          else if rq_method request = ''GET'' \<and> pathname = ''/resource''
          then (case bearerToken request of
              None \<Rightarrow> (Inr (writeJson 401 [(''error'', JStr ''access_denied'')]), s)
            | Some token \<Rightarrow>
                (case demo_redeemReceipt sp lib service (env_now env) (env_clock env) (JStr token)
                        (ps_expectedBindings service) s of
                   (Success _, s') \<Rightarrow>
                     (Inr (writeJson 200
                        [(''resource_id'', js_get (ps_expectedBindings service) ''resource_id''),
                         (''content'', JStr PROTECTED_RESOURCE_CONTENT)]), s')
                 | (RedemptionSystemFailure, s') \<Rightarrow>
                     (Inr (writeJson 503 [(''error'', JStr ''service_unavailable'')]), s')
                 | (_, s') \<Rightarrow> (Inr (writeJson 403 [(''error'', JStr ''access_denied'')]), s')))
          else (Inr (writeJson 404 [(''error'', JStr ''not_found'')]), s))"

text \<open>The listener of the server: a request whose handler throws is answered with 500.\<close>

definition respond ::
  "safe_parse \<Rightarrow> 'k jose_lib \<Rightarrow> (string \<Rightarrow> js_exn + jsval) \<Rightarrow> (string \<Rightarrow> js_exn + string)
   \<Rightarrow> 'k paid_service \<Rightarrow> request_env \<Rightarrow> server_request \<Rightarrow> demo_store \<Rightarrow> server_response \<times> demo_store" where
  "respond sp lib json_parse url_pathname service env request s =
     (case handleRequest sp lib json_parse url_pathname service env request s of
        (Inl _, s') \<Rightarrow> (writeJson 500 [(''error'', JStr ''internal_error'')], s')
      | (Inr response, s') \<Rightarrow> (response, s'))"

text \<open>
  The server's history: requests in the order in which they reach the store, and between them what
  the host may do through \<open>service.store\<close>: revoke and expire receipts.
\<close>

inductive server_history ::
  "(request_env \<Rightarrow> server_request \<Rightarrow> demo_store \<Rightarrow> server_response \<times> demo_store)
   \<Rightarrow> server_response list \<Rightarrow> demo_store \<Rightarrow> bool"
  for serve where
  start: "server_history serve [] newDemoStore"
| request: "server_history serve rs s \<Longrightarrow> serve env request s = (r, s') \<Longrightarrow>
    server_history serve (rs @ [r]) s'"
| revoke: "server_history serve rs s \<Longrightarrow> server_history serve rs (demo_revoke jti s)"
| expire: "server_history serve rs s \<Longrightarrow> server_history serve rs (demo_expire jti s)"

definition with_status :: "int \<Rightarrow> server_response list \<Rightarrow> nat" where
  "with_status n rs = length (filter (\<lambda>r. resp_status r = n) rs)"

lemma with_status_simps [simp]:
  "with_status n [] = 0"
  "with_status n (rs @ [r]) = with_status n rs + (if resp_status r = n then 1 else 0)"
  by (simp_all add: with_status_def)

section \<open>Receipts still open\<close>

definition open_receipts :: "demo_store \<Rightarrow> jsval set" where
  "open_receipts s = {k. \<exists>d. ds_records s k = Some d \<and> \<not> dm_exhausted d}"

definition single_use :: "demo_store \<Rightarrow> bool" where
  "single_use s \<longleftrightarrow> (\<forall>k d. ds_records s k = Some d \<longrightarrow>
     js_get (dm_authority d) ''max_redemptions'' = JInt 1)"

text \<open>
  One step of the store as the server sees it: nothing for the open receipts, one receipt opened, or
  one closed.
\<close>

lemma open_receipts_registered:
  "rc_jti c = uuid \<Longrightarrow> open_receipts (registered c s) = insert (JStr uuid) (open_receipts s)"
  by (auto simp: open_receipts_def registered_def)

lemma open_receipts_host [simp]:
  "open_receipts (demo_revoke jti s) = open_receipts s"
  "open_receipts (demo_expire jti s) = open_receipts s"
  by (auto simp: open_receipts_def demo_revoke_def demo_expire_def split: option.split)

lemma single_use_host [simp]:
  "single_use s \<Longrightarrow> single_use (demo_revoke jti s)"
  "single_use s \<Longrightarrow> single_use (demo_expire jti s)"
  by (auto simp: single_use_def demo_revoke_def demo_expire_def split: option.split)

lemma single_use_registered:
  "single_use s \<Longrightarrow> single_use (registered (paid_claims t uuid) s)"
  by (simp add: single_use_def registered_def) (simp add: paid_claims_def)

lemma taken_closes:
  assumes "demo_ok s" and "single_use s" and "demo_outcome cmd s = Consumed b"
  shows "cmd_jti cmd \<in> open_receipts s
    \<and> open_receipts (demo_taken cmd s) = open_receipts s - {cmd_jti cmd} \<and> single_use (demo_taken cmd s)"
  using assms(1,3)
proof (cases rule: demo_outcome_Consumed)
  case (1 c d)
  have "js_get (dm_authority d) ''max_redemptions'' = JInt 1"
    using assms(2) 1(2) by (simp add: single_use_def)
  moreover have "js_get (dm_authority d) ''max_redemptions'' = JInt (rc_max_redemptions c)"
    using 1(3) by (simp add: holds_claims_def)
  ultimately have m: "rc_max_redemptions c = 1" by simp
  with 1(3,7) have "dm_redemptionCount d = 0" by (simp add: holds_claims_def)
  with m 1(3,8) have b: "b" "\<not> dm_exhausted d" by (simp_all add: holds_claims_def)
  show ?thesis
    unfolding 1(9) using 1(1,2) b assms(2) by (auto simp: open_receipts_def single_use_def)
qed

text \<open>A redemption either stops before the store or has the store's outcome.\<close>

lemma redeem_at_store:
  assumes "zod_parser Zod4 sp" and "demo_ok s"
    and "demo_redeemReceipt sp lib service now clock token bindings s = (res, s')"
  obtains (stopped) "s' = s" "\<nexists>b. res = Success b"
  | (decided) cmd where "res = store_result (Inr (result_obj (demo_outcome cmd s)))"
      "s' = (demo_taken cmd s)\<lparr>ds_consumeCalls := ds_consumeCalls s + 1\<rparr>"
proof (cases "\<exists>c cmd consume. reaches_store
    (redemption_input sp lib service now clock token bindings) c cmd consume")
  case True
  then obtain c cmd consume where
    r: "reaches_store (redemption_input sp lib service now clock token bindings) c cmd consume"
    by blast
  then have "consume = demo_consume" by (auto simp: reaches_store_def redemption_input_def)
  with redeem_reaches [OF assms(1) r, of s] assms(3) show thesis
    by (intro decided [of cmd]) (simp_all add: demo_redeemReceipt_def demo_consume_spec [OF assms(2)])
next
  case False
  from redeem_not_reaches [OF assms(1) False, of s] assms(3) show thesis
    by (intro stopped) (auto simp: demo_redeemReceipt_def)
qed

lemma open_receipts_calls [simp]:
  "open_receipts (s\<lparr>ds_consumeCalls := n\<rparr>) = open_receipts s"
  "single_use (s\<lparr>ds_consumeCalls := n\<rparr>) = single_use s"
  by (simp_all add: open_receipts_def single_use_def)

lemma redeem_closes:
  assumes "zod_parser Zod4 sp" and "demo_ok s" and "single_use s"
    and "demo_redeemReceipt sp lib service now clock token bindings s = (res, s')"
  shows "demo_ok s' \<and> single_use s' \<and>
    (if \<exists>b. res = Success b then \<exists>k \<in> open_receipts s. open_receipts s' = open_receipts s - {k}
     else open_receipts s' = open_receipts s)"
  using assms(1,2,4)
proof (cases rule: redeem_at_store)
  case stopped
  with assms(2,3) show ?thesis by simp
next
  case (decided cmd)
  show ?thesis
  proof (cases "\<exists>b. demo_outcome cmd s = Consumed b")
    case True
    then obtain b where b: "demo_outcome cmd s = Consumed b" by blast
    then have "res = Success b" by (simp add: decided(1) store_result_def)
    with taken_closes [OF assms(2,3) b] demo_taken_ok [OF assms(2), of cmd] show ?thesis
      by (auto simp: decided(2))
  next
    case False
    then have "\<nexists>b. res = Success b"
      by (cases "demo_outcome cmd s") (simp_all add: decided(1) store_result_def)
    with demo_taken_denied [OF False] assms(2,3) show ?thesis
      by (simp add: decided(2))
  qed
qed

lemma issue_opens:
  assumes "zod_parser Zod4 sp" and "demo_ok s" and "single_use s"
    and "demo_issueReceipt sp lib service clock uuid v s = (res, s')"
  shows "demo_ok s' \<and> single_use s' \<and>
    (if \<exists>tok. res = Inr (Issued tok) then open_receipts s' = insert (JStr uuid) (open_receipts s)
     else open_receipts s' = open_receipts s)"
proof (cases "\<exists>tok. res = Inr (Issued tok)")
  case True
  then obtain tok where tok: "res = Inr (Issued tok)" by blast
  from assms(4) [unfolded tok issueReceipt_Issued_iff [OF assms(1)]] obtain q :: rat where q: "claims_valid (paid_claims \<lfloor>q\<rfloor> uuid)"
    "s' = registered (paid_claims \<lfloor>q\<rfloor> uuid) s" by blast
  have "rc_jti (paid_claims \<lfloor>q\<rfloor> uuid) = uuid" by (simp add: paid_claims_def)
  with True q registered_ok [OF assms(2) q(1)] single_use_registered [OF assms(3)] show ?thesis
    by (simp add: open_receipts_registered)
next
  case False
  with issueReceipt_otherwise [OF assms(4)] assms(2,3) show ?thesis by simp
qed

text \<open>What one response tells about the open receipts, and that only a 200 carries content.\<close>

definition response_effect :: "server_response \<Rightarrow> jsval set \<Rightarrow> jsval set \<Rightarrow> bool" where
  "response_effect r A B \<longleftrightarrow>
     (if resp_status r = 200 then \<exists>k \<in> A. B = A - {k}
      else js_get (resp_body r) ''content'' = JUndef
         \<and> (if resp_status r = 201 then \<exists>k. B = insert k A else B = A))"

definition refusal :: "server_response \<Rightarrow> bool" where
  "refusal r \<longleftrightarrow> resp_status r \<notin> {200, 201} \<and> js_get (resp_body r) ''content'' = JUndef"

lemma refusal_error [simp]: "refusal (writeJson n [(''error'', p)]) \<longleftrightarrow> n \<notin> {200, 201}"
  by (simp add: refusal_def writeJson_def js_get_def)

lemma refusal_effect: "refusal r \<Longrightarrow> response_effect r A A"
  by (auto simp: refusal_def response_effect_def)

lemma success_effect:
  "k \<in> A \<Longrightarrow> response_effect (writeJson 200 body) A (A - {k})"
  "response_effect (writeJson 201 [(''receipt'', v)]) A (insert k A)"
  by (auto simp: response_effect_def writeJson_def js_get_def)

lemma handleRequest_effect:
  assumes "zod_parser Zod4 sp" and "demo_ok s" and "single_use s"
    and "handleRequest sp lib json_parse url_pathname service env request s = (res, s')"
  shows "demo_ok s' \<and> single_use s' \<and>
    (case res of Inl _ \<Rightarrow> open_receipts s' = open_receipts s
     | Inr r \<Rightarrow> response_effect r (open_receipts s) (open_receipts s'))"
proof (cases "url_pathname (case rq_url request of Some u \<Rightarrow> u | None \<Rightarrow> ''/'')")
  case (Inl e)
  with assms show ?thesis by (auto simp: handleRequest_def)
next
  case (Inr pathname)
  consider (issue) body where "rq_method request = ''POST''" "pathname = ''/receipt''"
      "readJson json_parse request = Inr body"
    | (redeem) token where "rq_method request = ''GET''" "pathname = ''/resource''"
      "bearerToken request = Some token"
    | (other) "\<exists>r. res = Inr r \<and> refusal r" "s' = s"
    using assms(4) Inr
    by (auto simp: handleRequest_def split: if_splits sum.splits option.splits)
  then show ?thesis
  proof cases
    case issue
    obtain ires s1 where i: "demo_issueReceipt sp lib service (env_clock env) (env_uuid env)
        (js_get body ''payment_fixture_id'') s = (ires, s1)" by fastforce
    have s1: "s1 = s'" and res: "res = (case ires of Inl e \<Rightarrow> Inl e
        | Inr PaymentNotVerified \<Rightarrow> Inr (writeJson 403 [(''error'', JStr ''payment_not_verified'')])
        | Inr (Issued receipt) \<Rightarrow> Inr (writeJson 201 [(''receipt'', JStr receipt)]))"
      using assms(4) Inr issue i
      by (auto simp: handleRequest_def split: sum.splits issue_result.splits)
    from issue_opens [OF assms(1-3) i] show ?thesis
      unfolding s1 res
      by (cases ires rule: sum.exhaust; cases "projr ires")
        (auto simp: refusal_effect success_effect)
  next
    case redeem
    obtain rres s1 where r: "demo_redeemReceipt sp lib service (env_now env) (env_clock env) (JStr token)
        (ps_expectedBindings service) s = (rres, s1)" by fastforce
    have s1: "s1 = s'"
      and succ: "(\<exists>b. rres = Success b) \<Longrightarrow> \<exists>body. res = Inr (writeJson 200 body)"
      and deny: "(\<nexists>b. rres = Success b) \<Longrightarrow>
        \<exists>r. res = Inr r \<and> refusal r"
      using assms(4) Inr redeem r
      by (auto simp: handleRequest_def split: redemption_result.splits)
    note closes = redeem_closes [OF assms(1-3) r, unfolded s1]
    show ?thesis
    proof (cases "\<exists>b. rres = Success b")
      case True
      with closes obtain k where ok: "demo_ok s'" "single_use s'"
        and k: "k \<in> open_receipts s" "open_receipts s' = open_receipts s - {k}" by auto
      from succ [OF True] obtain body where "res = Inr (writeJson 200 body)" by blast
      with ok success_effect(1) [OF k(1)] k(2) show ?thesis by (simp only: sum.case)
    next
      case False
      with closes have ok: "demo_ok s'" "single_use s'" and k: "open_receipts s' = open_receipts s"
        by simp_all
      from deny [OF False] obtain r where "res = Inr r" "refusal r" by blast
      with ok k show ?thesis by (simp add: refusal_effect)
    qed
  next
    case other
    with assms(2,3) show ?thesis by (auto simp: refusal_effect)
  qed
qed

lemma respond_effect:
  assumes "zod_parser Zod4 sp" and "demo_ok s" and "single_use s"
    and "respond sp lib json_parse url_pathname service env request s = (r, s')"
  shows "demo_ok s' \<and> single_use s' \<and> response_effect r (open_receipts s) (open_receipts s')"
proof -
  obtain res s1 where h: "handleRequest sp lib json_parse url_pathname service env request s = (res, s1)"
    by fastforce
  from handleRequest_effect [OF assms(1-3) h] assms(4) h show ?thesis
    by (cases res) (auto simp: respond_def refusal_effect)
qed

lemma history_bounded:
  assumes "zod_parser Zod4 sp"
    and "server_history (respond sp lib json_parse url_pathname service) rs s"
  shows "demo_ok s \<and> single_use s \<and> finite (open_receipts s)
    \<and> with_status 200 rs + card (open_receipts s) \<le> with_status 201 rs
    \<and> (\<forall>r \<in> set rs. resp_status r \<noteq> 200 \<longrightarrow> js_get (resp_body r) ''content'' = JUndef)"
  using assms(2)
proof (induction rule: server_history.induct)
  case start
  show ?case by (simp add: demo_ok_def single_use_def open_receipts_def newDemoStore_def)
next
  case (request rs s env rq r s')
  then have e: "demo_ok s'" "single_use s'" "response_effect r (open_receipts s) (open_receipts s')"
    using respond_effect [OF assms(1)] by blast+
  have fin: "finite (open_receipts s)"
    and le: "with_status 200 rs + card (open_receipts s) \<le> with_status 201 rs"
    and old: "\<forall>x \<in> set rs. resp_status x \<noteq> 200 \<longrightarrow> js_get (resp_body x) ''content'' = JUndef"
    using request.IH by blast+
  consider (taken) k where "resp_status r = 200" "k \<in> open_receipts s"
      "open_receipts s' = open_receipts s - {k}"
    | (opened) k where "resp_status r = 201" "open_receipts s' = insert k (open_receipts s)"
      "js_get (resp_body r) ''content'' = JUndef"
    | (same) "resp_status r \<notin> {200, 201}" "open_receipts s' = open_receipts s"
      "js_get (resp_body r) ''content'' = JUndef"
    using e(3) by (auto simp: response_effect_def split: if_splits)
  then have "finite (open_receipts s')
    \<and> with_status 200 (rs @ [r]) + card (open_receipts s') \<le> with_status 201 (rs @ [r])
    \<and> (resp_status r \<noteq> 200 \<longrightarrow> js_get (resp_body r) ''content'' = JUndef)"
  proof cases
    case taken
    then have c: "card (open_receipts s) = Suc (card (open_receipts s'))"
      using card.remove [OF fin taken(2)] by simp
    have "finite (open_receipts s')" using fin by (simp add: taken(3))
    with taken(1) c le show ?thesis by simp
  next
    case opened
    have "card (open_receipts s') \<le> card (open_receipts s) + 1"
      unfolding opened(2) using fin by (simp add: card_insert_if)
    with opened(1,3) fin le show ?thesis by (simp add: opened(2))
  next
    case same
    with fin le show ?thesis by simp
  qed
  moreover from this old have "\<forall>x \<in> set (rs @ [r]). resp_status x \<noteq> 200
      \<longrightarrow> js_get (resp_body x) ''content'' = JUndef"
    by (simp only: set_append ball_Un list.set ball_simps) blast
  ultimately show ?case using e(1,2) by blast
next
  case (revoke rs s jti)
  then show ?case using demo_host_ok [of s "demo_revoke jti s"] by (auto simp: demo_host_def)
next
  case (expire rs s jti)
  then show ?case using demo_host_ok [of s "demo_expire jti s"] by (auto simp: demo_host_def)
qed

section \<open>A sample service\<close>

definition sample_exported :: "jsval \<times> jsval" where
  "sample_exported =
     (JObj [(''kty'', JStr ''OKP''), (''crv'', JStr ''Ed25519''), (''x'', JStr (replicate 43 CHR ''A'')),
            (''d'', JStr (replicate 43 CHR ''B''))] [],
      JObj [(''kty'', JStr ''OKP''), (''crv'', JStr ''Ed25519''), (''x'', JStr (replicate 43 CHR ''A''))] [])"

definition paid_jose :: "string jose_lib" where
  "paid_jose = scripted_jose (signer_header DEMO_KEY_ID) (claims_obj (paid_claims 1000 ''u1'')) sample_token"

definition sample_service :: "string paid_service" where
  "sample_service =
     \<lparr>ps_signer = \<lparr>ik_kid = DEMO_KEY_ID, ik_key = ''priv''\<rparr>,
      ps_verifier = \<lparr>vs_keys = [(DEMO_KEY_ID, ''pub'')], vs_issuer = DEMO_ISSUER,
        vs_audience = DEMO_AUDIENCE, vs_clockTolerance = 0, vs_maxTokenSize = 4096\<rparr>,
      ps_expectedBindings = HOST_EXPECTED_BINDINGS\<rparr>"

lemma demo_jwk_sample:
  "demo_jwk (JObj own []) = JObj (map (\<lambda>(k, x). (k, if k = ''alg'' then JStr ''EdDSA''
      else if k = ''kid'' then JStr DEMO_KEY_ID else x)) own
    @ (if js_has_own (JObj own []) ''alg'' then [] else [(''alg'', JStr ''EdDSA'')])
    @ (if js_has_own (JObj own []) ''kid'' then [] else [(''kid'', JStr DEMO_KEY_ID)])) []"
proof -
  have "(case map_of [(''alg'', JStr ''EdDSA''), (''kid'', JStr DEMO_KEY_ID)] k of Some y \<Rightarrow> y | None \<Rightarrow> x)
      = (if k = ''alg'' then JStr ''EdDSA'' else if k = ''kid'' then JStr DEMO_KEY_ID else x)" for k x
    by simp
  then show ?thesis by (simp add: demo_jwk_def object_spread_def)
qed

lemma octets_sample [simp]:
  "base64url_char c \<Longrightarrow> octets32 paid_jose (JStr (replicate 43 c))"
  by (auto simp: octets32_def paid_jose_def scripted_jose_def base64url_pattern_def list_all_iff)

lemma base64url_AB [simp]: "base64url_char CHR ''A''" "base64url_char CHR ''B''"
  by (simp_all add: base64url_char_def code_unit_def)

lemma sample_keys_trusted:
  "trusted_jwk paid_jose PrivateKey (demo_jwk (fst sample_exported))"
  "trusted_jwk paid_jose PublicKey (demo_jwk (snd sample_exported))"
  unfolding sample_exported_def fst_conv snd_conv demo_jwk_sample
  by (simp_all add: trusted_jwk_def js_has_own_def js_get_def DEMO_KEY_ID_def)

lemma sample_keys_import:
  "importJWK paid_jose (copyForImport (demo_jwk (fst sample_exported))) ''EdDSA''
     = Inr (ImportedKey ''priv'')"
  "importJWK paid_jose (copyForImport (demo_jwk (snd sample_exported))) ''EdDSA''
     = Inr (ImportedKey ''pub'')"
  unfolding sample_exported_def fst_conv snd_conv demo_jwk_sample
  by (simp_all add: paid_jose_def scripted_jose_def copyForImport_def js_has_own_def js_get_def)

lemma sample_service_created:
  "createPaidResourceService paid_jose sample_exported = Inr (sample_service, newDemoStore)"
proof -
  let ?config = "JObj [(''publicKeys'', JArr [demo_jwk (snd sample_exported)]),
      (''issuer'', JStr DEMO_ISSUER), (''audience'', JStr DEMO_AUDIENCE)] []"
  have "createAccessReceiptSigner paid_jose (JObj [(''privateKey'', demo_jwk (fst sample_exported))] [])
      = Inr (ps_signer sample_service)"
    by (simp add: createAccessReceiptSigner_def requireConfigurationRecord_def
        rejectUnsupportedConfiguration_def js_has_own_def importTrustedPrivateKey_def
        importKey_Inr_iff sample_keys_trusted sample_keys_import demo_jwk_kid sample_service_def)
  moreover have "createAccessReceiptVerifier paid_jose ?config = Inr (ps_verifier sample_service)"
    unfolding create_verifier_Inr_iff
    by (simp add: unsupported_verifier_properties_def js_has_own_def options_are_def options_of_def
        number_option_is_def sample_service_def DEMO_ISSUER_def DEMO_AUDIENCE_def configured_key_def
        sample_keys_trusted sample_keys_import demo_jwk_kid)
  ultimately show ?thesis
    by (simp add: createPaidResourceService_def generateDemoKeys_def sample_service_def)
qed

lemma sample_paid_valid: "claims_valid (paid_claims 1000 ''u1'')"
  by (simp add: paid_claims_valid_iff RECEIPT_LIFETIME_SECONDS_def safe_int_def max_safe_integer_def)

lemma sample_issue:
  "demo_issueReceipt (zod_reference Zod4) paid_jose sample_service (Fin 1000) ''u1''
     (JStr VERIFIED_PAYMENT_FIXTURE_ID) newDemoStore
   = (Inr (Issued sample_token), registered (paid_claims 1000 ''u1'') newDemoStore)"
proof -
  have "signJWT paid_jose (claims_obj (paid_claims 1000 ''u1''))
      (signer_header (ik_kid (ps_signer sample_service))) (ik_key (ps_signer sample_service))
    = Inr sample_token"
    by (simp add: paid_jose_def scripted_jose_def sample_service_def)
  then show ?thesis
    unfolding issueReceipt_Issued_iff [OF reference.zod_parser_axioms]
    using sample_paid_valid by (intro exI [of _ "1000 :: rat"]) (simp add: newDemoStore_def)
qed

lemma newDemoStore_ok [simp]: "demo_ok newDemoStore"
  by (simp add: demo_ok_def newDemoStore_def)

lemma paid_round_trip: "jose_round_trip paid_jose ''priv'' ''pub''"
  unfolding paid_jose_def by (rule scripted_jose_round_trip) simp

lemma sample_token_fits: "within_size (ps_verifier sample_service) sample_token"
  by (simp add: sample_token_def within_size_def utf8_length_def sample_service_def code_unit_def)

section \<open>An issued receipt can be redeemed once\<close>

text \<open>
  A receipt that the paid-resource service issued can be redeemed, and once: within its lifetime
  (at the verifier's and at the service's clock) its token, redeemed with the host's bindings, gives a
  success that exhausts the receipt, and redeemed again a denial because it is exhausted.
\<close>

lemma issued_receipt_redeems_once:
  assumes "zod_parser Zod4 sp" and "createPaidResourceService lib exported = Inr (service, s0)"
    and "jose_round_trip lib (ik_key (ps_signer service)) (snd (hd (vs_keys (ps_verifier service))))"
    and "demo_ok s"
    and "demo_issueReceipt sp lib service (Fin q) uuid payment s = (Inr (Issued tok), s1)"
    and "within_size (ps_verifier service) tok"
    and "\<forall>now \<in> {now1, now2}. \<lfloor>q\<rfloor> \<le> now \<and> now < \<lfloor>q\<rfloor> + RECEIPT_LIFETIME_SECONDS"
    and "\<forall>time \<in> {time1, time2}. 0 \<le> \<lfloor>time\<rfloor> \<and> \<lfloor>time\<rfloor> < \<lfloor>q\<rfloor> + RECEIPT_LIFETIME_SECONDS"
  shows "\<exists>s2 s3.
     demo_redeemReceipt sp lib service now1 (Fin time1) (JStr tok) (ps_expectedBindings service) s1
       = (Success True, s2)
   \<and> demo_redeemReceipt sp lib service now2 (Fin time2) (JStr tok) (ps_expectedBindings service) s2
       = (ConsumptionDenied ReceiptExhausted, s3)"
proof -
  let ?t = "\<lfloor>q\<rfloor>"
  from assms(5) [unfolded issueReceipt_Issued_iff [OF assms(1)]]
  have c: "claims_valid (paid_claims ?t uuid)" and s1: "s1 = registered (paid_claims ?t uuid) s"
    and sg: "signJWT lib (claims_obj (paid_claims ?t uuid)) (signer_header (ik_kid (ps_signer service)))
           (ik_key (ps_signer service)) = Inr tok" by auto
  from assms(2) have b: "ps_expectedBindings service = HOST_EXPECTED_BINDINGS"
    by (rule service_created)
  note verifies = issued_token_verifies [OF assms(1-3) c sg assms(6)]
  have v1: "verifyToken sp lib now1 (JStr tok) (ps_verifier service) = Inr (claims_obj (paid_claims ?t uuid))"
    and v2: "verifyToken sp lib now2 (JStr tok) (ps_verifier service) = Inr (claims_obj (paid_claims ?t uuid))"
    using assms(7) by (auto intro: verifies)
  have time: "0 \<le> \<lfloor>time1\<rfloor>" "\<lfloor>time1\<rfloor> < ?t + RECEIPT_LIFETIME_SECONDS"
    "0 \<le> \<lfloor>time2\<rfloor>" "\<lfloor>time2\<rfloor> < ?t + RECEIPT_LIFETIME_SECONDS" using assms(8) by simp_all
  obtain d where d: "ds_records s1 (JStr uuid) = Some d" "holds_claims (paid_claims ?t uuid) d"
    "\<not> dm_revoked d" "dm_expiresAt d = JInt (?t + RECEIPT_LIFETIME_SECONDS)"
    and fresh: "dm_redemptionCount d = 0"
    using registered_record [OF c] s1 by blast
  have ok1: "demo_ok s1" unfolding s1 by (rule registered_ok [OF assms(4) c])
  obtain r1 s2 where r1: "demo_redeemReceipt sp lib service now1 (Fin time1) (JStr tok)
      HOST_EXPECTED_BINDINGS s1 = (r1, s2)" by fastforce
  from redeem_registered [OF assms(1) ok1 d v1 time(1,2) r1] fresh d(4)
  obtain d' where res1: "r1 = Success True" and ok2: "demo_ok s2"
    and d': "ds_records s2 (JStr uuid) = Some d'" "holds_claims (paid_claims ?t uuid) d'"
      "\<not> dm_revoked d'" "dm_expiresAt d' = JInt (?t + RECEIPT_LIFETIME_SECONDS)"
    and taken: "dm_redemptionCount d' \<noteq> 0" by auto
  obtain r2 s3 where r2: "demo_redeemReceipt sp lib service now2 (Fin time2) (JStr tok)
      HOST_EXPECTED_BINDINGS s2 = (r2, s3)" by fastforce
  from redeem_registered [OF assms(1) ok2 d' v2 time(3,4) r2] taken
  have "r2 = ConsumptionDenied ReceiptExhausted" by simp
  with r1 r2 res1 b show ?thesis by auto
qed

section \<open>Properties\<close>

text \<open>
  C30: over any history of requests to the paid-resource server, with whatever tokens, bodies, clocks
  and identifiers, and with the host revoking and expiring receipts in between, the protected content
  is never served more often than receipts were issued, each of them for a verified payment; and no
  response but a 200 carries content.
\<close>

theorem paid_content_bounded:
  assumes "zod_parser Zod4 sp"
    and "server_history (respond sp lib json_parse url_pathname service) rs s"
  shows "with_status 200 rs \<le> with_status 201 rs
    \<and> (\<forall>r \<in> set rs. resp_status r \<noteq> 200 \<longrightarrow> js_get (resp_body r) ''content'' = JUndef)"
  using history_bounded [OF assms] by (meson le_trans le_add1)

definition sample_server_request :: server_request where
  "sample_server_request = \<lparr>rq_method = ''POST'', rq_url = Some ''/receipt'', rq_authorization = JUndef,
     rq_chunks = [''body'']\<rparr>"

definition sample_json :: "string \<Rightarrow> js_exn + jsval" where
  "sample_json s = Inr (JObj [(''payment_fixture_id'', JStr VERIFIED_PAYMENT_FIXTURE_ID)] [])"

lemma sample_respond:
  "respond (zod_reference Zod4) paid_jose sample_json Inr sample_service
     \<lparr>env_clock = Fin 1000, env_now = 1000, env_uuid = ''u1''\<rparr> sample_server_request newDemoStore
   = (writeJson 201 [(''receipt'', JStr sample_token)],
      registered (paid_claims 1000 ''u1'') newDemoStore)"
  by (simp add: respond_def handleRequest_def sample_server_request_def readJson_def sample_json_def
      MAX_BODY_BYTES_def sample_issue)

theorem paid_content_bounded_witness:
  "with_status 200 [writeJson 201 [(''receipt'', JStr sample_token)]] \<le> 1"
proof -
  have "server_history (respond (zod_reference Zod4) paid_jose sample_json Inr sample_service)
      ([] @ [writeJson 201 [(''receipt'', JStr sample_token)]])
      (registered (paid_claims 1000 ''u1'') newDemoStore)"
    by (rule server_history.request [where serve = "respond (zod_reference Zod4) paid_jose sample_json
          Inr sample_service", OF server_history.start sample_respond])
  from paid_content_bounded [OF reference.zod_parser_axioms this] show ?thesis
    by (simp add: with_status_def writeJson_def)
qed

end
