(* ===== verification/Access_State.thy ===== *)
theory Access_State
  imports FL_Prelude
begin

text \<open>
  The status vocabulary and the two transition tables of the historical service
  (\<^verbatim>\<open>src/domain/access-state.ts\<close>). A date is its time value, in milliseconds since the epoch.
\<close>

section \<open>Vocabulary\<close>

datatype resource_type = CONTENT | FILE | API

datatype subject_type = END_USER | SERVICE_ACCOUNT

datatype intent_status = PENDING_VERIFICATION | VERIFIED | RECEIPT_ISSUED | REJECTED | EXPIRED

datatype receipt_status = ISSUED | EXHAUSTED | REVOKED | RECEIPT_EXPIRED

datatype redemption_status = GRANTED | DENIED

datatype event_log_type =
    RESOURCE_POLICY_CREATED
  | RESOURCE_POLICY_UPDATED
  | ACCESS_INTENT_CREATED
  | ACCESS_INTENT_PAYMENT_PENDING
  | ACCESS_INTENT_VERIFIED
  | ACCESS_INTENT_REJECTED
  | ACCESS_INTENT_EXPIRED
  | ACCESS_RECEIPT_ISSUED
  | ACCESS_RECEIPT_VERIFIED
  | ACCESS_RECEIPT_REDEEMED
  | ACCESS_RECEIPT_REDEMPTION_REJECTED
  | ACCESS_RECEIPT_REVOKED

type_synonym js_date = int

section \<open>Transitions\<close>

fun ACCESS_INTENT_TRANSITIONS :: "intent_status \<Rightarrow> intent_status list" where
  "ACCESS_INTENT_TRANSITIONS PENDING_VERIFICATION = [VERIFIED, REJECTED, EXPIRED]"
| "ACCESS_INTENT_TRANSITIONS VERIFIED = [RECEIPT_ISSUED, EXPIRED]"
| "ACCESS_INTENT_TRANSITIONS RECEIPT_ISSUED = [EXPIRED]"
| "ACCESS_INTENT_TRANSITIONS REJECTED = []"
| "ACCESS_INTENT_TRANSITIONS EXPIRED = []"

definition canTransitionAccessIntent :: "intent_status \<Rightarrow> intent_status \<Rightarrow> bool" where
  "canTransitionAccessIntent src tgt \<longleftrightarrow> tgt \<in> set (ACCESS_INTENT_TRANSITIONS src)"

definition canIssueAccessReceiptFromIntent :: "intent_status \<Rightarrow> bool" where
  "canIssueAccessReceiptFromIntent status \<longleftrightarrow> status = VERIFIED"

definition isAccessIntentTerminal :: "intent_status \<Rightarrow> bool" where
  "isAccessIntentTerminal status \<longleftrightarrow> status = REJECTED \<or> status = EXPIRED"

fun ACCESS_RECEIPT_TRANSITIONS :: "receipt_status \<Rightarrow> receipt_status list" where
  "ACCESS_RECEIPT_TRANSITIONS ISSUED = [EXHAUSTED, REVOKED, RECEIPT_EXPIRED]"
| "ACCESS_RECEIPT_TRANSITIONS EXHAUSTED = []"
| "ACCESS_RECEIPT_TRANSITIONS REVOKED = []"
| "ACCESS_RECEIPT_TRANSITIONS RECEIPT_EXPIRED = []"

definition canTransitionAccessReceipt :: "receipt_status \<Rightarrow> receipt_status \<Rightarrow> bool" where
  "canTransitionAccessReceipt src tgt \<longleftrightarrow> tgt \<in> set (ACCESS_RECEIPT_TRANSITIONS src)"

definition canRedeemAccessReceipt :: "receipt_status \<Rightarrow> bool" where
  "canRedeemAccessReceipt status \<longleftrightarrow> status = ISSUED"

definition isAccessReceiptTerminal :: "receipt_status \<Rightarrow> bool" where
  "isAccessReceiptTerminal status \<longleftrightarrow>
     status = EXHAUSTED \<or> status = REVOKED \<or> status = RECEIPT_EXPIRED"

text \<open>The argument is the time value of the ISO string.\<close>

definition isIsoDateExpired :: "js_date \<Rightarrow> js_date \<Rightarrow> bool" where
  "isIsoDateExpired isoDate now \<longleftrightarrow> isoDate \<le> now"

section \<open>The tables as state machines\<close>

lemma canTransitionAccessIntent_simps:
  "canTransitionAccessIntent PENDING_VERIFICATION t \<longleftrightarrow> t \<in> {VERIFIED, REJECTED, EXPIRED}"
  "canTransitionAccessIntent VERIFIED t \<longleftrightarrow> t \<in> {RECEIPT_ISSUED, EXPIRED}"
  "canTransitionAccessIntent RECEIPT_ISSUED t \<longleftrightarrow> t = EXPIRED"
  "\<not> canTransitionAccessIntent REJECTED t"
  "\<not> canTransitionAccessIntent EXPIRED t"
  by (auto simp: canTransitionAccessIntent_def)

lemma canTransitionAccessReceipt_simps:
  "canTransitionAccessReceipt ISSUED t \<longleftrightarrow> t \<noteq> ISSUED"
  "\<not> canTransitionAccessReceipt EXHAUSTED t"
  "\<not> canTransitionAccessReceipt REVOKED t"
  "\<not> canTransitionAccessReceipt RECEIPT_EXPIRED t"
  by (cases t; simp add: canTransitionAccessReceipt_def)+

text \<open>
  The statuses in the order of progress: every transition goes up, so that no path returns. The order
  is an instance of the library's class, whose transitivity carries over to paths.
\<close>

fun intent_rank :: "intent_status \<Rightarrow> nat" where
  "intent_rank PENDING_VERIFICATION = 0"
| "intent_rank VERIFIED = 1"
| "intent_rank RECEIPT_ISSUED = 2"
| "intent_rank REJECTED = 3"
| "intent_rank EXPIRED = 4"

fun receipt_rank :: "receipt_status \<Rightarrow> nat" where
  "receipt_rank ISSUED = 0"
| "receipt_rank EXHAUSTED = 1"
| "receipt_rank REVOKED = 2"
| "receipt_rank RECEIPT_EXPIRED = 3"

lemma rank_inject: "intent_rank s = intent_rank t \<Longrightarrow> s = t" "receipt_rank r = receipt_rank u \<Longrightarrow> r = u"
  by (cases s; cases t; simp) (cases r; cases u; simp)

instantiation intent_status :: linorder
begin

definition less_eq_intent_status :: "intent_status \<Rightarrow> intent_status \<Rightarrow> bool" where
  "less_eq_intent_status s t \<longleftrightarrow> intent_rank s \<le> intent_rank t"

definition less_intent_status :: "intent_status \<Rightarrow> intent_status \<Rightarrow> bool" where
  "less_intent_status s t \<longleftrightarrow> intent_rank s < intent_rank t"

instance
  by standard (auto simp: less_eq_intent_status_def less_intent_status_def rank_inject(1))

end

instantiation receipt_status :: linorder
begin

definition less_eq_receipt_status :: "receipt_status \<Rightarrow> receipt_status \<Rightarrow> bool" where
  "less_eq_receipt_status s t \<longleftrightarrow> receipt_rank s \<le> receipt_rank t"

definition less_receipt_status :: "receipt_status \<Rightarrow> receipt_status \<Rightarrow> bool" where
  "less_receipt_status s t \<longleftrightarrow> receipt_rank s < receipt_rank t"

instance
  by standard (auto simp: less_eq_receipt_status_def less_receipt_status_def rank_inject(2))

end

lemma transition_goes_up:
  "canTransitionAccessIntent s t \<Longrightarrow> s < t" "canTransitionAccessReceipt r u \<Longrightarrow> r < u"
  by (cases s; auto simp: less_intent_status_def canTransitionAccessIntent_simps)
    (cases r; cases u; simp add: less_receipt_status_def canTransitionAccessReceipt_simps)

lemma intent_path_goes_up: "canTransitionAccessIntent\<^sup>+\<^sup>+ s t \<Longrightarrow> s < t"
  by (induction rule: tranclp_induct) (auto dest: transition_goes_up)

lemma receipt_path_goes_up: "canTransitionAccessReceipt\<^sup>+\<^sup>+ s t \<Longrightarrow> s < t"
  by (induction rule: tranclp_induct) (auto dest: transition_goes_up)

lemma intent_reaches_issued:
  "canTransitionAccessIntent\<^sup>*\<^sup>* s RECEIPT_ISSUED \<Longrightarrow> s \<in> {PENDING_VERIFICATION, VERIFIED, RECEIPT_ISSUED}"
  by (cases s) (auto elim: converse_rtranclpE simp: canTransitionAccessIntent_simps)

section \<open>What the tables say\<close>

text \<open>
  The transition tables are what their predicates say: no status can be left and re-entered, the
  terminal statuses are exactly those without a transition, a receipt can be redeemed exactly while it
  is not terminal, and the only way into \<open>RECEIPT_ISSUED\<close> is from the status that may issue a receipt.
\<close>

lemma access_state_machines:
  "(\<nexists>s. canTransitionAccessIntent\<^sup>+\<^sup>+ s s)
   \<and> (isAccessIntentTerminal s \<longleftrightarrow> (\<nexists>t. canTransitionAccessIntent s t))
   \<and> (canTransitionAccessIntent s RECEIPT_ISSUED \<longleftrightarrow> canIssueAccessReceiptFromIntent s)
   \<and> (isAccessReceiptTerminal r \<longleftrightarrow> (\<nexists>t. canTransitionAccessReceipt r t))
   \<and> (canRedeemAccessReceipt r \<longleftrightarrow> \<not> isAccessReceiptTerminal r)
   \<and> (\<nexists>r. canTransitionAccessReceipt\<^sup>+\<^sup>+ r r)
   \<and> (\<nexists>t u. canTransitionAccessReceipt r t \<and> canTransitionAccessReceipt t u)"
proof (intro conjI)
  show "\<nexists>s. canTransitionAccessIntent\<^sup>+\<^sup>+ s s"
    using intent_path_goes_up by blast
  show "isAccessIntentTerminal s \<longleftrightarrow> (\<nexists>t. canTransitionAccessIntent s t)"
    by (cases s) (auto simp: isAccessIntentTerminal_def canTransitionAccessIntent_simps)
  show "canTransitionAccessIntent s RECEIPT_ISSUED \<longleftrightarrow> canIssueAccessReceiptFromIntent s"
    by (cases s) (auto simp: canIssueAccessReceiptFromIntent_def canTransitionAccessIntent_simps)
  show "isAccessReceiptTerminal r \<longleftrightarrow> (\<nexists>t. canTransitionAccessReceipt r t)"
    by (cases r) (auto simp: isAccessReceiptTerminal_def canTransitionAccessReceipt_simps)
  show "canRedeemAccessReceipt r \<longleftrightarrow> \<not> isAccessReceiptTerminal r"
    by (cases r) (auto simp: isAccessReceiptTerminal_def canRedeemAccessReceipt_def)
  show "\<nexists>r. canTransitionAccessReceipt\<^sup>+\<^sup>+ r r"
    using receipt_path_goes_up by blast
  show "\<nexists>t u. canTransitionAccessReceipt r t \<and> canTransitionAccessReceipt t u"
  proof (intro notI; elim exE conjE)
    fix t u
    assume "canTransitionAccessReceipt r t" "canTransitionAccessReceipt t u"
    then show False by (cases r; cases t) (simp_all add: canTransitionAccessReceipt_simps)
  qed
qed

end
