(* ===== verification/Prisma_Database.thy ===== *)
theory Prisma_Database
  imports JS_Values Access_State
begin

text \<open>
  The database of the historical service: the tables of \<^verbatim>\<open>prisma/schema.prisma\<close> and the operations of
  the Prisma client that the modelled code calls. The client is not part of the repository: its
  operations are the fields of a record over an arbitrary database state \<open>'d\<close>, and the locale
  \<open>prisma_client\<close> states what the source relies on, through the tables of a state. A condition or a
  change of a call is written as a function of the row. The locale \<open>prisma_service\<close> extends it by the
  tables of policies and intents, by relations, and by interactive transactions.
  \<open>relational_client\<close> is an executable instance of both.

  Columns that no code of the service reads back (the time stamps of policies, receipts and events,
  the policy version) are left out. A JSON column is kept as the value before \<open>JSON.stringify\<close>.
\<close>

section \<open>Tables\<close>

record db_receipt =
  dr_id :: string
  dr_resourcePolicyId :: string
  dr_accessIntentId :: string
  dr_jti :: string
  dr_receiptTokenHash :: "string option"
  dr_resourceKey :: string
  dr_resourceType :: resource_type
  dr_subjectType :: subject_type
  dr_subjectId :: string
  dr_status :: receipt_status
  dr_active :: bool
  dr_maxRedemptions :: int
  dr_redemptionCount :: int
  dr_issuedAt :: js_date
  dr_nbf :: js_date
  dr_exp :: js_date
  dr_redeemedAt :: "js_date option"
  dr_exhaustedAt :: "js_date option"
  dr_revokedAt :: "js_date option"

record event_row =
  ev_eventType :: event_log_type
  ev_resourcePolicyId :: "string option"
  ev_resourceKey :: "string option"
  ev_resourceType :: "resource_type option"
  ev_accessIntentId :: "string option"
  ev_accessReceiptId :: "string option"
  ev_subjectType :: "subject_type option"
  ev_subjectId :: "string option"
  ev_payload :: "jsval option" \<comment> \<open>before \<open>JSON.stringify\<close>\<close>

record policy_row =
  pol_id :: string
  pol_resourceKey :: string
  pol_resourceType :: resource_type
  pol_receiptTtlSeconds :: int
  pol_maxRedemptions :: int
  pol_active :: bool

record intent_row =
  int_id :: string
  int_resourcePolicyId :: string
  int_resourceKey :: string
  int_resourceType :: resource_type
  int_subjectType :: subject_type
  int_subjectId :: string
  int_paymentRef :: "string option"
  int_idempotencyKey :: "string option"
  int_status :: intent_status
  int_verifiedAt :: "js_date option"
  int_receiptIssuedAt :: "js_date option"
  int_expiresAt :: "js_date option"
  int_fiberResponseJson :: "jsval option"
  int_createdAt :: js_date
  int_updatedAt :: js_date

text \<open>An intent with its relations, as \<open>include\<close> returns it.\<close>

record intent_with_relations =
  iw_intent :: intent_row
  iw_resourcePolicy :: policy_row
  iw_accessReceipt :: "db_receipt option"

record db =
  db_receipts :: "db_receipt list"
  db_events :: "event_row list"
  db_policies :: "policy_row list"
  db_intents :: "intent_row list"

section \<open>The client\<close>

datatype receipt_key = ByReceiptId string | ByJti string | ByAccessIntentId string

fun matches_receipt :: "receipt_key \<Rightarrow> db_receipt \<Rightarrow> bool" where
  "matches_receipt (ByReceiptId i) r = (dr_id r = i)"
| "matches_receipt (ByJti j) r = (dr_jti r = j)"
| "matches_receipt (ByAccessIntentId i) r = (dr_accessIntentId r = i)"

datatype policy_key = ByPolicyId string | ByResource string resource_type

fun matches_policy :: "policy_key \<Rightarrow> policy_row \<Rightarrow> bool" where
  "matches_policy (ByPolicyId i) p = (pol_id p = i)"
| "matches_policy (ByResource k t) p = (pol_resourceKey p = k \<and> pol_resourceType p = t)"

datatype intent_key = ByIntentId string | ByIdempotencyKey string

fun matches_intent :: "intent_key \<Rightarrow> intent_row \<Rightarrow> bool" where
  "matches_intent (ByIntentId i) x = (int_id x = i)"
| "matches_intent (ByIdempotencyKey k) x = (int_idempotencyKey x = Some k)"

record 'd prisma =
  receipt_findUnique :: "receipt_key \<Rightarrow> 'd \<Rightarrow> (js_exn + db_receipt option) \<times> 'd"
  receipt_create :: "db_receipt \<Rightarrow> 'd \<Rightarrow> (js_exn + db_receipt) \<times> 'd"
    \<comment> \<open>the \<open>id\<close> of the argument is ignored\<close>
  receipt_update :: "string \<Rightarrow> (db_receipt \<Rightarrow> db_receipt) \<Rightarrow> 'd \<Rightarrow> (js_exn + db_receipt) \<times> 'd"
  receipt_updateMany ::
    "(db_receipt \<Rightarrow> bool) \<Rightarrow> (db_receipt \<Rightarrow> db_receipt) \<Rightarrow> 'd \<Rightarrow> (js_exn + nat) \<times> 'd"
  event_create :: "event_row \<Rightarrow> 'd \<Rightarrow> (js_exn + unit) \<times> 'd"
  policy_findUnique :: "policy_key \<Rightarrow> 'd \<Rightarrow> (js_exn + policy_row option) \<times> 'd"
  policy_create :: "policy_row \<Rightarrow> 'd \<Rightarrow> (js_exn + policy_row) \<times> 'd"
    \<comment> \<open>the \<open>id\<close> of the argument is ignored\<close>
  intent_findUnique :: "intent_key \<Rightarrow> 'd \<Rightarrow> (js_exn + intent_with_relations option) \<times> 'd"
  intent_findMany ::
    "(intent_with_relations \<Rightarrow> bool) \<Rightarrow> 'd \<Rightarrow> (js_exn + intent_with_relations list) \<times> 'd"
    \<comment> \<open>ordered by \<open>createdAt\<close>, ascending\<close>
  intent_create :: "intent_row \<Rightarrow> 'd \<Rightarrow> (js_exn + intent_row) \<times> 'd"
    \<comment> \<open>the \<open>id\<close> and the time stamps of the argument are ignored\<close>
  intent_update :: "string \<Rightarrow> (intent_row \<Rightarrow> intent_row) \<Rightarrow> 'd \<Rightarrow> (js_exn + intent_row) \<times> 'd"
    \<comment> \<open>\<open>updatedAt\<close> is set by the client\<close>
  tx_rollback :: "'d \<Rightarrow> 'd \<Rightarrow> 'd" \<comment> \<open>from the states before and after the transaction's body\<close>
  tx_commit :: "'d \<Rightarrow> 'd \<Rightarrow> (js_exn + unit) \<times> 'd"

section \<open>Effects on the tables\<close>

definition change_receipts :: "(db_receipt \<Rightarrow> bool) \<Rightarrow> (db_receipt \<Rightarrow> db_receipt) \<Rightarrow> db \<Rightarrow> db" where
  "change_receipts p f t = t\<lparr>db_receipts := map (\<lambda>r. if p r then f r else r) (db_receipts t)\<rparr>"

definition unique_with :: "db_receipt \<Rightarrow> db \<Rightarrow> bool" where
  "unique_with row t \<longleftrightarrow>
     list_all (\<lambda>r. dr_id r \<noteq> dr_id row \<and> dr_jti r \<noteq> dr_jti row
        \<and> dr_accessIntentId r \<noteq> dr_accessIntentId row
        \<and> (dr_receiptTokenHash row = None \<or> dr_receiptTokenHash r \<noteq> dr_receiptTokenHash row))
       (db_receipts t)"

definition add_receipt :: "db_receipt \<Rightarrow> db \<Rightarrow> db" where
  "add_receipt row t = t\<lparr>db_receipts := db_receipts t @ [row]\<rparr>"

definition add_event :: "event_row \<Rightarrow> db \<Rightarrow> db" where
  "add_event e t = t\<lparr>db_events := db_events t @ [e]\<rparr>"

lemma table_effects [simp]:
  "db_receipts (change_receipts p f t) = map (\<lambda>r. if p r then f r else r) (db_receipts t)"
  "db_events (change_receipts p f t) = db_events t"
  "db_receipts (add_receipt row t) = db_receipts t @ [row]"
  "db_events (add_receipt row t) = db_events t"
  "db_receipts (add_event e t) = db_receipts t"
  "db_events (add_event e t) = db_events t @ [e]"
  by (simp_all add: change_receipts_def add_receipt_def add_event_def)

section \<open>The contract\<close>

text \<open>
  A call that returns had its effect once, on the current tables; a call that throws may have had it
  (the connection may be lost after the commit). Reading has no effect. A new row gets a fresh \<open>id\<close>,
  and the unique columns of receipts stay unique.
\<close>

locale prisma_client =
  fixes ops :: "'d prisma" and tables :: "'d \<Rightarrow> db"
  assumes receipt_find:
      "receipt_findUnique ops k d = (res, d') \<Longrightarrow> tables d' = tables d"
    and receipt_found:
      "receipt_findUnique ops k d = (Inr found, d') \<Longrightarrow>
       found = find (matches_receipt k) (db_receipts (tables d))"
    and receipt_created:
      "receipt_create ops data d = (Inr row, d') \<Longrightarrow>
       row = data\<lparr>dr_id := dr_id row\<rparr> \<and> unique_with row (tables d) \<and> tables d' = add_receipt row (tables d)"
    and receipt_not_created:
      "receipt_create ops data d = (Inl e, d') \<Longrightarrow> tables d' = tables d
       \<or> (\<exists>i. unique_with (data\<lparr>dr_id := i\<rparr>) (tables d)
            \<and> tables d' = add_receipt (data\<lparr>dr_id := i\<rparr>) (tables d))"
    and receipt_updated:
      "receipt_update ops i f d = (Inr row, d') \<Longrightarrow>
       tables d' = change_receipts (\<lambda>r. dr_id r = i) f (tables d)
       \<and> (\<exists>r. find (\<lambda>r. dr_id r = i) (db_receipts (tables d)) = Some r \<and> row = f r)"
    and receipt_not_updated:
      "receipt_update ops i f d = (Inl e, d') \<Longrightarrow>
       tables d' = tables d \<or> tables d' = change_receipts (\<lambda>r. dr_id r = i) f (tables d)"
    and receipts_updated:
      "receipt_updateMany ops p f d = (Inr n, d') \<Longrightarrow>
       tables d' = change_receipts p f (tables d) \<and> n = length (filter p (db_receipts (tables d)))"
    and receipts_not_updated:
      "receipt_updateMany ops p f d = (Inl e, d') \<Longrightarrow>
       tables d' = tables d \<or> tables d' = change_receipts p f (tables d)"
    and event_created:
      "event_create ops ev d = (Inr u, d') \<Longrightarrow> tables d' = add_event ev (tables d)"
    and event_not_created:
      "event_create ops ev d = (Inl e, d') \<Longrightarrow> tables d' = tables d \<or> tables d' = add_event ev (tables d)"
begin

lemma find_receipts [simp]:
  "receipt_findUnique ops k d = (res, d') \<Longrightarrow> db_receipts (tables d') = db_receipts (tables d)"
  using receipt_find by metis

lemma event_receipts:
  "event_create ops ev d = (res, d') \<Longrightarrow> db_receipts (tables d') = db_receipts (tables d)"
  by (cases res) (auto dest: event_created event_not_created)

lemma found_matches:
  "receipt_findUnique ops k d = (Inr (Some r), d') \<Longrightarrow>
   r \<in> set (db_receipts (tables d)) \<and> matches_receipt k r"
  using receipt_found [of k d "Some r" d'] by (metis find_Some_iff nth_mem)

lemma update_receipts:
  "receipt_update ops i f d = (res, d') \<Longrightarrow>
   tables d' \<in> {tables d, change_receipts (\<lambda>r. dr_id r = i) f (tables d)}"
  by (cases res) (auto dest: receipt_updated receipt_not_updated)

lemma updateMany_receipts:
  "receipt_updateMany ops p f d = (res, d') \<Longrightarrow>
   tables d' \<in> {tables d, change_receipts p f (tables d)}"
  by (cases res) (auto dest: receipts_updated receipts_not_updated)

end

section \<open>Policies, intents and transactions\<close>

definition policy_unique :: "policy_row \<Rightarrow> db \<Rightarrow> bool" where
  "policy_unique row t \<longleftrightarrow>
     list_all (\<lambda>p. pol_id p \<noteq> pol_id row
        \<and> \<not> (pol_resourceKey p = pol_resourceKey row \<and> pol_resourceType p = pol_resourceType row))
       (db_policies t)"

definition intent_unique :: "intent_row \<Rightarrow> db \<Rightarrow> bool" where
  "intent_unique row t \<longleftrightarrow>
     list_all (\<lambda>i. int_id i \<noteq> int_id row
        \<and> (int_paymentRef row = None \<or> int_paymentRef i \<noteq> int_paymentRef row)
        \<and> (int_idempotencyKey row = None \<or> int_idempotencyKey i \<noteq> int_idempotencyKey row))
       (db_intents t)"

definition add_policy :: "policy_row \<Rightarrow> db \<Rightarrow> db" where
  "add_policy row t = t\<lparr>db_policies := db_policies t @ [row]\<rparr>"

definition add_intent :: "intent_row \<Rightarrow> db \<Rightarrow> db" where
  "add_intent row t = t\<lparr>db_intents := db_intents t @ [row]\<rparr>"

definition change_intent :: "string \<Rightarrow> (intent_row \<Rightarrow> intent_row) \<Rightarrow> db \<Rightarrow> db" where
  "change_intent x f t = t\<lparr>db_intents := map (\<lambda>i. if int_id i = x then f i else i) (db_intents t)\<rparr>"

text \<open>The row an \<open>update\<close> writes: the change, and the client's \<open>updatedAt\<close>.\<close>

definition stamped :: "js_date \<Rightarrow> (intent_row \<Rightarrow> intent_row) \<Rightarrow> intent_row \<Rightarrow> intent_row" where
  "stamped now f i = (f i)\<lparr>int_updatedAt := now\<rparr>"

text \<open>The relations of an intent: its policy, and the receipt that refers to it.\<close>

definition related :: "db \<Rightarrow> intent_row \<Rightarrow> intent_with_relations \<Rightarrow> bool" where
  "related t i w \<longleftrightarrow>
     iw_intent w = i
   \<and> find (matches_policy (ByPolicyId (int_resourcePolicyId i))) (db_policies t) = Some (iw_resourcePolicy w)
   \<and> iw_accessReceipt w = find (matches_receipt (ByAccessIntentId (int_id i))) (db_receipts t)"

lemma intent_effects [simp]:
  "db_receipts (add_policy p t) = db_receipts t" "db_events (add_policy p t) = db_events t"
  "db_intents (add_policy p t) = db_intents t" "db_policies (add_policy p t) = db_policies t @ [p]"
  "db_receipts (add_intent i t) = db_receipts t" "db_events (add_intent i t) = db_events t"
  "db_intents (add_intent i t) = db_intents t @ [i]" "db_policies (add_intent i t) = db_policies t"
  "db_receipts (change_intent x f t) = db_receipts t" "db_events (change_intent x f t) = db_events t"
  "db_intents (change_intent x f t) = map (\<lambda>i. if int_id i = x then f i else i) (db_intents t)"
  "db_policies (change_intent x f t) = db_policies t"
  "db_intents (change_receipts q g t) = db_intents t" "db_policies (change_receipts q g t) = db_policies t"
  "db_intents (add_receipt r t) = db_intents t" "db_policies (add_receipt r t) = db_policies t"
  "db_intents (add_event e t) = db_intents t" "db_policies (add_event e t) = db_policies t"
  by (simp_all add: add_policy_def add_intent_def change_intent_def change_receipts_def
      add_receipt_def add_event_def)

text \<open>
  A transaction that is rolled back leaves the tables as they were before its body; one that commits
  keeps what the body did. A commit that throws may have gone through. SQLite runs transactions
  serially, so the body of one sees no other.
\<close>

locale prisma_service = prisma_client +
  assumes policy_find: "policy_findUnique ops pk d = (res, d') \<Longrightarrow> tables d' = tables d"
    and policy_found:
      "policy_findUnique ops pk d = (Inr found, d') \<Longrightarrow>
       found = find (matches_policy pk) (db_policies (tables d))"
    and policy_created:
      "policy_create ops pdata d = (Inr prow, d') \<Longrightarrow>
       prow = pdata\<lparr>pol_id := pol_id prow\<rparr> \<and> policy_unique prow (tables d)
       \<and> tables d' = add_policy prow (tables d)"
    and policy_not_created:
      "policy_create ops pdata d = (Inl e, d') \<Longrightarrow> tables d' = tables d
       \<or> (\<exists>i. policy_unique (pdata\<lparr>pol_id := i\<rparr>) (tables d)
            \<and> tables d' = add_policy (pdata\<lparr>pol_id := i\<rparr>) (tables d))"
    and intent_find: "intent_findUnique ops ik d = (ires, d') \<Longrightarrow> tables d' = tables d"
    and intent_found:
      "intent_findUnique ops ik d = (Inr ifound, d') \<Longrightarrow>
       (case find (matches_intent ik) (db_intents (tables d)) of
          None \<Rightarrow> ifound = None
        | Some i \<Rightarrow> (\<exists>w. ifound = Some w \<and> related (tables d) i w))"
    and intents_find: "intent_findMany ops q d = (mres, d') \<Longrightarrow> tables d' = tables d"
    and intents_found:
      "intent_findMany ops q d = (Inr ws, d') \<Longrightarrow>
       set ws = {w. q w \<and> (\<exists>i \<in> set (db_intents (tables d)). related (tables d) i w)}
       \<and> sorted (map (\<lambda>w. int_createdAt (iw_intent w)) ws)"
    and intent_created:
      "intent_create ops idata d = (Inr irow, d') \<Longrightarrow>
       irow = idata\<lparr>int_id := int_id irow, int_createdAt := int_createdAt irow,
          int_updatedAt := int_updatedAt irow\<rparr>
       \<and> intent_unique irow (tables d) \<and> tables d' = add_intent irow (tables d)"
    and intent_not_created:
      "intent_create ops idata d = (Inl e, d') \<Longrightarrow> tables d' = tables d
       \<or> (\<exists>irow. irow = idata\<lparr>int_id := int_id irow, int_createdAt := int_createdAt irow,
              int_updatedAt := int_updatedAt irow\<rparr>
            \<and> intent_unique irow (tables d) \<and> tables d' = add_intent irow (tables d))"
    and intent_updated:
      "intent_update ops x g d = (Inr irow, d') \<Longrightarrow>
       \<exists>now i. tables d' = change_intent x (stamped now g) (tables d)
         \<and> find (\<lambda>i. int_id i = x) (db_intents (tables d)) = Some i \<and> irow = stamped now g i"
    and intent_not_updated:
      "intent_update ops x g d = (Inl e, d') \<Longrightarrow>
       tables d' = tables d \<or> (\<exists>now. tables d' = change_intent x (stamped now g) (tables d))"
    and rolled_back: "tables (tx_rollback ops d d') = tables d"
    and committed: "tx_commit ops d d' = (Inr u, d'') \<Longrightarrow> tables d'' = tables d'"
    and not_committed: "tx_commit ops d d' = (Inl e, d'') \<Longrightarrow> tables d'' \<in> {tables d, tables d'}"
begin

lemma intent_update_tables:
  "intent_update ops x g d = (res, d') \<Longrightarrow>
   tables d' = tables d \<or> (\<exists>now. tables d' = change_intent x (stamped now g) (tables d))"
  by (cases res) (auto dest: intent_updated intent_not_updated)

lemma commit_tables: "tx_commit ops d d' = (res, d'') \<Longrightarrow> tables d'' \<in> {tables d, tables d'}"
  by (cases res) (auto dest: committed not_committed)

lemma intent_found_Some:
  assumes "intent_findUnique ops k d = (Inr (Some w), d')"
  shows "iw_intent w \<in> set (db_intents (tables d)) \<and> matches_intent k (iw_intent w)
    \<and> related (tables d) (iw_intent w) w"
proof -
  from intent_found [OF assms] obtain i where
    i: "find (matches_intent k) (db_intents (tables d)) = Some i" "related (tables d) i w"
    by (auto split: option.splits)
  from i(1) have "i \<in> set (db_intents (tables d)) \<and> matches_intent k i"
    by (metis find_Some_iff nth_mem)
  with i(2) show ?thesis by (auto simp: related_def)
qed

lemma policy_found_Some:
  "policy_findUnique ops k d = (Inr (Some p), d') \<Longrightarrow>
   p \<in> set (db_policies (tables d)) \<and> matches_policy k p"
  using policy_found [of k d "Some p" d'] by (metis find_Some_iff nth_mem)

end

section \<open>An executable client\<close>

definition fresh_id :: "db \<Rightarrow> string" where
  "fresh_id t = concat (map dr_id (db_receipts t)) @ ''x''"

definition fresh_policy_id :: "db \<Rightarrow> string" where
  "fresh_policy_id t = concat (map pol_id (db_policies t)) @ ''p''"

definition fresh_intent_id :: "db \<Rightarrow> string" where
  "fresh_intent_id t = concat (map int_id (db_intents t)) @ ''i''"

definition with_relations :: "db \<Rightarrow> intent_row \<Rightarrow> intent_with_relations option" where
  "with_relations t i =
     map_option (\<lambda>p. \<lparr>iw_intent = i, iw_resourcePolicy = p,
         iw_accessReceipt = find (matches_receipt (ByAccessIntentId (int_id i))) (db_receipts t)\<rparr>)
       (find (matches_policy (ByPolicyId (int_resourcePolicyId i))) (db_policies t))"

definition relational_client :: "db prisma" where
  "relational_client =
     \<lparr>receipt_findUnique = (\<lambda>k t. (Inr (find (matches_receipt k) (db_receipts t)), t)),
      receipt_create = (\<lambda>data t.
        (let row = data\<lparr>dr_id := fresh_id t\<rparr> in
         if unique_with row t then (Inr row, add_receipt row t) else (Inl (PrismaError ''P2002''), t))),
      receipt_update = (\<lambda>i f t.
        (case find (\<lambda>r. dr_id r = i) (db_receipts t) of
           None \<Rightarrow> (Inl (PrismaError ''P2025''), t)
         | Some r \<Rightarrow> (Inr (f r), change_receipts (\<lambda>r. dr_id r = i) f t))),
      receipt_updateMany = (\<lambda>p f t.
        (Inr (length (filter p (db_receipts t))), change_receipts p f t)),
      event_create = (\<lambda>e t. (Inr (), add_event e t)),
      policy_findUnique = (\<lambda>k t. (Inr (find (matches_policy k) (db_policies t)), t)),
      policy_create = (\<lambda>data t.
        (let row = data\<lparr>pol_id := fresh_policy_id t\<rparr> in
         if policy_unique row t then (Inr row, add_policy row t) else (Inl (PrismaError ''P2002''), t))),
      intent_findUnique = (\<lambda>k t.
        (case find (matches_intent k) (db_intents t) of
           None \<Rightarrow> (Inr None, t)
         | Some i \<Rightarrow>
             (case with_relations t i of
                None \<Rightarrow> (Inl (PrismaError ''Inconsistent query result''), t)
              | Some w \<Rightarrow> (Inr (Some w), t)))),
      intent_findMany = (\<lambda>q t.
        (Inr (sort_key (\<lambda>w. int_createdAt (iw_intent w))
               (filter q (List.map_filter (with_relations t) (db_intents t)))), t)),
      intent_create = (\<lambda>data t.
        (let row = data\<lparr>int_id := fresh_intent_id t, int_createdAt := 0, int_updatedAt := 0\<rparr> in
         if intent_unique row t then (Inr row, add_intent row t) else (Inl (PrismaError ''P2002''), t))),
      intent_update = (\<lambda>x g t.
        (case find (\<lambda>i. int_id i = x) (db_intents t) of
           None \<Rightarrow> (Inl (PrismaError ''P2025''), t)
         | Some i \<Rightarrow> (Inr (stamped 0 g i), change_intent x (stamped 0 g) t))),
      tx_rollback = (\<lambda>before after. before),
      tx_commit = (\<lambda>before after. (Inr (), after))\<rparr>"

lemma with_relations_Some_iff: "with_relations t i = Some w \<longleftrightarrow> related t i w"
  by (cases w) (auto simp: with_relations_def related_def)

lemma relational_find:
  "receipt_findUnique relational_client k t = (Inr (find (matches_receipt k) (db_receipts t)), t)"
  by (simp only: relational_client_def prisma.select_convs)

lemma relational_update:
  "receipt_update relational_client i f t =
     (case find (\<lambda>r. dr_id r = i) (db_receipts t) of
        None \<Rightarrow> (Inl (PrismaError ''P2025''), t)
      | Some r \<Rightarrow> (Inr (f r), change_receipts (\<lambda>r. dr_id r = i) f t))"
  by (simp only: relational_client_def prisma.select_convs)

lemma relational_receipts:
  "receipt_create relational_client rd t =
     (let row = rd\<lparr>dr_id := fresh_id t\<rparr> in
      if unique_with row t then (Inr row, add_receipt row t) else (Inl (PrismaError ''P2002''), t))"
  "receipt_updateMany relational_client p f t =
     (Inr (length (filter p (db_receipts t))), change_receipts p f t)"
  "event_create relational_client e t = (Inr (), add_event e t)"
  by (simp_all only: relational_client_def prisma.select_convs)

interpretation relational: prisma_client relational_client "\<lambda>t. t"
  by unfold_locales
    (auto simp: relational_find relational_update relational_receipts Let_def
      split: if_splits option.splits)

lemma set_map_filter_iff: "w \<in> set (List.map_filter f xs) \<longleftrightarrow> (\<exists>x \<in> set xs. f x = Some w)"
  by (induction xs) (auto simp: List.map_filter_def)

lemma relational_intent_find:
  "intent_findUnique relational_client k t =
     (case find (matches_intent k) (db_intents t) of
        None \<Rightarrow> (Inr None, t)
      | Some i \<Rightarrow>
          (case with_relations t i of
             None \<Rightarrow> (Inl (PrismaError ''Inconsistent query result''), t)
           | Some w \<Rightarrow> (Inr (Some w), t)))"
  by (simp only: relational_client_def prisma.select_convs)

lemma relational_intent_update:
  "intent_update relational_client x g t =
     (case find (\<lambda>i. int_id i = x) (db_intents t) of
        None \<Rightarrow> (Inl (PrismaError ''P2025''), t)
      | Some i \<Rightarrow> (Inr (stamped 0 g i), change_intent x (stamped 0 g) t))"
  by (simp only: relational_client_def prisma.select_convs)

lemma relational_intent_many:
  "intent_findMany relational_client q t =
     (Inr (sort_key (\<lambda>w. int_createdAt (iw_intent w))
            (filter q (List.map_filter (with_relations t) (db_intents t)))), t)"
  by (simp only: relational_client_def prisma.select_convs)

lemma relational_creates:
  "policy_create relational_client pd t =
     (let row = pd\<lparr>pol_id := fresh_policy_id t\<rparr> in
      if policy_unique row t then (Inr row, add_policy row t) else (Inl (PrismaError ''P2002''), t))"
  "intent_create relational_client idt t =
     (let row = idt\<lparr>int_id := fresh_intent_id t, int_createdAt := 0, int_updatedAt := 0\<rparr> in
      if intent_unique row t then (Inr row, add_intent row t) else (Inl (PrismaError ''P2002''), t))"
  by (simp_all only: relational_client_def prisma.select_convs)

lemma relational_others:
  "policy_findUnique relational_client pk t = (Inr (find (matches_policy pk) (db_policies t)), t)"
  "tx_rollback relational_client t t' = t"
  "tx_commit relational_client t t' = (Inr (), t')"
  by (simp_all only: relational_client_def prisma.select_convs)

lemma created_intent_row:
  "row = idt\<lparr>int_id := a, int_createdAt := b, int_updatedAt := c\<rparr> \<Longrightarrow>
   row = idt\<lparr>int_id := int_id row, int_createdAt := int_createdAt row, int_updatedAt := int_updatedAt row\<rparr>"
  by simp

interpretation relational_service: prisma_service relational_client "\<lambda>t. t"
proof (unfold_locales, goal_cases)
  case (1 pk d res d')
  then show ?case by (simp add: relational_others)
next
  case (2 pk d found d')
  then show ?case by (auto simp: relational_others)
next
  case (3 pdata d prow d')
  then show ?case by (auto simp: relational_creates Let_def split: if_splits)
next
  case (4 pdata d e d')
  then show ?case by (auto simp: relational_creates Let_def split: if_splits)
next
  case (5 ik d ires d')
  then show ?case by (auto simp: relational_intent_find split: option.splits)
next
  case (6 ik d ifound d')
  then show ?case
    by (auto simp: relational_intent_find with_relations_Some_iff split: option.splits)
next
  case (7 q d mres d')
  then show ?case by (simp add: relational_intent_many)
next
  case (8 q d ws d')
  then have "ws = sort_key (\<lambda>w. int_createdAt (iw_intent w))
      (filter q (List.map_filter (with_relations d) (db_intents d)))"
    by (auto simp: relational_intent_many)
  then show ?case
    by (simp only: set_sort set_filter set_map_filter_iff with_relations_Some_iff sorted_sort_key)
      blast
next
  case (9 idata d irow d')
  then have "irow = idata\<lparr>int_id := fresh_intent_id d, int_createdAt := 0, int_updatedAt := 0\<rparr>"
    "intent_unique irow d" "d' = add_intent irow d"
    by (auto simp: relational_creates Let_def split: if_splits)
  then show ?case using created_intent_row by blast
next
  case (10 idata d e d')
  then show ?case by (auto simp: relational_creates Let_def split: if_splits)
next
  case (11 x g d irow d')
  then show ?case by (auto simp: relational_intent_update split: option.splits)
next
  case (12 x g d e d')
  then show ?case by (auto simp: relational_intent_update split: option.splits)
qed (auto simp: relational_others)

end
