(* ===== verification/Async_Program.thy ===== *)
theory Async_Program
  imports FL_Prelude
begin

text \<open>
  Asynchronous code as a program of steps. An \<open>async\<close> function runs without interruption from one
  \<open>await\<close> on shared state to the next; each such piece is one \<open>Step\<close> on the shared state. A program
  can be run alone (\<open>run\<close>), or in a pool with others, where any of them takes the next step
  (\<open>pool_step\<close>), next to changes of the environment.
\<close>

section \<open>Programs\<close>

datatype ('d, 'r) prog = Return 'r | Step "'d \<Rightarrow> ('d, 'r) prog \<times> 'd"

primrec bindP :: "('d, 'a) prog \<Rightarrow> ('a \<Rightarrow> ('d, 'b) prog) \<Rightarrow> ('d, 'b) prog" where
  "bindP (Return a) k = k a"
| "bindP (Step f) k = Step (\<lambda>d. map_prod (\<lambda>p. bindP p k) id (f d))"

primrec run :: "('d, 'r) prog \<Rightarrow> 'd \<Rightarrow> 'r \<times> 'd" where
  "run (Return r) = (\<lambda>d. (r, d))"
| "run (Step f) = (\<lambda>d. (case map_prod run id (f d) of (g, d') \<Rightarrow> g d'))"

text \<open>An atomic operation on the shared state.\<close>

definition act :: "('d \<Rightarrow> 'a \<times> 'd) \<Rightarrow> ('d, 'a) prog" where
  "act op = Step (\<lambda>d. map_prod Return id (op d))"

text \<open>Sequencing of programs that may throw.\<close>

definition andThen ::
  "('d, 'e + 'a) prog \<Rightarrow> ('a \<Rightarrow> ('d, 'e + 'b) prog) \<Rightarrow> ('d, 'e + 'b) prog" where
  "andThen p k = bindP p (\<lambda>r. case r of Inl e \<Rightarrow> Return (Inl e) | Inr a \<Rightarrow> k a)"

definition throwP :: "'e \<Rightarrow> ('d, 'e + 'a) prog" where
  "throwP e = Return (Inl e)"

definition returnP :: "'a \<Rightarrow> ('d, 'e + 'a) prog" where
  "returnP a = Return (Inr a)"

definition catchP ::
  "('d, 'e + 'a) prog \<Rightarrow> ('e \<Rightarrow> ('d, 'e + 'a) prog) \<Rightarrow> ('d, 'e + 'a) prog" where
  "catchP p h = bindP p (\<lambda>r. case r of Inl e \<Rightarrow> h e | Inr a \<Rightarrow> Return (Inr a))"

text \<open>
  A transaction: its body runs as one step. When the body throws, the state is rolled back; when it
  returns, the result stands if the commit succeeds.
\<close>

definition transaction ::
  "('d \<Rightarrow> 'd \<Rightarrow> 'd) \<Rightarrow> ('d \<Rightarrow> 'd \<Rightarrow> ('e + unit) \<times> 'd) \<Rightarrow> ('d, 'e + 'a) prog
   \<Rightarrow> ('d, 'e + 'a) prog" where
  "transaction rollback commit p =
     act (\<lambda>d. case run p d of
            (Inl e, d') \<Rightarrow> (Inl e, rollback d d')
          | (Inr a, d') \<Rightarrow>
              (case commit d d' of (Inl e, d'') \<Rightarrow> (Inl e, d'') | (Inr _, d'') \<Rightarrow> (Inr a, d'')))"

section \<open>Running alone\<close>

lemma run_bindP: "run (bindP p k) d = (case run p d of (a, d') \<Rightarrow> run (k a) d')"
proof (induction p arbitrary: d)
  case (Step f)
  obtain q d' where f: "f d = (q, d')" by fastforce
  then have "run (bindP q k) d' = (case run q d' of (a, d'') \<Rightarrow> run (k a) d'')"
    using rangeI [of f d] by (intro Step.IH [of "f d" q]) auto
  with f show ?case by simp
qed simp

lemma run_act [simp]: "run (act op) d = op d"
  by (cases "op d") (simp add: act_def)

lemma run_returnP [simp]: "run (returnP a) d = (Inr a, d)"
  by (simp add: returnP_def)

lemma run_throwP [simp]: "run (throwP e) d = (Inl e, d)"
  by (simp add: throwP_def)

lemma run_andThen:
  "run (andThen p k) d =
     (case run p d of (Inl e, d') \<Rightarrow> (Inl e, d') | (Inr a, d') \<Rightarrow> run (k a) d')"
  by (auto simp: andThen_def run_bindP split: prod.split sum.split)

lemma run_catchP:
  "run (catchP p h) d =
     (case run p d of (Inl e, d') \<Rightarrow> run (h e) d' | (Inr a, d') \<Rightarrow> (Inr a, d'))"
  by (auto simp: catchP_def run_bindP split: prod.split sum.split)

lemma run_transaction:
  "run (transaction rollback commit p) d =
     (case run p d of
        (Inl e, d') \<Rightarrow> (Inl e, rollback d d')
      | (Inr a, d') \<Rightarrow>
          (case commit d d' of (Inl e, d'') \<Rightarrow> (Inl e, d'') | (Inr _, d'') \<Rightarrow> (Inr a, d'')))"
  by (simp add: transaction_def)

section \<open>Accounting for what a program did\<close>

text \<open>
  \<open>accounts I cnt Q k p\<close>: in whatever states its steps are taken, as long as they satisfy the
  invariant \<open>I\<close>, the program keeps \<open>I\<close>, never lowers the counter \<open>cnt\<close> of the state, and ends with a
  result \<open>r\<close> such that \<open>Q r n\<close>, where \<open>n\<close> is \<open>k\<close> plus what its own steps added to the counter. What
  other programs and the environment do between its steps is left open.
\<close>

primrec accounts ::
  "('d \<Rightarrow> bool) \<Rightarrow> ('d \<Rightarrow> int) \<Rightarrow> ('r \<Rightarrow> int \<Rightarrow> bool) \<Rightarrow> ('d, 'r) prog \<Rightarrow> int \<Rightarrow> bool" where
  "accounts I cnt Q (Return r) = (\<lambda>k. Q r k)"
| "accounts I cnt Q (Step f) =
     (\<lambda>k. \<forall>d. I d \<longrightarrow>
        (case map_prod (accounts I cnt Q) id (f d) of
           (g, d') \<Rightarrow> I d' \<and> cnt d \<le> cnt d' \<and> g (k + (cnt d' - cnt d))))"

lemma accounts_Step_D:
  assumes "accounts I cnt Q (Step f) k" and "I d" and "f d = (p, d')"
  shows "I d' \<and> cnt d \<le> cnt d' \<and> accounts I cnt Q p (k + (cnt d' - cnt d))"
  using assms by force

lemma accounts_StepI:
  assumes "\<And>d p d'. I d \<Longrightarrow> f d = (p, d') \<Longrightarrow>
    I d' \<and> cnt d \<le> cnt d' \<and> accounts I cnt Q p (k + (cnt d' - cnt d))"
  shows "accounts I cnt Q (Step f) k"
proof (simp, intro allI impI)
  fix d
  assume "I d"
  with assms show "case map_prod (accounts I cnt Q) id (f d) of
      (g, d') \<Rightarrow> I d' \<and> cnt d \<le> cnt d' \<and> g (k + (cnt d' - cnt d))"
    by (cases "f d") simp
qed

declare accounts.simps(2) [simp del]

lemma accounts_act:
  fixes op :: "'d \<Rightarrow> 'a \<times> 'd"
  assumes "\<And>d a d'. I d \<Longrightarrow> op d = (a, d') \<Longrightarrow> I d' \<and> cnt d \<le> cnt d' \<and> Q a (k + (cnt d' - cnt d))"
  shows "accounts I cnt Q (act op) k"
  unfolding act_def
proof (rule accounts_StepI)
  fix d d' and p :: "('d, 'a) prog"
  assume "I d" and "map_prod Return id (op d) = (p, d')"
  then obtain a where "op d = (a, d')" "p = Return a" by (cases "op d") simp
  with assms [OF \<open>I d\<close>] show "I d' \<and> cnt d \<le> cnt d' \<and> accounts I cnt Q p (k + (cnt d' - cnt d))"
    by simp
qed

lemma accounts_bindP:
  "accounts I cnt (\<lambda>a. accounts I cnt Q (f a)) p k \<Longrightarrow> accounts I cnt Q (bindP p f) k"
proof (induction p arbitrary: k)
  case (Step g)
  show ?case
    unfolding bindP.simps
  proof (rule accounts_StepI)
    fix d q d'
    assume "I d" and "map_prod (\<lambda>p. bindP p f) id (g d) = (q, d')"
    then obtain p' where g: "g d = (p', d')" and q: "q = bindP p' f" by (cases "g d") simp
    from accounts_Step_D [OF Step.prems \<open>I d\<close> g]
    have "I d'" "cnt d \<le> cnt d'" "accounts I cnt (\<lambda>a. accounts I cnt Q (f a)) p' (k + (cnt d' - cnt d))"
      by blast+
    moreover from this(3) have "accounts I cnt Q (bindP p' f) (k + (cnt d' - cnt d))"
      using rangeI [of g d] g by (intro Step.IH [of "g d" p']) auto
    ultimately show "I d' \<and> cnt d \<le> cnt d' \<and> accounts I cnt Q q (k + (cnt d' - cnt d))"
      using q by simp
  qed
qed simp

lemma accounts_mono:
  assumes "accounts I cnt Q p k" and "\<And>r n. Q r n \<Longrightarrow> Q' r n"
  shows "accounts I cnt Q' p k"
  using assms(1)
proof (induction p arbitrary: k)
  case (Return r)
  with assms(2) show ?case by simp
next
  case (Step g)
  show ?case
  proof (rule accounts_StepI)
    fix d p' d'
    assume "I d" and g: "g d = (p', d')"
    from accounts_Step_D [OF Step.prems \<open>I d\<close> g]
    have "I d'" "cnt d \<le> cnt d'" "accounts I cnt Q p' (k + (cnt d' - cnt d))" by blast+
    moreover from this(3) have "accounts I cnt Q' p' (k + (cnt d' - cnt d))"
      using rangeI [of g d] g by (intro Step.IH [of "g d" p']) auto
    ultimately show "I d' \<and> cnt d \<le> cnt d' \<and> accounts I cnt Q' p' (k + (cnt d' - cnt d))"
      by simp
  qed
qed

lemma accounts_andThen:
  assumes "accounts I cnt (\<lambda>r n. case r of Inl e \<Rightarrow> Q (Inl e) n | Inr a \<Rightarrow> accounts I cnt Q (k a) n) p n"
  shows "accounts I cnt Q (andThen p k) n"
  unfolding andThen_def
  by (rule accounts_bindP, rule accounts_mono [OF assms]) (auto split: sum.splits)

lemma accounts_returnP [simp]: "accounts I cnt Q (returnP a) k \<longleftrightarrow> Q (Inr a) k"
  by (simp add: returnP_def)

lemma accounts_throwP [simp]: "accounts I cnt Q (throwP e) k \<longleftrightarrow> Q (Inl e) k"
  by (simp add: throwP_def)

section \<open>Pools of programs\<close>

text \<open>
  What may happen to a pool of running programs and the shared state: a new program starts, one of
  the programs takes a step, or the environment changes the state.
\<close>

inductive pool_reachable ::
  "(('d, 'r) prog \<Rightarrow> bool) \<Rightarrow> ('d \<Rightarrow> 'd \<Rightarrow> bool) \<Rightarrow> 'd \<Rightarrow> ('d, 'r) prog list \<Rightarrow> 'd \<Rightarrow> bool"
  for entry env d0 where
  empty: "pool_reachable entry env d0 [] d0"
| spawn: "pool_reachable entry env d0 ps d \<Longrightarrow> entry p \<Longrightarrow> pool_reachable entry env d0 (ps @ [p]) d"
| step: "pool_reachable entry env d0 ps d \<Longrightarrow> i < length ps \<Longrightarrow> ps ! i = Step f \<Longrightarrow> f d = (p, d') \<Longrightarrow>
    pool_reachable entry env d0 (ps[i := p]) d'"
| env: "pool_reachable entry env d0 ps d \<Longrightarrow> env d d' \<Longrightarrow> pool_reachable entry env d0 ps d'"

text \<open>The finished programs of a pool with a result that satisfies \<open>good\<close>.\<close>

fun is_finished :: "('r \<Rightarrow> bool) \<Rightarrow> ('d, 'r) prog \<Rightarrow> bool" where
  "is_finished good (Return r) = good r"
| "is_finished good (Step f) = False"

definition finished :: "('r \<Rightarrow> bool) \<Rightarrow> ('d, 'r) prog list \<Rightarrow> nat" where
  "finished good ps = length (filter (is_finished good) ps)"

lemma sum_list_replace:
  "i < length xs \<Longrightarrow> sum_list (xs[i := x]) = sum_list xs - xs ! i + (x :: int)"
  by (induction xs arbitrary: i) (auto split: nat.split)

lemma finished_bound:
  assumes "list_all2 (\<lambda>n p. 0 \<le> n \<and> accounts I cnt (\<lambda>r n. good r \<longrightarrow> 1 \<le> n) p n) ns ps"
  shows "int (finished good ps) \<le> sum_list ns"
  using assms
proof (induction ns ps rule: list_all2_induct)
  case (Cons n ns p ps)
  then show ?case by (cases p) (auto simp: finished_def)
qed (simp add: finished_def)

text \<open>
  When every entry program accounts for its good results, no interleaving has more good results than
  the counter has grown.
\<close>

theorem pool_accounts:
  assumes "pool_reachable entry env d0 ps d" and "I d0"
    and "\<And>p. entry p \<Longrightarrow> accounts I cnt (\<lambda>r n. good r \<longrightarrow> 1 \<le> n) p 0"
    and env: "\<And>d d'. I d \<Longrightarrow> env d d' \<Longrightarrow> I d' \<and> cnt d \<le> cnt d'"
  shows "I d \<and> int (finished good ps) \<le> cnt d - cnt d0"
proof -
  let ?acc = "\<lambda>n p. 0 \<le> n \<and> accounts I cnt (\<lambda>r n. good r \<longrightarrow> 1 \<le> n) p n"
  from assms(1) have "I d \<and> (\<exists>ns. list_all2 ?acc ns ps \<and> sum_list ns \<le> cnt d - cnt d0)"
  proof (induction rule: pool_reachable.induct)
    case empty
    with assms(2) show ?case by simp
  next
    case (spawn ps d p)
    then obtain ns where "list_all2 ?acc ns ps" "sum_list ns \<le> cnt d - cnt d0" by blast
    with spawn assms(3) show ?case
      by (intro conjI exI [of _ "ns @ [0]"]) (auto intro: list_all2_appendI)
  next
    case (step ps d i f p d')
    then obtain ns where ns: "list_all2 ?acc ns ps" "sum_list ns \<le> cnt d - cnt d0" and "I d" by blast
    from ns(1) step.hyps(2,3) have a: "0 \<le> ns ! i" "accounts I cnt (\<lambda>r n. good r \<longrightarrow> 1 \<le> n) (Step f) (ns ! i)"
      and len: "length ns = length ps"
      by (auto dest: list_all2_nthD2 list_all2_lengthD)
    from accounts_Step_D [OF a(2) \<open>I d\<close> step.hyps(4)]
    have new: "I d'" "cnt d \<le> cnt d'"
      "accounts I cnt (\<lambda>r n. good r \<longrightarrow> 1 \<le> n) p (ns ! i + (cnt d' - cnt d))" by blast+
    let ?ns = "ns[i := ns ! i + (cnt d' - cnt d)]"
    have "list_all2 ?acc ?ns (ps[i := p])"
      using ns(1) a(1) new by (intro list_all2_update_cong) auto
    moreover have "sum_list ?ns = sum_list ns + (cnt d' - cnt d)"
      using step.hyps(2) len by (simp add: sum_list_replace)
    ultimately show ?case using new(1) ns(2) by (intro conjI exI [of _ ?ns]) auto
  next
    case (env ps d d')
    then show ?case using assms(4) by force
  qed
  then show ?thesis using finished_bound by force
qed

text \<open>A program of a pool may run to its end without interruption.\<close>

lemma pool_run_nth:
  assumes "pool_reachable entry env d0 ps d" and "i < length ps" and "ps ! i = p"
    and "run p d = (r, d')"
  shows "pool_reachable entry env d0 (ps[i := Return r]) d'"
  using assms
proof (induction p arbitrary: ps d)
  case (Return a)
  then have "ps[i := Return r] = ps" and "d' = d" by (auto simp: list_update_same_conv)
  with Return.prems(1) show ?case by simp
next
  case (Step f)
  obtain q d1 where f: "f d = (q, d1)" by fastforce
  with Step.prems(4) have q: "run q d1 = (r, d')" by simp
  from pool_reachable.step [OF Step.prems(1-3) f]
  have "pool_reachable entry env d0 (ps[i := q]) d1" .
  with Step.prems(2) q have "pool_reachable entry env d0 ((ps[i := q])[i := Return r]) d'"
    using rangeI [of f d] f by (intro Step.IH [of "f d" q]) auto
  then show ?case by simp
qed

lemma pool_run:
  assumes "pool_reachable entry env d0 ps d" and "entry p" and "run p d = (r, d')"
  shows "pool_reachable entry env d0 (ps @ [Return r]) d'"
proof -
  from pool_reachable.spawn [OF assms(1,2)]
  have "pool_reachable entry env d0 (ps @ [p]) d" .
  from pool_run_nth [OF this, of "length ps" p r d'] assms(3) show ?thesis by simp
qed

end
