(* ===== verification/Receipt_Repository.thy ===== *)
theory Receipt_Repository
  imports Prisma_Database Async_Program
begin

text \<open>
  The receipt and event repositories of the historical service
  (\<^verbatim>\<open>src/repositories/access-receipt-repository.ts\<close>, \<^verbatim>\<open>event-log-repository.ts\<close>) as programs of steps:
  every \<open>await\<close> on the client is one step. The redemption reads the receipt, then updates it under the
  condition that nothing relevant changed in between.
\<close>

section \<open>The operations\<close>

definition createAccessReceipt ::
  "'d prisma \<Rightarrow> db_receipt \<Rightarrow> ('d, js_exn + db_receipt) prog" where
  "createAccessReceipt db input = act (receipt_create db input)"

definition getAccessReceiptByJti ::
  "'d prisma \<Rightarrow> string \<Rightarrow> ('d, js_exn + db_receipt option) prog" where
  "getAccessReceiptByJti db jti = act (receipt_findUnique db (ByJti jti))"

definition getAccessReceiptByAccessIntentId ::
  "'d prisma \<Rightarrow> string \<Rightarrow> ('d, js_exn + db_receipt option) prog" where
  "getAccessReceiptByAccessIntentId db i = act (receipt_findUnique db (ByAccessIntentId i))"

text \<open>The condition and the change of the guarded update.\<close>

definition redeemable_as :: "db_receipt \<Rightarrow> js_date \<Rightarrow> db_receipt \<Rightarrow> bool" where
  "redeemable_as receipt now r \<longleftrightarrow>
     dr_id r = dr_id receipt \<and> dr_active r \<and> dr_status r = ISSUED
   \<and> dr_redemptionCount r = dr_redemptionCount receipt \<and> now < dr_exp r"

definition redeemed_row :: "bool \<Rightarrow> js_date \<Rightarrow> db_receipt \<Rightarrow> db_receipt" where
  "redeemed_row exhausted now r =
     r\<lparr>dr_redemptionCount := dr_redemptionCount r + 1,
       dr_active := \<not> exhausted,
       dr_status := (if exhausted then EXHAUSTED else ISSUED),
       dr_redeemedAt := Some now,
       dr_exhaustedAt := (if exhausted then Some now else None)\<rparr>"

record redeem_result =
  updated :: bool
  redeemed_receipt :: "db_receipt option"

definition redeemAccessReceiptAtomically ::
  "'d prisma \<Rightarrow> string \<Rightarrow> js_date \<Rightarrow> ('d, js_exn + redeem_result) prog" where
  "redeemAccessReceiptAtomically db receiptId now =
     andThen (act (receipt_findUnique db (ByReceiptId receiptId))) (\<lambda>found.
     case found of
       None \<Rightarrow> returnP \<lparr>updated = False, redeemed_receipt = None\<rparr>
     | Some receipt \<Rightarrow>
         (let nextRedemptionCount = dr_redemptionCount receipt + 1;
              exhausted = dr_maxRedemptions receipt \<le> nextRedemptionCount
          in andThen (act (receipt_updateMany db (redeemable_as receipt now)
                            (redeemed_row exhausted now))) (\<lambda>n.
             if n \<noteq> 1 then returnP \<lparr>updated = False, redeemed_receipt = None\<rparr>
             else andThen (act (receipt_findUnique db (ByReceiptId (dr_id receipt)))) (\<lambda>updatedRow.
                  returnP \<lparr>updated = True, redeemed_receipt = updatedRow\<rparr>))))"

definition expired_row :: "db_receipt \<Rightarrow> db_receipt" where
  "expired_row r = r\<lparr>dr_status := RECEIPT_EXPIRED, dr_active := False\<rparr>"

definition setReceiptExpired ::
  "'d prisma \<Rightarrow> string \<Rightarrow> js_date \<Rightarrow> ('d, js_exn + db_receipt) prog" where
  "setReceiptExpired db receiptId now = act (receipt_update db receiptId expired_row)"

definition appendEventLog :: "'d prisma \<Rightarrow> event_row \<Rightarrow> ('d, js_exn + unit) prog" where
  "appendEventLog db input = act (event_create db input)"

section \<open>One receipt's row\<close>

text \<open>
  The database has exactly one receipt \<open>x\<close>, its limit is \<open>M\<close>, its count is within it, and it is not
  open once the limit is reached.
\<close>

definition rows_of :: "string \<Rightarrow> db \<Rightarrow> db_receipt list" where
  "rows_of x t = filter (\<lambda>r. dr_id r = x) (db_receipts t)"

definition row_within :: "int \<Rightarrow> db_receipt \<Rightarrow> bool" where
  "row_within M r \<longleftrightarrow>
     dr_maxRedemptions r = M \<and> 0 \<le> dr_redemptionCount r \<and> dr_redemptionCount r \<le> M
   \<and> (dr_active r \<and> dr_status r = ISSUED \<longrightarrow> dr_redemptionCount r < M)"

definition receipt_within :: "string \<Rightarrow> int \<Rightarrow> db \<Rightarrow> bool" where
  "receipt_within x M t \<longleftrightarrow> (case rows_of x t of [r] \<Rightarrow> row_within M r | _ \<Rightarrow> False)"

definition count_of :: "string \<Rightarrow> db \<Rightarrow> int" where
  "count_of x t = sum_list (map dr_redemptionCount (rows_of x t))"

lemma receipt_within_cases:
  assumes "receipt_within x M t"
  obtains r where "rows_of x t = [r]" "row_within M r" "dr_id r = x" "count_of x t = dr_redemptionCount r"
proof -
  from assms obtain r where r: "rows_of x t = [r]" "row_within M r"
    by (auto simp: receipt_within_def split: list.splits)
  then have "dr_id r = x" by (metis (mono_tags, lifting) filter_eq_ConsD rows_of_def)
  with r that show thesis by (simp add: count_of_def)
qed

lemma receipt_within_count: "receipt_within x M t \<Longrightarrow> count_of x t \<le> M"
  by (elim receipt_within_cases) (simp add: row_within_def)

lemma rows_of_receipts:
  "db_receipts t' = db_receipts t \<Longrightarrow> rows_of x t' = rows_of x t"
  by (simp add: rows_of_def)

lemma same_receipts:
  "db_receipts t' = db_receipts t \<Longrightarrow> receipt_within x M t' = receipt_within x M t \<and> count_of x t' = count_of x t"
  using rows_of_receipts [of t' t x] by (simp add: receipt_within_def count_of_def)

lemma filter_map_same: "(\<And>r. q (g r) = q r) \<Longrightarrow> filter q (map g rs) = map g (filter q rs)"
  by (induction rs) auto

text \<open>A change that keeps identities acts on the rows of \<open>x\<close> alone.\<close>

lemma rows_of_change:
  "(\<And>r. dr_id (f r) = dr_id r) \<Longrightarrow>
   rows_of x (change_receipts p f t) = map (\<lambda>r. if p r then f r else r) (rows_of x t)"
  unfolding rows_of_def table_effects by (rule filter_map_same) simp

lemma redeemed_row_id [simp]: "dr_id (redeemed_row b now r) = dr_id r"
  by (simp add: redeemed_row_def)

lemma expired_row_id [simp]: "dr_id (expired_row r) = dr_id r"
  by (simp add: expired_row_def)

text \<open>The guarded update of a receipt read earlier.\<close>

lemma redeem_change:
  assumes "receipt_within x M t" and "dr_id receipt = x \<Longrightarrow> dr_maxRedemptions receipt = M"
  shows "let t' = change_receipts (redeemable_as receipt now)
          (redeemed_row (dr_maxRedemptions receipt \<le> dr_redemptionCount receipt + 1) now) t
    in receipt_within x M t' \<and> count_of x t \<le> count_of x t'
     \<and> (dr_id receipt = x \<and> filter (redeemable_as receipt now) (db_receipts t) \<noteq> []
        \<longrightarrow> count_of x t' = count_of x t + 1)"
proof -
  let ?f = "redeemed_row (dr_maxRedemptions receipt \<le> dr_redemptionCount receipt + 1) now"
  let ?p = "redeemable_as receipt now"
  from assms(1) obtain r where r: "rows_of x t = [r]" "row_within M r" "dr_id r = x"
    "count_of x t = dr_redemptionCount r" by (rule receipt_within_cases)
  have rows: "rows_of x (change_receipts ?p ?f t) = [if ?p r then ?f r else r]"
    using r(1) by (simp add: rows_of_change)
  show ?thesis
  proof (cases "?p r")
    case True
    then have "dr_id receipt = x" "dr_redemptionCount r = dr_redemptionCount receipt"
      and "dr_redemptionCount r < M"
      using r by (auto simp: redeemable_as_def row_within_def)
    with assms(2) r have "row_within M (?f r)"
      by (simp add: row_within_def redeemed_row_def)
    with True rows r show ?thesis
      by (simp add: Let_def receipt_within_def count_of_def redeemed_row_def)
  next
    case False
    have "filter ?p (db_receipts t) = []" if "dr_id receipt = x"
    proof (rule ccontr)
      assume "filter ?p (db_receipts t) \<noteq> []"
      then obtain q where q: "q \<in> set (db_receipts t)" "?p q" by (auto simp: filter_empty_iff)
      with that have "q \<in> set (rows_of x t)" by (simp add: rows_of_def redeemable_as_def)
      with r(1) q(2) False show False by simp
    qed
    with False rows r show ?thesis by (auto simp: Let_def receipt_within_def count_of_def)
  qed
qed

lemma expire_change:
  assumes "receipt_within x M t"
  shows "let t' = change_receipts (\<lambda>r. dr_id r = i) expired_row t
    in receipt_within x M t' \<and> count_of x t' = count_of x t"
proof -
  from assms obtain r where r: "rows_of x t = [r]" "row_within M r"
    "count_of x t = dr_redemptionCount r" by (rule receipt_within_cases)
  then have "rows_of x (change_receipts (\<lambda>r. dr_id r = i) expired_row t)
      = [if dr_id r = i then expired_row r else r]"
    by (simp add: rows_of_change)
  with r show ?thesis
    by (simp add: Let_def receipt_within_def count_of_def row_within_def expired_row_def)
qed

section \<open>Accounting for redemptions\<close>

context prisma_client
begin

abbreviation limited :: "string \<Rightarrow> int \<Rightarrow> 'd \<Rightarrow> bool" where
  "limited x M d \<equiv> receipt_within x M (tables d)"

abbreviation count :: "string \<Rightarrow> 'd \<Rightarrow> int" where
  "count x d \<equiv> count_of x (tables d)"

lemma accounts_find:
  assumes "\<And>e. Q (Inl e) k"
    and "Q (Inr None) k"
    and "\<And>r. matches_receipt key r \<Longrightarrow> (dr_id r = x \<Longrightarrow> dr_maxRedemptions r = M) \<Longrightarrow> Q (Inr (Some r)) k"
  shows "accounts (limited x M) (count x) Q (act (receipt_findUnique ops key)) k"
proof (rule accounts_act)
  fix d a d'
  assume w: "limited x M d" and op: "receipt_findUnique ops key d = (a, d')"
  from w obtain r0 where r0: "rows_of x (tables d) = [r0]" "row_within M r0" by (rule receipt_within_cases)
  have "Q a k"
  proof (cases a)
    case (Inl e)
    then show ?thesis using assms(1) by simp
  next
    case (Inr res)
    show ?thesis
    proof (cases res)
      case (Some r)
      with Inr op found_matches have r: "r \<in> set (db_receipts (tables d))" "matches_receipt key r"
        by blast+
      have "dr_maxRedemptions r = M" if "dr_id r = x"
      proof -
        from r(1) that have "r \<in> set (rows_of x (tables d))" by (simp add: rows_of_def)
        with r0 show ?thesis by (simp add: row_within_def)
      qed
      with r(2) Inr Some show ?thesis using assms(3) by blast
    qed (use Inr assms(2) in simp)
  qed
  with w op show "limited x M d' \<and> count x d \<le> count x d' \<and> Q a (k + (count x d' - count x d))"
    by (simp add: receipt_find [OF op])
qed

lemma accounts_event:
  assumes "\<And>r. Q r k"
  shows "accounts (limited x M) (count x) Q (appendEventLog ops ev) k"
  unfolding appendEventLog_def
proof (rule accounts_act)
  fix d a d'
  assume "limited x M d" and "event_create ops ev d = (a, d')"
  with same_receipts [OF event_receipts] assms
  show "limited x M d' \<and> count x d \<le> count x d' \<and> Q a (k + (count x d' - count x d))" by simp
qed

lemma accounts_setExpired:
  assumes "\<And>r. Q r k"
  shows "accounts (limited x M) (count x) Q (setReceiptExpired ops i now) k"
  unfolding setReceiptExpired_def
proof (rule accounts_act)
  fix d a d'
  assume w: "limited x M d" and op: "receipt_update ops i expired_row d = (a, d')"
  from update_receipts [OF op] w expire_change [OF w, of i] have "limited x M d'" "count x d' = count x d"
    by (auto simp: Let_def)
  with assms show "limited x M d' \<and> count x d \<le> count x d' \<and> Q a (k + (count x d' - count x d))" by simp
qed

text \<open>A redemption that reports success on the receipt \<open>x\<close> has raised its count.\<close>

lemma accounts_redeem:
  assumes "\<And>e n. k \<le> n \<Longrightarrow> Q (Inl e) n"
    and "\<And>n row. k \<le> n \<Longrightarrow> \<not> updated row \<Longrightarrow> Q (Inr row) n"
    and "\<And>n row. k \<le> n \<Longrightarrow> updated row \<Longrightarrow>
      (\<And>r. redeemed_receipt row = Some r \<Longrightarrow> dr_id r = i) \<Longrightarrow> (i = x \<Longrightarrow> k + 1 \<le> n) \<Longrightarrow> Q (Inr row) n"
  shows "accounts (limited x M) (count x) Q (redeemAccessReceiptAtomically ops i now) k"
proof -
  have find2: "accounts (limited x M) (count x) Q
      (andThen (act (receipt_findUnique ops (ByReceiptId i)))
        (\<lambda>row. returnP \<lparr>updated = True, redeemed_receipt = row\<rparr>)) n"
    if "k \<le> n" and "i = x \<Longrightarrow> k + 1 \<le> n" for n
    using that by (intro accounts_andThen accounts_find) (auto intro!: assms(1,3))
  have upd: "accounts (limited x M) (count x) Q
      (andThen (act (receipt_updateMany ops (redeemable_as receipt now)
          (redeemed_row (dr_maxRedemptions receipt \<le> dr_redemptionCount receipt + 1) now)))
        (\<lambda>n. if n \<noteq> 1 then returnP \<lparr>updated = False, redeemed_receipt = None\<rparr>
           else andThen (act (receipt_findUnique ops (ByReceiptId (dr_id receipt))))
             (\<lambda>row. returnP \<lparr>updated = True, redeemed_receipt = row\<rparr>))) k"
    if i: "dr_id receipt = i" and M: "dr_id receipt = x \<Longrightarrow> dr_maxRedemptions receipt = M" for receipt
  proof (intro accounts_andThen accounts_act)
    let ?p = "redeemable_as receipt now"
    let ?f = "redeemed_row (dr_maxRedemptions receipt \<le> dr_redemptionCount receipt + 1) now"
    fix d a d'
    assume w: "limited x M d" and op: "receipt_updateMany ops ?p ?f d = (a, d')"
    note ch = redeem_change [OF w M, of now, unfolded Let_def]
    from updateMany_receipts [OF op] ch w have w': "limited x M d'" "count x d \<le> count x d'" by auto
    moreover have "case a of Inl e \<Rightarrow> Q (Inl e) (k + (count x d' - count x d))
      | Inr n \<Rightarrow> accounts (limited x M) (count x) Q
          (if n \<noteq> 1 then returnP \<lparr>updated = False, redeemed_receipt = None\<rparr>
           else andThen (act (receipt_findUnique ops (ByReceiptId (dr_id receipt))))
             (\<lambda>row. returnP \<lparr>updated = True, redeemed_receipt = row\<rparr>)) (k + (count x d' - count x d))"
    proof (cases a)
      case (Inl e)
      with w' assms(1) show ?thesis by simp
    next
      case (Inr n)
      show ?thesis
      proof (cases "n = 1")
        case True
        with op Inr receipts_updated have
          "tables d' = change_receipts ?p ?f (tables d)" "length (filter ?p (db_receipts (tables d))) = 1"
          by metis+
        with ch i have "i = x \<Longrightarrow> count x d' = count x d + 1" by (auto simp: length_Suc_conv)
        with True Inr w' i show ?thesis by (simp add: find2)
      next
        case False
        with Inr w' assms(2) show ?thesis by simp
      qed
    qed
    ultimately show "limited x M d' \<and> count x d \<le> count x d' \<and>
      (case a of Inl e \<Rightarrow> Q (Inl e) (k + (count x d' - count x d))
      | Inr n \<Rightarrow> accounts (limited x M) (count x) Q
          (if n \<noteq> 1 then returnP \<lparr>updated = False, redeemed_receipt = None\<rparr>
           else andThen (act (receipt_findUnique ops (ByReceiptId (dr_id receipt))))
             (\<lambda>row. returnP \<lparr>updated = True, redeemed_receipt = row\<rparr>)) (k + (count x d' - count x d)))"
      by blast
  qed
  show ?thesis
    unfolding redeemAccessReceiptAtomically_def Let_def
    by (intro accounts_andThen accounts_find) (auto intro: assms(1,2) upd [unfolded One_nat_def])
qed

end

end
