(* ===== verification/Redemption_Policy.thy ===== *)
theory Redemption_Policy
  imports Access_State
begin

text \<open>
  The checks that deny a redemption of the historical service before its atomic update
  (\<^verbatim>\<open>src/domain/redemption-policy.ts\<close>), and the claims its signer is given
  (\<^verbatim>\<open>src/domain/receipt-claims.ts\<close>).
\<close>

section \<open>Signed claims\<close>

record sign_input =
  si_subjectId :: string
  si_audience :: string
  si_issuer :: string
  si_issuedAt :: js_date
  si_notBefore :: js_date
  si_expiresAt :: js_date
  si_jti :: string
  si_intentId :: string
  si_resourceId :: string
  si_policyId :: string
  si_paymentRef :: "string option"
  si_grantType :: string
  si_maxRedemptions :: int

record legacy_claims =
  lc_iss :: string
  lc_sub :: string
  lc_aud :: string
  lc_iat :: int
  lc_nbf :: int
  lc_exp :: int
  lc_jti :: string
  lc_intent_id :: string
  lc_resource_id :: string
  lc_policy_id :: string
  lc_payment_ref :: "string option"
  lc_grant_type :: string
  lc_max_redemptions :: int

text \<open>\<open>Math.floor(ms / 1000)\<close>; HOL's integer division rounds down as well.\<close>

definition buildLegacyClaims :: "sign_input \<Rightarrow> legacy_claims" where
  "buildLegacyClaims input =
     \<lparr>lc_iss = si_issuer input,
      lc_sub = si_subjectId input,
      lc_aud = si_audience input,
      lc_iat = si_issuedAt input div 1000,
      lc_nbf = si_notBefore input div 1000,
      lc_exp = si_expiresAt input div 1000,
      lc_jti = si_jti input,
      lc_intent_id = si_intentId input,
      lc_resource_id = si_resourceId input,
      lc_policy_id = si_policyId input,
      lc_payment_ref = si_paymentRef input,
      lc_grant_type = si_grantType input,
      lc_max_redemptions = si_maxRedemptions input\<rparr>"

section \<open>The checks\<close>

record signature_claims =
  sc_jti :: string
  sc_intent_id :: string
  sc_resource_id :: string
  sc_policy_id :: string
  sc_sub :: string
  sc_max_redemptions :: int

record signature_result =
  sr_verified :: bool
  sr_claims :: "signature_claims option"
  sr_reason :: "string option"

record receipt_snapshot =
  sn_id :: string
  sn_jti :: string
  sn_accessIntentId :: string
  sn_resourcePolicyId :: string
  sn_status :: receipt_status
  sn_resourceKey :: string
  sn_resourceType :: resource_type
  sn_subjectType :: subject_type
  sn_subjectId :: string
  sn_redemptionCount :: int
  sn_maxRedemptions :: int
  sn_exp :: js_date

record resource_ref =
  res_key :: string
  res_type :: resource_type

record subject_ref =
  subj_type :: subject_type
  subj_id :: string

record redemption_denial =
  rd_status :: redemption_status
  rd_accessGranted :: bool
  rd_accessReceiptId :: "string option"
  rd_accessIntentId :: "string option"
  rd_jti :: "string option"
  rd_receiptStatus :: "receipt_status option"
  rd_resource :: resource_ref
  rd_subject :: subject_ref
  rd_redemptionCount :: int
  rd_maxRedemptions :: int
  rd_redeemedAt :: js_date
  rd_reason :: string

definition claims_mismatch ::
  "signature_claims \<Rightarrow> receipt_snapshot \<Rightarrow> resource_ref \<Rightarrow> subject_ref \<Rightarrow> bool" where
  "claims_mismatch claims receipt resource subject \<longleftrightarrow>
     sc_intent_id claims \<noteq> sn_accessIntentId receipt
   \<or> sc_resource_id claims \<noteq> sn_resourceKey receipt
   \<or> sc_policy_id claims \<noteq> sn_resourcePolicyId receipt
   \<or> sc_sub claims \<noteq> sn_subjectId receipt
   \<or> sc_max_redemptions claims \<noteq> sn_maxRedemptions receipt
   \<or> res_key resource \<noteq> sn_resourceKey receipt
   \<or> res_type resource \<noteq> sn_resourceType receipt
   \<or> subj_id subject \<noteq> sn_subjectId receipt
   \<or> subj_type subject \<noteq> sn_subjectType receipt"

definition evaluatePreAtomicRedemptionDenial ::
  "signature_result \<Rightarrow> receipt_snapshot option \<Rightarrow> resource_ref \<Rightarrow> subject_ref \<Rightarrow> js_date \<Rightarrow> js_date
     \<Rightarrow> redemption_denial option" where
  "evaluatePreAtomicRedemptionDenial sig receipt resource subject redeemedAt now =
     (case (sr_verified sig, sr_claims sig) of
        (True, Some claims) \<Rightarrow>
          (case receipt of
             None \<Rightarrow>
               Some \<lparr>rd_status = DENIED, rd_accessGranted = False, rd_accessReceiptId = None,
                 rd_accessIntentId = None, rd_jti = Some (sc_jti claims), rd_receiptStatus = None,
                 rd_resource = resource, rd_subject = subject, rd_redemptionCount = 0,
                 rd_maxRedemptions = 0, rd_redeemedAt = redeemedAt,
                 rd_reason = ''RECEIPT_NOT_FOUND''\<rparr>
           | Some r \<Rightarrow>
               if isIsoDateExpired (sn_exp r) now then
                 Some \<lparr>rd_status = DENIED, rd_accessGranted = False,
                   rd_accessReceiptId = Some (sn_id r),
                   rd_accessIntentId = Some (sn_accessIntentId r), rd_jti = Some (sn_jti r),
                   rd_receiptStatus = Some RECEIPT_EXPIRED, rd_resource = resource,
                   rd_subject = subject, rd_redemptionCount = sn_redemptionCount r,
                   rd_maxRedemptions = sn_maxRedemptions r, rd_redeemedAt = redeemedAt,
                   rd_reason = ''RECEIPT_EXPIRED''\<rparr>
               else if claims_mismatch claims r resource subject then
                 Some \<lparr>rd_status = DENIED, rd_accessGranted = False,
                   rd_accessReceiptId = Some (sn_id r),
                   rd_accessIntentId = Some (sn_accessIntentId r), rd_jti = Some (sn_jti r),
                   rd_receiptStatus = Some (sn_status r), rd_resource = resource,
                   rd_subject = subject, rd_redemptionCount = sn_redemptionCount r,
                   rd_maxRedemptions = sn_maxRedemptions r, rd_redeemedAt = redeemedAt,
                   rd_reason = ''RECEIPT_CLAIMS_MISMATCH''\<rparr>
               else None)
      | _ \<Rightarrow>
          Some \<lparr>rd_status = DENIED, rd_accessGranted = False, rd_accessReceiptId = None,
            rd_accessIntentId = None, rd_jti = None,
            rd_receiptStatus =
              (if sr_reason sig = Some ''RECEIPT_EXPIRED'' then Some RECEIPT_EXPIRED else None),
            rd_resource = resource, rd_subject = subject, rd_redemptionCount = 0,
            rd_maxRedemptions = 0, rd_redeemedAt = redeemedAt,
            rd_reason = (case sr_reason sig of None \<Rightarrow> ''INVALID_RECEIPT_TOKEN'' | Some r \<Rightarrow> r)\<rparr>)"

section \<open>The specification\<close>

text \<open>The receipt is the one the claims name, for this resource and this subject.\<close>

definition bound_to ::
  "receipt_snapshot \<Rightarrow> signature_claims \<Rightarrow> resource_ref \<Rightarrow> subject_ref \<Rightarrow> bool" where
  "bound_to r claims resource subject \<longleftrightarrow>
     claims = \<lparr>sc_jti = sc_jti claims, sc_intent_id = sn_accessIntentId r,
       sc_resource_id = sn_resourceKey r, sc_policy_id = sn_resourcePolicyId r,
       sc_sub = sn_subjectId r, sc_max_redemptions = sn_maxRedemptions r\<rparr>
   \<and> resource = \<lparr>res_key = sn_resourceKey r, res_type = sn_resourceType r\<rparr>
   \<and> subject = \<lparr>subj_type = sn_subjectType r, subj_id = sn_subjectId r\<rparr>"

lemma claims_mismatch_iff: "claims_mismatch claims r resource subject \<longleftrightarrow> \<not> bound_to r claims resource subject"
  by (cases claims; cases resource; cases subject) (auto simp: claims_mismatch_def bound_to_def)

text \<open>The denial's reason, in order of precedence.\<close>

definition denial_reason ::
  "signature_result \<Rightarrow> receipt_snapshot option \<Rightarrow> resource_ref \<Rightarrow> subject_ref \<Rightarrow> js_date \<Rightarrow> string option" where
  "denial_reason sig receipt resource subject now =
     (if \<not> sr_verified sig \<or> sr_claims sig = None
      then Some (case sr_reason sig of None \<Rightarrow> ''INVALID_RECEIPT_TOKEN'' | Some r \<Rightarrow> r)
      else if receipt = None then Some ''RECEIPT_NOT_FOUND''
      else if sn_exp (the receipt) \<le> now then Some ''RECEIPT_EXPIRED''
      else if \<not> bound_to (the receipt) (the (sr_claims sig)) resource subject
      then Some ''RECEIPT_CLAIMS_MISMATCH''
      else None)"

lemma denial_reason_correct:
  "map_option rd_reason (evaluatePreAtomicRedemptionDenial sig receipt resource subject redeemedAt now)
     = denial_reason sig receipt resource subject now"
  by (auto simp: evaluatePreAtomicRedemptionDenial_def denial_reason_def isIsoDateExpired_def
      claims_mismatch_iff split: option.split bool.split)

lemma no_denial_iff:
  "evaluatePreAtomicRedemptionDenial sig receipt resource subject redeemedAt now = None \<longleftrightarrow>
     sr_verified sig \<and> (\<exists>claims r. sr_claims sig = Some claims \<and> receipt = Some r \<and> now < sn_exp r
        \<and> bound_to r claims resource subject)"
  by (auto simp: evaluatePreAtomicRedemptionDenial_def isIsoDateExpired_def claims_mismatch_iff
      split: option.split bool.split)

end
