(* ===== verification/Service_Redemption.thy ===== *)
theory Service_Redemption
  imports Receipt_Repository Redemption_Policy
begin

text \<open>
  Verification and redemption in the historical service (the methods \<open>verifyAccessReceipt\<close> and
  \<open>redeemAccessReceipt\<close> of \<^verbatim>\<open>src/services/fiber-latch-service.ts\<close>), as programs over the receipt
  repository. The signer's verification is a parameter, and the clock readings are arguments.
\<close>

section \<open>Views\<close>

record verification_view =
  vv_verified :: bool
  vv_accessReceiptId :: "string option"
  vv_accessIntentId :: "string option"
  vv_jti :: "string option"
  vv_receiptStatus :: "receipt_status option"
  vv_resource :: "resource_ref option"
  vv_subject :: "subject_ref option"
  vv_issuedAt :: "js_date option"
  vv_exp :: "js_date option"
  vv_verifiedAt :: js_date
  vv_reason :: "string option"

record redemption_view =
  rv_status :: redemption_status
  rv_accessGranted :: bool
  rv_accessReceiptId :: "string option"
  rv_accessIntentId :: "string option"
  rv_jti :: "string option"
  rv_receiptStatus :: "receipt_status option"
  rv_resource :: resource_ref
  rv_subject :: subject_ref
  rv_redemptionCount :: int
  rv_maxRedemptions :: int
  rv_redeemedAt :: js_date
  rv_reason :: "string option"

definition snapshot_of :: "db_receipt \<Rightarrow> receipt_snapshot" where
  "snapshot_of r =
     \<lparr>sn_id = dr_id r, sn_jti = dr_jti r, sn_accessIntentId = dr_accessIntentId r,
      sn_resourcePolicyId = dr_resourcePolicyId r, sn_status = dr_status r,
      sn_resourceKey = dr_resourceKey r, sn_resourceType = dr_resourceType r,
      sn_subjectType = dr_subjectType r, sn_subjectId = dr_subjectId r,
      sn_redemptionCount = dr_redemptionCount r, sn_maxRedemptions = dr_maxRedemptions r,
      sn_exp = dr_exp r\<rparr>"

text \<open>An event about a receipt, as the service logs it.\<close>

definition receipt_event :: "event_log_type \<Rightarrow> db_receipt \<Rightarrow> jsval \<Rightarrow> event_row" where
  "receipt_event t r payload =
     \<lparr>ev_eventType = t, ev_resourcePolicyId = Some (dr_resourcePolicyId r),
      ev_resourceKey = Some (dr_resourceKey r), ev_resourceType = Some (dr_resourceType r),
      ev_accessIntentId = Some (dr_accessIntentId r), ev_accessReceiptId = Some (dr_id r),
      ev_subjectType = Some (dr_subjectType r), ev_subjectId = Some (dr_subjectId r),
      ev_payload = Some payload\<rparr>"

section \<open>Verification\<close>

text \<open>The views about a stored receipt differ in the verdict, the status and the reason.\<close>

definition stored_view ::
  "bool \<Rightarrow> receipt_status \<Rightarrow> string option \<Rightarrow> js_date \<Rightarrow> db_receipt \<Rightarrow> verification_view" where
  "stored_view verified status reason verifiedAt r =
     \<lparr>vv_verified = verified, vv_accessReceiptId = Some (dr_id r),
      vv_accessIntentId = Some (dr_accessIntentId r), vv_jti = Some (dr_jti r),
      vv_receiptStatus = Some status,
      vv_resource = Some \<lparr>res_key = dr_resourceKey r, res_type = dr_resourceType r\<rparr>,
      vv_subject = Some \<lparr>subj_type = dr_subjectType r, subj_id = dr_subjectId r\<rparr>,
      vv_issuedAt = Some (dr_issuedAt r), vv_exp = Some (dr_exp r), vv_verifiedAt = verifiedAt,
      vv_reason = reason\<rparr>"

definition unstored_view ::
  "string option \<Rightarrow> receipt_status option \<Rightarrow> string \<Rightarrow> js_date \<Rightarrow> verification_view" where
  "unstored_view jti status reason verifiedAt =
     \<lparr>vv_verified = False, vv_accessReceiptId = None, vv_accessIntentId = None, vv_jti = jti,
      vv_receiptStatus = status, vv_resource = None, vv_subject = None, vv_issuedAt = None,
      vv_exp = None, vv_verifiedAt = verifiedAt, vv_reason = Some reason\<rparr>"

definition verifyAccessReceipt ::
  "'d prisma \<Rightarrow> (string \<Rightarrow> js_exn + signature_result) \<Rightarrow> js_date \<Rightarrow> js_date \<Rightarrow> string
     \<Rightarrow> ('d, js_exn + verification_view) prog" where
  "verifyAccessReceipt db verify verifiedAt now receiptToken =
     (case verify receiptToken of
        Inl e \<Rightarrow> throwP e
      | Inr sig \<Rightarrow>
          (case (sr_verified sig, sr_claims sig) of
             (True, Some claims) \<Rightarrow>
               andThen (getAccessReceiptByJti db (sc_jti claims)) (\<lambda>found.
               case found of
                 None \<Rightarrow> returnP (unstored_view (Some (sc_jti claims)) None ''RECEIPT_NOT_FOUND'' verifiedAt)
               | Some r \<Rightarrow>
                   if \<not> dr_active r \<or> dr_status r \<noteq> ISSUED then
                     returnP (stored_view False (dr_status r) (Some ''RECEIPT_NOT_ACTIVE'') verifiedAt r)
                   else if sc_intent_id claims \<noteq> dr_accessIntentId r
                        \<or> sc_resource_id claims \<noteq> dr_resourceKey r
                        \<or> sc_policy_id claims \<noteq> dr_resourcePolicyId r
                        \<or> sc_sub claims \<noteq> dr_subjectId r
                        \<or> sc_max_redemptions claims \<noteq> dr_maxRedemptions r then
                     returnP (stored_view False (dr_status r) (Some ''RECEIPT_CLAIMS_MISMATCH'') verifiedAt r)
                   else if isIsoDateExpired (dr_exp r) now then
                     andThen (setReceiptExpired db (dr_id r) now) (\<lambda>_.
                     returnP (stored_view False RECEIPT_EXPIRED (Some ''RECEIPT_EXPIRED'') verifiedAt r))
                   else
                     andThen (appendEventLog db
                       (receipt_event ACCESS_RECEIPT_VERIFIED r (JObj [(''jti'', JStr (dr_jti r))] []))) (\<lambda>_.
                     returnP (stored_view True (dr_status r) None verifiedAt r)))
           | _ \<Rightarrow>
               returnP (unstored_view None
                 (if sr_reason sig = Some ''RECEIPT_EXPIRED'' then Some RECEIPT_EXPIRED else None)
                 (case sr_reason sig of None \<Rightarrow> ''INVALID_RECEIPT_TOKEN'' | Some s \<Rightarrow> s) verifiedAt)))"

section \<open>Redemption\<close>

definition denial_view :: "redemption_denial \<Rightarrow> redemption_view" where
  "denial_view d =
     \<lparr>rv_status = rd_status d, rv_accessGranted = rd_accessGranted d,
      rv_accessReceiptId = rd_accessReceiptId d, rv_accessIntentId = rd_accessIntentId d,
      rv_jti = rd_jti d, rv_receiptStatus = rd_receiptStatus d, rv_resource = rd_resource d,
      rv_subject = rd_subject d, rv_redemptionCount = rd_redemptionCount d,
      rv_maxRedemptions = rd_maxRedemptions d, rv_redeemedAt = rd_redeemedAt d,
      rv_reason = Some (rd_reason d)\<rparr>"

definition not_active_view ::
  "db_receipt \<Rightarrow> string \<Rightarrow> resource_ref \<Rightarrow> subject_ref \<Rightarrow> js_date \<Rightarrow> redemption_view" where
  "not_active_view shown jti resource subject redeemedAt =
     \<lparr>rv_status = DENIED, rv_accessGranted = False, rv_accessReceiptId = Some (dr_id shown),
      rv_accessIntentId = Some (dr_accessIntentId shown), rv_jti = Some jti,
      rv_receiptStatus = Some (dr_status shown), rv_resource = resource, rv_subject = subject,
      rv_redemptionCount = dr_redemptionCount shown, rv_maxRedemptions = dr_maxRedemptions shown,
      rv_redeemedAt = redeemedAt, rv_reason = Some ''RECEIPT_NOT_ACTIVE''\<rparr>"

definition granted_view ::
  "db_receipt \<Rightarrow> resource_ref \<Rightarrow> subject_ref \<Rightarrow> js_date \<Rightarrow> redemption_view" where
  "granted_view u resource subject redeemedAt =
     \<lparr>rv_status = GRANTED, rv_accessGranted = True, rv_accessReceiptId = Some (dr_id u),
      rv_accessIntentId = Some (dr_accessIntentId u), rv_jti = Some (dr_jti u),
      rv_receiptStatus = Some (dr_status u), rv_resource = resource, rv_subject = subject,
      rv_redemptionCount = dr_redemptionCount u, rv_maxRedemptions = dr_maxRedemptions u,
      rv_redeemedAt = redeemedAt, rv_reason = None\<rparr>"

definition redeemed_events :: "'d prisma \<Rightarrow> db_receipt \<Rightarrow> ('d, js_exn + unit) prog" where
  "redeemed_events db u =
     andThen (appendEventLog db (receipt_event ACCESS_RECEIPT_REDEEMED u
       (JObj [(''redemptionCount'', JInt (dr_redemptionCount u)),
              (''maxRedemptions'', JInt (dr_maxRedemptions u))] []))) (\<lambda>_.
     if dr_status u = EXHAUSTED then
       appendEventLog db (receipt_event ACCESS_RECEIPT_REDEMPTION_REJECTED u
         (JObj [(''reason'', JStr ''MAX_REDEMPTIONS_REACHED'')] []))
     else returnP ())"

text \<open>The part after the pre-atomic check.\<close>

definition redeemStored ::
  "'d prisma \<Rightarrow> js_date \<Rightarrow> js_date \<Rightarrow> resource_ref \<Rightarrow> subject_ref \<Rightarrow> db_receipt
     \<Rightarrow> ('d, js_exn + redemption_view) prog" where
  "redeemStored db redeemedAt atomicNow resource subject receipt =
     andThen (redeemAccessReceiptAtomically db (dr_id receipt) atomicNow) (\<lambda>redemption.
     case (updated redemption, redeemed_receipt redemption) of
       (True, Some u) \<Rightarrow>
         andThen (redeemed_events db u) (\<lambda>_. returnP (granted_view u resource subject redeemedAt))
     | _ \<Rightarrow>
         andThen (getAccessReceiptByJti db (dr_jti receipt)) (\<lambda>current.
         returnP (not_active_view (case current of Some c \<Rightarrow> c | None \<Rightarrow> receipt) (dr_jti receipt)
           resource subject redeemedAt)))"

text \<open>The part after the lookup of the receipt.\<close>

definition redeemLookedUp ::
  "'d prisma \<Rightarrow> js_date \<Rightarrow> js_date \<Rightarrow> js_date \<Rightarrow> resource_ref \<Rightarrow> subject_ref \<Rightarrow> signature_result
     \<Rightarrow> db_receipt option \<Rightarrow> ('d, js_exn + redemption_view) prog" where
  "redeemLookedUp db redeemedAt now atomicNow resource subject sig found =
     (case evaluatePreAtomicRedemptionDenial sig (map_option snapshot_of found) resource subject
             redeemedAt now of
        Some denial \<Rightarrow>
          (case found of
             Some r \<Rightarrow>
               if rd_reason denial = ''RECEIPT_EXPIRED''
               then andThen (setReceiptExpired db (dr_id r) now) (\<lambda>_. returnP (denial_view denial))
               else returnP (denial_view denial)
           | None \<Rightarrow> returnP (denial_view denial))
      | None \<Rightarrow>
          (case found of
             None \<Rightarrow> throwP (JSError ''evaluatePreAtomicRedemptionDenial returned null without a stored receipt'')
           | Some r \<Rightarrow> redeemStored db redeemedAt atomicNow resource subject r))"

definition redeemReceipt ::
  "'d prisma \<Rightarrow> (string \<Rightarrow> js_exn + signature_result) \<Rightarrow> js_date \<Rightarrow> js_date \<Rightarrow> js_date
     \<Rightarrow> string \<Rightarrow> resource_ref \<Rightarrow> subject_ref \<Rightarrow> ('d, js_exn + redemption_view) prog" where
  "redeemReceipt db verify redeemedAt now atomicNow receiptToken resource subject =
     (case verify receiptToken of
        Inl e \<Rightarrow> throwP e
      | Inr sig \<Rightarrow>
          andThen (case (sr_verified sig, sr_claims sig) of
                     (True, Some claims) \<Rightarrow> getAccessReceiptByJti db (sc_jti claims)
                   | _ \<Rightarrow> returnP None)
            (redeemLookedUp db redeemedAt now atomicNow resource subject sig))"

section \<open>Requests\<close>

datatype service_view = VerificationView verification_view | RedemptionView redemption_view

definition mapP :: "('a \<Rightarrow> 'b) \<Rightarrow> ('d, 'e + 'a) prog \<Rightarrow> ('d, 'e + 'b) prog" where
  "mapP f p = andThen p (\<lambda>a. returnP (f a))"

text \<open>Any call of one of the two methods, with any arguments and any clock readings.\<close>

definition service_request ::
  "'d prisma \<Rightarrow> (string \<Rightarrow> js_exn + signature_result) \<Rightarrow> ('d, js_exn + service_view) prog \<Rightarrow> bool" where
  "service_request db verify p \<longleftrightarrow>
     (\<exists>at' now token. p = mapP VerificationView (verifyAccessReceipt db verify at' now token))
   \<or> (\<exists>at' now atomicNow token resource subject.
        p = mapP RedemptionView (redeemReceipt db verify at' now atomicNow token resource subject))"

text \<open>Access was granted on the receipt \<open>x\<close>, by the view's status or by its flag.\<close>

definition grants_on :: "string \<Rightarrow> redemption_view \<Rightarrow> bool" where
  "grants_on x v \<longleftrightarrow> (rv_status v = GRANTED \<or> rv_accessGranted v) \<and> rv_accessReceiptId v = Some x"

fun granted_on :: "string \<Rightarrow> js_exn + service_view \<Rightarrow> bool" where
  "granted_on x (Inr (RedemptionView v)) = (rv_status v = GRANTED \<and> rv_accessReceiptId v = Some x)"
| "granted_on x _ = False"

text \<open>What other code may do to the database meanwhile: it leaves the receipt's limit alone and does
  not take redemptions back.\<close>

definition others_keep :: "('d \<Rightarrow> db) \<Rightarrow> string \<Rightarrow> int \<Rightarrow> 'd \<Rightarrow> 'd \<Rightarrow> bool" where
  "others_keep tables x M d d' \<longleftrightarrow>
     receipt_within x M (tables d') \<and> count_of x (tables d) \<le> count_of x (tables d')"

lemma denial_not_granted:
  "evaluatePreAtomicRedemptionDenial sig receipt resource subject at' now = Some d \<Longrightarrow>
   rv_status (denial_view d) = DENIED \<and> \<not> rv_accessGranted (denial_view d)"
  by (auto simp: evaluatePreAtomicRedemptionDenial_def denial_view_def
      split: option.splits bool.splits if_splits)

context prisma_client
begin

lemma accounts_verify:
  "accounts (limited x M) (count x) (\<lambda>r n. granted_on x r \<longrightarrow> 1 \<le> n)
     (mapP VerificationView (verifyAccessReceipt ops verify at' now token)) 0"
  unfolding mapP_def verifyAccessReceipt_def getAccessReceiptByJti_def
  by (auto split: sum.split option.split bool.split
      intro!: accounts_andThen accounts_find accounts_event accounts_setExpired)

lemma accounts_redeemStored:
  "accounts (limited x M) (count x)
     (\<lambda>r n. case r of Inl e \<Rightarrow> True
        | Inr v \<Rightarrow> grants_on x v \<longrightarrow> 1 \<le> n)
     (redeemStored ops at' atomicNow resource subject r) 0"
  (is "accounts _ _ ?Q _ _")
proof -
  have granted: "accounts (limited x M) (count x) ?Q
      (andThen (redeemed_events ops u) (\<lambda>_. returnP (granted_view u resource subject at'))) n"
    if n: "dr_id u = x \<Longrightarrow> 1 \<le> n" for u n
  proof -
    have "accounts (limited x M) (count x)
        (\<lambda>r n. case r of Inl e \<Rightarrow> ?Q (Inl e) n
           | Inr a \<Rightarrow> accounts (limited x M) (count x) ?Q (returnP (granted_view u resource subject at')) n)
        (redeemed_events ops u) n"
      unfolding redeemed_events_def
      using n by (auto simp: granted_view_def grants_on_def split: sum.split intro!: accounts_andThen accounts_event)
    then show ?thesis by (rule accounts_andThen)
  qed
  have denied: "accounts (limited x M) (count x) ?Q
      (andThen (getAccessReceiptByJti ops (dr_jti r)) (\<lambda>current.
       returnP (not_active_view (case current of Some c \<Rightarrow> c | None \<Rightarrow> r) (dr_jti r) resource subject at'))) n"
    for n
    unfolding getAccessReceiptByJti_def
    by (intro accounts_andThen accounts_find) (simp_all add: not_active_view_def grants_on_def)
  show ?thesis
    unfolding redeemStored_def
  proof (intro accounts_andThen accounts_redeem, goal_cases)
    case (1 e n)
    show ?case by simp
  next
    case (2 n row)
    then show ?case using denied [of n] by simp
  next
    case (3 n row)
    show ?case
    proof (cases "redeemed_receipt row")
      case None
      then show ?thesis using 3(2) denied [of n] by simp
    next
      case (Some u)
      from 3(3) [OF Some] 3(4) have "1 \<le> n" if "dr_id u = x" using that by simp
      then show ?thesis using granted [of u n] Some 3(2) by simp
    qed
  qed
qed

lemma accounts_redeem_view:
  "accounts (limited x M) (count x)
     (\<lambda>r n. case r of Inl e \<Rightarrow> True | Inr v \<Rightarrow> grants_on x v \<longrightarrow> 1 \<le> n)
     (redeemReceipt ops verify at' now atomicNow token resource subject) 0"
  (is "accounts _ _ ?Q _ _")
proof -
  have after: "accounts (limited x M) (count x) ?Q
      (redeemLookedUp ops at' now atomicNow resource subject sig found) 0" for sig found
  proof (cases "evaluatePreAtomicRedemptionDenial sig (map_option snapshot_of found) resource subject at' now")
    case None
    then show ?thesis
      using accounts_redeemStored by (cases found) (simp_all add: redeemLookedUp_def)
  next
    case (Some d)
    have "accounts (limited x M) (count x) ?Q
        (andThen (setReceiptExpired ops i now) (\<lambda>_. returnP (denial_view d))) 0" for i
      by (intro accounts_andThen accounts_setExpired) (simp add: grants_on_def denial_not_granted [OF Some] split: sum.split)
    with Some denial_not_granted [OF Some] show ?thesis
      by (cases found) (simp_all add: redeemLookedUp_def grants_on_def)
  qed
  show ?thesis
  proof (cases "verify token")
    case (Inl e)
    then show ?thesis by (simp add: redeemReceipt_def)
  next
    case (Inr sig)
    have "accounts (limited x M) (count x) ?Q
        (andThen (getAccessReceiptByJti ops jti) (redeemLookedUp ops at' now atomicNow resource subject sig)) 0"
      for jti
      unfolding getAccessReceiptByJti_def
      by (intro accounts_andThen accounts_find) (simp_all add: after)
    moreover have "accounts (limited x M) (count x) ?Q
        (andThen (returnP None) (redeemLookedUp ops at' now atomicNow resource subject sig)) 0"
      by (intro accounts_andThen) (simp add: after)
    ultimately show ?thesis
      using Inr by (cases "sr_verified sig"; cases "sr_claims sig") (simp_all add: redeemReceipt_def)
  qed
qed

lemma accounts_redeemReceipt:
  "accounts (limited x M) (count x) (\<lambda>r n. granted_on x r \<longrightarrow> 1 \<le> n)
     (mapP RedemptionView (redeemReceipt ops verify at' now atomicNow token resource subject)) 0"
  unfolding mapP_def
  by (rule accounts_andThen, rule accounts_mono [OF accounts_redeem_view])
    (auto simp: grants_on_def split: sum.splits)

text \<open>A grant, run alone: what must have held, and what changed.\<close>

lemma redeemAtomically_updated:
  assumes "run (redeemAccessReceiptAtomically ops i now) d = (Inr row, d')" and "updated row"
  shows "\<exists>r. r \<in> set (db_receipts (tables d)) \<and> dr_id r = i
    \<and> length (filter (redeemable_as r now) (db_receipts (tables d))) = 1
    \<and> tables d' = change_receipts (redeemable_as r now)
        (redeemed_row (dr_maxRedemptions r \<le> dr_redemptionCount r + 1) now) (tables d)
    \<and> redeemed_receipt row = find (\<lambda>q. dr_id q = i) (db_receipts (tables d'))"
proof -
  obtain res d1 where f1: "receipt_findUnique ops (ByReceiptId i) d = (res, d1)" by fastforce
  with assms obtain r where r: "res = Inr (Some r)"
    by (auto simp: redeemAccessReceiptAtomically_def run_andThen split: sum.splits option.splits)
  from f1 r found_matches have m: "r \<in> set (db_receipts (tables d))" "dr_id r = i" by force+
  let ?p = "redeemable_as r now"
  let ?f = "redeemed_row (dr_maxRedemptions r \<le> dr_redemptionCount r + 1) now"
  obtain n d2 where u: "receipt_updateMany ops ?p ?f d1 = (n, d2)" by fastforce
  with assms f1 r have n: "n = Inr 1"
    by (auto simp: redeemAccessReceiptAtomically_def run_andThen Let_def
        split: sum.splits option.splits if_splits)
  obtain res3 d3 where f3: "receipt_findUnique ops (ByReceiptId i) d2 = (res3, d3)" by fastforce
  with assms f1 r u n m obtain q where q: "res3 = Inr q" "redeemed_receipt row = q" "d' = d3"
    by (auto simp: redeemAccessReceiptAtomically_def run_andThen Let_def split: sum.splits)
  from receipts_updated [of ?p ?f d1 1 d2] u n receipt_find [OF f1]
  have t2: "tables d2 = change_receipts ?p ?f (tables d)"
    "length (filter ?p (db_receipts (tables d))) = 1" by simp_all
  have "tables d' = tables d2" using receipt_find [OF f3] q(3) by simp
  moreover have "q = find (\<lambda>q. dr_id q = i) (db_receipts (tables d2))"
    using receipt_found [of "ByReceiptId i" d2 q d3] f3 q(1) by (simp add: matches_receipt.simps(1) [abs_def])
  ultimately show ?thesis using m t2 q(2) by auto
qed

lemma events_keep_receipts:
  assumes "run (redeemed_events ops u) d = (res, d')"
  shows "db_receipts (tables d') = db_receipts (tables d)"
  using assms unfolding redeemed_events_def appendEventLog_def
  by (auto simp: run_andThen event_receipts split: prod.splits sum.splits if_splits)

lemma distinct_ids_eq:
  "distinct (map dr_id rs) \<Longrightarrow> r \<in> set rs \<Longrightarrow> q \<in> set rs \<Longrightarrow> dr_id q = dr_id r \<Longrightarrow> q = r"
  by (auto simp: distinct_map dest: inj_onD)

text \<open>The one row that a successful redemption of a receipt takes, when identities are unique.\<close>

lemma redeemAtomically_row:
  assumes "run (redeemAccessReceiptAtomically ops i now) d = (Inr row, d')" and "updated row"
    and d: "distinct (map dr_id (db_receipts (tables d)))"
  shows "\<exists>r. r \<in> set (db_receipts (tables d)) \<and> dr_id r = i \<and> dr_active r \<and> dr_status r = ISSUED
    \<and> now < dr_exp r
    \<and> db_receipts (tables d') = map (\<lambda>q. if dr_id q = i
        then redeemed_row (dr_maxRedemptions r \<le> dr_redemptionCount r + 1) now q else q)
        (db_receipts (tables d))
    \<and> redeemed_receipt row = Some (redeemed_row (dr_maxRedemptions r \<le> dr_redemptionCount r + 1) now r)"
proof -
  let ?rs = "db_receipts (tables d)"
  from redeemAtomically_updated [OF assms(1,2)] obtain r where r: "r \<in> set ?rs" "dr_id r = i"
    and len: "length (filter (redeemable_as r now) ?rs) = 1"
    and t: "tables d' = change_receipts (redeemable_as r now)
        (redeemed_row (dr_maxRedemptions r \<le> dr_redemptionCount r + 1) now) (tables d)"
    and row: "redeemed_receipt row = find (\<lambda>q. dr_id q = i) (db_receipts (tables d'))" by blast
  let ?f = "redeemed_row (dr_maxRedemptions r \<le> dr_redemptionCount r + 1) now"
  from len obtain q where q: "q \<in> set ?rs" "redeemable_as r now q"
    by (cases "filter (redeemable_as r now) ?rs") (auto, metis (full_types) filter_eq_ConsD in_set_conv_decomp)
  with distinct_ids_eq [OF d r(1) q(1)] have open_row: "redeemable_as r now r"
    by (auto simp: redeemable_as_def)
  have same: "redeemable_as r now p \<longleftrightarrow> dr_id p = i" if "p \<in> set ?rs" for p
    using distinct_ids_eq [OF d r(1) that] open_row r(2) by (auto simp: redeemable_as_def)
  have rs': "db_receipts (tables d') = map (\<lambda>q. if dr_id q = i then ?f q else q) ?rs"
    unfolding t table_effects by (rule map_cong) (simp_all add: same)
  have "find (\<lambda>q. dr_id q = i) (map (\<lambda>q. if dr_id q = i then ?f q else q) ps) = Some (?f r)"
    if "r \<in> set ps" "set ps \<subseteq> set ?rs" for ps
    using that
  proof (induction ps)
    case (Cons p ps)
    then show ?case using distinct_ids_eq [OF d r(1), of p] r(2) by auto
  qed simp
  from this [of ?rs] r rs' row have "redeemed_receipt row = Some (?f r)" by simp
  with r open_row rs' show ?thesis by (auto simp: redeemable_as_def)
qed

text \<open>A grant comes from a looked up receipt that passed the pre-atomic check.\<close>

lemma redeemLookedUp_granted:
  assumes run: "run (redeemLookedUp ops at' now atomicNow resource subject sig found) d = (Inr v, d')"
    and v: "rv_status v = GRANTED"
  shows "\<exists>r. found = Some r
    \<and> evaluatePreAtomicRedemptionDenial sig (Some (snapshot_of r)) resource subject at' now = None
    \<and> run (redeemStored ops at' atomicNow resource subject r) d = (Inr v, d')"
proof (cases "evaluatePreAtomicRedemptionDenial sig (map_option snapshot_of found) resource subject at' now")
  case None
  with run show ?thesis by (cases found) (simp_all add: redeemLookedUp_def)
next
  case (Some den)
  then have False
    using run denial_not_granted [OF Some] v
    by (cases found) (auto simp: redeemLookedUp_def run_andThen split: if_splits prod.splits sum.splits)
  then show ?thesis ..
qed

lemma redeemReceipt_granted:
  assumes run: "run (redeemReceipt ops verify at' now atomicNow token resource subject) d = (Inr v, d')"
    and v: "rv_status v = GRANTED"
  shows "\<exists>sig claims r d1. verify token = Inr sig \<and> sr_verified sig \<and> sr_claims sig = Some claims
    \<and> r \<in> set (db_receipts (tables d)) \<and> dr_jti r = sc_jti claims \<and> tables d1 = tables d
    \<and> evaluatePreAtomicRedemptionDenial sig (Some (snapshot_of r)) resource subject at' now = None
    \<and> run (redeemStored ops at' atomicNow resource subject r) d1 = (Inr v, d')"
proof -
  obtain sig where sig: "verify token = Inr sig"
    using run by (cases "verify token") (simp_all add: redeemReceipt_def)
  have "\<not> (\<exists>d1. run (redeemLookedUp ops at' now atomicNow resource subject sig None) d1 = (Inr v, d'))"
    using redeemLookedUp_granted [of _ _ _ _ _ _ None, OF _ v] by blast
  with run sig obtain claims where c: "sr_verified sig" "sr_claims sig = Some claims"
    by (cases "sr_verified sig"; cases "sr_claims sig") (auto simp: redeemReceipt_def run_andThen)
  obtain res d1 where find: "receipt_findUnique ops (ByJti (sc_jti claims)) d = (res, d1)" by fastforce
  with run sig c obtain found where found: "res = Inr found"
    "run (redeemLookedUp ops at' now atomicNow resource subject sig found) d1 = (Inr v, d')"
    by (auto simp: redeemReceipt_def run_andThen getAccessReceiptByJti_def split: sum.splits)
  from redeemLookedUp_granted [OF found(2) v] obtain r where r: "found = Some r"
    "evaluatePreAtomicRedemptionDenial sig (Some (snapshot_of r)) resource subject at' now = None"
    "run (redeemStored ops at' atomicNow resource subject r) d1 = (Inr v, d')" by blast
  moreover from find found(1) r(1) have "r \<in> set (db_receipts (tables d))" "dr_jti r = sc_jti claims"
    using found_matches by force+
  moreover have "tables d1 = tables d" using find by (rule receipt_find)
  ultimately show ?thesis using sig c by blast
qed

text \<open>The row of a granted receipt was changed by the guarded update.\<close>

lemma redeemStored_granted:
  assumes run: "run (redeemStored ops at' atomicNow resource subject r) d = (Inr v, d')"
    and v: "rv_status v = GRANTED"
  shows "\<exists>row u d2. run (redeemAccessReceiptAtomically ops (dr_id r) atomicNow) d = (Inr row, d2)
    \<and> updated row \<and> redeemed_receipt row = Some u \<and> v = granted_view u resource subject at'
    \<and> db_receipts (tables d') = db_receipts (tables d2)"
proof -
  obtain red d2 where red: "run (redeemAccessReceiptAtomically ops (dr_id r) atomicNow) d = (red, d2)"
    by fastforce
  with run obtain row where row: "red = Inr row" by (cases red) (simp_all add: redeemStored_def run_andThen)
  show ?thesis
  proof (cases "updated row \<and> redeemed_receipt row \<noteq> None")
    case True
    then obtain u where u: "updated row" "redeemed_receipt row = Some u" by blast
    with run red row have "run (andThen (redeemed_events ops u) (\<lambda>_. returnP (granted_view u resource subject at'))) d2
        = (Inr v, d')"
      by (simp add: redeemStored_def run_andThen)
    then have "v = granted_view u resource subject at'" "db_receipts (tables d') = db_receipts (tables d2)"
      using events_keep_receipts [of u d2] by (auto simp: run_andThen split: prod.splits sum.splits)
    with red row u show ?thesis by blast
  next
    case False
    then have "run (andThen (getAccessReceiptByJti ops (dr_jti r)) (\<lambda>current.
        returnP (not_active_view (case current of Some c \<Rightarrow> c | None \<Rightarrow> r) (dr_jti r) resource subject at')))
        d2 = (Inr v, d')"
      using run red row
      by (cases "updated row"; cases "redeemed_receipt row") (simp_all add: redeemStored_def run_andThen)
    with v have False by (auto simp: run_andThen not_active_view_def split: prod.splits sum.splits)
    then show ?thesis ..
  qed
qed

lemma run_redeem_granted:
  assumes run: "run (redeemReceipt ops verify at' now atomicNow token resource subject) d = (Inr v, d')"
    and v: "rv_status v = GRANTED" and d: "distinct (map dr_id (db_receipts (tables d)))"
  shows "\<exists>sig claims r. verify token = Inr sig \<and> sr_verified sig \<and> sr_claims sig = Some claims
    \<and> r \<in> set (db_receipts (tables d)) \<and> dr_jti r = sc_jti claims
    \<and> bound_to (snapshot_of r) claims resource subject \<and> now < dr_exp r \<and> atomicNow < dr_exp r
    \<and> dr_active r \<and> dr_status r = ISSUED \<and> rv_accessReceiptId v = Some (dr_id r)
    \<and> rv_redemptionCount v = dr_redemptionCount r + 1
    \<and> db_receipts (tables d') = map (\<lambda>q. if dr_id q = dr_id r
         then redeemed_row (dr_maxRedemptions r \<le> dr_redemptionCount r + 1) atomicNow q else q)
        (db_receipts (tables d))"
proof -
  from redeemReceipt_granted [OF run v] obtain sig claims r d1 where c: "verify token = Inr sig" "sr_verified sig"
      "sr_claims sig = Some claims" and rin: "r \<in> set (db_receipts (tables d))" "dr_jti r = sc_jti claims"
    and t1: "tables d1 = tables d"
    and pre: "evaluatePreAtomicRedemptionDenial sig (Some (snapshot_of r)) resource subject at' now = None"
    and stored: "run (redeemStored ops at' atomicNow resource subject r) d1 = (Inr v, d')" by blast
  from pre c have bound: "bound_to (snapshot_of r) claims resource subject" "now < dr_exp r"
    by (auto simp: no_denial_iff snapshot_of_def)
  from redeemStored_granted [OF stored v] obtain row u d2 where
    red: "run (redeemAccessReceiptAtomically ops (dr_id r) atomicNow) d1 = (Inr row, d2)" "updated row"
    and u: "redeemed_receipt row = Some u" "v = granted_view u resource subject at'"
      "db_receipts (tables d') = db_receipts (tables d2)" by blast
  from redeemAtomically_row [OF red] d t1 obtain q where
    q: "q \<in> set (db_receipts (tables d))" "dr_id q = dr_id r" "dr_active q" "dr_status q = ISSUED"
    "atomicNow < dr_exp q"
    and rs: "db_receipts (tables d2) = map (\<lambda>p. if dr_id p = dr_id r
        then redeemed_row (dr_maxRedemptions q \<le> dr_redemptionCount q + 1) atomicNow p else p)
        (db_receipts (tables d))"
    and uq: "u = redeemed_row (dr_maxRedemptions q \<le> dr_redemptionCount q + 1) atomicNow q"
    using u(1) by auto
  have "q = r" using distinct_ids_eq [OF d rin(1) q(1,2)] .
  then have "rv_accessReceiptId v = Some (dr_id r)" "rv_redemptionCount v = dr_redemptionCount r + 1"
    using uq u(2) by (simp_all add: granted_view_def redeemed_row_def)
  with c rin bound q(3-5) rs u(3) \<open>q = r\<close> show ?thesis
    by (intro exI [of _ sig] exI [of _ claims] exI [of _ r] conjI) simp_all
qed

end

section \<open>Sample database for the witnesses\<close>

definition sample_db_receipt :: db_receipt where
  "sample_db_receipt =
     \<lparr>dr_id = ''x1'', dr_resourcePolicyId = ''p1'', dr_accessIntentId = ''i1'', dr_jti = ''j1'',
      dr_receiptTokenHash = None, dr_resourceKey = ''r1'', dr_resourceType = API,
      dr_subjectType = END_USER, dr_subjectId = ''user'', dr_status = ISSUED, dr_active = True,
      dr_maxRedemptions = 1, dr_redemptionCount = 0, dr_issuedAt = 100, dr_nbf = 100, dr_exp = 200,
      dr_redeemedAt = None, dr_exhaustedAt = None, dr_revokedAt = None\<rparr>"

definition sample_db :: db where
  "sample_db = \<lparr>db_receipts = [sample_db_receipt], db_events = [], db_policies = [], db_intents = []\<rparr>"

definition sample_signature :: signature_result where
  "sample_signature =
     \<lparr>sr_verified = True,
      sr_claims = Some \<lparr>sc_jti = ''j1'', sc_intent_id = ''i1'', sc_resource_id = ''r1'',
        sc_policy_id = ''p1'', sc_sub = ''user'', sc_max_redemptions = 1\<rparr>,
      sr_reason = None\<rparr>"

definition sample_request :: "js_date \<Rightarrow> (db, js_exn + redemption_view) prog" where
  "sample_request now =
     redeemReceipt relational_client (\<lambda>token. Inr sample_signature) now now now ''token''
       \<lparr>res_key = ''r1'', res_type = API\<rparr> \<lparr>subj_type = END_USER, subj_id = ''user''\<rparr>"

lemmas sample_db_simps =
  sample_request_def redeemReceipt_def redeemLookedUp_def redeemStored_def sample_signature_def
  getAccessReceiptByJti_def run_andThen relational_find relational_update relational_receipts sample_db_def sample_db_receipt_def
  evaluatePreAtomicRedemptionDenial_def snapshot_of_def isIsoDateExpired_def claims_mismatch_def
  redeemAccessReceiptAtomically_def Let_def redeemable_as_def redeemed_row_def change_receipts_def
  redeemed_events_def appendEventLog_def add_event_def setReceiptExpired_def expired_row_def

lemma sample_request_granted:
  "\<exists>v d'. run (sample_request 150) sample_db = (Inr v, d') \<and> rv_status v = GRANTED
     \<and> rv_accessReceiptId v = Some ''x1''"
proof -
  have "case run (sample_request 150) sample_db of
      (Inl e, d') \<Rightarrow> False
    | (Inr v, d') \<Rightarrow> rv_status v = GRANTED \<and> rv_accessReceiptId v = Some ''x1''"
    by code_simp
  then show ?thesis by (auto split: prod.splits sum.splits)
qed

section \<open>Properties\<close>

text \<open>
  C25: however many verifications and redemptions run at the same time, interleaved at every access to
  the database and with other code that leaves the receipt's limit alone and takes no redemption back:
  the requests that were granted access on a receipt are at most the redemptions it had left, and its
  count never exceeds its limit.
\<close>

theorem concurrent_grants_within_limit:
  assumes "prisma_client ops tables"
    and "pool_reachable (service_request ops verify) (others_keep tables x M) d0 ps d"
    and "receipt_within x M (tables d0)"
  shows "receipt_within x M (tables d) \<and> int (finished (granted_on x) ps) \<le> M - count_of x (tables d0)"
proof -
  have "receipt_within x M (tables d)
      \<and> int (finished (granted_on x) ps) \<le> count_of x (tables d) - count_of x (tables d0)"
  proof (rule pool_accounts [OF assms(2), where I = "\<lambda>d. receipt_within x M (tables d)"])
    fix p
    assume "service_request ops verify p"
    then show "accounts (\<lambda>d. receipt_within x M (tables d)) (\<lambda>d. count_of x (tables d))
        (\<lambda>r n. granted_on x r \<longrightarrow> 1 \<le> n) p 0"
      using prisma_client.accounts_verify [OF assms(1)] prisma_client.accounts_redeemReceipt [OF assms(1)]
      unfolding service_request_def by blast
  qed (use assms(3) in \<open>auto simp: others_keep_def\<close>)
  with receipt_within_count [of x M "tables d"] show ?thesis by simp
qed

theorem concurrent_grants_within_limit_witness:
  "\<exists>(ps :: (db, js_exn + service_view) prog list) d. finished (granted_on ''x1'') ps = 1
     \<and> receipt_within ''x1'' 1 d \<and> int (finished (granted_on ''x1'') ps) \<le> 1 - count_of ''x1'' sample_db"
proof -
  let ?p = "mapP RedemptionView (sample_request 150)"
  from sample_request_granted obtain v d' where v: "run (sample_request 150) sample_db = (Inr v, d')"
    "rv_status v = GRANTED" "rv_accessReceiptId v = Some ''x1''" by blast
  have "service_request relational_client (\<lambda>token. Inr sample_signature) ?p"
    unfolding service_request_def sample_request_def by blast
  moreover have "run ?p sample_db = (Inr (RedemptionView v), d')"
    using v(1) by (simp add: mapP_def run_andThen)
  ultimately have pool: "pool_reachable (service_request relational_client (\<lambda>token. Inr sample_signature))
      (others_keep (\<lambda>t. t) ''x1'' 1) sample_db ([] @ [Return (Inr (RedemptionView v))]) d'"
    by (rule pool_run [OF pool_reachable.empty])
  have start: "receipt_within ''x1'' 1 sample_db"
    by (simp add: receipt_within_def rows_of_def sample_db_def sample_db_receipt_def row_within_def)
  have "finished (granted_on ''x1'') ([] @ [Return (Inr (RedemptionView v))] :: (db, js_exn + service_view) prog list) = 1"
    using v(2,3) by (simp add: finished_def)
  with concurrent_grants_within_limit [where tables = "\<lambda>t. t", OF relational.prisma_client_axioms pool start]
  show ?thesis by blast
qed

text \<open>
  C26: a redemption is granted only for a token the signer verified, whose stored receipt is bound to
  its claims, to the requested resource and subject, unexpired, active and issued; the grant raises
  that receipt's count by one, closes it when the limit is reached, and changes no other receipt.
\<close>

theorem grant_is_sound:
  assumes "prisma_client ops tables" and "distinct (map dr_id (db_receipts (tables d)))"
    and "run (redeemReceipt ops verify at' now atomicNow token resource subject) d = (Inr v, d')"
    and "rv_status v = GRANTED"
  shows "\<exists>sig claims r. verify token = Inr sig \<and> sr_verified sig \<and> sr_claims sig = Some claims
    \<and> r \<in> set (db_receipts (tables d)) \<and> dr_jti r = sc_jti claims
    \<and> bound_to (snapshot_of r) claims resource subject \<and> now < dr_exp r \<and> atomicNow < dr_exp r
    \<and> dr_active r \<and> dr_status r = ISSUED \<and> rv_accessReceiptId v = Some (dr_id r)
    \<and> rv_redemptionCount v = dr_redemptionCount r + 1
    \<and> db_receipts (tables d') = map (\<lambda>q. if dr_id q = dr_id r
         then redeemed_row (dr_maxRedemptions r \<le> dr_redemptionCount r + 1) atomicNow q else q)
        (db_receipts (tables d))"
  by (rule prisma_client.run_redeem_granted [OF assms(1,3,4,2)])

theorem grant_is_sound_witness:
  "\<exists>r. r \<in> set (db_receipts sample_db) \<and> dr_active r \<and> dr_status r = ISSUED"
proof -
  from sample_request_granted obtain v d' where v: "run (sample_request 150) sample_db = (Inr v, d')"
    "rv_status v = GRANTED" by blast
  have "distinct (map dr_id (db_receipts sample_db))" by (simp add: sample_db_def)
  from grant_is_sound [where tables = "\<lambda>t. t", OF relational.prisma_client_axioms this
      v(1) [unfolded sample_request_def] v(2)]
  show ?thesis by blast
qed

text \<open>
  A redemption of an expired receipt marks it expired whatever its status was: an exhausted or a
  revoked receipt is moved to \<open>EXPIRED\<close> too, although the domain's table has no such transition.
\<close>

lemma expired_overwrites_terminal_status:
  assumes "verify token = Inr sig" and "sr_verified sig" and "sr_claims sig = Some claims"
    and "find (matches_receipt (ByJti (sc_jti claims))) (db_receipts t) = Some r" and "dr_exp r \<le> now"
  shows "\<exists>v. run (redeemReceipt relational_client verify at' now atomicNow token resource subject) t
      = (Inr v, change_receipts (\<lambda>q. dr_id q = dr_id r) expired_row t)
    \<and> rv_status v = DENIED \<and> rv_reason v = Some ''RECEIPT_EXPIRED''
    \<and> dr_status (expired_row r) = RECEIPT_EXPIRED
    \<and> (canTransitionAccessReceipt (dr_status r) RECEIPT_EXPIRED \<longleftrightarrow> dr_status r = ISSUED)"
proof -
  have "r \<in> set (db_receipts t)" using assms(4) by (metis find_Some_iff nth_mem)
  then obtain q where "find (\<lambda>q. dr_id q = dr_id r) (db_receipts t) = Some q"
    by (cases "find (\<lambda>q. dr_id q = dr_id r) (db_receipts t)") (auto simp: find_None_iff)
  then have expire: "receipt_update relational_client (dr_id r) expired_row t
      = (Inr (expired_row q), change_receipts (\<lambda>q. dr_id q = dr_id r) expired_row t)"
    by (simp only: relational_update option.case)
  have look: "receipt_findUnique relational_client (ByJti (sc_jti claims)) t = (Inr (Some r), t)"
    by (simp only: relational_find assms(4))
  have claims: "sr_verified sig" "sr_claims sig = Some claims" using assms(2,3) by simp_all
  obtain den where den: "evaluatePreAtomicRedemptionDenial sig (Some (snapshot_of r)) resource subject at' now
      = Some den" "rd_status den = DENIED" "rd_reason den = ''RECEIPT_EXPIRED''"
  proof -
    have "map_option rd_reason (evaluatePreAtomicRedemptionDenial sig (Some (snapshot_of r)) resource
        subject at' now) = Some ''RECEIPT_EXPIRED''"
      unfolding denial_reason_correct
      using claims assms(5) by (simp add: denial_reason_def snapshot_of_def)
    then obtain den where den: "evaluatePreAtomicRedemptionDenial sig (Some (snapshot_of r)) resource
        subject at' now = Some den" "rd_reason den = ''RECEIPT_EXPIRED''"
      by (auto simp only: map_option_eq_Some)
    from denial_not_granted [OF den(1)] have "rd_status den = DENIED" by (simp add: denial_view_def)
    with den show thesis by (intro that)
  qed
  have "run (redeemLookedUp relational_client at' now atomicNow resource subject sig (Some r)) t
      = (Inr (denial_view den), change_receipts (\<lambda>q. dr_id q = dr_id r) expired_row t)"
    using den by (simp add: redeemLookedUp_def setReceiptExpired_def run_andThen expire)
  then have "run (redeemReceipt relational_client verify at' now atomicNow token resource subject) t
      = (Inr (denial_view den), change_receipts (\<lambda>q. dr_id q = dr_id r) expired_row t)"
    using assms(1-3) look by (simp add: redeemReceipt_def getAccessReceiptByJti_def run_andThen)
  moreover have "canTransitionAccessReceipt (dr_status r) RECEIPT_EXPIRED \<longleftrightarrow> dr_status r = ISSUED"
    by (cases "dr_status r") (simp_all add: canTransitionAccessReceipt_simps)
  ultimately show ?thesis using den by (simp add: denial_view_def expired_row_def)
qed

lemma expired_overwrites_example:
  "\<exists>v. run (sample_request 250) (sample_db\<lparr>db_receipts := [sample_db_receipt\<lparr>dr_status := EXHAUSTED\<rparr>]\<rparr>)
     = (Inr v, sample_db\<lparr>db_receipts := [sample_db_receipt\<lparr>dr_status := RECEIPT_EXPIRED, dr_active := False\<rparr>]\<rparr>)"
proof -
  let ?r = "sample_db_receipt\<lparr>dr_status := EXHAUSTED\<rparr>"
  let ?t = "sample_db\<lparr>db_receipts := [?r]\<rparr>"
  have "find (matches_receipt (ByJti (sc_jti (the (sr_claims sample_signature))))) (db_receipts ?t) = Some ?r"
    by (simp add: sample_signature_def sample_db_receipt_def)
  then have "\<exists>v. run (sample_request 250) ?t = (Inr v, change_receipts (\<lambda>q. dr_id q = dr_id ?r) expired_row ?t)"
    unfolding sample_request_def
    using expired_overwrites_terminal_status [of "\<lambda>token. Inr sample_signature" "''token''" sample_signature
        "the (sr_claims sample_signature)" ?t ?r 250]
    by (simp add: sample_signature_def sample_db_receipt_def) blast
  then show ?thesis by (simp add: change_receipts_def expired_row_def sample_db_receipt_def)
qed

text \<open>
  The pre-atomic check looks at no status: for a revoked or exhausted receipt it lets a redemption
  through exactly when it would for an issued one, and only the later update denies it.
\<close>

lemma pre_atomic_check_ignores_status:
  "(evaluatePreAtomicRedemptionDenial sig (Some (r\<lparr>sn_status := s\<rparr>)) resource subject at' now = None)
   = (evaluatePreAtomicRedemptionDenial sig (Some r) resource subject at' now = None)"
  by (simp add: no_denial_iff bound_to_def)

end
