(* ===== verification/Intent_Repository.thy ===== *)
theory Intent_Repository
  imports Receipt_Repository
begin

text \<open>
  The intent and policy repositories of the historical service
  (\<^verbatim>\<open>src/repositories/access-intent-repository.ts\<close>, \<^verbatim>\<open>resource-policy-repository.ts\<close>): each call is one
  step on the database.
\<close>

section \<open>Intents\<close>

text \<open>Also the name of a method of the service; this is the repository's function.\<close>

definition createAccessIntentRecord ::
  "'d prisma \<Rightarrow> intent_row \<Rightarrow> ('d, js_exn + intent_row) prog" where
  "createAccessIntentRecord db input = act (intent_create db input)"

definition getAccessIntentById ::
  "'d prisma \<Rightarrow> string \<Rightarrow> ('d, js_exn + intent_with_relations option) prog" where
  "getAccessIntentById db i = act (intent_findUnique db (ByIntentId i))"

definition getAccessIntentByIdempotencyKey ::
  "'d prisma \<Rightarrow> string \<Rightarrow> ('d, js_exn + intent_with_relations option) prog" where
  "getAccessIntentByIdempotencyKey db k = act (intent_findUnique db (ByIdempotencyKey k))"

definition reconcilable :: "intent_with_relations \<Rightarrow> bool" where
  "reconcilable w \<longleftrightarrow>
     int_status (iw_intent w) = PENDING_VERIFICATION
   \<or> int_status (iw_intent w) = VERIFIED \<and> iw_accessReceipt w = None"

definition listReconcilableAccessIntents ::
  "'d prisma \<Rightarrow> ('d, js_exn + intent_with_relations list) prog" where
  "listReconcilableAccessIntents db = act (intent_findMany db reconcilable)"

definition verified_intent :: "js_date \<Rightarrow> js_date option \<Rightarrow> intent_row \<Rightarrow> intent_row" where
  "verified_intent verifiedAt receiptIssuedAt i =
     i\<lparr>int_status := (if receiptIssuedAt \<noteq> None then RECEIPT_ISSUED else VERIFIED),
       int_verifiedAt := Some verifiedAt, int_receiptIssuedAt := receiptIssuedAt\<rparr>"

definition markAccessIntentVerified ::
  "'d prisma \<Rightarrow> string \<Rightarrow> js_date \<Rightarrow> js_date option \<Rightarrow> ('d, js_exn + intent_row) prog" where
  "markAccessIntentVerified db i verifiedAt receiptIssuedAt =
     act (intent_update db i (verified_intent verifiedAt receiptIssuedAt))"

definition markAccessIntentRejected :: "'d prisma \<Rightarrow> string \<Rightarrow> ('d, js_exn + intent_row) prog" where
  "markAccessIntentRejected db i = act (intent_update db i (\<lambda>r. r\<lparr>int_status := REJECTED\<rparr>))"

definition markAccessIntentExpired :: "'d prisma \<Rightarrow> string \<Rightarrow> ('d, js_exn + intent_row) prog" where
  "markAccessIntentExpired db i = act (intent_update db i (\<lambda>r. r\<lparr>int_status := EXPIRED\<rparr>))"

definition updateAccessIntentFiberResponse ::
  "'d prisma \<Rightarrow> string \<Rightarrow> jsval option \<Rightarrow> ('d, js_exn + intent_row) prog" where
  "updateAccessIntentFiberResponse db i fiberResponseJson =
     act (intent_update db i (\<lambda>r. r\<lparr>int_fiberResponseJson := fiberResponseJson\<rparr>))"

section \<open>Policies\<close>

record policy_input =
  pi_resourceKey :: string
  pi_resourceType :: resource_type
  pi_receiptTtlSeconds :: jsnum
  pi_maxRedemptions :: jsnum

text \<open>A number for a column of type \<open>Int\<close>; the client rejects one that is no integer.\<close>

definition int_column :: "jsnum \<Rightarrow> js_exn + int" where
  "int_column n =
     (case n of
        Fin q \<Rightarrow> if of_int \<lfloor>q\<rfloor> = q then Inr \<lfloor>q\<rfloor> else Inl (JSError ''PrismaClientValidationError'')
      | _ \<Rightarrow> Inl (JSError ''PrismaClientValidationError''))"

definition policy_data :: "policy_input \<Rightarrow> js_exn + policy_row" where
  "policy_data input =
     bindE (int_column (pi_receiptTtlSeconds input)) (\<lambda>ttl.
     bindE (int_column (pi_maxRedemptions input)) (\<lambda>maxRedemptions.
     Inr \<lparr>pol_id = [], pol_resourceKey = pi_resourceKey input,
          pol_resourceType = pi_resourceType input, pol_receiptTtlSeconds = ttl,
          pol_maxRedemptions = maxRedemptions, pol_active = True\<rparr>))"

definition ensureResourcePolicy ::
  "'d prisma \<Rightarrow> policy_input \<Rightarrow> ('d, js_exn + policy_row) prog" where
  "ensureResourcePolicy db input =
     andThen (act (policy_findUnique db (ByResource (pi_resourceKey input) (pi_resourceType input))))
       (\<lambda>existing. case existing of
          Some p \<Rightarrow> returnP p
        | None \<Rightarrow>
            (case policy_data input of
               Inl e \<Rightarrow> throwP e
             | Inr data \<Rightarrow> act (policy_create db data)))"

definition getResourcePolicyById ::
  "'d prisma \<Rightarrow> string \<Rightarrow> ('d, js_exn + policy_row option) prog" where
  "getResourcePolicyById db i = act (policy_findUnique db (ByPolicyId i))"

end
