(* ===== verification/Fiber_Status_Mapper.thy ===== *)
theory Fiber_Status_Mapper
  imports JS_Values Access_State
begin

text \<open>
  The mapping of raw Fiber statuses (\<^verbatim>\<open>src/integrations/fiber/fiber-status-mapper.ts\<close>).
\<close>

section \<open>The mapping\<close>

datatype normalized_state = Waiting | PaymentPending | PaidVerified | StateExpired | StateFailed | StateUnknown

record fiber_status_mapping =
  normalizedState :: normalized_state
  intentStatus :: intent_status
  shouldIssueReceipt :: bool
  isTerminal :: bool

definition PENDING_STATUS_VALUES :: "string list" where
  "PENDING_STATUS_VALUES = [''open'', ''received'', ''created'', ''inflight'', ''unpaid'', ''pending'']"

definition PAID_STATUS_VALUES :: "string list" where
  "PAID_STATUS_VALUES = [''paid'', ''success'', ''succeeded'', ''settled'', ''confirmed'', ''finalized'']"

definition EXPIRED_STATUS_VALUES :: "string list" where
  "EXPIRED_STATUS_VALUES = [''expired'', ''timed_out'', ''timeout'', ''timedout'']"

definition FAILED_STATUS_VALUES :: "string list" where
  "FAILED_STATUS_VALUES = [''failed'', ''canceled'', ''cancelled'', ''rejected'']"

text \<open>The character class of the replaced runs.\<close>

definition separator :: "char \<Rightarrow> bool" where
  "separator c \<longleftrightarrow> is_space c \<or> c = CHR ''-''"

text \<open>\<open>replace_runs inside s\<close> replaces each run of separators by one underscore; \<open>inside\<close> tells that
  the previous character was one.\<close>

fun replace_runs :: "bool \<Rightarrow> string \<Rightarrow> string" where
  "replace_runs inside [] = []"
| "replace_runs inside (c # cs) =
     (if separator c then (if inside then replace_runs True cs else CHR ''_'' # replace_runs True cs)
      else c # replace_runs False cs)"

definition normalizeStatusValue :: "string \<Rightarrow> string" where
  "normalizeStatusValue rawStatus = replace_runs False (js_lower (js_trim rawStatus))"

definition mapFiberRawStatus :: "string option \<Rightarrow> fiber_status_mapping" where
  "mapFiberRawStatus rawStatus =
     (case rawStatus of
        None \<Rightarrow> \<lparr>normalizedState = Waiting, intentStatus = PENDING_VERIFICATION,
                  shouldIssueReceipt = False, isTerminal = False\<rparr>
      | Some raw \<Rightarrow>
          if js_trim raw = []
          then \<lparr>normalizedState = Waiting, intentStatus = PENDING_VERIFICATION,
                 shouldIssueReceipt = False, isTerminal = False\<rparr>
          else (let normalized = normalizeStatusValue raw in
            if normalized \<in> set PENDING_STATUS_VALUES
            then \<lparr>normalizedState = PaymentPending, intentStatus = PENDING_VERIFICATION,
                   shouldIssueReceipt = False, isTerminal = False\<rparr>
            else if normalized \<in> set PAID_STATUS_VALUES
            then \<lparr>normalizedState = PaidVerified, intentStatus = VERIFIED,
                   shouldIssueReceipt = True, isTerminal = False\<rparr>
            else if normalized \<in> set EXPIRED_STATUS_VALUES
            then \<lparr>normalizedState = StateExpired, intentStatus = EXPIRED,
                   shouldIssueReceipt = False, isTerminal = True\<rparr>
            else if normalized \<in> set FAILED_STATUS_VALUES
            then \<lparr>normalizedState = StateFailed, intentStatus = REJECTED,
                   shouldIssueReceipt = False, isTerminal = True\<rparr>
            else \<lparr>normalizedState = StateUnknown, intentStatus = PENDING_VERIFICATION,
                   shouldIssueReceipt = False, isTerminal = False\<rparr>))"

lemmas status_values =
  PENDING_STATUS_VALUES_def PAID_STATUS_VALUES_def EXPIRED_STATUS_VALUES_def FAILED_STATUS_VALUES_def

section \<open>Trimming, case and separators\<close>

lemma dropWhile_append_all: "\<forall>c \<in> set xs. P c \<Longrightarrow> dropWhile P (xs @ ys) = dropWhile P ys"
  by (induction xs) auto

lemma js_trim_padding:
  assumes "list_all is_space xs" and "list_all is_space zs"
  shows "js_trim (xs @ s @ zs) = js_trim s"
proof -
  have lead: "dropWhile is_space (xs @ s @ zs) = dropWhile is_space (s @ zs)"
    using assms(1) by (intro dropWhile_append_all) (simp add: list_all_iff)
  show ?thesis
  proof (cases "\<forall>c \<in> set s. is_space c")
    case True
    with assms(2) have e: "dropWhile is_space (s @ zs) = []" "dropWhile is_space s = []"
      by (auto simp: dropWhile_eq_Nil_conv list_all_iff)
    show ?thesis by (simp only: js_trim_def lead e)
  next
    case False
    then have "dropWhile is_space (s @ zs) = dropWhile is_space s @ zs"
      by (auto simp: dropWhile_append1)
    moreover have "dropWhile is_space (rev zs @ t) = dropWhile is_space t" for t
      using assms(2) by (intro dropWhile_append_all) (simp add: list_all_iff)
    ultimately show ?thesis by (simp add: js_trim_def lead)
  qed
qed

lemma code_unit_less [simp]: "code_unit c < 256"
  by (simp add: code_unit_def)

lemma code_unit_char_of [simp]: "n < 256 \<Longrightarrow> code_unit (char_of n) = n"
  by (simp add: code_unit_def)

lemma code_unit_lower:
  "code_unit (lower_char c) =
     (let n = code_unit c in if 65 \<le> n \<and> n \<le> 90 \<or> 192 \<le> n \<and> n \<le> 222 \<and> n \<noteq> 215 then n + 32 else n)"
  by (auto simp: lower_char_def Let_def)

lemma is_space_lower [simp]: "is_space (lower_char c) \<longleftrightarrow> is_space c"
  by (auto simp: is_space_def code_unit_lower Let_def)

lemma lower_char_idem [simp]: "lower_char (lower_char c) = lower_char c"
proof -
  have "\<not> (65 \<le> m \<and> m \<le> 90 \<or> 192 \<le> m \<and> m \<le> 222 \<and> m \<noteq> 215)"
    if "m = code_unit (lower_char c)" for m
    using that by (auto simp: code_unit_lower Let_def split: if_splits)
  from this [OF refl] show ?thesis
    by (simp only: lower_char_def [of "lower_char c"] Let_def if_False)
qed

lemma js_trim_lower: "js_trim (js_lower s) = js_lower (js_trim s)"
  by (simp add: js_trim_def js_lower_def dropWhile_map rev_map comp_def)

lemma js_lower_idem [simp]: "js_lower (js_lower s) = js_lower s"
  by (simp add: js_lower_def)

lemma js_lower_Nil [simp]: "js_lower s = [] \<longleftrightarrow> s = []"
  by (simp add: js_lower_def)

lemma mapFiberRawStatus_normalize:
  "js_trim a \<noteq> [] \<Longrightarrow> js_trim b \<noteq> [] \<Longrightarrow> normalizeStatusValue a = normalizeStatusValue b \<Longrightarrow>
   mapFiberRawStatus (Some a) = mapFiberRawStatus (Some b)"
  by (simp add: mapFiberRawStatus_def Let_def)

lemma normalize_blank: "js_trim s = [] \<Longrightarrow> normalizeStatusValue s = []"
  by (simp add: normalizeStatusValue_def js_lower_def)

lemma shouldIssue_iff:
  "shouldIssueReceipt (mapFiberRawStatus raw) \<longleftrightarrow>
     (\<exists>s. raw = Some s \<and> normalizeStatusValue s \<in> set PAID_STATUS_VALUES)"
  by (auto simp: mapFiberRawStatus_def Let_def status_values normalize_blank split: option.split)

lemma mapFiberRawStatus_None [simp]: "\<not> shouldIssueReceipt (mapFiberRawStatus None)"
  by (simp add: shouldIssue_iff)

section \<open>Properties\<close>

text \<open>
  C20: a receipt may be issued exactly for a status that normalises to one of the six paid values, and
  the four parts of a mapping never disagree: issuing goes with the paid state and with the intent
  status the domain allows issuing from, and the terminal flag is that of the intent status.
\<close>

theorem fiber_mapping_consistent:
  "(shouldIssueReceipt (mapFiberRawStatus raw) \<longleftrightarrow>
      (\<exists>s. raw = Some s \<and> normalizeStatusValue s \<in> set PAID_STATUS_VALUES))
   \<and> (shouldIssueReceipt (mapFiberRawStatus raw) \<longleftrightarrow> normalizedState (mapFiberRawStatus raw) = PaidVerified)
   \<and> (shouldIssueReceipt (mapFiberRawStatus raw)
      \<longleftrightarrow> canIssueAccessReceiptFromIntent (intentStatus (mapFiberRawStatus raw)))
   \<and> (isTerminal (mapFiberRawStatus raw) \<longleftrightarrow> isAccessIntentTerminal (intentStatus (mapFiberRawStatus raw)))
   \<and> intentStatus (mapFiberRawStatus raw)
      \<in> insert PENDING_VERIFICATION {t. canTransitionAccessIntent PENDING_VERIFICATION t}"
  unfolding shouldIssue_iff [symmetric]
  by (auto simp: mapFiberRawStatus_def Let_def canIssueAccessReceiptFromIntent_def
      isAccessIntentTerminal_def canTransitionAccessIntent_simps split: option.split)

text \<open>
  C21: white space around a raw status and the case of its letters never change what it means.
\<close>

theorem fiber_mapping_ignores_padding_and_case:
  assumes "list_all is_space xs" and "list_all is_space zs"
  shows "mapFiberRawStatus (Some (xs @ s @ zs)) = mapFiberRawStatus (Some (js_lower s))"
  using js_trim_padding [OF assms, of s]
  by (simp add: mapFiberRawStatus_def normalizeStatusValue_def js_trim_lower)

theorem fiber_mapping_ignores_padding_and_case_witness:
  "mapFiberRawStatus (Some ('' '' @ ''Timed Out'' @ '' '')) = mapFiberRawStatus (Some (js_lower ''Timed Out''))"
  by (rule fiber_mapping_ignores_padding_and_case) (simp_all add: is_space_def code_unit_def)

end
