(* ===== verification/Fiber_Clients.thy ===== *)
theory Fiber_Clients
  imports Fiber_Status_Mapper
begin

text \<open>
  The two Fiber clients (\<^verbatim>\<open>src/integrations/fiber/real-fiber-client.ts\<close>, \<^verbatim>\<open>fake-fiber-client.ts\<close>):
  reading untyped RPC bodies, the invoice and the payment calls, and the local fake. The network is a
  parameter: \<open>fetch\<close> answers an HTTP request and passes a network state on. An ISO date string is
  represented by its time value.
\<close>

section \<open>Inputs and results\<close>

datatype invoice_status = PAID | UNPAID | UNKNOWN

datatype client_mode = FakeMode | RealMode

record invoice_input =
  ii_amount :: jsnum
  ii_description :: string
  ii_expiry :: "jsnum option"

record invoice_result =
  ir_invoiceAddress :: string
  ir_paymentHash :: string
  ir_invoiceStatus :: invoice_status
  ir_settledAt :: "js_date option"
  ir_rawStatus :: "string option"
  ir_rawResponse :: jsval

record verification_result =
  vr_verified :: bool
  vr_paymentHash :: string
  vr_verifiedAt :: js_date
  vr_invoiceStatus :: invoice_status
  vr_settledAt :: "js_date option"
  vr_invoiceAddress :: "string option"
  vr_createdAt :: "js_date option"
  vr_lastUpdatedAt :: "js_date option"
  vr_failedError :: "string option"
  vr_fee :: "string option"
  vr_rawStatus :: "string option"
  vr_rawResponse :: jsval

section \<open>Reading RPC bodies\<close>

text \<open>Arrays are objects here; none of the fields read exists on them.\<close>

definition readRecord :: "jsval \<Rightarrow> jsval option" where
  "readRecord v = (if js_typeof v = ''object'' \<and> v \<noteq> JNull then Some v else None)"

fun first_string :: "jsval \<Rightarrow> string list \<Rightarrow> string option" where
  "first_string record [] = None"
| "first_string record (k # ks) =
     (case js_get record k of
        JStr s \<Rightarrow> if js_trim s \<noteq> [] then Some s else first_string record ks
      | _ \<Rightarrow> first_string record ks)"

definition readStringField :: "jsval \<Rightarrow> string list \<Rightarrow> string option" where
  "readStringField v ks = Option.bind (readRecord v) (\<lambda>record. first_string record ks)"

definition readResultObject :: "jsval \<Rightarrow> jsval" where
  "readResultObject body =
     (case readRecord body of
        None \<Rightarrow> JObj [] []
      | Some record \<Rightarrow>
          (case readRecord (js_get record ''result'') of None \<Rightarrow> record | Some r \<Rightarrow> r))"

text \<open>\<open>a?.k\<close>\<close>

definition optional_get :: "jsval option \<Rightarrow> string \<Rightarrow> jsval" where
  "optional_get r k = (case r of None \<Rightarrow> JUndef | Some record \<Rightarrow> js_get record k)"

definition readPaymentHash :: "jsval \<Rightarrow> string option" where
  "readPaymentHash v =
     (case readStringField v [''payment_hash''] of
        Some h \<Rightarrow> Some h
      | None \<Rightarrow>
          (let invoice = readRecord (optional_get (readRecord v) ''invoice'');
               invoiceData = readRecord (optional_get invoice ''data'')
           in Option.bind invoiceData (\<lambda>d. readStringField d [''payment_hash''])))"

definition digit_value :: "char \<Rightarrow> nat option" where
  "digit_value c =
     (let n = code_unit c in
      if 48 \<le> n \<and> n \<le> 57 then Some (n - 48)
      else if 97 \<le> n \<and> n \<le> 102 then Some (n - 87)
      else if 65 \<le> n \<and> n \<le> 70 then Some (n - 55)
      else None)"

text \<open>The value of a string of digits in a base, most significant first.\<close>

fun digits_value :: "nat \<Rightarrow> nat \<Rightarrow> string \<Rightarrow> nat option" where
  "digits_value base acc [] = Some acc"
| "digits_value base acc (c # cs) =
     (case digit_value c of
        None \<Rightarrow> None
      | Some d \<Rightarrow> if d < base then digits_value base (acc * base + d) cs else None)"

text \<open>The two accepted notations, and \<open>BigInt\<close> on them.\<close>

definition bigint_of_string :: "string \<Rightarrow> nat option" where
  "bigint_of_string s =
     (case s of
        c # x # d # ds \<Rightarrow>
          if c = CHR ''0'' \<and> x \<in> {CHR ''x'', CHR ''X''} then digits_value 16 0 (d # ds)
          else digits_value 10 0 s
      | [] \<Rightarrow> None
      | _ \<Rightarrow> digits_value 10 0 s)"

definition parseRpcInteger :: "jsval \<Rightarrow> nat option" where
  "parseRpcInteger v =
     (case v of
        JBigInt i \<Rightarrow> if 0 \<le> i then Some (nat i) else None
      | JNum n \<Rightarrow>
          (case n of
             Fin q \<Rightarrow> if \<not> is_integer n \<or> q < 0 then None else Some (nat \<lfloor>q\<rfloor>)
           | _ \<Rightarrow> None)
      | JStr s \<Rightarrow> bigint_of_string (js_trim s)
      | _ \<Rightarrow> None)"

text \<open>The largest time value of a valid date; beyond it \<open>toISOString\<close> throws.\<close>

definition max_time_value :: nat where
  "max_time_value = 8640000000000000"

definition date_to_iso :: "nat \<Rightarrow> js_exn + js_date" where
  "date_to_iso ms =
     (if max_time_value < ms then Inl (JSRangeError ''Invalid time value'') else Inr (int ms))"

fun first_timestamp :: "jsval \<Rightarrow> string list \<Rightarrow> js_exn + js_date option" where
  "first_timestamp record [] = Inr None"
| "first_timestamp record (k # ks) =
     (case parseRpcInteger (js_get record k) of
        None \<Rightarrow> first_timestamp record ks
      | Some n \<Rightarrow>
          if max_safe_integer < int n then first_timestamp record ks
          else map_sum id Some (date_to_iso n))"

definition readTimestampField :: "jsval \<Rightarrow> string list \<Rightarrow> js_exn + js_date option" where
  "readTimestampField v ks =
     (case readRecord v of None \<Rightarrow> Inr None | Some record \<Rightarrow> first_timestamp record ks)"

fun first_integer :: "jsval \<Rightarrow> string list \<Rightarrow> string option" where
  "first_integer record [] = None"
| "first_integer record (k # ks) =
     (case parseRpcInteger (js_get record k) of
        Some n \<Rightarrow> Some (nat_string n) | None \<Rightarrow> first_integer record ks)"

definition readIntegerField :: "jsval \<Rightarrow> string list \<Rightarrow> string option" where
  "readIntegerField v ks = Option.bind (readRecord v) (\<lambda>record. first_integer record ks)"

definition hex_digit :: "nat \<Rightarrow> char" where
  "hex_digit d = (if d < 10 then char_of (48 + d) else char_of (87 + d))"

fun hex_string :: "nat \<Rightarrow> string" where
  "hex_string n = (if n < 16 then [hex_digit n] else hex_string (n div 16) @ [hex_digit (n mod 16)])"

declare hex_string.simps [simp del]

definition toHexQuantity :: "jsnum \<Rightarrow> js_exn + string" where
  "toHexQuantity v =
     (if \<not> is_integer v \<or> num_le v (Fin 0)
      then Inl (JSError ''Fiber RPC numeric params must be positive integers'')
      else (case v of Fin q \<Rightarrow> Inr (''0x'' @ hex_string (nat \<lfloor>q\<rfloor>))
            | _ \<Rightarrow> Inl (JSError ''Fiber RPC numeric params must be positive integers'')))"

section \<open>The transport\<close>

record real_client_options =
  ro_rpcUrl :: string
  ro_authToken :: "string option"
  ro_network :: string
  ro_invoiceTimeoutSeconds :: jsnum

record rpc_request =
  rq_method :: string
  rq_params :: jsval

record http_response =
  hr_status :: nat
  hr_json :: "js_exn + jsval" \<comment> \<open>what \<open>response.json()\<close> gives\<close>

record http_request =
  hq_url :: string
  hq_headers :: "(string \<times> string) list"
  hq_body :: jsval \<comment> \<open>before \<open>JSON.stringify\<close>\<close>

type_synonym 't fetch_fun = "http_request \<Rightarrow> 't \<Rightarrow> (js_exn + http_response) \<times> 't"

type_synonym 't transport = "rpc_request \<Rightarrow> 't \<Rightarrow> (js_exn + jsval) \<times> 't"

definition rpc_http_request :: "real_client_options \<Rightarrow> string \<Rightarrow> rpc_request \<Rightarrow> http_request" where
  "rpc_http_request options uuid req =
     \<lparr>hq_url = ro_rpcUrl options,
      hq_headers = (''content-type'', ''application/json'')
        # (case ro_authToken options of
             Some tok \<Rightarrow> if tok \<noteq> [] then [(''authorization'', ''Bearer '' @ tok)] else []
           | None \<Rightarrow> []),
      hq_body = JObj [(''jsonrpc'', JStr ''2.0''), (''id'', JStr uuid),
        (''method'', JStr (rq_method req)), (''params'', JArr [rq_params req])] []\<rparr>"

text \<open>The handling of the response: a body that is not JSON is \<open>null\<close>; a failed status or an RPC
  error object throws.\<close>

definition rpc_response :: "http_response \<Rightarrow> js_exn + jsval" where
  "rpc_response response =
     (let body = (case hr_json response of Inl _ \<Rightarrow> JNull | Inr b \<Rightarrow> b) in
      if \<not> (200 \<le> hr_status response \<and> hr_status response \<le> 299)
      then Inl (JSError (''Fiber RPC request failed with HTTP '' @ nat_string (hr_status response)))
      else (let err = optional_get (readRecord body) ''error'' in
        if js_typeof err = ''object'' \<and> err \<noteq> JNull
        then Inl (JSError (case readStringField err [''message'', ''reason''] of
               Some m \<Rightarrow> m | None \<Rightarrow> ''Unknown Fiber RPC error''))
        else Inr body))"

definition createJsonRpcTransport ::
  "'t fetch_fun \<Rightarrow> real_client_options \<Rightarrow> string \<Rightarrow> 't transport" where
  "createJsonRpcTransport fetch options uuid req s =
     (case fetch (rpc_http_request options uuid req) s of
        (Inl e, s') \<Rightarrow> (Inl e, s')
      | (Inr response, s') \<Rightarrow> (rpc_response response, s'))"

section \<open>The real client\<close>

definition toInvoiceStatus :: "fiber_status_mapping \<Rightarrow> invoice_status" where
  "toInvoiceStatus m =
     (if normalizedState m = PaidVerified then PAID
      else if normalizedState m = StateUnknown then UNKNOWN
      else UNPAID)"

definition toFiberCurrency :: "string \<Rightarrow> js_exn + string" where
  "toFiberCurrency network =
     (if network = ''testnet'' then Inr ''Fibt''
      else Inl (JSError (''Unsupported Fiber network for RPC contract v0.8.1: '' @ network)))"

definition buildVerificationResult ::
  "string \<Rightarrow> jsval \<Rightarrow> js_date \<Rightarrow> js_exn + verification_result" where
  "buildVerificationResult paymentHash body verifiedAt =
     (let result = readResultObject body;
          rawStatus = readStringField result [''status''];
          mapped = mapFiberRawStatus rawStatus
      in bindE (readTimestampField result [''last_updated_at'']) (\<lambda>lastUpdatedAt.
         bindE (readTimestampField result [''created_at'']) (\<lambda>createdAt.
         Inr \<lparr>vr_verified = shouldIssueReceipt mapped,
              vr_paymentHash = (case readPaymentHash result of Some h \<Rightarrow> h | None \<Rightarrow> paymentHash),
              vr_verifiedAt = verifiedAt,
              vr_invoiceStatus = toInvoiceStatus mapped,
              vr_settledAt =
                (if shouldIssueReceipt mapped
                 then Some (case lastUpdatedAt of Some d \<Rightarrow> d | None \<Rightarrow> verifiedAt) else None),
              vr_invoiceAddress = readStringField result [''invoice_address''],
              vr_createdAt = createdAt,
              vr_lastUpdatedAt = lastUpdatedAt,
              vr_failedError = readStringField result [''failed_error''],
              vr_fee = readIntegerField result [''fee''],
              vr_rawStatus = rawStatus,
              vr_rawResponse = result\<rparr>)))"

definition invoice_params :: "real_client_options \<Rightarrow> invoice_input \<Rightarrow> js_exn + jsval" where
  "invoice_params options input =
     bindE (toHexQuantity (ii_amount input)) (\<lambda>amount.
     bindE (toFiberCurrency (ro_network options)) (\<lambda>currency.
     (let description = js_trim (ii_description input);
          expiry = (case ii_expiry input of Some e \<Rightarrow> e | None \<Rightarrow> ro_invoiceTimeoutSeconds options)
      in bindE (if num_less (Fin 0) expiry
                then map_sum id (\<lambda>h. [(''expiry'', JStr h)]) (toHexQuantity expiry) else Inr [])
           (\<lambda>expiryParam.
            Inr (JObj ([(''amount'', JStr amount), (''currency'', JStr currency)]
              @ (if description \<noteq> [] then [(''description'', JStr description)] else [])
              @ expiryParam) [])))))"

definition realCreateInvoice ::
  "'t transport \<Rightarrow> real_client_options \<Rightarrow> invoice_input \<Rightarrow> 't \<Rightarrow> (js_exn + invoice_result) \<times> 't" where
  "realCreateInvoice transport options input s =
     (case invoice_params options input of
        Inl e \<Rightarrow> (Inl e, s)
      | Inr params \<Rightarrow>
          (case transport \<lparr>rq_method = ''new_invoice'', rq_params = params\<rparr> s of
             (Inl e, s') \<Rightarrow> (Inl e, s')
           | (Inr body, s') \<Rightarrow>
               (let result = readResultObject body in
                case (readStringField result [''invoice_address''], readPaymentHash result) of
                  (Some invoiceAddress, Some paymentHash) \<Rightarrow>
                    (Inr \<lparr>ir_invoiceAddress = invoiceAddress, ir_paymentHash = paymentHash,
                          ir_invoiceStatus = UNKNOWN, ir_settledAt = None, ir_rawStatus = None,
                          ir_rawResponse = result\<rparr>, s')
                | _ \<Rightarrow> (Inl (JSError ''Fiber v0.8.1 new_invoice response is missing invoice_address or payment_hash''), s'))))"

definition hash_params :: "string \<Rightarrow> jsval" where
  "hash_params paymentHash = JObj [(''payment_hash'', JStr paymentHash)] []"

definition realVerifyPayment ::
  "'t transport \<Rightarrow> js_date \<Rightarrow> string \<Rightarrow> 't \<Rightarrow> (js_exn + verification_result) \<times> 't" where
  "realVerifyPayment transport verifiedAt paymentHash s =
     (case transport \<lparr>rq_method = ''get_invoice'', rq_params = hash_params paymentHash\<rparr> s of
        (Inl e, s1) \<Rightarrow> (Inl e, s1)
      | (Inr invoiceBody, s1) \<Rightarrow>
          (let invoiceResult = readResultObject invoiceBody in
           if readStringField invoiceResult [''status''] \<noteq> None
           then (buildVerificationResult paymentHash invoiceResult verifiedAt, s1)
           else (case transport \<lparr>rq_method = ''get_payment'', rq_params = hash_params paymentHash\<rparr> s1 of
             (Inl e, s2) \<Rightarrow> (Inl e, s2)
           | (Inr paymentBody, s2) \<Rightarrow>
               (buildVerificationResult paymentHash paymentBody verifiedAt, s2))))"

section \<open>The fake client\<close>

definition isPaidPaymentHash :: "string \<Rightarrow> bool" where
  "isPaidPaymentHash paymentHash \<longleftrightarrow>
     (let normalized = js_lower (js_trim paymentHash)
      in starts_with normalized ''paid:'' \<or> starts_with normalized ''paid_''
       \<or> ends_with normalized '':paid'')"

definition isUnpaidPaymentHash :: "string \<Rightarrow> bool" where
  "isUnpaidPaymentHash paymentHash \<longleftrightarrow>
     (let normalized = js_lower (js_trim paymentHash)
      in starts_with normalized ''unpaid:'' \<or> starts_with normalized ''unpaid_''
       \<or> ends_with normalized '':unpaid'')"

definition fakeCreateInvoice :: "string \<Rightarrow> invoice_input \<Rightarrow> invoice_result" where
  "fakeCreateInvoice uuid input =
     (let invoiceAddress = ''fake_inv_'' @ uuid in
      \<lparr>ir_invoiceAddress = invoiceAddress, ir_paymentHash = invoiceAddress,
       ir_invoiceStatus = UNPAID, ir_settledAt = None, ir_rawStatus = Some ''UNPAID'',
       ir_rawResponse = JObj [(''invoiceAddress'', JStr invoiceAddress),
         (''amount'', JNum (ii_amount input)), (''description'', JStr (ii_description input)),
         (''expiry'', case ii_expiry input of Some e \<Rightarrow> JNum e | None \<Rightarrow> JNull)] []\<rparr>)"

definition fake_response :: "string \<Rightarrow> string \<Rightarrow> jsval" where
  "fake_response paymentHash status =
     JObj [(''payment_hash'', JStr paymentHash), (''status'', JStr status)] []"

definition fakeVerifyPayment :: "js_date \<Rightarrow> string \<Rightarrow> verification_result" where
  "fakeVerifyPayment verifiedAt input =
     (let paymentHash = js_trim input;
          base = \<lparr>vr_verified = False, vr_paymentHash = paymentHash, vr_verifiedAt = verifiedAt,
            vr_invoiceStatus = UNKNOWN, vr_settledAt = None, vr_invoiceAddress = None,
            vr_createdAt = None, vr_lastUpdatedAt = None, vr_failedError = None, vr_fee = None,
            vr_rawStatus = Some ''UNKNOWN'', vr_rawResponse = JNull\<rparr>
      in if paymentHash = [] then base
         else if isPaidPaymentHash paymentHash then
           base\<lparr>vr_verified := True, vr_invoiceStatus := PAID, vr_settledAt := Some verifiedAt,
             vr_lastUpdatedAt := Some verifiedAt, vr_rawStatus := Some ''PAID'',
             vr_rawResponse := fake_response paymentHash ''PAID''\<rparr>
         else if isUnpaidPaymentHash paymentHash then
           base\<lparr>vr_invoiceStatus := UNPAID, vr_rawStatus := Some ''UNPAID'',
             vr_rawResponse := fake_response paymentHash ''UNPAID''\<rparr>
         else base\<lparr>vr_rawResponse := fake_response paymentHash ''UNKNOWN''\<rparr>)"

section \<open>Hexadecimal quantities\<close>

lemma digit_value_hex: "d < 16 \<Longrightarrow> digit_value (hex_digit d) = Some d"
  by (auto simp: digit_value_def hex_digit_def Let_def)

lemma digits_value_append:
  "digits_value b acc (xs @ ys) = Option.bind (digits_value b acc xs) (\<lambda>a. digits_value b a ys)"
  by (induction xs arbitrary: acc) (auto split: option.split)

lemma digits_value_hex_string: "digits_value 16 0 (hex_string n) = Some n"
proof (induction n rule: hex_string.induct)
  case (1 n)
  show ?case
  proof (cases "n < 16")
    case True
    then show ?thesis by (simp add: hex_string.simps [of n] digit_value_hex)
  next
    case False
    with 1 show ?thesis
      by (simp add: hex_string.simps [of n] digits_value_append digit_value_hex)
  qed
qed

lemma hex_string_not_Nil [simp]: "hex_string n \<noteq> []"
  by (subst hex_string.simps) simp

lemma hex_digit_no_space: "d < 16 \<Longrightarrow> \<not> is_space (hex_digit d)"
  by (auto simp: hex_digit_def is_space_def)

lemma hex_string_no_space: "c \<in> set (hex_string n) \<Longrightarrow> \<not> is_space c"
  by (induction n rule: hex_string.induct) (subst (asm) (2) hex_string.simps, auto simp: hex_digit_no_space split: if_splits)

lemma js_trim_no_space: "\<forall>c \<in> set s. \<not> is_space c \<Longrightarrow> js_trim s = s"
proof -
  assume *: "\<forall>c \<in> set s. \<not> is_space c"
  have "dropWhile is_space t = t" if "set t \<subseteq> set s" for t
    using * that by (cases t) auto
  then show ?thesis by (simp add: js_trim_def)
qed

section \<open>Statuses of a verification\<close>

lemma buildVerificationResult_status:
  assumes "buildVerificationResult h body at' = Inr r"
  shows "vr_verified r = shouldIssueReceipt (mapFiberRawStatus (vr_rawStatus r))
    \<and> vr_invoiceStatus r = toInvoiceStatus (mapFiberRawStatus (vr_rawStatus r))
    \<and> (vr_settledAt r \<noteq> None \<longleftrightarrow> vr_verified r)"
proof -
  from assms obtain lu cr where "r = \<lparr>vr_verified =
      shouldIssueReceipt (mapFiberRawStatus (readStringField (readResultObject body) [''status''])),
      vr_paymentHash = (case readPaymentHash (readResultObject body) of Some h' \<Rightarrow> h' | None \<Rightarrow> h),
      vr_verifiedAt = at',
      vr_invoiceStatus =
        toInvoiceStatus (mapFiberRawStatus (readStringField (readResultObject body) [''status''])),
      vr_settledAt =
        (if shouldIssueReceipt (mapFiberRawStatus (readStringField (readResultObject body) [''status'']))
         then Some (case lu of Some d \<Rightarrow> d | None \<Rightarrow> at') else None),
      vr_invoiceAddress = readStringField (readResultObject body) [''invoice_address''],
      vr_createdAt = cr, vr_lastUpdatedAt = lu,
      vr_failedError = readStringField (readResultObject body) [''failed_error''],
      vr_fee = readIntegerField (readResultObject body) [''fee''],
      vr_rawStatus = readStringField (readResultObject body) [''status''],
      vr_rawResponse = readResultObject body\<rparr>"
    by (auto simp: buildVerificationResult_def Let_def result_simps)
  then show ?thesis by simp
qed

section \<open>The client contract\<close>

text \<open>
  What the service relies on from a client's verification: the verdict, the invoice status and the
  settlement date of a result are those its raw status stands for.
\<close>

definition verification_agrees :: "verification_result \<Rightarrow> bool" where
  "verification_agrees r \<longleftrightarrow>
     (vr_verified r \<longleftrightarrow> shouldIssueReceipt (mapFiberRawStatus (vr_rawStatus r)))
   \<and> (vr_invoiceStatus r = PAID \<longleftrightarrow> vr_verified r)
   \<and> (vr_settledAt r \<noteq> None \<longleftrightarrow> vr_verified r)"

text \<open>\<open>rawStatus ?? (verified ? "paid" : null)\<close>, as the service maps a verification.\<close>

definition verification_mapping :: "verification_result \<Rightarrow> fiber_status_mapping" where
  "verification_mapping r =
     mapFiberRawStatus
       (case vr_rawStatus r of Some s \<Rightarrow> Some s
        | None \<Rightarrow> if vr_verified r then Some ''paid'' else None)"

locale fiber_client =
  fixes verify :: "js_date \<Rightarrow> string \<Rightarrow> 't \<Rightarrow> (js_exn + verification_result) \<times> 't"
  assumes agrees: "verify now h s = (Inr r, s') \<Longrightarrow> verification_agrees r"
begin

text \<open>The service issues a receipt exactly for a verified payment, which then has a settlement date.\<close>

lemma issue_iff_verified:
  assumes "verify now h s = (Inr r, s')"
  shows "shouldIssueReceipt (verification_mapping r) \<longleftrightarrow> vr_verified r"
  using agrees [OF assms]
  by (cases "vr_rawStatus r") (auto simp: verification_agrees_def verification_mapping_def)

lemma issue_has_settlement:
  assumes "verify now h s = (Inr r, s')" and "shouldIssueReceipt (verification_mapping r)"
  shows "vr_settledAt r \<noteq> None \<and> vr_invoiceStatus r = PAID"
  using agrees [OF assms(1)] issue_iff_verified [OF assms(1)] assms(2)
  by (simp add: verification_agrees_def)

end

lemma toInvoiceStatus_PAID_iff:
  "toInvoiceStatus (mapFiberRawStatus raw) = PAID \<longleftrightarrow> shouldIssueReceipt (mapFiberRawStatus raw)"
  by (auto simp: toInvoiceStatus_def mapFiberRawStatus_def Let_def split: option.split)

lemma build_agrees: "buildVerificationResult h body now = Inr r \<Longrightarrow> verification_agrees r"
  using buildVerificationResult_status toInvoiceStatus_PAID_iff
  by (metis verification_agrees_def)

lemma fake_agrees: "verification_agrees (fakeVerifyPayment now h)"
proof -
  have raw: "mapFiberRawStatus (Some ''UNKNOWN'') = \<lparr>normalizedState = StateUnknown,
      intentStatus = PENDING_VERIFICATION, shouldIssueReceipt = False, isTerminal = False\<rparr>"
    "shouldIssueReceipt (mapFiberRawStatus (Some ''PAID''))"
    "\<not> shouldIssueReceipt (mapFiberRawStatus (Some ''UNPAID''))"
    by code_simp+
  then show ?thesis
    by (simp add: verification_agrees_def fakeVerifyPayment_def Let_def)
qed

interpretation real: fiber_client "realVerifyPayment transport" for transport
proof
  fix now h s r s'
  assume "realVerifyPayment transport now h s = (Inr r, s')"
  then show "verification_agrees r"
    by (auto simp: realVerifyPayment_def Let_def split: prod.splits sum.splits if_splits
        intro: build_agrees)
qed

interpretation fake: fiber_client "\<lambda>now h s. (Inr (fakeVerifyPayment now h), s)"
  by unfold_locales (auto simp: fake_agrees)

section \<open>Properties\<close>

text \<open>
  C22: the real client tells a payment verified exactly when the raw status the node reported is a
  paid one; the invoice status and the settlement date agree with that, and the mapping the service
  makes of the result issues a receipt exactly then.
\<close>

theorem real_verification_sound:
  assumes "realVerifyPayment transport now h s = (Inr r, s')"
  shows "(vr_verified r \<longleftrightarrow>
      (\<exists>raw. vr_rawStatus r = Some raw \<and> normalizeStatusValue raw \<in> set PAID_STATUS_VALUES))
    \<and> (vr_invoiceStatus r = PAID \<longleftrightarrow> vr_verified r) \<and> (vr_settledAt r \<noteq> None \<longleftrightarrow> vr_verified r)
    \<and> (shouldIssueReceipt (verification_mapping r) \<longleftrightarrow> vr_verified r)"
  using real.agrees [OF assms] real.issue_iff_verified [OF assms]
  by (auto simp: verification_agrees_def shouldIssue_iff)

text \<open>A node that knows one invoice.\<close>

definition sample_transport :: "string \<Rightarrow> nat \<Rightarrow> nat transport" where
  "sample_transport status updated req s =
     (Inr (JObj [(''result'', JObj [(''status'', JStr status),
        (''last_updated_at'', JInt (int updated))] [])] []), Suc s)"

theorem real_verification_sound_witness:
  "\<exists>r. realVerifyPayment (sample_transport ''Paid'' 1700000000000) 0 ''h'' 0 = (Inr r, 1) \<and> vr_verified r"
proof -
  let ?run = "realVerifyPayment (sample_transport ''Paid'' 1700000000000) 0 ''h'' 0"
  have "(case fst ?run of Inl _ \<Rightarrow> False | Inr r \<Rightarrow> vr_rawStatus r = Some ''Paid'') \<and> snd ?run = 1"
    by (simp add: realVerifyPayment_def sample_transport_def readResultObject_def readRecord_def
        readStringField_def buildVerificationResult_def readTimestampField_def date_to_iso_def js_trim_def
        is_space_def code_unit_def js_get_def Let_def parseRpcInteger_def is_integer_def
        max_safe_integer_def max_time_value_def)
  then obtain r where r: "?run = (Inr r, 1)" "vr_rawStatus r = Some ''Paid''"
    by (cases ?run) (auto split: sum.splits)
  moreover have "normalizeStatusValue ''Paid'' \<in> set PAID_STATUS_VALUES" by code_simp
  ultimately show ?thesis using real_verification_sound [OF r(1)] by blast
qed

text \<open>
  C23: a quantity the client sends to the node is one it reads back: \<open>toHexQuantity\<close> accepts exactly
  the positive integers, and \<open>parseRpcInteger\<close> recovers the number from its hexadecimal form.
\<close>

theorem hex_quantity_round_trip:
  "(\<exists>s. toHexQuantity v = Inr s) = (\<exists>n. 0 < n \<and> v = int_num (int n))
   \<and> toHexQuantity v
      \<in> {Inr s | s n. v = int_num (int n) \<and> parseRpcInteger (JStr s) = Some n} \<union> range Inl"
proof -
  have read: "parseRpcInteger (JStr (''0x'' @ hex_string n)) = Some n" for n
  proof -
    have "\<forall>c \<in> set (''0x'' @ hex_string n). \<not> is_space c"
      using hex_string_no_space by (auto simp: is_space_def code_unit_def)
    then have "js_trim (''0x'' @ hex_string n) = ''0x'' @ hex_string n"
      by (rule js_trim_no_space)
    moreover obtain d ds where "hex_string n = d # ds" by (cases "hex_string n") auto
    ultimately show ?thesis
      using digits_value_hex_string [of n]
      by (simp add: parseRpcInteger_def bigint_of_string_def)
  qed
  show ?thesis
  proof (cases "is_integer v \<and> \<not> num_le v (Fin 0)")
    case True
    then obtain i where i: "v = int_num i" by (auto simp: is_integer_iff)
    with True have "0 < i" by simp
    then obtain n where n: "i = int n" "0 < n" by (metis zero_less_imp_eq_int)
    have "toHexQuantity v = Inr (''0x'' @ hex_string n)"
      using True i n by (simp add: toHexQuantity_def)
    with read have "toHexQuantity v \<in> {Inr s | s n. v = int_num (int n) \<and> parseRpcInteger (JStr s) = Some n}"
      using i n by blast
    with \<open>toHexQuantity v = _\<close> i n show ?thesis by blast
  next
    case False
    then have "toHexQuantity v \<in> range Inl" by (auto simp: toHexQuantity_def)
    moreover have "\<not> (\<exists>n. 0 < n \<and> v = int_num (int n))"
    proof (intro notI; elim exE conjE)
      fix n
      assume "0 < n" "v = int_num (int n)"
      with False num_le_zero_int [of "int n"] is_integer_int [of "int n"] show False
        by (simp only:) simp
    qed
    ultimately show ?thesis by (metis (no_types, lifting) Un_iff rangeE sum.simps(4))
  qed
qed

text \<open>
  A time stamp the node reports is accepted up to the largest safe integer, but a date exists
  only up to 8640000000000000 milliseconds: for every reported \<open>last_updated_at\<close> in between, the
  verification of a payment does not return a result but throws a range error, whatever its status.
\<close>

lemma large_timestamp_throws:
  assumes "max_time_value < n" and "int n \<le> max_safe_integer"
  shows "fst (realVerifyPayment (sample_transport ''Paid'' n) now h s)
    = Inl (JSRangeError ''Invalid time value'')"
proof -
  have "parseRpcInteger (JInt (int n)) = Some n"
    by (simp add: parseRpcInteger_def)
  then show ?thesis
    using assms
    by (simp add: realVerifyPayment_def sample_transport_def readResultObject_def readRecord_def
        readStringField_def buildVerificationResult_def readTimestampField_def date_to_iso_def js_trim_def
        is_space_def code_unit_def js_get_def Let_def)
qed

lemma large_timestamp_is_possible:
  "fst (realVerifyPayment (sample_transport ''Paid'' 8640000000000001) 0 ''h'' 0)
    = Inl (JSRangeError ''Invalid time value'')"
  by (rule large_timestamp_throws) (simp_all add: max_time_value_def max_safe_integer_def)

end
