(* ===== verification/Runtime_Config.thy ===== *)
theory Runtime_Config
  imports Fiber_Clients
begin

text \<open>
  The configuration of the historical service from environment variables (\<^verbatim>\<open>src/config/runtime.ts\<close>) and
  the choice of the Fiber client (\<^verbatim>\<open>src/config/fiber-client.ts\<close>). An environment is a function from
  names to values. \<open>Number\<close> on strings follows the grammar of numeric literals, and rounds the value that
  the literal denotes to the nearest double.
\<close>

section \<open>Number of a string\<close>

text \<open>The longest prefix of decimal digits, as its value and its length, and the rest.\<close>

fun decimal_prefix :: "string \<Rightarrow> int \<Rightarrow> nat \<Rightarrow> int \<times> nat \<times> string" where
  "decimal_prefix [] acc n = (acc, n, [])"
| "decimal_prefix (c # cs) acc n =
     (case digit_value c of
        Some d \<Rightarrow> if d < 10 then decimal_prefix cs (acc * 10 + int d) (n + 1) else (acc, n, c # cs)
      | None \<Rightarrow> (acc, n, c # cs))"

definition pow10 :: "int \<Rightarrow> rat" where
  "pow10 e = (if 0 \<le> e then 10 ^ nat e else 1 / 10 ^ nat (- e))"

text \<open>The exponent part: nothing, or \<open>e\<close> with an optional sign and digits.\<close>

definition exponent_part :: "string \<Rightarrow> int option" where
  "exponent_part s =
     (case s of
        [] \<Rightarrow> Some 0
      | c # r \<Rightarrow>
          if c = CHR ''e'' \<or> c = CHR ''E'' then
            (let (sign, ds) =
               (case r of
                  x # xs \<Rightarrow> if x = CHR ''-'' then (- 1, xs) else if x = CHR ''+'' then (1, xs) else (1, r)
                | [] \<Rightarrow> (1, r))
             in case decimal_prefix ds 0 0 of
                  (v, n, rest) \<Rightarrow> if 0 < n \<and> rest = [] then Some (sign * v) else None)
          else None)"

text \<open>An unsigned decimal literal: digits with an optional fraction and exponent.\<close>

definition unsigned_decimal :: "string \<Rightarrow> rat option" where
  "unsigned_decimal s =
     (case decimal_prefix s 0 0 of
        (whole, n, rest) \<Rightarrow>
          (let (frac, m, rest') =
             (case rest of
                c # r \<Rightarrow> if c = CHR ''.'' then decimal_prefix r 0 0 else (0, 0, rest)
              | [] \<Rightarrow> (0, 0, rest))
           in if n + m = 0 then None
              else map_option (\<lambda>e. (of_int whole + of_int frac / 10 ^ m) * pow10 e)
                (exponent_part rest')))"

definition double_overflow :: rat where
  "double_overflow = 2 ^ 1024 - 2 ^ 970"

definition two_pow :: "int \<Rightarrow> rat" where
  "two_pow e = (if 0 \<le> e then 2 ^ nat e else 1 / 2 ^ nat (- e))"

function bit_size :: "int \<Rightarrow> int" where
  "bit_size n = (if n \<le> 0 then 0 else 1 + bit_size (n div 2))"
  by auto

termination bit_size
  by (relation "measure nat") auto

declare bit_size.simps [simp del]

text \<open>The exponent of the leading bit of a positive number.\<close>

definition binary_exponent :: "rat \<Rightarrow> int" where
  "binary_exponent q =
     (case quotient_of q of (a, b) \<Rightarrow>
        let e = bit_size a - bit_size b
        in if two_pow e \<le> q then e else e - 1)"

definition round_half_even :: "rat \<Rightarrow> int" where
  "round_half_even q =
     (let f = \<lfloor>q\<rfloor>; r = q - of_int f
      in if r < 1 / 2 then f else if 1 / 2 < r then f + 1 else if even f then f else f + 1)"

text \<open>The double nearest to a positive number below the overflow; the subnormal ones are spaced evenly.\<close>

definition nearest_double :: "rat \<Rightarrow> rat" where
  "nearest_double q =
     (let unit = two_pow (max (binary_exponent q) (- 1022) - 52)
      in of_int (round_half_even (q / unit)) * unit)"

definition as_double :: "rat \<Rightarrow> jsnum" where
  "as_double q =
     (if double_overflow \<le> q then PosInf else if q \<le> - double_overflow then NegInf
      else if 0 < q then Fin (nearest_double q)
      else if q < 0 then Fin (- nearest_double (- q)) else Fin 0)"

definition decimal_literal :: "string \<Rightarrow> jsnum" where
  "decimal_literal s =
     (if s = ''Infinity'' then PosInf
      else case unsigned_decimal s of Some q \<Rightarrow> as_double q | None \<Rightarrow> NaN)"

fun num_negate :: "jsnum \<Rightarrow> jsnum" where
  "num_negate NaN = NaN"
| "num_negate PosInf = NegInf"
| "num_negate NegInf = PosInf"
| "num_negate (Fin q) = Fin (- q)"

definition radix_of :: "char \<Rightarrow> nat option" where
  "radix_of c =
     (if c = CHR ''x'' \<or> c = CHR ''X'' then Some 16
      else if c = CHR ''o'' \<or> c = CHR ''O'' then Some 8
      else if c = CHR ''b'' \<or> c = CHR ''B'' then Some 2
      else None)"

definition js_number_of_string :: "string \<Rightarrow> jsnum" where
  "js_number_of_string v =
     (let s = js_trim v in
      if s = [] then Fin 0
      else case (case s of c # x # ds \<Rightarrow> if c = CHR ''0'' then radix_of x else None | _ \<Rightarrow> None) of
        Some base \<Rightarrow>
          (case drop 2 s of
             [] \<Rightarrow> NaN
           | ds \<Rightarrow> (case digits_value base 0 ds of Some n \<Rightarrow> as_double (of_nat n) | None \<Rightarrow> NaN))
      | None \<Rightarrow>
          (case s of
             c # r \<Rightarrow>
               if c = CHR ''-'' then num_negate (decimal_literal r)
               else if c = CHR ''+'' then decimal_literal r else decimal_literal s
           | [] \<Rightarrow> NaN))"

section \<open>The configuration\<close>

record runtime_config =
  rt_fiberClientMode :: client_mode
  rt_fiberNetwork :: string
  rt_fiberRpcUrl :: "string option"
  rt_fiberRpcAuthToken :: "string option"
  rt_fiberPollIntervalMs :: jsnum
  rt_fiberInvoiceTimeoutSeconds :: jsnum
  rt_issuer :: string
  rt_audience :: string
  rt_receiptTtlSeconds :: jsnum
  rt_defaultMaxRedemptions :: jsnum
  rt_privateJwkJson :: "string option"

type_synonym environment = "string \<Rightarrow> string option"

definition parsePositiveInt :: "string option \<Rightarrow> jsnum \<Rightarrow> jsnum" where
  "parsePositiveInt value fallback =
     (case value of
        None \<Rightarrow> fallback
      | Some s \<Rightarrow>
          if s = [] then fallback
          else (let parsed = js_number_of_string s in
            if is_integer parsed \<and> num_less (Fin 0) parsed then parsed else fallback))"

definition parseFiberClientMode :: "string option \<Rightarrow> js_exn + client_mode" where
  "parseFiberClientMode value =
     (case value of
        None \<Rightarrow> Inr FakeMode
      | Some s \<Rightarrow>
          if s = [] \<or> js_trim s = [] then Inr FakeMode
          else (let normalized = js_lower (js_trim s) in
            if normalized = ''fake'' then Inr FakeMode
            else if normalized = ''real'' then Inr RealMode
            else Inl (JSError (''Unsupported FIBER_CLIENT_MODE value: '' @ s))))"

text \<open>\<open>v?.trim() ? v.trim() : null\<close>\<close>

definition trimmed_or_null :: "string option \<Rightarrow> string option" where
  "trimmed_or_null value =
     (case value of Some s \<Rightarrow> if js_trim s \<noteq> [] then Some (js_trim s) else None | None \<Rightarrow> None)"

definition or_default :: "string option \<Rightarrow> string \<Rightarrow> string" where
  "or_default value d = (case value of Some s \<Rightarrow> s | None \<Rightarrow> d)"

definition loadRuntimeConfig :: "environment \<Rightarrow> js_exn + runtime_config" where
  "loadRuntimeConfig env =
     bindE (parseFiberClientMode (env ''FIBER_CLIENT_MODE'')) (\<lambda>fiberClientMode.
     (let fiberNetwork = js_lower (js_trim (or_default (env ''FIBER_NETWORK'') ''testnet'')) in
      if fiberNetwork \<noteq> ''testnet''
      then Inl (JSError (''Unsupported FIBER_NETWORK value: '' @ or_default (env ''FIBER_NETWORK'') ''undefined''))
      else Inr
        \<lparr>rt_fiberClientMode = fiberClientMode,
         rt_fiberNetwork = ''testnet'',
         rt_fiberRpcUrl = trimmed_or_null (env ''FIBER_RPC_URL''),
         rt_fiberRpcAuthToken = trimmed_or_null (env ''FIBER_RPC_AUTH_TOKEN''),
         rt_fiberPollIntervalMs = parsePositiveInt (env ''FIBER_POLL_INTERVAL_MS'') (Fin 15000),
         rt_fiberInvoiceTimeoutSeconds =
           parsePositiveInt (env ''FIBER_INVOICE_TIMEOUT_SECONDS'') (Fin 900),
         rt_issuer = or_default (env ''FIBERLATCH_ISSUER'') ''fiber-latch:testnet'',
         rt_audience = or_default (env ''FIBERLATCH_AUDIENCE'') ''fiber-latch-access'',
         rt_receiptTtlSeconds =
           parsePositiveInt (env ''FIBERLATCH_DEFAULT_RECEIPT_TTL_SECONDS'') (Fin 3600),
         rt_defaultMaxRedemptions =
           parsePositiveInt (env ''FIBERLATCH_DEFAULT_MAX_REDEMPTIONS'') (Fin 1),
         rt_privateJwkJson =
           (case env ''FIBERLATCH_RECEIPT_PRIVATE_JWK'' of
              Some s \<Rightarrow> if js_trim s \<noteq> [] then Some s else None
            | None \<Rightarrow> None)\<rparr>))"

section \<open>The Fiber client of a configuration\<close>

datatype fiber_client_choice = RealClient real_client_options | FakeClient

definition createFiberClient :: "runtime_config \<Rightarrow> js_exn + fiber_client_choice" where
  "createFiberClient runtimeConfig =
     (if rt_fiberClientMode runtimeConfig = RealMode then
        (case rt_fiberRpcUrl runtimeConfig of
           None \<Rightarrow> Inl (JSError ''FIBER_RPC_URL is required when FIBER_CLIENT_MODE=real'')
         | Some url \<Rightarrow>
             if url = [] then Inl (JSError ''FIBER_RPC_URL is required when FIBER_CLIENT_MODE=real'')
             else Inr (RealClient
               \<lparr>ro_rpcUrl = url, ro_authToken = rt_fiberRpcAuthToken runtimeConfig,
                ro_network = rt_fiberNetwork runtimeConfig,
                ro_invoiceTimeoutSeconds = rt_fiberInvoiceTimeoutSeconds runtimeConfig\<rparr>))
      else Inr FakeClient)"

section \<open>What a loaded configuration guarantees\<close>

definition positive_integer :: "jsnum \<Rightarrow> bool" where
  "positive_integer n \<longleftrightarrow> is_integer n \<and> num_less (Fin 0) n"

definition clean_text :: "string option \<Rightarrow> bool" where
  "clean_text v \<longleftrightarrow> (case v of None \<Rightarrow> True | Some s \<Rightarrow> s \<noteq> [] \<and> js_trim s = s)"

lemma dropWhile_rev_trim:
  assumes xs: "dropWhile p xs = xs"
  shows "dropWhile p (rev (dropWhile p (rev xs))) = rev (dropWhile p (rev xs))"
proof (cases "dropWhile p (rev xs)")
  case Nil
  then show ?thesis by (simp only: rev.simps dropWhile.simps)
next
  case (Cons y ys)
  obtain zs where "rev xs = zs @ y # ys" by (metis Cons takeWhile_dropWhile_id)
  then have "xs = rev (y # ys) @ rev zs" by (metis rev_append rev_rev_ident)
  then have "hd xs = hd (rev (y # ys))" "xs \<noteq> []" by (cases "rev ys"; simp)+
  moreover have "\<not> p (hd xs)" using xs \<open>xs \<noteq> []\<close> by (metis hd_dropWhile)
  ultimately show ?thesis using Cons by (cases "rev (y # ys)") auto
qed

lemma js_trim_idem [simp]: "js_trim (js_trim s) = js_trim s"
  by (simp add: js_trim_def dropWhile_rev_trim)

lemma parsePositiveInt_positive:
  "positive_integer fallback \<Longrightarrow> positive_integer (parsePositiveInt value fallback)"
  by (auto simp: parsePositiveInt_def positive_integer_def Let_def split: option.split)

lemma trimmed_or_null_clean: "clean_text (trimmed_or_null value)"
  by (simp add: clean_text_def trimmed_or_null_def split: option.split)

lemma toHexQuantity_positive: "(\<exists>s. toHexQuantity n = Inr s) = positive_integer n"
  by (cases n) (auto simp: toHexQuantity_def positive_integer_def is_integer_def)

text \<open>The variables of which a value can stop the service from starting.\<close>

definition supported_environment :: "environment \<Rightarrow> bool" where
  "supported_environment env \<longleftrightarrow>
     js_lower (js_trim (or_default (env ''FIBER_CLIENT_MODE'') [])) \<in> {[], ''fake'', ''real''}
   \<and> js_lower (js_trim (or_default (env ''FIBER_NETWORK'') ''testnet'')) = ''testnet''"

lemma parseFiberClientMode_ok:
  "(\<exists>m. parseFiberClientMode v = Inr m) = (js_lower (js_trim (or_default v [])) \<in> {[], ''fake'', ''real''})"
  by (auto simp: parseFiberClientMode_def or_default_def Let_def js_lower_def js_trim_def
      split: option.split)

section \<open>Properties\<close>

text \<open>
  C37: a configuration is loaded exactly from the environments with a supported mode and network, and
  then is well typed: the network is \<open>testnet\<close>, the four numbers are positive integers whatever the
  variables hold, and the optional texts are trimmed and not empty. Of a loaded configuration the
  client is refused exactly for the real mode without address, and a real client encodes every
  invoice of a positive whole amount that leaves the expiry to the configuration.
\<close>

theorem runtime_config_well_typed:
  "((\<exists>c. loadRuntimeConfig env = Inr c) = supported_environment env)
   \<and> (\<forall>c. loadRuntimeConfig env = Inr c \<longrightarrow>
        rt_fiberNetwork c = ''testnet''
      \<and> list_all positive_integer [rt_fiberPollIntervalMs c, rt_fiberInvoiceTimeoutSeconds c,
          rt_receiptTtlSeconds c, rt_defaultMaxRedemptions c]
      \<and> clean_text (rt_fiberRpcUrl c) \<and> clean_text (rt_fiberRpcAuthToken c)
      \<and> ((\<exists>e. createFiberClient c = Inl e) = (rt_fiberClientMode c = RealMode \<and> rt_fiberRpcUrl c = None))
      \<and> (\<forall>options input. createFiberClient c = Inr (RealClient options) \<longrightarrow> ii_expiry input = None \<longrightarrow>
           ((\<exists>p. invoice_params options input = Inr p) = positive_integer (ii_amount input))))"
proof (intro conjI allI impI, goal_cases)
  case 1
  show ?case
    using parseFiberClientMode_ok [of "env ''FIBER_CLIENT_MODE''"]
    by (auto simp: loadRuntimeConfig_def supported_environment_def Let_def result_simps)
next
  case (2 c)
  then show ?case by (auto simp: loadRuntimeConfig_def Let_def result_simps split: if_splits)
next
  case (3 c)
  have "positive_integer (Fin 15000)" "positive_integer (Fin 900)" "positive_integer (Fin 3600)"
    "positive_integer (Fin 1)"
    by (simp_all add: positive_integer_def is_integer_def)
  with 3 show ?case
    by (auto simp: loadRuntimeConfig_def Let_def result_simps parsePositiveInt_positive split: if_splits)
next
  case (4 c)
  then show ?case
    by (auto simp: loadRuntimeConfig_def Let_def result_simps trimmed_or_null_clean split: if_splits)
next
  case (5 c)
  then show ?case
    by (auto simp: loadRuntimeConfig_def Let_def result_simps trimmed_or_null_clean split: if_splits)
next
  case (6 c)
  then have "clean_text (rt_fiberRpcUrl c)"
    by (auto simp: loadRuntimeConfig_def Let_def result_simps trimmed_or_null_clean split: if_splits)
  then show ?case by (auto simp: createFiberClient_def clean_text_def split: option.splits)
next
  case (7 c options input)
  from 7(1) have c: "rt_fiberNetwork c = ''testnet''" "positive_integer (rt_fiberInvoiceTimeoutSeconds c)"
    using parsePositiveInt_positive [of "Fin 900"]
    by (auto simp: loadRuntimeConfig_def Let_def result_simps positive_integer_def is_integer_def split: if_splits)
  with 7(2) have o: "ro_network options = ''testnet''" "positive_integer (ro_invoiceTimeoutSeconds options)"
    by (auto simp: createFiberClient_def split: if_splits option.splits)
  from o(2) obtain h where "toHexQuantity (ro_invoiceTimeoutSeconds options) = Inr h"
    using toHexQuantity_positive by blast
  moreover have "num_less (Fin 0) (ro_invoiceTimeoutSeconds options)" using o(2) by (simp add: positive_integer_def)
  moreover obtain cur where "toFiberCurrency ''testnet'' = Inr cur" by (simp add: toFiberCurrency_def)
  ultimately have "(\<exists>p. invoice_params options input = Inr p) = (\<exists>s. toHexQuantity (ii_amount input) = Inr s)"
    using o(1) 7(3) by (cases "toHexQuantity (ii_amount input)") (simp_all add: invoice_params_def Let_def)
  then show ?case by (simp only: toHexQuantity_positive)
qed

definition sample_environment :: environment where
  "sample_environment =
     [''FIBER_CLIENT_MODE'' \<mapsto> '' Real '', ''FIBER_RPC_URL'' \<mapsto> '' http://node '',
      ''FIBERLATCH_DEFAULT_MAX_REDEMPTIONS'' \<mapsto> ''many'']"

theorem runtime_config_well_typed_witness:
  "\<exists>c. loadRuntimeConfig sample_environment = Inr c \<and> rt_fiberNetwork c = ''testnet''
     \<and> rt_fiberRpcUrl c = Some ''http://node'' \<and> rt_defaultMaxRedemptions c = Fin 1
     \<and> positive_integer (rt_receiptTtlSeconds c)"
proof -
  have s: "supported_environment sample_environment" by code_simp
  then obtain c where c: "loadRuntimeConfig sample_environment = Inr c"
    using runtime_config_well_typed [of sample_environment] by blast
  moreover have "positive_integer (rt_receiptTtlSeconds c)" "rt_fiberNetwork c = ''testnet''"
    using runtime_config_well_typed [of sample_environment] c by simp_all
  moreover have "case loadRuntimeConfig sample_environment of Inl e \<Rightarrow> False
      | Inr c \<Rightarrow> rt_fiberRpcUrl c = Some ''http://node'' \<and> rt_defaultMaxRedemptions c = Fin 1"
    by code_simp
  ultimately show ?thesis by simp
qed

end
