(* ===== verification/Service_Issuance.thy ===== *)
theory Service_Issuance
  imports Service_Redemption Intent_Repository Fiber_Clients Runtime_Config JS_Dates
begin

text \<open>
  Access intents and the issuing of receipts in the historical service (\<open>createAccessIntent\<close>,
  \<open>getAccessIntent\<close>, \<open>reconcileOpenAccessIntents\<close> and their private methods of
  \<^verbatim>\<open>src/services/fiber-latch-service.ts\<close>), as programs over the repositories. The Fiber client's
  answers, the clock readings and the random identifier of a call are arguments; the signer and the
  digest of \<^verbatim>\<open>src/lib/hash.ts\<close> are fields of the service.
\<close>

section \<open>The service and its inputs\<close>

text \<open>
  The constructor's arguments: \<open>fls_sign\<close> is \<open>receiptSigner.sign\<close> (its token), \<open>fls_hash\<close> is
  \<open>sha256Hex\<close>.
\<close>

record 'd fiber_latch_service =
  fls_db :: "'d prisma"
  fls_mode :: client_mode
  fls_sign :: "sign_input \<Rightarrow> js_exn + string"
  fls_hash :: "string \<Rightarrow> string"
  fls_runtime :: runtime_config

text \<open>What one call reads from outside: two clock readings, a UUID, the Fiber client's answer.\<close>

record call_env =
  ce_now :: js_date
  ce_later :: js_date
  ce_uuid :: string
  ce_fiber :: "string \<Rightarrow> js_exn + verification_result"

record create_intent_input =
  ci_resource :: resource_ref
  ci_subject :: subject_ref
  ci_paymentRef :: "string option"
  ci_idempotencyKey :: "string option"

record receipt_view =
  av_id :: string
  av_jti :: string
  av_status :: receipt_status
  av_receiptToken :: "string option"
  av_active :: bool
  av_redemptionCount :: int
  av_maxRedemptions :: int
  av_issuedAt :: string
  av_nbf :: string
  av_exp :: string
  av_redeemedAt :: "string option"
  av_exhaustedAt :: "string option"
  av_revokedAt :: "string option"

record intent_view =
  nv_id :: string
  nv_policyId :: string
  nv_status :: intent_status
  nv_resource :: resource_ref
  nv_subject :: subject_ref
  nv_paymentRef :: "string option"
  nv_verifiedAt :: "string option"
  nv_receiptIssuedAt :: "string option"
  nv_expiresAt :: "string option"
  nv_createdAt :: string
  nv_updatedAt :: string
  nv_accessReceipt :: "receipt_view option"

record create_result =
  cr_accessIntent :: intent_view
  cr_created :: bool

definition receipt_view_of :: "string option \<Rightarrow> db_receipt \<Rightarrow> receipt_view" where
  "receipt_view_of receiptToken r =
     \<lparr>av_id = dr_id r, av_jti = dr_jti r, av_status = dr_status r, av_receiptToken = receiptToken,
      av_active = dr_active r, av_redemptionCount = dr_redemptionCount r,
      av_maxRedemptions = dr_maxRedemptions r, av_issuedAt = iso_string (dr_issuedAt r),
      av_nbf = iso_string (dr_nbf r), av_exp = iso_string (dr_exp r),
      av_redeemedAt = map_option iso_string (dr_redeemedAt r),
      av_exhaustedAt = map_option iso_string (dr_exhaustedAt r),
      av_revokedAt = map_option iso_string (dr_revokedAt r)\<rparr>"

definition toAccessIntentView ::
  "intent_row \<Rightarrow> string option \<Rightarrow> db_receipt option \<Rightarrow> intent_view" where
  "toAccessIntentView i receiptToken receipt =
     \<lparr>nv_id = int_id i, nv_policyId = int_resourcePolicyId i, nv_status = int_status i,
      nv_resource = \<lparr>res_key = int_resourceKey i, res_type = int_resourceType i\<rparr>,
      nv_subject = \<lparr>subj_type = int_subjectType i, subj_id = int_subjectId i\<rparr>,
      nv_paymentRef = int_paymentRef i, nv_verifiedAt = map_option iso_string (int_verifiedAt i),
      nv_receiptIssuedAt = map_option iso_string (int_receiptIssuedAt i),
      nv_expiresAt = map_option iso_string (int_expiresAt i),
      nv_createdAt = iso_string (int_createdAt i), nv_updatedAt = iso_string (int_updatedAt i),
      nv_accessReceipt = map_option (receipt_view_of receiptToken) receipt\<rparr>"

section \<open>What is stored of a Fiber answer\<close>

text \<open>\<open>JSON.stringify\<close> throws on a value with a \<open>BigInt\<close> in it.\<close>

fun has_bigint :: "jsval \<Rightarrow> bool" and list_has_bigint :: "jsval list \<Rightarrow> bool"
  and props_have_bigint :: "(string \<times> jsval) list \<Rightarrow> bool" where
  "has_bigint (JBigInt i) = True"
| "has_bigint (JArr xs) = list_has_bigint xs"
| "has_bigint (JObj own inh) = props_have_bigint own"
| "has_bigint v = False"
| "list_has_bigint [] = False"
| "list_has_bigint (v # vs) = (has_bigint v \<or> list_has_bigint vs)"
| "props_have_bigint [] = False"
| "props_have_bigint ((k, v) # ps) = (has_bigint v \<or> props_have_bigint ps)"

definition safeJsonStringify :: "jsval \<Rightarrow> jsval option" where
  "safeJsonStringify v = (if has_bigint v then None else Some v)"

definition string_or_null :: "string option \<Rightarrow> jsval" where
  "string_or_null s = (case s of Some s \<Rightarrow> JStr s | None \<Rightarrow> JNull)"

fun invoice_status_string :: "invoice_status \<Rightarrow> string" where
  "invoice_status_string PAID = ''PAID''"
| "invoice_status_string UNPAID = ''UNPAID''"
| "invoice_status_string UNKNOWN = ''UNKNOWN''"

text \<open>The object the service stores; without a verification only the payment reference is known.\<close>

definition fiber_response :: "string option \<Rightarrow> verification_result option \<Rightarrow> jsval" where
  "fiber_response paymentRef fv =
     (let date = (\<lambda>d. string_or_null (map_option iso_string d)) in
      JObj (case fv of
        None \<Rightarrow>
          [(''paymentHash'', string_or_null paymentRef), (''invoiceAddress'', JNull),
           (''rawStatus'', JNull), (''invoiceStatus'', JNull), (''settledAt'', JNull),
           (''createdAt'', JNull), (''lastUpdatedAt'', JNull), (''failedError'', JNull),
           (''fee'', JNull), (''rawResponse'', JNull)]
      | Some r \<Rightarrow>
          [(''paymentHash'', JStr (vr_paymentHash r)),
           (''invoiceAddress'', string_or_null (vr_invoiceAddress r)),
           (''rawStatus'', string_or_null (vr_rawStatus r)),
           (''invoiceStatus'', JStr (invoice_status_string (vr_invoiceStatus r))),
           (''settledAt'', date (vr_settledAt r)), (''createdAt'', date (vr_createdAt r)),
           (''lastUpdatedAt'', date (vr_lastUpdatedAt r)),
           (''failedError'', string_or_null (vr_failedError r)), (''fee'', string_or_null (vr_fee r)),
           (''rawResponse'', if vr_rawResponse r = JUndef then JNull else vr_rawResponse r)]) [])"

text \<open>An event about an intent, as the service logs it.\<close>

definition intent_event ::
  "event_log_type \<Rightarrow> string \<Rightarrow> string \<Rightarrow> resource_type \<Rightarrow> string \<Rightarrow> string option \<Rightarrow> subject_ref
     \<Rightarrow> (string \<times> jsval) list \<Rightarrow> event_row" where
  "intent_event t policyId key type intentId receiptId subject payload =
     \<lparr>ev_eventType = t, ev_resourcePolicyId = Some policyId, ev_resourceKey = Some key,
      ev_resourceType = Some type, ev_accessIntentId = Some intentId,
      ev_accessReceiptId = receiptId, ev_subjectType = Some (subj_type subject),
      ev_subjectId = Some (subj_id subject), ev_payload = Some (JObj payload [])\<rparr>"

section \<open>Issuing a receipt\<close>

record issue_input =
  is_intent :: intent_row
  is_policy :: policy_row
  is_subject :: subject_ref
  is_paymentRef :: "string option"
  is_issuedAt :: js_date

record issuance =
  iss_intent :: intent_row
  iss_receipt :: db_receipt
  iss_receiptToken :: "string option"

definition receipt_sign_input ::
  "runtime_config \<Rightarrow> string \<Rightarrow> js_date \<Rightarrow> issue_input \<Rightarrow> sign_input" where
  "receipt_sign_input runtime jti expiresAt input =
     \<lparr>si_subjectId = subj_id (is_subject input), si_audience = rt_audience runtime,
      si_issuer = rt_issuer runtime, si_issuedAt = is_issuedAt input,
      si_notBefore = is_issuedAt input, si_expiresAt = expiresAt, si_jti = jti,
      si_intentId = int_id (is_intent input), si_resourceId = pol_resourceKey (is_policy input),
      si_policyId = pol_id (is_policy input), si_paymentRef = is_paymentRef input,
      si_grantType =
        (if pol_maxRedemptions (is_policy input) = 1 then ''single_redemption''
         else ''multi_redemption''),
      si_maxRedemptions = pol_maxRedemptions (is_policy input)\<rparr>"

text \<open>The row to create; its \<open>id\<close> is given by the database.\<close>

definition new_receipt :: "string \<Rightarrow> js_date \<Rightarrow> string \<Rightarrow> issue_input \<Rightarrow> db_receipt" where
  "new_receipt jti expiresAt tokenHash input =
     \<lparr>dr_id = [], dr_resourcePolicyId = pol_id (is_policy input),
      dr_accessIntentId = int_id (is_intent input), dr_jti = jti,
      dr_receiptTokenHash = Some tokenHash, dr_resourceKey = int_resourceKey (is_intent input),
      dr_resourceType = int_resourceType (is_intent input),
      dr_subjectType = subj_type (is_subject input), dr_subjectId = subj_id (is_subject input),
      dr_status = ISSUED, dr_active = True,
      dr_maxRedemptions = pol_maxRedemptions (is_policy input), dr_redemptionCount = 0,
      dr_issuedAt = is_issuedAt input, dr_nbf = is_issuedAt input, dr_exp = expiresAt,
      dr_redeemedAt = None, dr_exhaustedAt = None, dr_revokedAt = None\<rparr>"

text \<open>\<open>(await getAccessIntentById(tx, id)) ?? fallback\<close>\<close>

definition hydrated :: "'d prisma \<Rightarrow> string \<Rightarrow> intent_row \<Rightarrow> ('d, js_exn + intent_row) prog" where
  "hydrated db i fallback =
     andThen (getAccessIntentById db i) (\<lambda>found.
       returnP (case found of Some w \<Rightarrow> iw_intent w | None \<Rightarrow> fallback))"

text \<open>A receipt of the intent exists: the intent is marked, and no token is returned.\<close>

definition adoptExisting ::
  "'d prisma \<Rightarrow> issue_input \<Rightarrow> db_receipt \<Rightarrow> ('d, js_exn + issuance) prog" where
  "adoptExisting db input existing =
     andThen
       (if int_status (is_intent input) \<noteq> RECEIPT_ISSUED
        then andThen (markAccessIntentVerified db (int_id (is_intent input)) (dr_issuedAt existing)
               (Some (dr_issuedAt existing))) (\<lambda>_. returnP ())
        else returnP ()) (\<lambda>_.
     andThen (hydrated db (int_id (is_intent input)) (is_intent input)) (\<lambda>i.
     returnP \<lparr>iss_intent = i, iss_receipt = existing, iss_receiptToken = None\<rparr>))"

definition receipt_issue_event ::
  "event_log_type \<Rightarrow> issue_input \<Rightarrow> string \<Rightarrow> (string \<times> jsval) list \<Rightarrow> event_row" where
  "receipt_issue_event t input receiptId payload =
     intent_event t (pol_id (is_policy input)) (int_resourceKey (is_intent input))
       (int_resourceType (is_intent input)) (int_id (is_intent input)) (Some receiptId)
       (is_subject input) ((''paymentRef'', string_or_null (is_paymentRef input)) # payload)"

text \<open>What follows the creation of the receipt's row.\<close>

definition finishIssuance ::
  "'d prisma \<Rightarrow> issue_input \<Rightarrow> string \<Rightarrow> string \<Rightarrow> db_receipt \<Rightarrow> ('d, js_exn + issuance) prog" where
  "finishIssuance db input jti token receipt =
     andThen (markAccessIntentVerified db (int_id (is_intent input)) (is_issuedAt input)
       (Some (is_issuedAt input))) (\<lambda>updatedIntent.
     andThen (appendEventLog db (receipt_issue_event ACCESS_INTENT_VERIFIED input (dr_id receipt)
       [(''jti'', JStr jti)])) (\<lambda>_.
     andThen (appendEventLog db (receipt_issue_event ACCESS_RECEIPT_ISSUED input (dr_id receipt)
       [(''jti'', JStr jti),
        (''maxRedemptions'', JInt (pol_maxRedemptions (is_policy input)))])) (\<lambda>_.
     andThen (hydrated db (int_id updatedIntent) (is_intent input)) (\<lambda>i.
     returnP \<lparr>iss_intent = i, iss_receipt = receipt, iss_receiptToken = Some token\<rparr>))))"

text \<open>
  A receipt was created for the intent at the same time: \<open>P2002\<close> is the database client's code for a
  unique column.
\<close>

definition adoptConflicting ::
  "'d prisma \<Rightarrow> issue_input \<Rightarrow> js_exn \<Rightarrow> ('d, js_exn + issuance) prog" where
  "adoptConflicting db input e =
     (if e \<noteq> PrismaError ''P2002'' then throwP e
      else andThen (getAccessReceiptByAccessIntentId db (int_id (is_intent input))) (\<lambda>found.
        case found of None \<Rightarrow> throwP e | Some existing \<Rightarrow> adoptExisting db input existing))"

definition createSigned ::
  "'d fiber_latch_service \<Rightarrow> call_env \<Rightarrow> issue_input \<Rightarrow> js_date \<Rightarrow> string \<Rightarrow> ('d, js_exn + issuance) prog"
where
  "createSigned service env input expiresAt token =
     (let db = fls_db service; jti = ce_uuid env in
      bindP (createAccessReceipt db (new_receipt jti expiresAt (fls_hash service token) input)) (\<lambda>created.
        case created of
          Inr receipt \<Rightarrow> finishIssuance db input jti token receipt
        | Inl e \<Rightarrow> adoptConflicting db input e))"

text \<open>An expiry outside the range of dates cannot be signed.\<close>

definition issueReceiptForIntent ::
  "'d fiber_latch_service \<Rightarrow> call_env \<Rightarrow> issue_input \<Rightarrow> ('d, js_exn + issuance) prog" where
  "issueReceiptForIntent service env input =
     andThen (getAccessReceiptByAccessIntentId (fls_db service) (int_id (is_intent input))) (\<lambda>existingReceipt.
     case existingReceipt of
       Some existing \<Rightarrow> adoptExisting (fls_db service) input existing
     | None \<Rightarrow>
         (case bindE (valid_date (is_issuedAt input + pol_receiptTtlSeconds (is_policy input) * 1000))
                 (\<lambda>expiresAt. map_sum id (Pair expiresAt)
                    (fls_sign service
                      (receipt_sign_input (fls_runtime service) (ce_uuid env) expiresAt input))) of
            Inl e \<Rightarrow> throwP e
          | Inr (expiresAt, token) \<Rightarrow> createSigned service env input expiresAt token))"

section \<open>Creating an intent\<close>

definition nonempty :: "string option \<Rightarrow> bool" where
  "nonempty s \<longleftrightarrow> s \<noteq> None \<and> s \<noteq> Some []"

text \<open>The mapping and the date of an optional verification.\<close>

definition mapping_of :: "verification_result option \<Rightarrow> fiber_status_mapping" where
  "mapping_of fv = (case fv of None \<Rightarrow> mapFiberRawStatus None | Some r \<Rightarrow> verification_mapping r)"

definition settled_or :: "js_date \<Rightarrow> verification_result option \<Rightarrow> js_date" where
  "settled_or now fv =
     (case Option.bind fv vr_settledAt of Some d \<Rightarrow> d | None \<Rightarrow> now)"

definition raw_status_of :: "verification_result option \<Rightarrow> jsval" where
  "raw_status_of fv = string_or_null (Option.bind fv vr_rawStatus)"

text \<open>A created intent is verified and issued at once only with the fake client.\<close>

definition should_issue :: "'d fiber_latch_service \<Rightarrow> verification_result option \<Rightarrow> bool" where
  "should_issue service fv \<longleftrightarrow>
     fls_mode service = FakeMode \<and> shouldIssueReceipt (mapping_of fv)"

definition intent_policy :: "'d fiber_latch_service \<Rightarrow> create_intent_input \<Rightarrow> policy_input" where
  "intent_policy service input =
     \<lparr>pi_resourceKey = res_key (ci_resource input), pi_resourceType = res_type (ci_resource input),
      pi_receiptTtlSeconds = rt_receiptTtlSeconds (fls_runtime service),
      pi_maxRedemptions = rt_defaultMaxRedemptions (fls_runtime service)\<rparr>"

text \<open>The row to create; its \<open>id\<close> and time stamps are given by the database.\<close>

definition new_intent ::
  "'d fiber_latch_service \<Rightarrow> js_date \<Rightarrow> js_date \<Rightarrow> create_intent_input \<Rightarrow> policy_row
     \<Rightarrow> verification_result option \<Rightarrow> intent_row" where
  "new_intent service issuedAt expiresAt input policy fv =
     (let mapping = mapping_of fv; paymentRef = map_option js_trim (ci_paymentRef input) in
      \<lparr>int_id = [], int_resourcePolicyId = pol_id policy,
       int_resourceKey = res_key (ci_resource input), int_resourceType = res_type (ci_resource input),
       int_subjectType = subj_type (ci_subject input), int_subjectId = subj_id (ci_subject input),
       int_paymentRef = paymentRef, int_idempotencyKey = map_option js_trim (ci_idempotencyKey input),
       int_status = (if should_issue service fv then RECEIPT_ISSUED else intentStatus mapping),
       int_verifiedAt =
         (if shouldIssueReceipt mapping \<or> intentStatus mapping \<noteq> PENDING_VERIFICATION
          then Some issuedAt else None),
       int_receiptIssuedAt = (if should_issue service fv then Some issuedAt else None),
       int_expiresAt = Some expiresAt,
       int_fiberResponseJson = safeJsonStringify (fiber_response paymentRef fv),
       int_createdAt = 0, int_updatedAt = 0\<rparr>)"

definition creation_event ::
  "event_log_type \<Rightarrow> create_intent_input \<Rightarrow> policy_row \<Rightarrow> intent_row \<Rightarrow> (string \<times> jsval) list
     \<Rightarrow> event_row" where
  "creation_event t input policy i payload =
     intent_event t (pol_id policy) (res_key (ci_resource input)) (res_type (ci_resource input))
       (int_id i) None (ci_subject input)
       ((''paymentRef'', string_or_null (map_option js_trim (ci_paymentRef input))) # payload)"

definition logWhen :: "bool \<Rightarrow> 'd prisma \<Rightarrow> event_row \<Rightarrow> ('d, js_exn + unit) prog" where
  "logWhen b db e = (if b then appendEventLog db e else returnP ())"

definition returnCreated :: "intent_row \<Rightarrow> ('d, js_exn + create_result) prog" where
  "returnCreated i =
     returnP \<lparr>cr_accessIntent = toAccessIntentView i None None, cr_created = True\<rparr>"

text \<open>What an issuance is given for a created intent.\<close>

definition created_issue ::
  "create_intent_input \<Rightarrow> policy_row \<Rightarrow> js_date \<Rightarrow> intent_row \<Rightarrow> issue_input" where
  "created_issue input policy issuedAt i =
     \<lparr>is_intent = i, is_policy = policy, is_subject = ci_subject input,
      is_paymentRef = map_option js_trim (ci_paymentRef input), is_issuedAt = issuedAt\<rparr>"

text \<open>The branches after the intent's row and its first events were written.\<close>

definition concludeCreation ::
  "'d fiber_latch_service \<Rightarrow> call_env \<Rightarrow> create_intent_input \<Rightarrow> policy_row \<Rightarrow> js_date
     \<Rightarrow> verification_result option \<Rightarrow> intent_row \<Rightarrow> ('d, js_exn + create_result) prog" where
  "concludeCreation service env input policy issuedAt fv i =
     (let db = fls_db service; mapping = mapping_of fv; raw = (''rawStatus'', raw_status_of fv) in
      if normalizedState mapping = StateExpired then
        andThen (appendEventLog db (creation_event ACCESS_INTENT_EXPIRED input policy i [raw])) (\<lambda>_.
        andThen (markAccessIntentExpired db (int_id i)) (\<lambda>expired.
        andThen (hydrated db (int_id expired) i) returnCreated))
      else if normalizedState mapping = StateFailed then
        andThen (appendEventLog db (creation_event ACCESS_INTENT_REJECTED input policy i [raw])) (\<lambda>_.
        andThen (markAccessIntentRejected db (int_id i)) (\<lambda>rejected.
        andThen (hydrated db (int_id rejected) i) returnCreated))
      else if fv = None \<or> \<not> shouldIssueReceipt mapping \<or> fls_mode service = RealMode then
        andThen (logWhen (normalizedState mapping = PaidVerified \<and> fls_mode service = RealMode) db
          (creation_event ACCESS_INTENT_VERIFIED input policy i
             [raw, (''verifiedAt'', JStr (iso_string issuedAt))])) (\<lambda>_.
        andThen (hydrated db (int_id i) i) returnCreated)
      else
        andThen (hydrated db (int_id i) i) (\<lambda>current.
        andThen (issueReceiptForIntent service env (created_issue input policy issuedAt current))
          (\<lambda>issued. returnP
             \<lparr>cr_accessIntent = toAccessIntentView (iss_intent issued) (iss_receiptToken issued)
                (Some (iss_receipt issued)),
              cr_created = True\<rparr>)))"

definition createVerifiedIntent ::
  "'d fiber_latch_service \<Rightarrow> call_env \<Rightarrow> create_intent_input \<Rightarrow> policy_row
     \<Rightarrow> verification_result option \<Rightarrow> ('d, js_exn + create_result) prog" where
  "createVerifiedIntent service env input policy fv =
     (let db = fls_db service; mapping = mapping_of fv; issuedAt = settled_or (ce_later env) fv in
      case valid_date (ce_now env + pol_receiptTtlSeconds policy * 1000) of
        Inl e \<Rightarrow> throwP e
      | Inr expiresAt \<Rightarrow>
          andThen (createAccessIntentRecord db
            (new_intent service issuedAt expiresAt input policy fv)) (\<lambda>i.
          andThen (appendEventLog db (creation_event ACCESS_INTENT_CREATED input policy i
            [(''idempotencyKey'', string_or_null (map_option js_trim (ci_idempotencyKey input))),
             (''invoiceStatus'', JStr (invoice_status_string
                (case fv of Some r \<Rightarrow> vr_invoiceStatus r | None \<Rightarrow> UNKNOWN))),
             (''rawStatus'', raw_status_of fv)])) (\<lambda>_.
          andThen (logWhen (fv = None \<or> normalizedState mapping \<in> {Waiting, PaymentPending}) db
            (creation_event ACCESS_INTENT_PAYMENT_PENDING input policy i
               [(''rawStatus'', raw_status_of fv)])) (\<lambda>_.
          concludeCreation service env input policy issuedAt fv i))))"

text \<open>A blank reference is not asked about.\<close>

definition asked_fiber :: "call_env \<Rightarrow> string option \<Rightarrow> js_exn + verification_result option" where
  "asked_fiber env paymentRef =
     (if nonempty paymentRef then map_sum id Some (ce_fiber env (the paymentRef)) else Inr None)"

definition createIntentBody ::
  "'d fiber_latch_service \<Rightarrow> call_env \<Rightarrow> create_intent_input \<Rightarrow> ('d, js_exn + create_result) prog" where
  "createIntentBody service env input =
     (let db = fls_db service; idempotencyKey = map_option js_trim (ci_idempotencyKey input) in
      andThen (if nonempty idempotencyKey
               then getAccessIntentByIdempotencyKey db (the idempotencyKey) else returnP None)
        (\<lambda>existing. case existing of
           Some w \<Rightarrow> returnP
             \<lparr>cr_accessIntent = toAccessIntentView (iw_intent w) None (iw_accessReceipt w),
              cr_created = False\<rparr>
         | None \<Rightarrow>
             andThen (ensureResourcePolicy db (intent_policy service input)) (\<lambda>policy.
             case asked_fiber env (map_option js_trim (ci_paymentRef input)) of
               Inl e \<Rightarrow> throwP e
             | Inr fv \<Rightarrow> createVerifiedIntent service env input policy fv)))"

definition inTransaction ::
  "'d fiber_latch_service \<Rightarrow> ('d, js_exn + 'a) prog \<Rightarrow> ('d, js_exn + 'a) prog" where
  "inTransaction service body =
     transaction (tx_rollback (fls_db service)) (tx_commit (fls_db service)) body"

definition createAccessIntent ::
  "'d fiber_latch_service \<Rightarrow> call_env \<Rightarrow> create_intent_input \<Rightarrow> ('d, js_exn + create_result) prog" where
  "createAccessIntent service env input = inTransaction service (createIntentBody service env input)"

definition getAccessIntent ::
  "'d fiber_latch_service \<Rightarrow> string \<Rightarrow> ('d, js_exn + intent_view option) prog" where
  "getAccessIntent service i =
     andThen (getAccessIntentById (fls_db service) i) (\<lambda>found.
       returnP (map_option (\<lambda>w. toAccessIntentView (iw_intent w) None (iw_accessReceipt w)) found))"

section \<open>Reconciliation\<close>

datatype reconcile_outcome = OutcomePending | OutcomeVerified | OutcomeRejected | OutcomeExpired

definition row_event ::
  "event_log_type \<Rightarrow> intent_row \<Rightarrow> (string \<times> jsval) list \<Rightarrow> event_row" where
  "row_event t i payload =
     intent_event t (int_resourcePolicyId i) (int_resourceKey i) (int_resourceType i) (int_id i) None
       \<lparr>subj_type = int_subjectType i, subj_id = int_subjectId i\<rparr> payload"

definition row_payload :: "intent_row \<Rightarrow> verification_result \<Rightarrow> (string \<times> jsval) list" where
  "row_payload i r =
     [(''paymentRef'', string_or_null (int_paymentRef i)),
      (''rawStatus'', string_or_null (vr_rawStatus r))]"

text \<open>An intent without payment reference can only expire.\<close>

definition reconcileUnpaid ::
  "'d prisma \<Rightarrow> js_date \<Rightarrow> intent_row \<Rightarrow> ('d, js_exn + reconcile_outcome) prog" where
  "reconcileUnpaid db now i =
     (if (case int_expiresAt i of Some x \<Rightarrow> x \<le> now | None \<Rightarrow> False) \<and> int_status i \<noteq> EXPIRED then
        andThen (appendEventLog db (row_event ACCESS_INTENT_EXPIRED i
          [(''reason'', JStr ''NO_PAYMENT_REFERENCE'')])) (\<lambda>_.
        andThen (markAccessIntentExpired db (int_id i)) (\<lambda>_. returnP OutcomeExpired))
      else returnP OutcomePending)"

definition stored_issue ::
  "call_env \<Rightarrow> intent_with_relations \<Rightarrow> verification_result \<Rightarrow> issue_input" where
  "stored_issue env w r =
     \<lparr>is_intent = iw_intent w, is_policy = iw_resourcePolicy w,
      is_subject = \<lparr>subj_type = int_subjectType (iw_intent w), subj_id = int_subjectId (iw_intent w)\<rparr>,
      is_paymentRef = int_paymentRef (iw_intent w), is_issuedAt = settled_or (ce_now env) (Some r)\<rparr>"

definition reconcileAnswered ::
  "'d fiber_latch_service \<Rightarrow> call_env \<Rightarrow> intent_with_relations \<Rightarrow> verification_result
     \<Rightarrow> ('d, js_exn + reconcile_outcome) prog" where
  "reconcileAnswered service env w r =
     (let db = fls_db service; i = iw_intent w; state = normalizedState (verification_mapping r) in
      if state = PaidVerified then
        andThen (issueReceiptForIntent service env (stored_issue env w r)) (\<lambda>_. returnP OutcomeVerified)
      else if state = StateExpired then
        (if int_status i \<noteq> EXPIRED then
           andThen (appendEventLog db (row_event ACCESS_INTENT_EXPIRED i (row_payload i r))) (\<lambda>_.
           andThen (markAccessIntentExpired db (int_id i)) (\<lambda>_. returnP OutcomeExpired))
         else returnP OutcomeExpired)
      else if state = StateFailed then
        (if int_status i \<noteq> REJECTED then
           andThen (appendEventLog db (row_event ACCESS_INTENT_REJECTED i (row_payload i r))) (\<lambda>_.
           andThen (markAccessIntentRejected db (int_id i)) (\<lambda>_. returnP OutcomeRejected))
         else returnP OutcomeRejected)
      else returnP OutcomePending)"

definition reconcileBody ::
  "'d fiber_latch_service \<Rightarrow> call_env \<Rightarrow> string \<Rightarrow> ('d, js_exn + reconcile_outcome) prog" where
  "reconcileBody service env accessIntentId =
     (let db = fls_db service in
      andThen (getAccessIntentById db accessIntentId) (\<lambda>found.
      case found of
        None \<Rightarrow> returnP OutcomePending
      | Some w \<Rightarrow>
          if iw_accessReceipt w \<noteq> None \<and> int_status (iw_intent w) = RECEIPT_ISSUED
          then returnP OutcomeVerified
          else if \<not> nonempty (int_paymentRef (iw_intent w))
          then reconcileUnpaid db (ce_now env) (iw_intent w)
          else
            (case ce_fiber env (the (int_paymentRef (iw_intent w))) of
               Inl e \<Rightarrow> throwP e
             | Inr r \<Rightarrow>
                 andThen (updateAccessIntentFiberResponse db (int_id (iw_intent w))
                   (safeJsonStringify (fiber_response None (Some r)))) (\<lambda>_.
                 reconcileAnswered service env w r))))"

definition reconcileSingleAccessIntent ::
  "'d fiber_latch_service \<Rightarrow> call_env \<Rightarrow> string \<Rightarrow> ('d, js_exn + reconcile_outcome) prog" where
  "reconcileSingleAccessIntent service env accessIntentId =
     inTransaction service (reconcileBody service env accessIntentId)"

record reconciliation_summary =
  rs_inspected :: nat
  rs_verified :: nat
  rs_receiptsIssued :: nat
  rs_expired :: nat
  rs_rejected :: nat
  rs_pending :: nat

definition empty_summary :: reconciliation_summary where
  "empty_summary =
     \<lparr>rs_inspected = 0, rs_verified = 0, rs_receiptsIssued = 0, rs_expired = 0, rs_rejected = 0,
      rs_pending = 0\<rparr>"

fun counted :: "reconcile_outcome \<Rightarrow> reconciliation_summary \<Rightarrow> reconciliation_summary" where
  "counted OutcomeVerified s =
     s\<lparr>rs_verified := rs_verified s + 1, rs_receiptsIssued := rs_receiptsIssued s + 1\<rparr>"
| "counted OutcomeExpired s = s\<lparr>rs_expired := rs_expired s + 1\<rparr>"
| "counted OutcomeRejected s = s\<lparr>rs_rejected := rs_rejected s + 1\<rparr>"
| "counted OutcomePending s = s\<lparr>rs_pending := rs_pending s + 1\<rparr>"

text \<open>The loop over the candidates; every one has its own environment.\<close>

fun reconcileCandidates ::
  "'d fiber_latch_service \<Rightarrow> (nat \<Rightarrow> call_env) \<Rightarrow> nat \<Rightarrow> intent_with_relations list
     \<Rightarrow> reconciliation_summary \<Rightarrow> ('d, js_exn + reconciliation_summary) prog" where
  "reconcileCandidates service env n [] summary = returnP summary"
| "reconcileCandidates service env n (w # ws) summary =
     andThen (reconcileSingleAccessIntent service (env n) (int_id (iw_intent w))) (\<lambda>outcome.
       reconcileCandidates service env (Suc n) ws
         (counted outcome (summary\<lparr>rs_inspected := rs_inspected summary + 1\<rparr>)))"

definition reconcileOpenAccessIntents ::
  "'d fiber_latch_service \<Rightarrow> (nat \<Rightarrow> call_env) \<Rightarrow> ('d, js_exn + reconciliation_summary) prog" where
  "reconcileOpenAccessIntents service env =
     andThen (listReconcilableAccessIntents (fls_db service)) (\<lambda>candidates.
       reconcileCandidates service env 0 candidates empty_summary)"

end
