(* ===== verification/Program_Logic.thy ===== *)
theory Program_Logic
  imports Intent_Repository
begin

text \<open>
  Reasoning about programs that run alone. \<open>wp p Q d\<close>: the result and the final state of \<open>p\<close> from \<open>d\<close>
  satisfy \<open>Q\<close>; \<open>returns p Q d\<close> asks this only when \<open>p\<close> does not throw. The rules take a program
  apart call by call; those of the repositories rest on the contract of the database client.
\<close>

section \<open>Weakest preconditions\<close>

definition wp :: "('d, 'r) prog \<Rightarrow> ('r \<Rightarrow> 'd \<Rightarrow> bool) \<Rightarrow> 'd \<Rightarrow> bool" where
  "wp p Q d \<longleftrightarrow> (case run p d of (r, d') \<Rightarrow> Q r d')"

definition returns :: "('d, 'e + 'a) prog \<Rightarrow> ('a \<Rightarrow> 'd \<Rightarrow> bool) \<Rightarrow> 'd \<Rightarrow> bool" where
  "returns p Q d \<longleftrightarrow> wp p (\<lambda>r d'. case r of Inl e \<Rightarrow> True | Inr a \<Rightarrow> Q a d') d"

lemma returnsI: "(\<And>a d'. run p d = (Inr a, d') \<Longrightarrow> Q a d') \<Longrightarrow> returns p Q d"
  by (auto simp: returns_def wp_def split: prod.split sum.split)

lemma returnsD: "returns p Q d \<Longrightarrow> run p d = (Inr a, d') \<Longrightarrow> Q a d'"
  by (simp add: returns_def wp_def)

lemma returns_mono:
  "returns p Q d \<Longrightarrow> (\<And>a d'. Q a d' \<Longrightarrow> Q' a d') \<Longrightarrow> returns p Q' d"
  by (auto simp: returns_def wp_def split: prod.splits sum.splits)

lemma returns_returnP [simp]: "returns (returnP a) Q = Q a"
  by (rule ext) (simp add: returns_def wp_def)

lemma returns_throwP [simp]: "returns (throwP e) Q = (\<lambda>d. True)"
  by (rule ext) (simp add: returns_def wp_def)

lemma returns_andThen:
  "returns p (\<lambda>a. returns (k a) Q) d \<Longrightarrow> returns (andThen p k) Q d"
  by (auto simp: returns_def wp_def run_andThen split: prod.splits sum.splits)

lemma returns_bindP:
  "(\<And>r d'. run p d = (r, d') \<Longrightarrow> returns (k r) Q d') \<Longrightarrow> returns (bindP p k) Q d"
  by (auto simp: returns_def wp_def run_bindP split: prod.split)

lemma returns_act: "(\<And>a d'. op d = (Inr a, d') \<Longrightarrow> Q a d') \<Longrightarrow> returns (act op) Q d"
  by (rule returnsI) simp

lemma returns_if:
  "(b \<Longrightarrow> returns p Q d) \<Longrightarrow> (\<not> b \<Longrightarrow> returns q Q d) \<Longrightarrow> returns (if b then p else q) Q d"
  by simp

lemma returns_option:
  "(x = None \<Longrightarrow> returns p Q d) \<Longrightarrow> (\<And>a. x = Some a \<Longrightarrow> returns (q a) Q d) \<Longrightarrow>
   returns (case x of None \<Rightarrow> p | Some a \<Rightarrow> q a) Q d"
  by (cases x) simp_all

lemma returns_sum:
  "(\<And>e. x = Inl e \<Longrightarrow> returns (p e) Q d) \<Longrightarrow> (\<And>a. x = Inr a \<Longrightarrow> returns (q a) Q d) \<Longrightarrow>
   returns (case x of Inl e \<Rightarrow> p e | Inr a \<Rightarrow> q a) Q d"
  by (cases x) simp_all

section \<open>Invariants under interleaving\<close>

text \<open>Every step of the program keeps \<open>I\<close>, whatever others do between its steps.\<close>

definition keeps :: "('d \<Rightarrow> bool) \<Rightarrow> ('d, 'r) prog \<Rightarrow> bool" where
  "keeps I p \<longleftrightarrow> accounts I (\<lambda>_. 0) (\<lambda>_ _. True) p 0"

lemma keeps_act:
  "(\<And>d a d'. I d \<Longrightarrow> op d = (a, d') \<Longrightarrow> I d') \<Longrightarrow> keeps I (act op)"
  unfolding keeps_def by (rule accounts_act) simp

lemma accounts_constant:
  "accounts I (\<lambda>_. 0) (\<lambda>_ _. True) p k \<Longrightarrow> accounts I (\<lambda>_. 0) (\<lambda>_ n. n = k) p k"
proof (induction p)
  case (Step f)
  show ?case
  proof (rule accounts_StepI)
    fix d q d'
    assume "I d" and f: "f d = (q, d')"
    from accounts_Step_D [OF Step.prems this] Step.IH [of "f d" q] f rangeI [of f d]
    show "I d' \<and> (0::int) \<le> 0 \<and> accounts I (\<lambda>_. 0) (\<lambda>_ n. n = k) q (k + (0 - 0))"
      by (simp add: fsts.simps)
  qed
qed simp

lemma keeps_andThen:
  assumes "keeps I p" and "\<And>a. keeps I (k a)"
  shows "keeps I (andThen p k)"
  unfolding keeps_def
  by (rule accounts_andThen, rule accounts_mono [OF accounts_constant [OF assms(1) [unfolded keeps_def]]])
    (use assms(2) in \<open>auto simp: keeps_def split: sum.split\<close>)

lemma keeps_returnP [simp]: "keeps I (returnP a)"
  by (simp add: keeps_def)

lemma keeps_throwP [simp]: "keeps I (throwP e)"
  by (simp add: keeps_def)

lemma keeps_bindP:
  assumes "keeps I p" and "\<And>a. keeps I (k a)"
  shows "keeps I (bindP p k)"
  unfolding keeps_def
  by (rule accounts_bindP, rule accounts_mono [OF accounts_constant [OF assms(1) [unfolded keeps_def]]])
    (use assms(2) in \<open>simp add: keeps_def\<close>)

lemma keeps_run: "keeps I p \<Longrightarrow> I d \<Longrightarrow> I (snd (run p d))"
proof (induction p arbitrary: d)
  case (Step f)
  obtain q d' where f: "f d = (q, d')" by fastforce
  from accounts_Step_D [OF Step.prems(1) [unfolded keeps_def] Step.prems(2) f]
  have "I d'" "keeps I q" by (simp_all add: keeps_def)
  with Step.IH [of "f d" q d'] f show ?case using rangeI [of f d] by auto
qed simp

section \<open>The repositories\<close>

text \<open>The functions that are one call of the client.\<close>

lemmas one_access =
  getAccessReceiptByJti_def getAccessReceiptByAccessIntentId_def setReceiptExpired_def
  appendEventLog_def createAccessReceipt_def createAccessIntentRecord_def getAccessIntentById_def
  getAccessIntentByIdempotencyKey_def markAccessIntentVerified_def markAccessIntentRejected_def
  markAccessIntentExpired_def updateAccessIntentFiberResponse_def listReconcilableAccessIntents_def

context prisma_service
begin

text \<open>
  A transaction that returns leaves what its body left; one that throws leaves the tables as they
  were, or what a returning body left when the commit went through all the same.
\<close>

lemma transaction_tables:
  assumes "run (transaction (tx_rollback ops) (tx_commit ops) p) d = (r, d')"
    and "returns p (\<lambda>a d1. R a (tables d1)) d"
  shows "case r of Inr a \<Rightarrow> R a (tables d')
    | Inl e \<Rightarrow> tables d' = tables d \<or> (\<exists>a. R a (tables d'))"
proof -
  obtain r1 d1 where p: "run p d = (r1, d1)" by fastforce
  show ?thesis
  proof (cases r1)
    case (Inl e)
    with assms(1) p show ?thesis by (auto simp: run_transaction rolled_back)
  next
    case (Inr a)
    with assms(2) p have R: "R a (tables d1)" by (auto dest: returnsD)
    obtain c d2 where c: "tx_commit ops d d1 = (c, d2)" by fastforce
    from commit_tables [OF c] committed [of d d1 _ d2] R show ?thesis
      using assms(1) p Inr c by (cases c) (auto simp: run_transaction)
  qed
qed

lemma returns_event:
  "(\<And>d'. tables d' = add_event ev (tables d) \<Longrightarrow> Q () d') \<Longrightarrow> returns (appendEventLog ops ev) Q d"
  unfolding appendEventLog_def by (rule returns_act) (simp add: event_created)

lemma returns_receipt_find:
  "(\<And>d'. tables d' = tables d \<Longrightarrow> Q (find (matches_receipt k) (db_receipts (tables d))) d') \<Longrightarrow>
   returns (act (receipt_findUnique ops k)) Q d"
  by (rule returns_act) (metis receipt_find receipt_found)

lemma returns_updateMany:
  assumes "\<And>d'. tables d' = change_receipts p f (tables d) \<Longrightarrow>
      Q (length (filter p (db_receipts (tables d)))) d'"
  shows "returns (act (receipt_updateMany ops p f)) Q d"
proof (rule returns_act)
  fix n d'
  assume "receipt_updateMany ops p f d = (Inr n, d')"
  from receipts_updated [OF this] assms show "Q n d'" by simp
qed

lemma returns_receipt_update:
  assumes "\<And>r d'. tables d' = change_receipts (\<lambda>r. dr_id r = i) f (tables d) \<Longrightarrow> Q r d'"
  shows "returns (act (receipt_update ops i f)) Q d"
proof (rule returns_act)
  fix r d'
  assume "receipt_update ops i f d = (Inr r, d')"
  from receipt_updated [OF this] assms show "Q r d'" by simp
qed

lemma returns_intent_find:
  assumes "\<And>d'. tables d' = tables d \<Longrightarrow> find (matches_intent k) (db_intents (tables d)) = None \<Longrightarrow> Q None d'"
    and "\<And>d' w. tables d' = tables d \<Longrightarrow> iw_intent w \<in> set (db_intents (tables d)) \<Longrightarrow>
      matches_intent k (iw_intent w) \<Longrightarrow> find (matches_intent k) (db_intents (tables d)) = Some (iw_intent w) \<Longrightarrow>
      related (tables d) (iw_intent w) w \<Longrightarrow> Q (Some w) d'"
  shows "returns (act (intent_findUnique ops k)) Q d"
proof (rule returns_act)
  fix a d'
  assume f: "intent_findUnique ops k d = (Inr a, d')"
  note t = intent_find [OF f]
  show "Q a d'"
  proof (cases a)
    case None
    with intent_found [OF f] have "find (matches_intent k) (db_intents (tables d)) = None"
      by (auto split: option.splits)
    with t None assms(1) show ?thesis by blast
  next
    case (Some w)
    with intent_found [OF f] obtain i where
      i: "find (matches_intent k) (db_intents (tables d)) = Some i" "related (tables d) i w"
      by (auto split: option.splits)
    then have "iw_intent w = i" by (simp add: related_def)
    with t Some assms(2) i intent_found_Some [OF f [unfolded Some]] show ?thesis by blast
  qed
qed

lemma returns_intent_update:
  assumes "\<And>d' now i. tables d' = change_intent x (stamped now g) (tables d) \<Longrightarrow>
      find (\<lambda>i. int_id i = x) (db_intents (tables d)) = Some i \<Longrightarrow> Q (stamped now g i) d'"
  shows "returns (act (intent_update ops x g)) Q d"
proof (rule returns_act)
  fix a d'
  assume "intent_update ops x g d = (Inr a, d')"
  from intent_updated [OF this] assms show "Q a d'" by blast
qed

lemma returns_intent_create:
  assumes "\<And>row d'. row = idata\<lparr>int_id := int_id row, int_createdAt := int_createdAt row,
        int_updatedAt := int_updatedAt row\<rparr> \<Longrightarrow> intent_unique row (tables d) \<Longrightarrow>
      tables d' = add_intent row (tables d) \<Longrightarrow> Q row d'"
  shows "returns (act (intent_create ops idata)) Q d"
proof (rule returns_act)
  fix a d'
  assume "intent_create ops idata d = (Inr a, d')"
  from intent_created [OF this] assms show "Q a d'" by blast
qed

text \<open>A policy is found, or created with the given data.\<close>

lemma returns_ensureResourcePolicy:
  assumes found: "\<And>p d'. tables d' = tables d \<Longrightarrow> p \<in> set (db_policies (tables d)) \<Longrightarrow>
      matches_policy (ByResource (pi_resourceKey input) (pi_resourceType input)) p \<Longrightarrow> Q p d'"
    and created: "\<And>p pdata d'. policy_data input = Inr pdata \<Longrightarrow> p = pdata\<lparr>pol_id := pol_id p\<rparr> \<Longrightarrow>
      policy_unique p (tables d) \<Longrightarrow> tables d' = add_policy p (tables d) \<Longrightarrow> Q p d'"
  shows "returns (ensureResourcePolicy ops input) Q d"
  unfolding ensureResourcePolicy_def
proof (rule returns_andThen, rule returns_act)
  fix a d1
  assume f: "policy_findUnique ops (ByResource (pi_resourceKey input) (pi_resourceType input)) d = (Inr a, d1)"
  note t = policy_find [OF f]
  show "returns (case a of None \<Rightarrow> (case policy_data input of Inl e \<Rightarrow> throwP e
      | Inr data \<Rightarrow> act (policy_create ops data)) | Some p \<Rightarrow> returnP p) Q d1"
  proof (cases a)
    case None
    have "returns (act (policy_create ops pd)) Q d1" if "policy_data input = Inr pd" for pd
    proof (rule returns_act)
      fix p d'
      assume "policy_create ops pd d1 = (Inr p, d')"
      from policy_created [OF this] t created [OF that] show "Q p d'" by simp
    qed
    with None show ?thesis by (auto split: sum.split)
  next
    case (Some p)
    with policy_found_Some [OF f [unfolded Some]] found [OF t] show ?thesis by simp
  qed
qed

end

end
