(* ===== verification/Issuance_Invariant.thy ===== *)
theory Issuance_Invariant
  imports Service_Issuance Program_Logic
begin

text \<open>
  The invariant that relates intents and receipts, and what issuing a receipt does to it.
\<close>

section \<open>Intents and their receipts\<close>

text \<open>The receipt \<open>r\<close> is one for the intent \<open>i\<close>.\<close>

definition receipt_for :: "intent_row \<Rightarrow> db_receipt \<Rightarrow> bool" where
  "receipt_for i r \<longleftrightarrow>
     dr_accessIntentId r = int_id i \<and> dr_resourcePolicyId r = int_resourcePolicyId i
   \<and> dr_resourceKey r = int_resourceKey i \<and> dr_resourceType r = int_resourceType i
   \<and> dr_subjectType r = int_subjectType i \<and> dr_subjectId r = int_subjectId i"

text \<open>The policy \<open>p\<close> is the one of the intent \<open>i\<close>, and for the same resource.\<close>

definition policy_for :: "policy_row \<Rightarrow> intent_row \<Rightarrow> bool" where
  "policy_for p i \<longleftrightarrow>
     pol_id p = int_resourcePolicyId i \<and> pol_resourceKey p = int_resourceKey i
   \<and> pol_resourceType p = int_resourceType i"

text \<open>
  Identities are unique, every receipt belongs to an intent and every intent to a policy for its
  resource, and, except for the intents of \<open>X\<close>, an intent has the status \<open>RECEIPT_ISSUED\<close> exactly
  when it has a receipt.
\<close>

definition consistent :: "string set \<Rightarrow> db \<Rightarrow> bool" where
  "consistent X t \<longleftrightarrow>
     distinct (map int_id (db_intents t)) \<and> distinct (map dr_accessIntentId (db_receipts t))
   \<and> distinct (map dr_id (db_receipts t)) \<and> distinct (map dr_jti (db_receipts t))
   \<and> distinct (map pol_id (db_policies t))
   \<and> (\<forall>r \<in> set (db_receipts t). \<exists>i \<in> set (db_intents t). receipt_for i r)
   \<and> (\<forall>i \<in> set (db_intents t). \<exists>p \<in> set (db_policies t). policy_for p i)
   \<and> (\<forall>i \<in> set (db_intents t). int_id i \<notin> X \<longrightarrow>
        (int_status i = RECEIPT_ISSUED \<longleftrightarrow> (\<exists>r \<in> set (db_receipts t). dr_accessIntentId r = int_id i)))"

abbreviation issuance_ok :: "db \<Rightarrow> bool" where
  "issuance_ok \<equiv> consistent {}"

text \<open>What a change of an intent must keep.\<close>

definition keeps_intent :: "(intent_row \<Rightarrow> intent_row) \<Rightarrow> bool" where
  "keeps_intent f \<longleftrightarrow>
     (\<forall>i. int_id (f i) = int_id i \<and> int_resourcePolicyId (f i) = int_resourcePolicyId i
        \<and> int_resourceKey (f i) = int_resourceKey i \<and> int_resourceType (f i) = int_resourceType i
        \<and> int_subjectType (f i) = int_subjectType i \<and> int_subjectId (f i) = int_subjectId i)"

lemma consistent_add_event [simp]: "consistent X (add_event e t) = consistent X t"
  by (simp add: consistent_def)

lemma consistent_add_policy:
  assumes "consistent X t" and "policy_unique p t"
  shows "consistent X (add_policy p t)"
proof -
  have "pol_id p \<notin> pol_id ` set (db_policies t)"
    using assms(2) by (auto simp: policy_unique_def list_all_iff)
  with assms(1) show ?thesis unfolding consistent_def by auto
qed

lemma consistent_mono: "consistent X t \<Longrightarrow> X \<subseteq> Y \<Longrightarrow> consistent Y t"
  unfolding consistent_def by blast

lemma keeps_relations:
  "keeps_intent f \<Longrightarrow> receipt_for (f i) r = receipt_for i r"
  "keeps_intent f \<Longrightarrow> policy_for p (f i) = policy_for p i"
  by (simp_all add: receipt_for_def policy_for_def keeps_intent_def)

text \<open>A new intent has no receipt yet.\<close>

lemma consistent_add_intent:
  assumes "consistent X t" and "intent_unique i t"
    and "int_status i = RECEIPT_ISSUED \<Longrightarrow> int_id i \<in> X"
    and "p \<in> set (db_policies t)" and "policy_for p i"
  shows "consistent X (add_intent i t)"
proof -
  have fresh: "int_id j \<noteq> int_id i" if "j \<in> set (db_intents t)" for j
    using assms(2) that by (simp add: intent_unique_def list_all_iff)
  have none: "dr_accessIntentId r \<noteq> int_id i" if r: "r \<in> set (db_receipts t)" for r
  proof -
    from assms(1) r obtain j where "j \<in> set (db_intents t)" "receipt_for j r"
      unfolding consistent_def by blast
    with fresh show ?thesis by (simp add: receipt_for_def)
  qed
  have "int_id i \<notin> int_id ` set (db_intents t)" using fresh by fastforce
  with assms(1) have "distinct (map int_id (db_intents t @ [i]))"
    by (simp add: consistent_def)
  moreover have "\<forall>j \<in> set (db_intents t @ [i]). int_id j \<notin> X \<longrightarrow>
      (int_status j = RECEIPT_ISSUED \<longleftrightarrow> (\<exists>r \<in> set (db_receipts t). dr_accessIntentId r = int_id j))"
    using assms(1,3) none unfolding consistent_def by auto
  moreover have "\<forall>r \<in> set (db_receipts t). \<exists>j \<in> set (db_intents t @ [i]). receipt_for j r"
    using assms(1) unfolding consistent_def by auto
  moreover have "\<forall>j \<in> set (db_intents t @ [i]). \<exists>p \<in> set (db_policies t). policy_for p j"
    using assms(1,4,5) unfolding consistent_def by auto
  ultimately show ?thesis
    using assms(1) unfolding consistent_def intent_effects by blast
qed

lemma consistent_change_intent:
  assumes "consistent X t" and "keeps_intent f"
    and "\<And>i. i \<in> set (db_intents t) \<Longrightarrow> int_id i = x \<Longrightarrow> x \<notin> Y \<Longrightarrow>
      (int_status (f i) = RECEIPT_ISSUED \<longleftrightarrow> (\<exists>r \<in> set (db_receipts t). dr_accessIntentId r = x))"
    and "X \<subseteq> insert x Y"
  shows "consistent Y (change_intent x f t)"
proof -
  let ?g = "\<lambda>i. if int_id i = x then f i else i"
  have ids: "int_id (?g i) = int_id i" and same: "receipt_for (?g i) r = receipt_for i r"
    and pol: "policy_for p (?g i) = policy_for p i" for i r p
    using assms(2) by (simp_all add: keeps_intent_def keeps_relations)
  have ids_list: "map int_id (map ?g (db_intents t)) = map int_id (db_intents t)"
    by (simp only: map_map o_def ids)
  have belongs: "(\<exists>i \<in> set (map ?g (db_intents t)). receipt_for i r)
      \<longleftrightarrow> (\<exists>i \<in> set (db_intents t). receipt_for i r)" for r
    by (simp only: set_map bex_simps same)
  have policies: "(\<forall>i \<in> set (map ?g (db_intents t)). \<exists>p \<in> set (db_policies t). policy_for p i)
      \<longleftrightarrow> (\<forall>i \<in> set (db_intents t). \<exists>p \<in> set (db_policies t). policy_for p i)"
    by (simp only: set_map ball_simps pol)
  have "int_status (?g i) = RECEIPT_ISSUED \<longleftrightarrow> (\<exists>r \<in> set (db_receipts t). dr_accessIntentId r = int_id i)"
    if "i \<in> set (db_intents t)" "int_id i \<notin> Y" for i
  proof (cases "int_id i = x")
    case True
    with assms(3) [OF that(1)] that(2) show ?thesis by simp
  next
    case False
    with that assms(4) have "int_id i \<notin> X" by blast
    with that(1) assms(1) False show ?thesis by (simp add: consistent_def)
  qed
  then have "\<forall>j \<in> set (map ?g (db_intents t)). int_id j \<notin> Y \<longrightarrow>
      (int_status j = RECEIPT_ISSUED \<longleftrightarrow> (\<exists>r \<in> set (db_receipts t). dr_accessIntentId r = int_id j))"
    by (simp only: set_map ball_simps ids) blast
  with assms(1) show ?thesis
    unfolding consistent_def intent_effects ids_list belongs policies by blast
qed

text \<open>A new receipt for an intent of \<open>X\<close>.\<close>

lemma consistent_add_receipt:
  assumes "consistent X t" and "unique_with r t" and "i \<in> set (db_intents t)" and "receipt_for i r"
    and "int_id i \<in> X"
  shows "consistent X (add_receipt r t)"
proof -
  have "dr_accessIntentId r \<notin> dr_accessIntentId ` set (db_receipts t)"
    "dr_id r \<notin> dr_id ` set (db_receipts t)" "dr_jti r \<notin> dr_jti ` set (db_receipts t)"
    using assms(2) by (auto simp: unique_with_def list_all_iff)
  moreover have "dr_accessIntentId r = int_id i" using assms(4) by (simp add: receipt_for_def)
  ultimately show ?thesis using assms(1,3-5) unfolding consistent_def by auto
qed

definition keeps_receipt :: "(db_receipt \<Rightarrow> db_receipt) \<Rightarrow> bool" where
  "keeps_receipt f \<longleftrightarrow>
     (\<forall>r. dr_id (f r) = dr_id r \<and> dr_jti (f r) = dr_jti r
        \<and> dr_accessIntentId (f r) = dr_accessIntentId r
        \<and> dr_resourcePolicyId (f r) = dr_resourcePolicyId r \<and> dr_resourceKey (f r) = dr_resourceKey r
        \<and> dr_resourceType (f r) = dr_resourceType r \<and> dr_subjectType (f r) = dr_subjectType r
        \<and> dr_subjectId (f r) = dr_subjectId r)"

lemma consistent_change_receipts:
  assumes "consistent X t" and "keeps_receipt f"
  shows "consistent X (change_receipts p f t)"
proof -
  let ?g = "\<lambda>r. if p r then f r else r"
  have ids: "dr_accessIntentId (?g r) = dr_accessIntentId r" "dr_id (?g r) = dr_id r"
      "dr_jti (?g r) = dr_jti r" and same: "receipt_for i (?g r) = receipt_for i r"
    for i r using assms(2) by (simp_all add: keeps_receipt_def receipt_for_def)
  have list: "map dr_accessIntentId (map ?g (db_receipts t)) = map dr_accessIntentId (db_receipts t)"
    "map dr_id (map ?g (db_receipts t)) = map dr_id (db_receipts t)"
    "map dr_jti (map ?g (db_receipts t)) = map dr_jti (db_receipts t)"
    by (simp_all only: map_map o_def ids)
  have some: "(\<exists>r \<in> set (map ?g (db_receipts t)). dr_accessIntentId r = a)
      \<longleftrightarrow> (\<exists>r \<in> set (db_receipts t). dr_accessIntentId r = a)" for a
    by (simp only: set_map bex_simps ids)
  have belongs: "(\<forall>r \<in> set (map ?g (db_receipts t)). \<exists>i \<in> set (db_intents t). receipt_for i r)
      \<longleftrightarrow> (\<forall>r \<in> set (db_receipts t). \<exists>i \<in> set (db_intents t). receipt_for i r)"
    by (simp only: set_map ball_simps same)
  from assms(1) show ?thesis
    unfolding consistent_def table_effects intent_effects list some belongs .
qed

text \<open>An intent is the only one with its \<open>id\<close>, and its receipt the only one of that intent.\<close>

lemma consistent_same_policy:
  "consistent X t \<Longrightarrow> p \<in> set (db_policies t) \<Longrightarrow> q \<in> set (db_policies t) \<Longrightarrow> pol_id p = pol_id q \<Longrightarrow> p = q"
  by (auto simp: consistent_def distinct_map dest: inj_onD)

lemma consistent_same_intent:
  "consistent X t \<Longrightarrow> i \<in> set (db_intents t) \<Longrightarrow> j \<in> set (db_intents t) \<Longrightarrow> int_id i = int_id j \<Longrightarrow> i = j"
  by (auto simp: consistent_def distinct_map dest: inj_onD)

section \<open>Issuing\<close>

text \<open>
  The input of an issuance is about an intent of the table. A reconciliation passes the row it read
  before it stored the Fiber answer, so only these columns are those of the table.
\<close>

definition same_intent :: "intent_row \<Rightarrow> intent_row \<Rightarrow> bool" where
  "same_intent i j \<longleftrightarrow>
     int_id j = int_id i \<and> int_resourcePolicyId j = int_resourcePolicyId i
   \<and> int_resourceKey j = int_resourceKey i \<and> int_resourceType j = int_resourceType i
   \<and> int_subjectType j = int_subjectType i \<and> int_subjectId j = int_subjectId i
   \<and> int_status j = int_status i"

definition issue_input_ok :: "issue_input \<Rightarrow> db \<Rightarrow> bool" where
  "issue_input_ok input t \<longleftrightarrow>
     (\<exists>j \<in> set (db_intents t). same_intent (is_intent input) j)
   \<and> pol_id (is_policy input) = int_resourcePolicyId (is_intent input)
   \<and> subj_type (is_subject input) = int_subjectType (is_intent input)
   \<and> subj_id (is_subject input) = int_subjectId (is_intent input)"

text \<open>The receipt that an issuance adds, with the token that was signed for it.\<close>

definition issued_row ::
  "'d fiber_latch_service \<Rightarrow> call_env \<Rightarrow> issue_input \<Rightarrow> string \<Rightarrow> db_receipt \<Rightarrow> bool" where
  "issued_row service env input token row \<longleftrightarrow>
     (let expiresAt = is_issuedAt input + pol_receiptTtlSeconds (is_policy input) * 1000 in
      fls_sign service (receipt_sign_input (fls_runtime service) (ce_uuid env) expiresAt input) = Inr token
    \<and> (\<exists>i. row = (new_receipt (ce_uuid env) expiresAt (fls_hash service token) input)\<lparr>dr_id := i\<rparr>))"

definition issued ::
  "'d fiber_latch_service \<Rightarrow> call_env \<Rightarrow> issue_input \<Rightarrow> db \<Rightarrow> db \<Rightarrow> bool" where
  "issued service env input t t' \<longleftrightarrow>
     db_receipts t' = db_receipts t
   \<or> (\<exists>token row. issued_row service env input token row \<and> unique_with row t
        \<and> db_receipts t' = db_receipts t @ [row])"

text \<open>The result gives a token only for the receipt it added.\<close>

definition issued_result ::
  "'d fiber_latch_service \<Rightarrow> call_env \<Rightarrow> issue_input \<Rightarrow> db \<Rightarrow> issuance \<Rightarrow> db \<Rightarrow> bool" where
  "issued_result service env input t iss t' \<longleftrightarrow>
     issued service env input t t' \<and> issuance_ok t'
   \<and> int_id (iss_intent iss) = int_id (is_intent input)
   \<and> (\<forall>token. iss_receiptToken iss = Some token \<longrightarrow>
        issued_row service env input token (iss_receipt iss) \<and> unique_with (iss_receipt iss) t
      \<and> db_receipts t' = db_receipts t @ [iss_receipt iss])"

lemma receipt_for_new:
  assumes "issue_input_ok input t" and "issued_row service env input token row"
  shows "\<exists>j \<in> set (db_intents t). receipt_for j row \<and> int_id j = int_id (is_intent input)"
proof -
  from assms(1) obtain j where j: "j \<in> set (db_intents t)" "same_intent (is_intent input) j"
    unfolding issue_input_ok_def by blast
  with assms have "receipt_for j row" "int_id j = int_id (is_intent input)"
    by (auto simp: issued_row_def Let_def receipt_for_def issue_input_ok_def new_receipt_def
        same_intent_def)
  with j(1) show ?thesis by blast
qed

lemma keeps_verified_intent [simp]: "keeps_intent (stamped now (verified_intent v r))"
  by (simp add: keeps_intent_def stamped_def verified_intent_def)

lemma stamped_verified_status [simp]:
  "int_status (stamped now (verified_intent v (Some r)) i) = RECEIPT_ISSUED"
  by (simp add: stamped_def verified_intent_def)

lemma stamped_id: "keeps_intent (stamped now f) \<Longrightarrow> int_id (stamped now f i) = int_id i"
  by (simp add: keeps_intent_def)

text \<open>An excepted intent that has its receipt and says so is no exception.\<close>

lemma consistent_marked:
  assumes c: "consistent {int_id i} t" and j: "j \<in> set (db_intents t)" "same_intent i j" "int_status i = RECEIPT_ISSUED"
    and r: "r \<in> set (db_receipts t)" "dr_accessIntentId r = int_id i"
  shows "issuance_ok t"
proof -
  have "int_status k = RECEIPT_ISSUED \<longleftrightarrow> (\<exists>r \<in> set (db_receipts t). dr_accessIntentId r = int_id k)"
    if k: "k \<in> set (db_intents t)" for k
  proof (cases "int_id k = int_id i")
    case True
    with j consistent_same_intent [OF c k] have "same_intent i k" by (auto simp: same_intent_def)
    with True j(3) r show ?thesis by (auto simp: same_intent_def)
  next
    case False
    with c k show ?thesis by (simp add: consistent_def)
  qed
  with c show ?thesis by (simp add: consistent_def)
qed

lemma issued_row_added:
  assumes "consistent {int_id (is_intent input)} t" and "issue_input_ok input t"
    and "issued_row service env input token row" and "unique_with row t"
  shows "consistent {int_id (is_intent input)} (add_receipt row t) \<and> issue_input_ok input (add_receipt row t)
    \<and> dr_accessIntentId row = int_id (is_intent input)"
proof -
  from receipt_for_new [OF assms(2,3)] obtain j where
    j: "j \<in> set (db_intents t)" "receipt_for j row" "int_id j = int_id (is_intent input)" by blast
  with consistent_add_receipt [OF assms(1,4) j(1,2)] assms(2) show ?thesis
    by (simp add: issue_input_ok_def receipt_for_def)
qed

context prisma_service
begin

text \<open>The intent as it is stored, or the fallback.\<close>

lemma returns_hydrated:
  assumes "\<And>d' j. tables d' = tables d \<Longrightarrow> j \<in> set (db_intents (tables d)) \<Longrightarrow> int_id j = x \<Longrightarrow> Q j d'"
    and "\<And>d'. tables d' = tables d \<Longrightarrow> find (matches_intent (ByIntentId x)) (db_intents (tables d)) = None
      \<Longrightarrow> Q fallback d'"
  shows "returns (hydrated ops x fallback) Q d"
  unfolding hydrated_def getAccessIntentById_def
  by (rule returns_andThen, rule returns_intent_find) (use assms in auto)

lemma returns_mark:
  assumes "\<And>d' now i. tables d' = change_intent x (stamped now (verified_intent v (Some r))) (tables d) \<Longrightarrow>
      int_id i = x \<Longrightarrow> Q (stamped now (verified_intent v (Some r)) i) d'"
  shows "returns (markAccessIntentVerified ops x v (Some r)) Q d"
  unfolding markAccessIntentVerified_def
proof (rule returns_intent_update)
  fix d' now i
  assume t: "tables d' = change_intent x (stamped now (verified_intent v (Some r))) (tables d)"
    and "find (\<lambda>i. int_id i = x) (db_intents (tables d)) = Some i"
  then have "int_id i = x" by (auto simp: find_Some_iff)
  with t assms show "Q (stamped now (verified_intent v (Some r)) i) d'" by blast
qed

text \<open>Marking the intent of an existing receipt restores the invariant.\<close>

lemma consistent_mark:
  assumes "consistent {x} t" and "\<exists>r \<in> set (db_receipts t). dr_accessIntentId r = x"
  shows "issuance_ok (change_intent x (stamped now (verified_intent v (Some r))) t)"
  using assms by (intro consistent_change_intent [OF assms(1)]) auto

lemma returns_adoptExisting:
  assumes c: "consistent {int_id (is_intent input)} (tables d)" and input: "issue_input_ok input (tables d)"
    and ex: "existing \<in> set (db_receipts (tables d))" "dr_accessIntentId existing = int_id (is_intent input)"
  shows "returns (adoptExisting ops input existing)
    (\<lambda>iss d'. db_receipts (tables d') = db_receipts (tables d) \<and> issuance_ok (tables d')
       \<and> int_id (iss_intent iss) = int_id (is_intent input) \<and> iss_receiptToken iss = None) d"
proof -
  let ?x = "int_id (is_intent input)"
  let ?Q = "\<lambda>iss d'. db_receipts (tables d') = db_receipts (tables d) \<and> issuance_ok (tables d')
     \<and> int_id (iss_intent iss) = ?x \<and> iss_receiptToken iss = None"
  have rest: "returns (andThen (hydrated ops ?x (is_intent input)) (\<lambda>i.
      returnP \<lparr>iss_intent = i, iss_receipt = existing, iss_receiptToken = None\<rparr>)) ?Q d1"
    if "db_receipts (tables d1) = db_receipts (tables d)" "issuance_ok (tables d1)" for d1
    by (intro returns_andThen returns_hydrated) (use that in simp_all)
  show ?thesis
  proof (cases "int_status (is_intent input) = RECEIPT_ISSUED")
    case True
    from input obtain j where "j \<in> set (db_intents (tables d))" "same_intent (is_intent input) j"
      unfolding issue_input_ok_def by blast
    from consistent_marked [OF c this True ex] have "issuance_ok (tables d)" .
    with True rest show ?thesis unfolding adoptExisting_def by (intro returns_andThen) simp
  next
    case False
    have "returns (markAccessIntentVerified ops ?x (dr_issuedAt existing) (Some (dr_issuedAt existing)))
        (\<lambda>_ d1. returns (andThen (hydrated ops ?x (is_intent input)) (\<lambda>i.
           returnP \<lparr>iss_intent = i, iss_receipt = existing, iss_receiptToken = None\<rparr>)) ?Q d1) d"
    proof (rule returns_mark)
      fix d' now i
      assume t: "tables d' = change_intent ?x
          (stamped now (verified_intent (dr_issuedAt existing) (Some (dr_issuedAt existing)))) (tables d)"
      with consistent_mark [OF c] ex have "issuance_ok (tables d')" by auto
      with t show "returns (andThen (hydrated ops ?x (is_intent input)) (\<lambda>i.
          returnP \<lparr>iss_intent = i, iss_receipt = existing, iss_receiptToken = None\<rparr>)) ?Q d'"
        by (intro rest) simp_all
    qed
    then have "returns (andThen (markAccessIntentVerified ops ?x (dr_issuedAt existing)
          (Some (dr_issuedAt existing))) (\<lambda>_. returnP ()))
        (\<lambda>_. returns (andThen (hydrated ops ?x (is_intent input)) (\<lambda>i.
           returnP \<lparr>iss_intent = i, iss_receipt = existing, iss_receiptToken = None\<rparr>)) ?Q) d"
      by (intro returns_andThen) simp
    with False show ?thesis
      unfolding adoptExisting_def by (intro returns_andThen) simp
  qed
qed

lemma returns_finishIssuance:
  assumes c: "consistent {int_id (is_intent input)} (tables d)"
    and r: "receipt \<in> set (db_receipts (tables d))" "dr_accessIntentId receipt = int_id (is_intent input)"
  shows "returns (finishIssuance ops input jti token receipt)
    (\<lambda>iss d'. db_receipts (tables d') = db_receipts (tables d) \<and> issuance_ok (tables d')
       \<and> int_id (iss_intent iss) = int_id (is_intent input)
       \<and> iss_receipt iss = receipt \<and> iss_receiptToken iss = Some token) d"
  unfolding finishIssuance_def
proof (intro returns_andThen returns_mark)
  fix d1 now and i :: intent_row
  let ?f = "stamped now (verified_intent (is_issuedAt input) (Some (is_issuedAt input)))"
  assume t: "tables d1 = change_intent (int_id (is_intent input)) ?f (tables d)"
    and i: "int_id i = int_id (is_intent input)"
  have ok: "issuance_ok (tables d1)" unfolding t by (rule consistent_mark [OF c]) (use r in blast)
  have x: "int_id (?f i) = int_id (is_intent input)" using i by (simp add: stamped_id)
  show "returns (appendEventLog ops (receipt_issue_event ACCESS_INTENT_VERIFIED input (dr_id receipt)
        [(''jti'', JStr jti)]))
      (\<lambda>_. returns (andThen (appendEventLog ops (receipt_issue_event ACCESS_RECEIPT_ISSUED input (dr_id receipt)
          [(''jti'', JStr jti), (''maxRedemptions'', JInt (pol_maxRedemptions (is_policy input)))]))
        (\<lambda>_. andThen (hydrated ops (int_id (?f i)) (is_intent input))
          (\<lambda>i. returnP \<lparr>iss_intent = i, iss_receipt = receipt, iss_receiptToken = Some token\<rparr>)))
        (\<lambda>iss d'. db_receipts (tables d') = db_receipts (tables d) \<and> issuance_ok (tables d')
          \<and> int_id (iss_intent iss) = int_id (is_intent input)
          \<and> iss_receipt iss = receipt \<and> iss_receiptToken iss = Some token)) d1"
    unfolding x
    by (intro returns_andThen returns_event returns_hydrated)
      (use ok in \<open>simp_all add: t\<close>)
qed

text \<open>A receipt of the intent that is found in the tables is adopted.\<close>

lemma returns_adoptFound:
  assumes t: "consistent {int_id (is_intent input)} (tables d)" "issue_input_ok input (tables d)"
      "issued service env input t0 (tables d)"
    and f: "find (matches_receipt (ByAccessIntentId (int_id (is_intent input)))) (db_receipts (tables d)) = Some existing"
  shows "returns (adoptExisting ops input existing)
    (\<lambda>iss d'. issued_result service env input t0 iss (tables d')) d"
proof -
  from f have "existing \<in> set (db_receipts (tables d))" "dr_accessIntentId existing = int_id (is_intent input)"
    by (auto simp: find_Some_iff)
  from returns_adoptExisting [OF t(1,2) this] show ?thesis
    by (rule returns_mono) (use t(3) in \<open>auto simp: issued_result_def issued_def\<close>)
qed

lemma returns_adoptConflicting:
  assumes "consistent {int_id (is_intent input)} (tables d)" and "issue_input_ok input (tables d)"
    and "issued service env input t0 (tables d)"
  shows "returns (adoptConflicting ops input e)
    (\<lambda>iss d'. issued_result service env input t0 iss (tables d')) d"
  unfolding adoptConflicting_def getAccessReceiptByAccessIntentId_def
  by (rule returns_if, simp, rule returns_andThen, rule returns_receipt_find, rule returns_option)
    (use assms in \<open>auto intro: returns_adoptFound\<close>)

lemma returns_createSigned:
  assumes db: "fls_db service = ops"
    and c: "consistent {int_id (is_intent input)} (tables d)" and input: "issue_input_ok input (tables d)"
    and signed: "fls_sign service (receipt_sign_input (fls_runtime service) (ce_uuid env) expiresAt input) = Inr token"
      "expiresAt = is_issuedAt input + pol_receiptTtlSeconds (is_policy input) * 1000"
  shows "returns (createSigned service env input expiresAt token)
    (\<lambda>iss d'. issued_result service env input (tables d) iss (tables d')) d"
  unfolding createSigned_def Let_def db
proof (rule returns_bindP)
  fix r d2
  let ?row = "new_receipt (ce_uuid env) expiresAt (fls_hash service token) input"
  let ?Q = "\<lambda>iss d'. issued_result service env input (tables d) iss (tables d')"
  have row: "issued_row service env input token (?row\<lparr>dr_id := i\<rparr>)" for i
    using signed by (auto simp: issued_row_def Let_def)
  assume "run (createAccessReceipt ops ?row) d = (r, d2)"
  then have op: "receipt_create ops ?row d = (r, d2)" by (simp add: createAccessReceipt_def)
  show "returns (case r of Inr receipt \<Rightarrow> finishIssuance ops input (ce_uuid env) token receipt
      | Inl e \<Rightarrow> adoptConflicting ops input e) ?Q d2"
  proof (cases r)
    case (Inr receipt)
    from receipt_created [OF op [unfolded Inr]]
    have rec: "receipt = ?row\<lparr>dr_id := dr_id receipt\<rparr>" "unique_with receipt (tables d)"
      "tables d2 = add_receipt receipt (tables d)" by auto
    from rec(1) row have "issued_row service env input token receipt" by metis
    with rec(2,3) issued_row_added [OF c input] show ?thesis
      unfolding Inr sum.case
      by (intro returns_mono [OF returns_finishIssuance]) (auto simp: issued_result_def issued_def)
  next
    case (Inl e)
    from receipt_not_created [OF op [unfolded Inl]] consider "tables d2 = tables d"
      | i where "unique_with (?row\<lparr>dr_id := i\<rparr>) (tables d)"
        "tables d2 = add_receipt (?row\<lparr>dr_id := i\<rparr>) (tables d)" by auto
    then have "consistent {int_id (is_intent input)} (tables d2)" "issue_input_ok input (tables d2)"
      "issued service env input (tables d) (tables d2)"
      using c input issued_row_added [OF c input row] row by (cases; auto simp: issued_def)+
    then show ?thesis unfolding Inl sum.case by (rule returns_adoptConflicting)
  qed
qed

text \<open>Issuing a receipt for an intent that is excepted from the invariant restores it.\<close>

lemma returns_issueReceipt:
  assumes db: "fls_db service = ops"
    and c: "consistent {int_id (is_intent input)} (tables d)" and input: "issue_input_ok input (tables d)"
  shows "returns (issueReceiptForIntent service env input)
    (\<lambda>iss d'. issued_result service env input (tables d) iss (tables d')) d"
  unfolding issueReceiptForIntent_def getAccessReceiptByAccessIntentId_def db
proof (intro returns_andThen returns_receipt_find returns_option returns_sum)
  fix d1 existing
  assume "tables d1 = tables d" "find (matches_receipt (ByAccessIntentId (int_id (is_intent input))))
      (db_receipts (tables d)) = Some existing"
  with c input show "returns (adoptExisting ops input existing)
      (\<lambda>iss d'. issued_result service env input (tables d) iss (tables d')) d1"
    by (intro returns_adoptFound) (auto simp: issued_def)
next
  fix d1 and x :: "int \<times> string"
  assume t: "tables d1 = tables d" and "bindE (valid_date (is_issuedAt input + pol_receiptTtlSeconds (is_policy input) * 1000))
      (\<lambda>expiresAt. map_sum id (Pair expiresAt)
         (fls_sign service (receipt_sign_input (fls_runtime service) (ce_uuid env) expiresAt input))) = Inr x"
  then have "fls_sign service (receipt_sign_input (fls_runtime service) (ce_uuid env) (fst x) input) = Inr (snd x)"
    "fst x = is_issuedAt input + pol_receiptTtlSeconds (is_policy input) * 1000"
    by (auto simp: result_simps valid_date_def map_sum_def split: if_splits sum.splits)
  from returns_createSigned [where d = d1, OF db _ _ this] c input t
  show "returns (case x of (expiresAt, token) \<Rightarrow> createSigned service env input expiresAt token)
      (\<lambda>iss d'. issued_result service env input (tables d) iss (tables d')) d1"
    by (simp add: case_prod_beta)
qed simp_all

end

end
