(* ===== verification/Intent_Lifecycle.thy ===== *)
theory Intent_Lifecycle
  imports Issuance_Invariant
begin

text \<open>
  What creating and reconciling an intent does to the tables, and the properties of issuing.
\<close>

section \<open>Statuses\<close>

lemma mapping_state:
  "shouldIssueReceipt (mapFiberRawStatus raw) \<longleftrightarrow> normalizedState (mapFiberRawStatus raw) = PaidVerified"
  "intentStatus (mapFiberRawStatus raw) \<noteq> RECEIPT_ISSUED"
  by (auto simp: mapFiberRawStatus_def Let_def split: option.split)

lemma verification_mapping_state:
  "shouldIssueReceipt (verification_mapping r) \<longleftrightarrow> normalizedState (verification_mapping r) = PaidVerified"
  by (simp add: verification_mapping_def mapping_state(1))

lemma mapping_of_state:
  "shouldIssueReceipt (mapping_of fv) \<longleftrightarrow> normalizedState (mapping_of fv) = PaidVerified"
  "intentStatus (mapping_of fv) \<noteq> RECEIPT_ISSUED"
  by (simp_all add: mapping_of_def verification_mapping_def mapping_state split: option.split)

lemma mapping_of_issue: "shouldIssueReceipt (mapping_of fv) \<Longrightarrow> fv \<noteq> None"
  by (cases fv) (simp_all add: mapping_of_def)

text \<open>An intent without receipt may be given any status but \<open>RECEIPT_ISSUED\<close>.\<close>

lemma consistent_close:
  assumes ok: "issuance_ok t" and i: "i \<in> set (db_intents t)" "int_status i \<noteq> RECEIPT_ISSUED"
    and f: "keeps_intent f" and s: "\<And>j. int_status j \<noteq> RECEIPT_ISSUED \<Longrightarrow> int_status (f j) \<noteq> RECEIPT_ISSUED"
  shows "issuance_ok (change_intent (int_id i) f t)"
proof (rule consistent_change_intent [OF ok f])
  fix j
  assume "j \<in> set (db_intents t)" "int_id j = int_id i"
  then have "j = i" using consistent_same_intent [OF ok] i(1) by blast
  with ok i have "\<not> (\<exists>r \<in> set (db_receipts t). dr_accessIntentId r = int_id i)"
    by (simp add: consistent_def)
  with i(2) s \<open>j = i\<close>
  show "int_status (f j) = RECEIPT_ISSUED \<longleftrightarrow> (\<exists>r \<in> set (db_receipts t). dr_accessIntentId r = int_id i)"
    by simp
qed simp

lemma keeps_status [simp]:
  "keeps_intent (stamped now (\<lambda>r. r\<lparr>int_status := s\<rparr>))"
  "int_status (stamped now (\<lambda>r. r\<lparr>int_status := s\<rparr>) i) = s"
  "keeps_intent (stamped now (\<lambda>r. r\<lparr>int_fiberResponseJson := v\<rparr>))"
  "int_status (stamped now (\<lambda>r. r\<lparr>int_fiberResponseJson := v\<rparr>) i) = int_status i"
  by (simp_all add: keeps_intent_def stamped_def)

section \<open>Creation\<close>

text \<open>The issuance that a creation for a verified payment asks for.\<close>

definition issue_request ::
  "call_env \<Rightarrow> create_intent_input \<Rightarrow> verification_result \<Rightarrow> issue_input \<Rightarrow> bool" where
  "issue_request env input fv issue \<longleftrightarrow>
     is_subject issue = ci_subject input
   \<and> is_paymentRef issue = map_option js_trim (ci_paymentRef input)
   \<and> is_issuedAt issue = settled_or (ce_later env) (Some fv)
   \<and> pol_resourceKey (is_policy issue) = res_key (ci_resource input)
   \<and> pol_resourceType (is_policy issue) = res_type (ci_resource input)
   \<and> int_resourceKey (is_intent issue) = res_key (ci_resource input)
   \<and> int_resourceType (is_intent issue) = res_type (ci_resource input)"

definition paid_answer :: "call_env \<Rightarrow> string option \<Rightarrow> verification_result \<Rightarrow> bool" where
  "paid_answer env paymentRef fv \<longleftrightarrow>
     (\<exists>ref. paymentRef = Some ref \<and> ref \<noteq> [] \<and> ce_fiber env ref = Inr fv
        \<and> shouldIssueReceipt (verification_mapping fv))"

lemma asked_fiber_paid:
  assumes "asked_fiber env p = Inr fv" and "fv = Some r" and "shouldIssueReceipt (verification_mapping r)"
  shows "paid_answer env p r"
  using assms
  by (cases "ce_fiber env (the p)") (auto simp: paid_answer_def asked_fiber_def nonempty_def split: if_splits)

definition creation_issues ::
  "'d fiber_latch_service \<Rightarrow> call_env \<Rightarrow> create_intent_input \<Rightarrow> string \<Rightarrow> db_receipt \<Rightarrow> db \<Rightarrow> db \<Rightarrow> bool"
where
  "creation_issues service env input token row t t' \<longleftrightarrow>
     fls_mode service = FakeMode
   \<and> (\<exists>fv issue. paid_answer env (map_option js_trim (ci_paymentRef input)) fv
        \<and> issue_request env input fv issue \<and> issued_row service env issue token row)
   \<and> unique_with row t \<and> db_receipts t' = db_receipts t @ [row]"

definition creation_effect ::
  "'d fiber_latch_service \<Rightarrow> call_env \<Rightarrow> create_intent_input \<Rightarrow> db \<Rightarrow> create_result \<Rightarrow> db \<Rightarrow> bool" where
  "creation_effect service env input t res t' \<longleftrightarrow>
     issuance_ok t'
   \<and> (db_receipts t' = db_receipts t \<or> (\<exists>token row. creation_issues service env input token row t t'))
   \<and> (\<forall>v token. nv_accessReceipt (cr_accessIntent res) = Some v \<longrightarrow> av_receiptToken v = Some token \<longrightarrow>
        (\<exists>row. creation_issues service env input token row t t' \<and> v = receipt_view_of (Some token) row))"

lemma creation_effect_untouched:
  "issuance_ok t' \<Longrightarrow> db_receipts t' = db_receipts t \<Longrightarrow>
   creation_effect service env input t \<lparr>cr_accessIntent = toAccessIntentView i None r, cr_created = b\<rparr> t'"
  by (cases r) (simp_all add: creation_effect_def toAccessIntentView_def receipt_view_of_def)

context prisma_service
begin

lemma returns_close_created:
  assumes ok: "issuance_ok (tables d)" and i: "i \<in> set (db_intents (tables d))" "int_status i \<noteq> RECEIPT_ISSUED"
    and t: "db_receipts (tables d) = db_receipts t" and s: "s \<noteq> RECEIPT_ISSUED"
  shows "returns (andThen (appendEventLog ops ev) (\<lambda>_.
      andThen (act (intent_update ops (int_id i) (\<lambda>r. r\<lparr>int_status := s\<rparr>))) (\<lambda>closed.
      andThen (hydrated ops (int_id closed) j) returnCreated)))
    (\<lambda>res d'. creation_effect service env input t res (tables d')) d"
proof (intro returns_andThen returns_event returns_intent_update)
  fix d1 d2 now k
  let ?f = "stamped now (\<lambda>r. r\<lparr>int_status := s\<rparr>)"
  assume d1: "tables d1 = add_event ev (tables d)" and d2: "tables d2 = change_intent (int_id i) ?f (tables d1)"
  have "issuance_ok (tables d2)"
    unfolding d2 by (rule consistent_close) (use ok i d1 s in simp_all)
  then show "returns (hydrated ops (int_id (?f k)) j)
      (\<lambda>a. returns (returnCreated a) (\<lambda>res d'. creation_effect service env input t res (tables d'))) d2"
    by (intro returns_hydrated)
      (use d1 d2 t in \<open>simp_all add: returnCreated_def creation_effect_untouched\<close>)
qed

lemma returns_issueCreated:
  assumes db: "fls_db service = ops" and c: "consistent {int_id i} (tables d)"
    and i: "i \<in> set (db_intents (tables d))" "int_resourcePolicyId i = pol_id policy"
      "int_resourceKey i = res_key (ci_resource input)" "int_resourceType i = res_type (ci_resource input)"
      "int_subjectType i = subj_type (ci_subject input)" "int_subjectId i = subj_id (ci_subject input)"
    and p: "pol_resourceKey policy = res_key (ci_resource input)"
      "pol_resourceType policy = res_type (ci_resource input)"
    and t: "db_receipts (tables d) = db_receipts t"
    and paid: "fls_mode service = FakeMode" "paid_answer env (map_option js_trim (ci_paymentRef input)) r"
    and at': "issuedAt = settled_or (ce_later env) (Some r)"
  shows "returns (issueReceiptForIntent service env (created_issue input policy issuedAt i))
    (\<lambda>issued. returns (returnP
       \<lparr>cr_accessIntent = toAccessIntentView (iss_intent issued) (iss_receiptToken issued)
          (Some (iss_receipt issued)), cr_created = True\<rparr>)
       (\<lambda>res d'. creation_effect service env input t res (tables d'))) d"
proof -
  let ?issue = "created_issue input policy issuedAt i"
  have input: "issue_input_ok ?issue (tables d)" and x: "int_id (is_intent ?issue) = int_id i"
    using i by (auto simp: issue_input_ok_def same_intent_def created_issue_def)
  have request: "issue_request env input r ?issue"
    using i p at' by (simp add: issue_request_def created_issue_def)
  have issues: "creation_issues service env input token row t t'"
    if "issued_row service env ?issue token row" "unique_with row (tables d)"
      "db_receipts t' = db_receipts (tables d) @ [row]" for token row t'
    using that paid request t by (auto simp: creation_issues_def unique_with_def)
  have "creation_effect service env input t
      \<lparr>cr_accessIntent = toAccessIntentView (iss_intent iss) (iss_receiptToken iss) (Some (iss_receipt iss)),
       cr_created = True\<rparr> t'"
    if iss: "issued_result service env ?issue (tables d) iss t'" for iss t'
    unfolding creation_effect_def
  proof (intro conjI allI impI)
    show "issuance_ok t'" using iss by (simp add: issued_result_def)
    from iss have "issued service env ?issue (tables d) t'" unfolding issued_result_def by blast
    then show "db_receipts t' = db_receipts t \<or> (\<exists>token row. creation_issues service env input token row t t')"
      using issues t unfolding issued_def by metis
  next
    fix v token
    assume v: "nv_accessReceipt (cr_accessIntent \<lparr>cr_accessIntent = toAccessIntentView (iss_intent iss)
        (iss_receiptToken iss) (Some (iss_receipt iss)), cr_created = True\<rparr>) = Some v" "av_receiptToken v = Some token"
    then have "v = receipt_view_of (Some token) (iss_receipt iss)" "iss_receiptToken iss = Some token"
      by (auto simp: toAccessIntentView_def receipt_view_of_def)
    with iss issues show "\<exists>row. creation_issues service env input token row t t' \<and> v = receipt_view_of (Some token) row"
      unfolding issued_result_def by blast
  qed
  then show ?thesis
    using returns_issueReceipt [OF db _ input, of env] c x by (auto intro: returns_mono)
qed

lemma returns_concludeCreation:
  assumes db: "fls_db service = ops" and c: "consistent {int_id i} (tables d)"
    and i: "i \<in> set (db_intents (tables d))" "int_resourcePolicyId i = pol_id policy"
      "int_resourceKey i = res_key (ci_resource input)" "int_resourceType i = res_type (ci_resource input)"
      "int_subjectType i = subj_type (ci_subject input)" "int_subjectId i = subj_id (ci_subject input)"
    and p: "pol_resourceKey policy = res_key (ci_resource input)"
      "pol_resourceType policy = res_type (ci_resource input)"
    and other: "\<not> should_issue service fv \<Longrightarrow> issuance_ok (tables d) \<and> int_status i \<noteq> RECEIPT_ISSUED"
    and t: "db_receipts (tables d) = db_receipts t"
    and asked: "asked_fiber env (map_option js_trim (ci_paymentRef input)) = Inr fv"
    and at': "issuedAt = settled_or (ce_later env) fv"
  shows "returns (concludeCreation service env input policy issuedAt fv i)
    (\<lambda>res d'. creation_effect service env input t res (tables d')) d"
proof -
  let ?Q = "\<lambda>res d'. creation_effect service env input t res (tables d')"
  consider (expired) "normalizedState (mapping_of fv) = StateExpired"
    | (failed) "normalizedState (mapping_of fv) = StateFailed"
    | (later) "normalizedState (mapping_of fv) \<noteq> StateExpired" "normalizedState (mapping_of fv) \<noteq> StateFailed"
        "\<not> should_issue service fv"
    | (now) "should_issue service fv"
    by blast
  then show ?thesis
  proof cases
    case expired
    then have "\<not> should_issue service fv" by (simp add: should_issue_def mapping_of_state(1))
    with other expired i(1) t show ?thesis
      unfolding concludeCreation_def Let_def db markAccessIntentExpired_def
      by (simp add: returns_close_created)
  next
    case failed
    then have "\<not> should_issue service fv" by (simp add: should_issue_def mapping_of_state(1))
    with other failed i(1) t show ?thesis
      unfolding concludeCreation_def Let_def db markAccessIntentRejected_def
      by (simp add: returns_close_created)
  next
    case later
    have "returns (andThen (hydrated ops (int_id i) i) returnCreated) ?Q d1"
      if "issuance_ok (tables d1)" "db_receipts (tables d1) = db_receipts t" for d1
      by (intro returns_andThen returns_hydrated)
        (use that in \<open>simp_all add: returnCreated_def creation_effect_untouched\<close>)
    with other later t have rest: "returns (andThen (logWhen b ops ev) (\<lambda>_.
        andThen (hydrated ops (int_id i) i) returnCreated)) ?Q d" for b ev
      unfolding logWhen_def by - (rule returns_andThen, rule returns_if, rule returns_event, simp_all)
    from later have "fv = None \<or> \<not> shouldIssueReceipt (mapping_of fv) \<or> fls_mode service = RealMode"
      by (cases "fls_mode service") (simp_all add: should_issue_def)
    with later rest show ?thesis unfolding concludeCreation_def Let_def db by simp
  next
    case now
    then obtain r where r: "fv = Some r" "fls_mode service = FakeMode"
      "shouldIssueReceipt (verification_mapping r)"
      using mapping_of_issue [of fv] by (auto simp: should_issue_def mapping_of_def)
    with asked have paid: "paid_answer env (map_option js_trim (ci_paymentRef input)) r"
      by (blast intro: asked_fiber_paid)
    have "returns (issueReceiptForIntent service env (created_issue input policy issuedAt k))
        (\<lambda>issued. returns (returnP
           \<lparr>cr_accessIntent = toAccessIntentView (iss_intent issued) (iss_receiptToken issued)
              (Some (iss_receipt issued)), cr_created = True\<rparr>) ?Q) d1"
      if d1: "tables d1 = tables d" and k: "k = i" for d1 k
      unfolding k by (rule returns_issueCreated [where d = d1, OF db _ _ _ _ _ _ _ p _ r(2) paid])
        (simp_all add: d1 c i t at' r(1))
    with now r mapping_of_state(1) [of fv] show ?thesis
      unfolding concludeCreation_def Let_def db
      by (auto simp: mapping_of_def intro!: returns_andThen returns_hydrated
          dest: consistent_same_intent [OF c _ i(1)])
  qed
qed

lemma returns_createVerifiedIntent:
  assumes db: "fls_db service = ops" and ok: "issuance_ok (tables d)"
    and p: "pol_resourceKey policy = res_key (ci_resource input)"
      "pol_resourceType policy = res_type (ci_resource input)"
    and pin: "policy \<in> set (db_policies (tables d))"
    and t: "db_receipts (tables d) = db_receipts t"
    and asked: "asked_fiber env (map_option js_trim (ci_paymentRef input)) = Inr fv"
  shows "returns (createVerifiedIntent service env input policy fv)
    (\<lambda>res d'. creation_effect service env input t res (tables d')) d"
proof -
  let ?at = "settled_or (ce_later env) fv"
  have "returns (concludeCreation service env input policy ?at fv row)
      (\<lambda>res d'. creation_effect service env input t res (tables d')) d1"
    if row: "row = (new_intent service ?at expiresAt input policy fv)\<lparr>int_id := int_id row,
        int_createdAt := int_createdAt row, int_updatedAt := int_updatedAt row\<rparr>"
      and u: "intent_unique row (tables d)"
      and d1: "db_receipts (tables d1) = db_receipts (tables d)"
        "db_intents (tables d1) = db_intents (add_intent row (tables d))"
        "\<And>X. consistent X (tables d1) = consistent X (add_intent row (tables d))"
    for row d1 expiresAt
  proof -
    from row obtain a b c where r: "row = (new_intent service ?at expiresAt input policy fv)\<lparr>int_id := a,
        int_createdAt := b, int_updatedAt := c\<rparr>" by blast
    have pol: "policy_for policy row" using p by (simp add: r new_intent_def Let_def policy_for_def)
    have c: "consistent {int_id row} (tables d1)"
      unfolding d1 by (rule consistent_add_intent [OF consistent_mono [OF ok] u _ pin pol]) simp_all
    have other: "issuance_ok (tables d1) \<and> int_status row \<noteq> RECEIPT_ISSUED"
      if "\<not> should_issue service fv"
    proof
      show s: "int_status row \<noteq> RECEIPT_ISSUED"
        using that by (simp add: r new_intent_def Let_def mapping_of_state(2))
      show "issuance_ok (tables d1)"
        unfolding d1 by (rule consistent_add_intent [OF ok u _ pin pol]) (simp add: s)
    qed
    show ?thesis
      by (rule returns_concludeCreation [OF db c _ _ _ _ _ _ p other _ asked refl])
        (simp_all add: d1 t, simp_all add: r new_intent_def Let_def)
  qed
  note conclude = this
  show ?thesis
    unfolding createVerifiedIntent_def Let_def db createAccessIntentRecord_def logWhen_def
    by (intro returns_sum returns_andThen returns_intent_create returns_event returns_if;
        simp only: returns_returnP returns_throwP; rule conclude; (assumption | simp))
qed

lemma returns_createIntentBody:
  assumes db: "fls_db service = ops" and ok: "issuance_ok (tables d)"
  shows "returns (createIntentBody service env input)
    (\<lambda>res d'. creation_effect service env input (tables d) res (tables d')) d"
proof -
  let ?Q = "\<lambda>res d'. creation_effect service env input (tables d) res (tables d')"
  have create: "returns (andThen (ensureResourcePolicy ops (intent_policy service input)) (\<lambda>policy.
      case asked_fiber env (map_option js_trim (ci_paymentRef input)) of
        Inl e \<Rightarrow> throwP e
      | Inr fv \<Rightarrow> createVerifiedIntent service env input policy fv)) ?Q d1"
    if "tables d1 = tables d" for d1
  proof (intro returns_andThen returns_ensureResourcePolicy returns_sum)
    fix p d2 fv
    assume "asked_fiber env (map_option js_trim (ci_paymentRef input)) = Inr fv" "tables d2 = tables d1"
      "p \<in> set (db_policies (tables d1))"
      "matches_policy (ByResource (pi_resourceKey (intent_policy service input))
         (pi_resourceType (intent_policy service input))) p"
    with that ok show "returns (createVerifiedIntent service env input p fv) ?Q d2"
      by (intro returns_createVerifiedIntent [OF db]) (simp_all add: intent_policy_def)
  next
    fix p pdata d2 fv
    assume asked: "asked_fiber env (map_option js_trim (ci_paymentRef input)) = Inr fv"
      and pd: "policy_data (intent_policy service input) = Inr pdata" "p = pdata\<lparr>pol_id := pol_id p\<rparr>"
      and u: "policy_unique p (tables d1)" and d2: "tables d2 = add_policy p (tables d1)"
    have "pol_resourceKey pdata = res_key (ci_resource input)"
      "pol_resourceType pdata = res_type (ci_resource input)"
      using pd(1) by (auto simp: policy_data_def intent_policy_def result_simps)
    moreover obtain i where "p = pdata\<lparr>pol_id := i\<rparr>" using pd(2) by blast
    ultimately have p: "pol_resourceKey p = res_key (ci_resource input)"
      "pol_resourceType p = res_type (ci_resource input)" by simp_all
    from d2 u that ok show "returns (createVerifiedIntent service env input p fv) ?Q d2"
      by (intro returns_createVerifiedIntent [OF db _ p _ _ asked]) (simp_all add: consistent_add_policy)
  qed simp_all
  have existing: "returns (case found of
      Some w \<Rightarrow> returnP \<lparr>cr_accessIntent = toAccessIntentView (iw_intent w) None (iw_accessReceipt w),
        cr_created = False\<rparr>
    | None \<Rightarrow> andThen (ensureResourcePolicy ops (intent_policy service input)) (\<lambda>policy.
        case asked_fiber env (map_option js_trim (ci_paymentRef input)) of
          Inl e \<Rightarrow> throwP e
        | Inr fv \<Rightarrow> createVerifiedIntent service env input policy fv)) ?Q d1"
    if "tables d1 = tables d" for d1 found
    using that ok create by (cases found) (simp_all add: creation_effect_untouched)
  show ?thesis
    unfolding createIntentBody_def Let_def db getAccessIntentByIdempotencyKey_def
    by (rule returns_andThen, rule returns_if, rule returns_intent_find, erule existing,
        erule existing, simp only: returns_returnP, rule existing, rule refl)
qed

end

section \<open>Reconciliation\<close>

text \<open>The issuance that a reconciliation of a stored intent asks for.\<close>

definition reconcile_request ::
  "call_env \<Rightarrow> db \<Rightarrow> verification_result \<Rightarrow> issue_input \<Rightarrow> bool" where
  "reconcile_request env t fv issue \<longleftrightarrow>
     is_intent issue \<in> set (db_intents t) \<and> int_status (is_intent issue) \<noteq> RECEIPT_ISSUED
   \<and> is_policy issue \<in> set (db_policies t) \<and> policy_for (is_policy issue) (is_intent issue)
   \<and> is_subject issue = \<lparr>subj_type = int_subjectType (is_intent issue),
       subj_id = int_subjectId (is_intent issue)\<rparr>
   \<and> is_paymentRef issue = int_paymentRef (is_intent issue)
   \<and> is_issuedAt issue = settled_or (ce_now env) (Some fv)"

definition reconcile_issues ::
  "'d fiber_latch_service \<Rightarrow> call_env \<Rightarrow> db_receipt \<Rightarrow> db \<Rightarrow> db \<Rightarrow> bool" where
  "reconcile_issues service env row t t' \<longleftrightarrow>
     (\<exists>fv issue token. paid_answer env (is_paymentRef issue) fv \<and> reconcile_request env t fv issue
        \<and> issued_row service env issue token row)
   \<and> unique_with row t \<and> db_receipts t' = db_receipts t @ [row]"

definition reconcile_effect ::
  "'d fiber_latch_service \<Rightarrow> call_env \<Rightarrow> db \<Rightarrow> reconcile_outcome \<Rightarrow> db \<Rightarrow> bool" where
  "reconcile_effect service env t outcome t' \<longleftrightarrow>
     issuance_ok t'
   \<and> (db_receipts t' = db_receipts t
      \<or> outcome = OutcomeVerified \<and> (\<exists>row. reconcile_issues service env row t t'))"

lemma reconcile_effect_untouched:
  "issuance_ok t' \<Longrightarrow> db_receipts t' = db_receipts t \<Longrightarrow> reconcile_effect service env t outcome t'"
  by (simp add: reconcile_effect_def)

context prisma_service
begin

lemma returns_close_stored:
  assumes ok: "issuance_ok (tables d)" and i: "j \<in> set (db_intents (tables d))" "int_id j = x"
      "int_status j \<noteq> RECEIPT_ISSUED"
    and t: "db_receipts (tables d) = db_receipts t" and s: "s \<noteq> RECEIPT_ISSUED"
  shows "returns (andThen (appendEventLog ops ev) (\<lambda>_.
      andThen (act (intent_update ops x (\<lambda>r. r\<lparr>int_status := s\<rparr>))) (\<lambda>_. returnP out)))
    (\<lambda>res d'. reconcile_effect service env t res (tables d')) d"
proof (intro returns_andThen returns_event returns_intent_update)
  fix d1 d2 now k
  let ?f = "stamped now (\<lambda>r. r\<lparr>int_status := s\<rparr>)"
  assume d1: "tables d1 = add_event ev (tables d)" and d2: "tables d2 = change_intent x ?f (tables d1)"
  have "issuance_ok (change_intent (int_id j) ?f (tables d1))"
    by (rule consistent_close) (use ok i d1 s in simp_all)
  then show "returns (returnP out) (\<lambda>res d'. reconcile_effect service env t res (tables d')) d2"
    using d1 d2 i(2) t by (simp add: reconcile_effect_untouched)
qed

lemma stored_issue_ok:
  assumes ok: "issuance_ok t" and w: "iw_intent w \<in> set (db_intents t)" "related t (iw_intent w) w"
      "int_status (iw_intent w) \<noteq> RECEIPT_ISSUED"
  shows "reconcile_request env t r (stored_issue env w r)"
    and "pol_id (iw_resourcePolicy w) = int_resourcePolicyId (iw_intent w)"
proof -
  have pol: "iw_resourcePolicy w \<in> set (db_policies t)" and
    pid: "pol_id (iw_resourcePolicy w) = int_resourcePolicyId (iw_intent w)"
    using w(2) by (auto simp: related_def find_Some_iff)
  from ok w(1) obtain p where p: "p \<in> set (db_policies t)" "policy_for p (iw_intent w)"
    unfolding consistent_def by blast
  with pol pid consistent_same_policy [OF ok] have "policy_for (iw_resourcePolicy w) (iw_intent w)"
    by (metis policy_for_def)
  with w pol show "reconcile_request env t r (stored_issue env w r)"
    by (simp add: reconcile_request_def stored_issue_def)
  show "pol_id (iw_resourcePolicy w) = int_resourcePolicyId (iw_intent w)" by (rule pid)
qed

lemma reconcile_effect_issued:
  assumes "issued_result service env issue t2 iss t'" and "db_receipts t2 = db_receipts t"
    and "paid_answer env (is_paymentRef issue) r" and "reconcile_request env t r issue"
  shows "reconcile_effect service env t OutcomeVerified t'"
proof -
  from assms(1) have "issued service env issue t2 t'" "issuance_ok t'"
    unfolding issued_result_def by blast+
  moreover have "unique_with row t2 = unique_with row t" for row
    by (simp add: unique_with_def assms(2))
  ultimately show ?thesis
    using assms(3,4) unfolding reconcile_effect_def reconcile_issues_def issued_def assms(2) by metis
qed

lemma returns_reconcileAnswered:
  assumes db: "fls_db service = ops" and ok: "issuance_ok t"
    and w: "iw_intent w \<in> set (db_intents t)" "related t (iw_intent w) w" "int_status (iw_intent w) \<noteq> RECEIPT_ISSUED"
    and ref: "nonempty (int_paymentRef (iw_intent w))" "ce_fiber env (the (int_paymentRef (iw_intent w))) = Inr r"
    and d: "tables d = change_intent (int_id (iw_intent w)) (stamped now (\<lambda>r. r\<lparr>int_fiberResponseJson := v\<rparr>)) t"
  shows "returns (reconcileAnswered service env w r)
    (\<lambda>res d'. reconcile_effect service env t res (tables d')) d"
proof -
  let ?i = "iw_intent w" and ?f = "stamped now (\<lambda>r. r\<lparr>int_fiberResponseJson := v\<rparr>)"
  let ?issue = "stored_issue env w r"
  have ok2: "issuance_ok (tables d)" and rec: "db_receipts (tables d) = db_receipts t"
    unfolding d using consistent_close [OF ok w(1,3)] by simp_all
  have j: "?f ?i \<in> set (db_intents (tables d))" "int_id (?f ?i) = int_id ?i" "int_status (?f ?i) \<noteq> RECEIPT_ISSUED"
    using w(1,3) by (force simp: d stamped_def)+
  show ?thesis
  proof (cases "normalizedState (verification_mapping r) = PaidVerified")
    case True
    then have paid: "paid_answer env (is_paymentRef ?issue) r"
      using ref by (auto simp: paid_answer_def nonempty_def verification_mapping_state stored_issue_def)
    have input: "issue_input_ok ?issue (tables d)"
      unfolding issue_input_ok_def
      by (intro conjI bexI [OF _ j(1)]) (simp_all add: stored_issue_ok(2) [OF ok w] same_intent_def stamped_def stored_issue_def)
    have "returns (issueReceiptForIntent service env ?issue)
        (\<lambda>_ d'. reconcile_effect service env t OutcomeVerified (tables d')) d"
      by (rule returns_mono [OF returns_issueReceipt [OF db consistent_mono [OF ok2] input]])
        (simp, rule reconcile_effect_issued [OF _ rec paid stored_issue_ok(1) [OF ok w]])
    with True show ?thesis
      unfolding reconcileAnswered_def Let_def db by (intro returns_andThen returns_if) simp_all
  next
    case False
    have "returns (returnP out) (\<lambda>res d'. reconcile_effect service env t res (tables d')) d" for out
      using ok2 rec by (simp add: reconcile_effect_untouched)
    with False show ?thesis
      unfolding reconcileAnswered_def Let_def db markAccessIntentExpired_def markAccessIntentRejected_def
      by - (intro returns_if; (rule returns_close_stored [OF ok2 j rec])?; simp)
  qed
qed

lemma returns_reconcileBody:
  assumes db: "fls_db service = ops" and ok: "issuance_ok (tables d)"
  shows "returns (reconcileBody service env x)
    (\<lambda>res d'. reconcile_effect service env (tables d) res (tables d')) d"
proof -
  let ?Q = "\<lambda>res d'. reconcile_effect service env (tables d) res (tables d')"
  have idle: "returns (returnP out) ?Q d1" if "tables d1 = tables d" for d1 out
    using that ok by (simp add: reconcile_effect_untouched)
  have found: "returns (if iw_accessReceipt w \<noteq> None \<and> int_status (iw_intent w) = RECEIPT_ISSUED
        then returnP OutcomeVerified
        else if \<not> nonempty (int_paymentRef (iw_intent w))
        then reconcileUnpaid ops (ce_now env) (iw_intent w)
        else (case ce_fiber env (the (int_paymentRef (iw_intent w))) of
            Inl e \<Rightarrow> throwP e
          | Inr r \<Rightarrow> andThen (updateAccessIntentFiberResponse ops (int_id (iw_intent w))
                (safeJsonStringify (fiber_response None (Some r)))) (\<lambda>_.
              reconcileAnswered service env w r))) ?Q d1"
    if d1: "tables d1 = tables d"
      and w: "iw_intent w \<in> set (db_intents (tables d))" "related (tables d) (iw_intent w) w" for w d1
  proof (cases "int_status (iw_intent w) = RECEIPT_ISSUED")
    case True
    with ok w(1) obtain r where "r \<in> set (db_receipts (tables d))"
      "dr_accessIntentId r = int_id (iw_intent w)" by (auto simp: consistent_def)
    with w(2) have "iw_accessReceipt w \<noteq> None" by (auto simp: related_def find_None_iff)
    with True idle [OF d1] show ?thesis by simp
  next
    case False
    have "returns (reconcileUnpaid ops (ce_now env) (iw_intent w)) ?Q d1"
      unfolding reconcileUnpaid_def markAccessIntentExpired_def
      by (rule returns_if, rule returns_close_stored [OF _ _ refl False])
        (use ok w(1) d1 idle [OF d1] in simp_all)
    moreover have "returns (andThen (updateAccessIntentFiberResponse ops (int_id (iw_intent w)) v)
        (\<lambda>_. reconcileAnswered service env w r)) ?Q d1"
      if "nonempty (int_paymentRef (iw_intent w))" "ce_fiber env (the (int_paymentRef (iw_intent w))) = Inr r"
      for r v
      unfolding updateAccessIntentFiberResponse_def
      by (intro returns_andThen returns_intent_update returns_reconcileAnswered [OF db ok w False that]) (simp add: d1)
    ultimately show ?thesis using False idle [OF d1] by (auto intro!: returns_if returns_sum)
  qed
  show ?thesis
    unfolding reconcileBody_def Let_def db getAccessIntentById_def
    by (rule returns_andThen, rule returns_intent_find) (use idle found in simp_all)
qed

end

end
