(* ===== verification/Issuance_Samples.thy ===== *)
theory Issuance_Samples
  imports Service_Issuance
begin

text \<open>
  A small service over the relational client, and the runs of it that the witnesses of the properties
  use: a payment that is verified at creation, and one that a reconciliation finds paid.
\<close>

section \<open>The service\<close>

definition sample_runtime :: runtime_config where
  "sample_runtime =
     \<lparr>rt_fiberClientMode = FakeMode, rt_fiberNetwork = ''testnet'', rt_fiberRpcUrl = None,
      rt_fiberRpcAuthToken = None, rt_fiberPollIntervalMs = Fin 15000,
      rt_fiberInvoiceTimeoutSeconds = Fin 900, rt_issuer = ''iss'', rt_audience = ''aud'',
      rt_receiptTtlSeconds = Fin 60, rt_defaultMaxRedemptions = Fin 2, rt_privateJwkJson = None\<rparr>"

definition sample_service_signing ::
  "(sign_input \<Rightarrow> js_exn + string) \<Rightarrow> client_mode \<Rightarrow> db fiber_latch_service" where
  "sample_service_signing sign mode =
     \<lparr>fls_db = relational_client, fls_mode = mode, fls_sign = sign, fls_hash = (\<lambda>t. t),
      fls_runtime = sample_runtime\<rparr>"

abbreviation sample_service_with :: "client_mode \<Rightarrow> db fiber_latch_service" where
  "sample_service_with \<equiv> sample_service_signing (\<lambda>s. Inr (''t'' @ si_jti s))"

definition sample_answer :: "string \<Rightarrow> verification_result" where
  "sample_answer status =
     \<lparr>vr_verified = (status = ''paid''), vr_paymentHash = ''h'', vr_verifiedAt = 0,
      vr_invoiceStatus = (if status = ''paid'' then PAID else UNPAID),
      vr_settledAt = (if status = ''paid'' then Some 0 else None), vr_invoiceAddress = None,
      vr_createdAt = None, vr_lastUpdatedAt = None, vr_failedError = None, vr_fee = None,
      vr_rawStatus = Some status, vr_rawResponse = JNull\<rparr>"

definition sample_env :: "string \<Rightarrow> call_env" where
  "sample_env status =
     \<lparr>ce_now = 0, ce_later = 0, ce_uuid = ''j'', ce_fiber = (\<lambda>ref. Inr (sample_answer status))\<rparr>"

definition sample_input :: create_intent_input where
  "sample_input =
     \<lparr>ci_resource = \<lparr>res_key = ''r'', res_type = API\<rparr>,
      ci_subject = \<lparr>subj_type = END_USER, subj_id = ''u''\<rparr>, ci_paymentRef = Some ''h'',
      ci_idempotencyKey = Some ''k''\<rparr>"

definition empty_db :: db where
  "empty_db = \<lparr>db_receipts = [], db_events = [], db_policies = [], db_intents = []\<rparr>"

lemma sample_mapping:
  "verification_mapping (sample_answer ''paid'') =
     \<lparr>normalizedState = PaidVerified, intentStatus = VERIFIED, shouldIssueReceipt = True,
      isTerminal = False\<rparr>"
  "mapFiberRawStatus None =
     \<lparr>normalizedState = Waiting, intentStatus = PENDING_VERIFICATION, shouldIssueReceipt = False,
      isTerminal = False\<rparr>"
  by code_simp+


definition sample_policy :: policy_row where
  "sample_policy =
     \<lparr>pol_id = ''p'', pol_resourceKey = ''r'', pol_resourceType = API, pol_receiptTtlSeconds = 60,
      pol_maxRedemptions = 2, pol_active = True\<rparr>"

definition sample_intent :: intent_row where
  "sample_intent = (new_intent (sample_service_with FakeMode) 0 60000 sample_input sample_policy
     (Some (sample_answer ''paid'')))\<lparr>int_id := ''i'', int_createdAt := 0, int_updatedAt := 0\<rparr>"

lemma trims: "js_trim ''h'' = ''h''" "js_trim ''k'' = ''k''"
  by code_simp+

lemma sample_service_simps [simp]:
  "fls_db (sample_service_signing sign mode) = relational_client"
  "fls_mode (sample_service_signing sign mode) = mode"
  "map_option js_trim (ci_paymentRef sample_input) = Some ''h''"
  "map_option js_trim (ci_idempotencyKey sample_input) = Some ''k''"
  by (simp_all add: sample_service_signing_def sample_input_def trims)

lemma sample_intent_simps [simp]:
  "int_id sample_intent = ''i''" "int_resourcePolicyId sample_intent = ''p''"
  "int_resourceKey sample_intent = ''r''" "int_resourceType sample_intent = API"
  "int_status sample_intent = RECEIPT_ISSUED"
  by (simp_all add: sample_intent_def new_intent_def Let_def sample_policy_def sample_input_def
      should_issue_def sample_service_signing_def mapping_of_def sample_mapping)

lemma sample_intent_signing:
  "(new_intent (sample_service_signing sign FakeMode) 0 60000 sample_input sample_policy
     (Some (sample_answer ''paid'')))\<lparr>int_id := ''i'', int_createdAt := 0, int_updatedAt := 0\<rparr> = sample_intent"
  by (simp add: sample_intent_def new_intent_def Let_def should_issue_def)

definition sample_issuing :: "intent_row \<Rightarrow> issue_input" where
  "sample_issuing i =
     \<lparr>is_intent = i, is_policy = sample_policy, is_subject = ci_subject sample_input,
      is_paymentRef = Some ''h'', is_issuedAt = 0\<rparr>"

lemma sample_issuing_simps [simp]:
  "is_intent (sample_issuing i) = i" "is_issuedAt (sample_issuing i) = 0"
  "pol_receiptTtlSeconds (is_policy (sample_issuing i)) = 60"
  by (simp_all add: sample_issuing_def sample_policy_def)

lemma relational_steps:
  "run (appendEventLog relational_client e) t = (Inr (), add_event e t)"
  "run (getAccessReceiptByAccessIntentId relational_client x) t =
     (Inr (find (matches_receipt (ByAccessIntentId x)) (db_receipts t)), t)"
  by (simp_all only: appendEventLog_def getAccessReceiptByAccessIntentId_def run_act relational_receipts(3)
      relational_find)

lemma sample_hydrated:
  assumes "db_intents t = [i]" and "int_id i = ''i''" and "int_resourcePolicyId i = ''p''"
    and "db_policies t = [sample_policy]"
  shows "run (hydrated relational_client ''i'' fallback) t = (Inr i, t)"
  using assms
  by (simp add: hydrated_def getAccessIntentById_def run_andThen relational_intent_find with_relations_def
      sample_policy_def)

lemma sample_finish:
  assumes "db_intents t = [j]" and "int_id j = ''i''" "int_resourcePolicyId j = ''p''"
    and "db_policies t = [sample_policy]" and "int_id k = ''i''"
  shows "\<exists>i t'. run (finishIssuance relational_client (sample_issuing k) ''j'' tok row) t
      = (Inr \<lparr>iss_intent = i, iss_receipt = row, iss_receiptToken = Some tok\<rparr>, t')
    \<and> db_receipts t' = db_receipts t"
proof -
  let ?f = "stamped 0 (verified_intent 0 (Some 0))"
  let ?t = "change_intent ''i'' ?f t"
  have mark: "run (markAccessIntentVerified relational_client ''i'' 0 (Some 0)) t = (Inr (?f j), ?t)"
    using assms by (simp add: markAccessIntentVerified_def relational_intent_update)
  have "int_id (?f j) = ''i''" "int_resourcePolicyId (?f j) = ''p''"
    using assms by (simp_all add: stamped_def verified_intent_def)
  then show ?thesis
    using assms
    by (simp add: finishIssuance_def run_andThen mark relational_steps sample_hydrated [of _ "?f j"])
qed

definition sample_receipt_row :: "intent_row \<Rightarrow> string \<Rightarrow> db_receipt" where
  "sample_receipt_row k tok = (new_receipt ''j'' 60000 tok (sample_issuing k))\<lparr>dr_id := ''x''\<rparr>"

lemma sample_receipt_row_simps [simp]:
  "dr_jti (sample_receipt_row k tok) = ''j''" "dr_id (sample_receipt_row k tok) = ''x''"
  by (simp_all add: sample_receipt_row_def new_receipt_def)

lemma sample_issuance:
  assumes "db_receipts t = []" and "db_intents t = [j]" and "int_id j = ''i''"
    and "int_resourcePolicyId j = ''p''" and "db_policies t = [sample_policy]" and "int_id k = ''i''"
    and sign: "sign (receipt_sign_input sample_runtime ''j'' 60000 (sample_issuing k)) = Inr tok"
  shows "\<exists>iss t'. run (issueReceiptForIntent (sample_service_signing sign mode) (sample_env ''paid'') (sample_issuing k)) t
      = (Inr iss, t') \<and> db_receipts t' = [sample_receipt_row k tok]
      \<and> iss_receipt iss = sample_receipt_row k tok \<and> iss_receiptToken iss = Some tok"
proof -
  let ?row = "(new_receipt ''j'' 60000 tok (sample_issuing k))\<lparr>dr_id := ''x''\<rparr>"
  have "unique_with ?row t" using assms(1) by (simp add: unique_with_def)
  then have create: "run (createAccessReceipt relational_client (new_receipt ''j'' 60000 tok (sample_issuing k))) t
      = (Inr ?row, add_receipt ?row t)"
    by (simp add: createAccessReceipt_def relational_receipts fresh_id_def assms(1) Let_def)
  obtain i t' where "run (finishIssuance relational_client (sample_issuing k) ''j'' tok ?row) (add_receipt ?row t)
      = (Inr \<lparr>iss_intent = i, iss_receipt = ?row, iss_receiptToken = Some tok\<rparr>, t')"
    "db_receipts t' = db_receipts t @ [?row]"
    using sample_finish [of "add_receipt ?row t" j k tok ?row] assms by auto
  then show ?thesis
    using assms(1,6)
    by (simp add: issueReceiptForIntent_def createSigned_def Let_def run_andThen run_bindP relational_steps create
        sample_service_signing_def sample_env_def valid_date_def date_limit_def sign
        sample_receipt_row_def)
qed

lemma sample_creation_signing:
  assumes sign: "sign (receipt_sign_input sample_runtime ''j'' 60000 (sample_issuing sample_intent)) = Inr tok"
  shows "\<exists>res t'. run (createAccessIntent (sample_service_signing sign FakeMode) (sample_env ''paid'') sample_input) empty_db
     = (Inr res, t') \<and> db_receipts t' = [sample_receipt_row sample_intent tok]
     \<and> nv_accessReceipt (cr_accessIntent res) = Some (receipt_view_of (Some tok) (sample_receipt_row sample_intent tok))"
proof -
  let ?S = "sample_service_signing sign FakeMode" and ?E = "sample_env ''paid''"
  let ?fv = "Some (sample_answer ''paid'')"
  let ?t1 = "add_policy sample_policy empty_db"
  let ?t2 = "add_intent sample_intent ?t1"
  let ?ev = "creation_event ACCESS_INTENT_CREATED sample_input sample_policy sample_intent
      [(''idempotencyKey'', JStr ''k''), (''invoiceStatus'', JStr ''PAID''), (''rawStatus'', JStr ''paid'')]"
  have pol: "run (ensureResourcePolicy relational_client (intent_policy ?S sample_input)) empty_db
      = (Inr sample_policy, ?t1)"
    by (simp add: ensureResourcePolicy_def run_andThen relational_others relational_creates empty_db_def
        policy_data_def int_column_def intent_policy_def sample_service_signing_def sample_runtime_def
        sample_input_def fresh_policy_id_def policy_unique_def Let_def sample_policy_def)
  have create: "run (createAccessIntentRecord relational_client
      (new_intent ?S 0 60000 sample_input sample_policy ?fv)) ?t1 = (Inr sample_intent, ?t2)"
    by (simp add: createAccessIntentRecord_def relational_creates Let_def empty_db_def fresh_intent_id_def
        intent_unique_def sample_intent_signing)
  obtain iss t' where issue: "run (issueReceiptForIntent ?S ?E (sample_issuing sample_intent)) (add_event ?ev ?t2) = (Inr iss, t')"
    "db_receipts t' = [sample_receipt_row sample_intent tok]"
    "iss_receipt iss = sample_receipt_row sample_intent tok" "iss_receiptToken iss = Some tok"
    using sample_issuance [of "add_event ?ev ?t2" sample_intent sample_intent sign tok FakeMode] sign by (auto simp: empty_db_def)
  have asked: "asked_fiber ?E (Some ''h'') = Inr ?fv"
    by (simp add: asked_fiber_def nonempty_def sample_env_def)
  have conclude: "\<exists>res. run (concludeCreation ?S ?E sample_input sample_policy 0 ?fv sample_intent) (add_event ?ev ?t2)
      = (Inr res, t') \<and> nv_accessReceipt (cr_accessIntent res) = Some (receipt_view_of (Some tok) (sample_receipt_row sample_intent tok))"
    using issue
    by (simp add: concludeCreation_def created_issue_def Let_def run_andThen mapping_of_def sample_mapping sample_hydrated
        toAccessIntentView_def empty_db_def sample_issuing_def [symmetric])
  have "\<exists>res. run (createIntentBody ?S ?E sample_input) empty_db
      = (Inr res, t') \<and> nv_accessReceipt (cr_accessIntent res) = Some (receipt_view_of (Some tok) (sample_receipt_row sample_intent tok))"
  proof -
    have "run (getAccessIntentByIdempotencyKey relational_client ''k'') empty_db = (Inr None, empty_db)"
      by (simp add: getAccessIntentByIdempotencyKey_def relational_intent_find empty_db_def)
    moreover have "run (createVerifiedIntent ?S ?E sample_input sample_policy ?fv) ?t1
        = run (concludeCreation ?S ?E sample_input sample_policy 0 ?fv sample_intent) (add_event ?ev ?t2)"
    proof -
      have "settled_or (ce_later ?E) ?fv = 0" "ce_now ?E + pol_receiptTtlSeconds sample_policy * 1000 = 60000"
        "raw_status_of ?fv = JStr ''paid''" "vr_invoiceStatus (sample_answer ''paid'') = PAID"
        by (simp_all add: settled_or_def sample_env_def sample_answer_def sample_policy_def raw_status_of_def
            string_or_null_def)
      moreover have "string_or_null (Some ''k'') = JStr ''k''" by (simp add: string_or_null_def)
      ultimately show ?thesis
        by (simp add: createVerifiedIntent_def Let_def valid_date_def date_limit_def run_andThen create
            relational_steps logWhen_def mapping_of_def sample_mapping)
    qed
    ultimately show ?thesis
      using conclude by (simp add: createIntentBody_def Let_def run_andThen nonempty_def pol asked)
  qed
  then show ?thesis
    using issue(2) by (auto simp: createAccessIntent_def inTransaction_def run_transaction relational_others)
qed

lemma sample_creation:
  "\<exists>res t'. run (createAccessIntent (sample_service_with FakeMode) (sample_env ''paid'') sample_input) empty_db
     = (Inr res, t') \<and> map dr_jti (db_receipts t') = [''j'']"
proof -
  let ?sign = "\<lambda>s. Inr (''t'' @ si_jti s) :: js_exn + string"
  have "?sign (receipt_sign_input sample_runtime ''j'' 60000 (sample_issuing sample_intent)) = Inr ''tj''"
    by (simp add: receipt_sign_input_def)
  from sample_creation_signing [where sign = ?sign, OF this] show ?thesis
    by (elim exE conjE) (intro exI conjI, assumption, simp)
qed

section \<open>A pending payment\<close>

definition sample_pending :: intent_row where
  "sample_pending =
     \<lparr>int_id = ''i'', int_resourcePolicyId = ''p'', int_resourceKey = ''r'', int_resourceType = API,
      int_subjectType = END_USER, int_subjectId = ''u'', int_paymentRef = Some ''h'',
      int_idempotencyKey = Some ''k'', int_status = PENDING_VERIFICATION, int_verifiedAt = None,
      int_receiptIssuedAt = None, int_expiresAt = Some 60000, int_fiberResponseJson = None,
      int_createdAt = 0, int_updatedAt = 0\<rparr>"

definition pending_db :: db where
  "pending_db =
     \<lparr>db_receipts = [], db_events = [], db_policies = [sample_policy], db_intents = [sample_pending]\<rparr>"

lemma sample_reconciliation:
  "\<exists>t'. run (reconcileSingleAccessIntent (sample_service_with RealMode) (sample_env ''paid'') ''i'') pending_db
     = (Inr OutcomeVerified, t') \<and> map dr_jti (db_receipts t') = [''j'']"
proof -
  let ?S = "sample_service_with RealMode" and ?E = "sample_env ''paid''"
  let ?w = "\<lparr>iw_intent = sample_pending, iw_resourcePolicy = sample_policy, iw_accessReceipt = None\<rparr>"
  let ?f = "stamped 0 (\<lambda>r. r\<lparr>int_fiberResponseJson :=
      safeJsonStringify (fiber_response None (Some (sample_answer ''paid'')))\<rparr>)"
  let ?t = "change_intent ''i'' ?f pending_db"
  have read: "run (getAccessIntentById relational_client ''i'') pending_db = (Inr (Some ?w), pending_db)"
    by (simp add: getAccessIntentById_def relational_intent_find pending_db_def sample_pending_def
        with_relations_def sample_policy_def)
  have store: "run (updateAccessIntentFiberResponse relational_client ''i''
      (safeJsonStringify (fiber_response None (Some (sample_answer ''paid''))))) pending_db
    = (Inr (?f sample_pending), ?t)"
    by (simp add: updateAccessIntentFiberResponse_def relational_intent_update pending_db_def sample_pending_def)
  obtain iss t' where issue: "run (issueReceiptForIntent ?S ?E (sample_issuing sample_pending)) ?t = (Inr iss, t')"
    "db_receipts t' = [sample_receipt_row sample_pending ''tj'']"
    using sample_issuance [of ?t "?f sample_pending" sample_pending "\<lambda>s. Inr (''t'' @ si_jti s)" "''tj''" RealMode]
    by (auto simp: pending_db_def sample_pending_def stamped_def receipt_sign_input_def)
  have input: "\<lparr>is_intent = sample_pending, is_policy = sample_policy,
      is_subject = \<lparr>subj_type = int_subjectType sample_pending, subj_id = int_subjectId sample_pending\<rparr>,
      is_paymentRef = int_paymentRef sample_pending,
      is_issuedAt = settled_or (ce_now ?E) (Some (sample_answer ''paid''))\<rparr> = sample_issuing sample_pending"
    by (simp add: sample_issuing_def sample_pending_def sample_input_def settled_or_def sample_env_def
        sample_answer_def)
  have fields: "int_paymentRef sample_pending = Some ''h''" "int_id sample_pending = ''i''"
    "int_status sample_pending = PENDING_VERIFICATION" "ce_fiber ?E ''h'' = Inr (sample_answer ''paid'')"
    by (simp_all add: sample_pending_def sample_env_def)
  have "run (reconcileAnswered ?S ?E ?w (sample_answer ''paid'')) ?t = (Inr OutcomeVerified, t')"
    using issue(1) by (simp add: reconcileAnswered_def stored_issue_def Let_def sample_mapping run_andThen input)
  then have "run (reconcileBody ?S ?E ''i'') pending_db = (Inr OutcomeVerified, t')"
    by (simp add: reconcileBody_def Let_def run_andThen read store fields nonempty_def)
  with issue(2) show ?thesis
    by (simp add: reconcileSingleAccessIntent_def inTransaction_def run_transaction relational_others)
qed

end
