(* ===== verification/Issuance_Properties.thy ===== *)
theory Issuance_Properties
  imports Intent_Lifecycle Issuance_Samples
begin

text \<open>
  The properties of access intents and of issuing receipts: when a receipt comes into being, what
  holds of the tables under any interleaving, and what the repeated and the bulk operations return.
\<close>

section \<open>Transactions\<close>

context prisma_service
begin

lemma createAccessIntent_tables:
  assumes "fls_db service = ops" and "issuance_ok (tables d)"
    and "run (createAccessIntent service env input) d = (r, d')"
  shows "case r of Inr res \<Rightarrow> creation_effect service env input (tables d) res (tables d')
    | Inl e \<Rightarrow> tables d' = tables d
        \<or> (\<exists>res. creation_effect service env input (tables d) res (tables d'))"
  using transaction_tables [OF assms(3) [unfolded createAccessIntent_def inTransaction_def assms(1)]
      returns_createIntentBody [OF assms(1,2)]] .

lemma reconcileSingle_tables:
  assumes "fls_db service = ops" and "issuance_ok (tables d)"
    and "run (reconcileSingleAccessIntent service env x) d = (r, d')"
  shows "case r of Inr out \<Rightarrow> reconcile_effect service env (tables d) out (tables d')
    | Inl e \<Rightarrow> tables d' = tables d
        \<or> (\<exists>out. reconcile_effect service env (tables d) out (tables d'))"
  using transaction_tables [OF assms(3) [unfolded reconcileSingleAccessIntent_def inTransaction_def assms(1)]
      returns_reconcileBody [OF assms(1,2)]] .

section \<open>The invariant of the tables\<close>

abbreviation keeps_ok :: "('a, 'r) prog \<Rightarrow> bool" where
  "keeps_ok \<equiv> keeps (\<lambda>d. issuance_ok (tables d))"

lemma keeps_intent_read: "keeps_ok (act (intent_findUnique ops k))"
  by (rule keeps_act) (simp add: intent_find)

lemma keeps_receipt_read: "keeps_ok (act (receipt_findUnique ops k))"
  by (rule keeps_act) (simp add: receipt_find)

lemma keeps_event: "keeps_ok (appendEventLog ops ev)"
  unfolding appendEventLog_def
proof (rule keeps_act)
  fix d a d'
  assume "issuance_ok (tables d)" "event_create ops ev d = (a, d')"
  then show "issuance_ok (tables d')" by (cases a) (auto dest: event_created event_not_created)
qed

lemma keeps_redeem_rows [simp]: "keeps_receipt expired_row" "keeps_receipt (redeemed_row b now)"
  by (simp_all add: keeps_receipt_def expired_row_def redeemed_row_def)

lemma keeps_expire: "keeps_ok (setReceiptExpired ops i now)"
  unfolding setReceiptExpired_def
proof (rule keeps_act)
  fix d a d'
  assume "issuance_ok (tables d)" and op: "receipt_update ops i expired_row d = (a, d')"
  with update_receipts [OF op] show "issuance_ok (tables d')"
    by (auto intro!: consistent_change_receipts)
qed

lemma keeps_redeem: "keeps_ok (redeemAccessReceiptAtomically ops i now)"
proof -
  have "keeps_ok (act (receipt_updateMany ops p (redeemed_row b now)))" for p b
  proof (rule keeps_act)
    fix d a d'
    assume "issuance_ok (tables d)" and op: "receipt_updateMany ops p (redeemed_row b now) d = (a, d')"
    with updateMany_receipts [OF op] show "issuance_ok (tables d')"
      by (auto intro!: consistent_change_receipts)
  qed
  then show ?thesis
    unfolding redeemAccessReceiptAtomically_def Let_def
    by (auto intro!: keeps_andThen keeps_receipt_read split: option.split)
qed

lemma keeps_verify: "keeps_ok (verifyAccessReceipt ops verify at' now token)"
  unfolding verifyAccessReceipt_def getAccessReceiptByJti_def
  by (auto intro!: keeps_andThen keeps_receipt_read keeps_expire keeps_event
      split: sum.split option.split bool.split)

lemma keeps_redeemReceipt: "keeps_ok (redeemReceipt ops verify at' now atomicNow token resource subject)"
proof -
  have "keeps_ok (redeemStored ops at' atomicNow resource subject r)" for r
    unfolding redeemStored_def redeemed_events_def getAccessReceiptByJti_def
    by (auto intro!: keeps_andThen keeps_redeem keeps_event keeps_receipt_read split: option.split bool.split)
  then have "keeps_ok (redeemLookedUp ops at' now atomicNow resource subject sig found)" for sig found
    unfolding redeemLookedUp_def by (auto intro!: keeps_andThen keeps_expire split: option.split)
  then show ?thesis
    unfolding redeemReceipt_def getAccessReceiptByJti_def
    by (auto intro!: keeps_andThen keeps_receipt_read split: sum.split option.split bool.split)
qed

lemma keeps_create: "fls_db service = ops \<Longrightarrow> keeps_ok (createAccessIntent service env input)"
  unfolding createAccessIntent_def inTransaction_def transaction_def
proof (rule keeps_act, goal_cases)
  case (1 d a d')
  have "run (createAccessIntent service env input) d = (a, d')"
    using 1(3) by (simp only: createAccessIntent_def inTransaction_def transaction_def run_act)
  from createAccessIntent_tables [OF 1(1,2) this] 1(2) show ?case
    by (cases a) (auto simp: creation_effect_def)
qed

lemma keeps_reconcile: "fls_db service = ops \<Longrightarrow> keeps_ok (reconcileSingleAccessIntent service env x)"
  unfolding reconcileSingleAccessIntent_def inTransaction_def transaction_def
proof (rule keeps_act, goal_cases)
  case (1 d a d')
  have "run (reconcileSingleAccessIntent service env x) d = (a, d')"
    using 1(3) by (simp only: reconcileSingleAccessIntent_def inTransaction_def transaction_def run_act)
  from reconcileSingle_tables [OF 1(1,2) this] 1(2) show ?case
    by (cases a) (auto simp: reconcile_effect_def)
qed

lemma keeps_reconcileOpen:
  assumes "fls_db service = ops"
  shows "keeps_ok (reconcileOpenAccessIntents service env)"
proof -
  have "keeps_ok (reconcileCandidates service env n ws summary)" for n ws summary
    by (induction ws arbitrary: n summary) (auto intro!: keeps_andThen keeps_reconcile assms)
  moreover have "keeps_ok (listReconcilableAccessIntents ops)"
    unfolding listReconcilableAccessIntents_def by (rule keeps_act) (simp add: intents_find)
  ultimately show ?thesis
    unfolding reconcileOpenAccessIntents_def assms by (intro keeps_andThen)
qed

end

section \<open>Rows that were signed\<close>

text \<open>The token was signed with the columns of the row.\<close>

definition signed_with :: "'d fiber_latch_service \<Rightarrow> string \<Rightarrow> db_receipt \<Rightarrow> bool" where
  "signed_with service token row \<longleftrightarrow>
     (\<exists>s. fls_sign service s = Inr token
        \<and> si_issuer s = rt_issuer (fls_runtime service) \<and> si_audience s = rt_audience (fls_runtime service)
        \<and> si_jti s = dr_jti row \<and> si_intentId s = dr_accessIntentId row
        \<and> si_resourceId s = dr_resourceKey row \<and> si_policyId s = dr_resourcePolicyId row
        \<and> si_subjectId s = dr_subjectId row \<and> si_maxRedemptions s = dr_maxRedemptions row
        \<and> si_issuedAt s = dr_issuedAt row \<and> si_notBefore s = dr_nbf row
        \<and> si_expiresAt s = dr_exp row \<and> si_grantType s \<noteq> [])"

text \<open>A new receipt is open and unused, and keeps the digest of its token.\<close>

definition signed_row :: "'d fiber_latch_service \<Rightarrow> db_receipt \<Rightarrow> bool" where
  "signed_row service row \<longleftrightarrow>
     dr_status row = ISSUED \<and> dr_active row \<and> dr_redemptionCount row = 0
   \<and> (\<exists>token. signed_with service token row \<and> dr_receiptTokenHash row = Some (fls_hash service token))"

lemma issued_row_signed:
  assumes "issued_row service env issue token row"
    and "pol_resourceKey (is_policy issue) = int_resourceKey (is_intent issue)"
  shows "signed_with service token row \<and> signed_row service row"
proof -
  let ?x = "is_issuedAt issue + pol_receiptTtlSeconds (is_policy issue) * 1000"
  let ?s = "receipt_sign_input (fls_runtime service) (ce_uuid env) ?x issue"
  from assms(1) obtain i where s: "fls_sign service ?s = Inr token"
    and row: "row = (new_receipt (ce_uuid env) ?x (fls_hash service token) issue)\<lparr>dr_id := i\<rparr>"
    by (auto simp: issued_row_def Let_def)
  have "signed_with service token row"
    unfolding signed_with_def
    by (intro exI [of _ ?s] conjI)
      (use s assms(2) in \<open>simp_all add: row new_receipt_def receipt_sign_input_def\<close>)
  then show ?thesis
    by (auto simp: signed_row_def row new_receipt_def)
qed

lemma creation_issues_row:
  assumes "creation_issues service env input token row t t'"
  shows "fls_mode service = FakeMode \<and> signed_with service token row \<and> signed_row service row
    \<and> dr_resourceKey row = res_key (ci_resource input) \<and> dr_resourceType row = res_type (ci_resource input)
    \<and> dr_subjectType row = subj_type (ci_subject input) \<and> dr_subjectId row = subj_id (ci_subject input)
    \<and> (\<exists>fv. paid_answer env (map_option js_trim (ci_paymentRef input)) fv
         \<and> dr_issuedAt row = settled_or (ce_later env) (Some fv))"
proof -
  from assms obtain fv issue where m: "fls_mode service = FakeMode"
    and fv: "paid_answer env (map_option js_trim (ci_paymentRef input)) fv"
    and q: "issue_request env input fv issue" and row: "issued_row service env issue token row"
    by (auto simp: creation_issues_def)
  have "signed_with service token row \<and> signed_row service row"
    by (rule issued_row_signed [OF row]) (use q in \<open>simp add: issue_request_def\<close>)
  moreover have "dr_resourceKey row = res_key (ci_resource input)"
    "dr_resourceType row = res_type (ci_resource input)"
    "dr_subjectType row = subj_type (ci_subject input)" "dr_subjectId row = subj_id (ci_subject input)"
    "dr_issuedAt row = settled_or (ce_later env) (Some fv)"
    using q row by (auto simp: issue_request_def issued_row_def Let_def new_receipt_def)
  ultimately show ?thesis using m fv by blast
qed

lemma reconcile_issues_row:
  assumes "reconcile_issues service env row t t'"
  shows "signed_row service row
    \<and> (\<exists>i \<in> set (db_intents t). receipt_for i row \<and> int_status i \<noteq> RECEIPT_ISSUED
        \<and> (\<exists>fv. paid_answer env (int_paymentRef i) fv
             \<and> dr_issuedAt row = settled_or (ce_now env) (Some fv)))"
proof -
  from assms obtain fv issue token where fv: "paid_answer env (is_paymentRef issue) fv"
    and q: "reconcile_request env t fv issue" and row: "issued_row service env issue token row"
    by (auto simp: reconcile_issues_def)
  have "signed_with service token row \<and> signed_row service row"
    by (rule issued_row_signed [OF row]) (use q in \<open>simp add: reconcile_request_def policy_for_def\<close>)
  moreover have "receipt_for (is_intent issue) row" "dr_issuedAt row = settled_or (ce_now env) (Some fv)"
    using q row
    by (auto simp: reconcile_request_def policy_for_def receipt_for_def issued_row_def Let_def new_receipt_def)
  ultimately show ?thesis using q fv unfolding reconcile_request_def by metis
qed

section \<open>Counting\<close>

definition summary_adds_up :: "reconciliation_summary \<Rightarrow> bool" where
  "summary_adds_up s \<longleftrightarrow>
     rs_inspected s = rs_verified s + rs_expired s + rs_rejected s + rs_pending s
   \<and> rs_receiptsIssued s = rs_verified s"

lemma counted_adds_up:
  "summary_adds_up s \<Longrightarrow> summary_adds_up (counted out (s\<lparr>rs_inspected := rs_inspected s + 1\<rparr>))"
  by (cases out) (simp_all add: summary_adds_up_def)

lemma counted_fields [simp]:
  "rs_inspected (counted out s) = rs_inspected s"
  "rs_receiptsIssued (counted out s) = rs_receiptsIssued s + (if out = OutcomeVerified then 1 else 0)"
  by (cases out; simp)+

context prisma_service
begin

lemma returns_reconcileCandidates:
  assumes db: "fls_db service = ops" and "issuance_ok (tables d)" and "summary_adds_up s"
  shows "returns (reconcileCandidates service env n ws s)
    (\<lambda>s' d'. summary_adds_up s' \<and> rs_inspected s' = rs_inspected s + length ws
       \<and> issuance_ok (tables d')
       \<and> length (db_receipts (tables d')) + rs_receiptsIssued s
           \<le> length (db_receipts (tables d)) + rs_receiptsIssued s') d"
  using assms(2,3)
proof (induction ws arbitrary: n s d)
  case (Cons w ws)
  have "returns (reconcileSingleAccessIntent service (env n) (int_id (iw_intent w)))
      (\<lambda>out d1. reconcile_effect service (env n) (tables d) out (tables d1)) d"
  proof (rule returnsI)
    fix out d1
    assume "run (reconcileSingleAccessIntent service (env n) (int_id (iw_intent w))) d = (Inr out, d1)"
    from reconcileSingle_tables [OF db Cons.prems(1) this]
    show "reconcile_effect service (env n) (tables d) out (tables d1)" by simp
  qed
  then show ?case
    unfolding reconcileCandidates.simps
  proof (rule returns_andThen [OF returns_mono])
    fix out d1
    assume eff: "reconcile_effect service (env n) (tables d) out (tables d1)"
    let ?s = "counted out (s\<lparr>rs_inspected := rs_inspected s + 1\<rparr>)"
    from eff have ok: "issuance_ok (tables d1)" by (simp add: reconcile_effect_def)
    from eff have "length (db_receipts (tables d1)) + rs_receiptsIssued s
        \<le> length (db_receipts (tables d)) + rs_receiptsIssued ?s"
      by (auto simp: reconcile_effect_def reconcile_issues_def)
    with Cons.IH [OF ok counted_adds_up [OF Cons.prems(2)], of "Suc n" out]
    show "returns (reconcileCandidates service env (Suc n) ws ?s)
        (\<lambda>s' d'. summary_adds_up s' \<and> rs_inspected s' = rs_inspected s + length (w # ws)
           \<and> issuance_ok (tables d')
           \<and> length (db_receipts (tables d')) + rs_receiptsIssued s
               \<le> length (db_receipts (tables d)) + rs_receiptsIssued s') d1"
      by (elim returns_mono) auto
  qed
qed simp

lemma returns_reconcileOpen:
  assumes db: "fls_db service = ops" and "issuance_ok (tables d)"
  shows "returns (reconcileOpenAccessIntents service env)
    (\<lambda>s d'. summary_adds_up s
       \<and> (\<exists>ws. rs_inspected s = length ws \<and> set ws = {w. reconcilable w
             \<and> (\<exists>i \<in> set (db_intents (tables d)). related (tables d) i w)})
       \<and> length (db_receipts (tables d')) \<le> length (db_receipts (tables d)) + rs_receiptsIssued s) d"
  unfolding reconcileOpenAccessIntents_def listReconcilableAccessIntents_def db
proof (rule returns_andThen, rule returns_act)
  fix ws d1
  assume op: "intent_findMany ops reconcilable d = (Inr ws, d1)"
  have t: "tables d1 = tables d" by (rule intents_find [OF op])
  have "summary_adds_up empty_summary" by (simp add: summary_adds_up_def empty_summary_def)
  from returns_reconcileCandidates [OF db _ this, of d1 env 0 ws] assms(2) t intents_found [OF op]
  show "returns (reconcileCandidates service env 0 ws empty_summary)
    (\<lambda>s d'. summary_adds_up s
       \<and> (\<exists>ws. rs_inspected s = length ws \<and> set ws = {w. reconcilable w
             \<and> (\<exists>i \<in> set (db_intents (tables d)). related (tables d) i w)})
       \<and> length (db_receipts (tables d')) \<le> length (db_receipts (tables d)) + rs_receiptsIssued s) d1"
    by (auto simp: empty_summary_def elim!: returns_mono)
qed

end

section \<open>Repeated creations\<close>

context prisma_service
begin

lemma run_repeated_body:
  assumes "fls_db service = ops" and "map_option js_trim (ci_idempotencyKey input) = Some key" and "key \<noteq> []"
    and i: "find (matches_intent (ByIdempotencyKey key)) (db_intents (tables d)) = Some i"
  shows "\<exists>r0 d1. (\<forall>env. run (createIntentBody service env input) d = (r0, d1)) \<and> tables d1 = tables d
    \<and> (\<forall>res. r0 = Inr res \<longrightarrow> res = \<lparr>cr_accessIntent = toAccessIntentView i None
         (find (matches_receipt (ByAccessIntentId (int_id i))) (db_receipts (tables d))), cr_created = False\<rparr>)
    \<and> (\<forall>e. r0 = Inl e \<longrightarrow> intent_findUnique ops (ByIdempotencyKey key) d = (Inl e, d1))"
proof -
  obtain a d1 where f: "intent_findUnique ops (ByIdempotencyKey key) d = (a, d1)" by fastforce
  from assms(2) obtain k where k: "ci_idempotencyKey input = Some k" "js_trim k = key" by auto
  have body: "run (createIntentBody service env input) d = (case a of Inl e \<Rightarrow> (Inl e, d1)
      | Inr found \<Rightarrow> run (case found of
          Some w \<Rightarrow> returnP \<lparr>cr_accessIntent = toAccessIntentView (iw_intent w) None (iw_accessReceipt w),
            cr_created = False\<rparr>
        | None \<Rightarrow> andThen (ensureResourcePolicy ops (intent_policy service input)) (\<lambda>policy.
            case asked_fiber env (map_option js_trim (ci_paymentRef input)) of
              Inl e \<Rightarrow> throwP e
            | Inr fv \<Rightarrow> createVerifiedIntent service env input policy fv)) d1)" for env
    using assms(1,3) f k
    by (simp add: createIntentBody_def Let_def nonempty_def run_andThen getAccessIntentByIdempotencyKey_def)
  note t = intent_find [OF f]
  show ?thesis
  proof (cases a)
    case (Inl e)
    with body t f show ?thesis by auto
  next
    case (Inr found)
    from intent_found [OF f [unfolded Inr]] i obtain w where w: "found = Some w" "related (tables d) i w"
      by auto
    with body Inr t show ?thesis by (auto simp: related_def)
  qed
qed

text \<open>A blank key is not looked up, but it is stored, in a column that is unique.\<close>

lemma returns_blank_repeated:
  assumes db: "fls_db service = ops" and key: "map_option js_trim (ci_idempotencyKey input) = Some []"
    and i: "i \<in> set (db_intents (tables d))" "int_idempotencyKey i = Some []"
  shows "returns (createIntentBody service env input) (\<lambda>_ _. False) d"
proof -
  have clash: "\<not> intent_unique row t"
    if "row = (new_intent service a b input p fv)\<lparr>int_id := int_id row, int_createdAt := int_createdAt row,
        int_updatedAt := int_updatedAt row\<rparr>" "i \<in> set (db_intents t)" for row a b p fv t
  proof -
    from that(1) obtain x y z where "row = (new_intent service a b input p fv)\<lparr>int_id := x, int_createdAt := y,
        int_updatedAt := z\<rparr>" by blast
    then have "int_idempotencyKey row = Some []" using key by (simp add: new_intent_def Let_def)
    with that(2) i(2) show ?thesis by (auto simp: intent_unique_def list_all_iff)
  qed
  have "returns (createVerifiedIntent service env input p fv) (\<lambda>_ _. False) d1"
    if "db_intents (tables d1) = db_intents (tables d)" for p fv d1
    unfolding createVerifiedIntent_def Let_def db createAccessIntentRecord_def
    by (intro returns_sum returns_andThen returns_intent_create; simp add: clash that i(1))
  with key show ?thesis
    unfolding createIntentBody_def Let_def db
    by (auto simp: nonempty_def intro!: returns_andThen returns_ensureResourcePolicy returns_sum)
qed

end

lemma repeated_blank_key_fails:
  assumes "prisma_service (fls_db service) tables" and "map_option js_trim (ci_idempotencyKey input) = Some []"
    and "i \<in> set (db_intents (tables d))" "int_idempotencyKey i = Some []"
    and "run (createAccessIntent service env input) d = (r, d')"
  shows "\<exists>e. r = Inl e"
  using assms(5) returnsD [OF prisma_service.returns_blank_repeated [OF assms(1) refl assms(2-4)], of env]
  by (cases "run (createIntentBody service env input) d"; cases "fst (run (createIntentBody service env input) d)")
    (auto simp: createAccessIntent_def inTransaction_def run_transaction)

section \<open>Properties\<close>

text \<open>Any call of a method of the service that uses the tables, with its result left out.\<close>

definition any_call ::
  "'d fiber_latch_service \<Rightarrow> (string \<Rightarrow> js_exn + signature_result) \<Rightarrow> ('d, js_exn + unit) prog \<Rightarrow> bool"
where
  "any_call service verify p \<longleftrightarrow>
     (\<exists>env input. p = mapP (\<lambda>_. ()) (createAccessIntent service env input))
   \<or> (\<exists>i. p = mapP (\<lambda>_. ()) (getAccessIntent service i))
   \<or> (\<exists>env. p = mapP (\<lambda>_. ()) (reconcileOpenAccessIntents service env))
   \<or> (\<exists>at' now token. p = mapP (\<lambda>_. ()) (verifyAccessReceipt (fls_db service) verify at' now token))
   \<or> (\<exists>at' now atomicNow token resource subject.
        p = mapP (\<lambda>_. ()) (redeemReceipt (fls_db service) verify at' now atomicNow token resource subject))"

lemma any_call_keeps:
  assumes "prisma_service (fls_db service) tables" and "any_call service verify p"
  shows "keeps (\<lambda>d. issuance_ok (tables d)) p"
proof -
  note lib = prisma_service.keeps_create [OF assms(1) refl]
    prisma_service.keeps_reconcileOpen [OF assms(1) refl] prisma_service.keeps_verify [OF assms(1)]
    prisma_service.keeps_redeemReceipt [OF assms(1)]
  have "keeps (\<lambda>d. issuance_ok (tables d)) (getAccessIntent service i)" for i
    unfolding getAccessIntent_def getAccessIntentById_def
    by (intro keeps_andThen prisma_service.keeps_intent_read [OF assms(1)]) simp
  with lib show ?thesis
    using assms(2) unfolding any_call_def mapP_def by (auto intro!: keeps_andThen)
qed

text \<open>
  C31: whatever calls of the service run at the same time, interleaved at every access to the database
  outside a transaction and with other code that keeps the relation: every receipt belongs to an intent
  for the same resource, subject and policy, an intent has the status \<open>RECEIPT_ISSUED\<close> exactly when it
  has a receipt, and no two receipts share an intent, an identity or a token identifier.
\<close>

theorem intents_and_receipts_consistent:
  assumes "prisma_service (fls_db service) tables"
    and "pool_reachable (any_call service verify)
      (\<lambda>d d'. issuance_ok (tables d) \<longrightarrow> issuance_ok (tables d')) d0 ps d"
    and "issuance_ok (tables d0)"
  shows "(\<forall>r \<in> set (db_receipts (tables d)). \<exists>i \<in> set (db_intents (tables d)).
        receipt_for i r \<and> int_status i = RECEIPT_ISSUED)
    \<and> (\<forall>i \<in> set (db_intents (tables d)). int_status i = RECEIPT_ISSUED \<longrightarrow>
        (\<exists>r \<in> set (db_receipts (tables d)). receipt_for i r))
    \<and> distinct (map dr_accessIntentId (db_receipts (tables d)))
    \<and> distinct (map dr_id (db_receipts (tables d))) \<and> distinct (map dr_jti (db_receipts (tables d)))"
proof -
  have ok: "issuance_ok (tables d)"
    using pool_accounts [OF assms(2), where I = "\<lambda>d. issuance_ok (tables d)" and cnt = "\<lambda>_. 0"
        and good = "\<lambda>_. False"] assms(3) any_call_keeps [OF assms(1)]
    by (auto simp: keeps_def)
  have issued: "\<exists>i \<in> set (db_intents (tables d)). receipt_for i r \<and> int_status i = RECEIPT_ISSUED"
    if r: "r \<in> set (db_receipts (tables d))" for r
  proof -
    from ok r obtain i where i: "i \<in> set (db_intents (tables d))" "receipt_for i r"
      unfolding consistent_def by blast
    with ok r have "int_status i = RECEIPT_ISSUED" unfolding consistent_def receipt_for_def by blast
    with i show ?thesis by blast
  qed
  have has: "\<exists>r \<in> set (db_receipts (tables d)). receipt_for i r"
    if i: "i \<in> set (db_intents (tables d))" "int_status i = RECEIPT_ISSUED" for i
  proof -
    from ok i obtain r where r: "r \<in> set (db_receipts (tables d))" "dr_accessIntentId r = int_id i"
      unfolding consistent_def by blast
    with issued obtain j where "j \<in> set (db_intents (tables d))" "receipt_for j r" by blast
    with r consistent_same_intent [OF ok i(1)] have "receipt_for i r" by (metis receipt_for_def)
    with r(1) show ?thesis by blast
  qed
  show ?thesis
  proof (intro conjI ballI impI)
    show "distinct (map dr_accessIntentId (db_receipts (tables d)))"
      "distinct (map dr_id (db_receipts (tables d)))" "distinct (map dr_jti (db_receipts (tables d)))"
      using ok by (simp_all add: consistent_def)
  qed (use issued has in blast)+
qed

theorem intents_and_receipts_consistent_witness:
  "\<exists>(ps :: (db, js_exn + unit) prog list) d r. pool_reachable
     (any_call (sample_service_with FakeMode) (\<lambda>_. Inr sample_signature))
     (\<lambda>d d'. issuance_ok d \<longrightarrow> issuance_ok d') empty_db ps d
   \<and> set (db_receipts d) = {r} \<and> (\<exists>i \<in> set (db_intents d). receipt_for i r \<and> int_status i = RECEIPT_ISSUED)"
proof -
  let ?S = "sample_service_with FakeMode" and ?env = "\<lambda>d d'. issuance_ok d \<longrightarrow> issuance_ok d'"
  let ?p = "mapP (\<lambda>_. ()) (createAccessIntent ?S (sample_env ''paid'') sample_input)"
  obtain res t' where run: "run (createAccessIntent ?S (sample_env ''paid'') sample_input) empty_db = (Inr res, t')"
    and jti: "map dr_jti (db_receipts t') = [''j'']" using sample_creation by (elim exE conjE) (rule that)
  have "any_call ?S (\<lambda>_. Inr sample_signature) ?p" unfolding any_call_def by blast
  moreover have "run ?p empty_db = (Inr (), t')" using run by (simp add: mapP_def run_andThen)
  ultimately have pool: "pool_reachable (any_call ?S (\<lambda>_. Inr sample_signature)) ?env empty_db
      ([] @ [Return (Inr ())]) t'"
    by (rule pool_run [OF pool_reachable.empty])
  have db: "prisma_service (fls_db ?S) (\<lambda>t. t)" by (simp add: relational_service.prisma_service_axioms)
  have "issuance_ok empty_db" by (simp add: consistent_def empty_db_def)
  from jti obtain r where r: "db_receipts t' = [r]" by (auto simp: map_eq_Cons_conv)
  with intents_and_receipts_consistent [where tables = "\<lambda>t. t", OF db pool \<open>issuance_ok empty_db\<close>]
  have "\<exists>i \<in> set (db_intents t'). receipt_for i r \<and> int_status i = RECEIPT_ISSUED" by simp
  with pool r show ?thesis
    by (intro exI [of _ "[] @ [Return (Inr ())]"] exI [of _ t'] exI [of _ r] conjI) simp_all
qed

text \<open>
  C32: creating an intent issues a receipt only with the fake client and for a payment reference that is
  not blank and that the client reports paid; the new receipt is open and unused, is for the requested
  resource and subject, is issued at the settlement date, and a token was signed with its very columns.
\<close>

theorem creation_issues_only_when_paid:
  assumes "prisma_service (fls_db service) tables" and "issuance_ok (tables d)"
    and "run (createAccessIntent service env input) d = (r, d')"
    and "row \<in> set (db_receipts (tables d')) - set (db_receipts (tables d))"
  shows "fls_mode service = FakeMode \<and> signed_row service row
    \<and> dr_resourceKey row = res_key (ci_resource input) \<and> dr_resourceType row = res_type (ci_resource input)
    \<and> dr_subjectType row = subj_type (ci_subject input) \<and> dr_subjectId row = subj_id (ci_subject input)
    \<and> (\<exists>fv. paid_answer env (map_option js_trim (ci_paymentRef input)) fv
         \<and> dr_issuedAt row = settled_or (ce_later env) (Some fv))"
proof -
  from prisma_service.createAccessIntent_tables [OF assms(1) refl assms(2,3)] assms(4)
  obtain res where "creation_effect service env input (tables d) res (tables d')"
    by (auto split: sum.splits)
  with assms(4) obtain token row' where i: "creation_issues service env input token row' (tables d) (tables d')"
    by (auto simp: creation_effect_def)
  with assms(4) have "row' = row" by (auto simp: creation_issues_def)
  with creation_issues_row [OF i] show ?thesis by simp
qed

theorem creation_issues_only_when_paid_witness:
  "\<exists>res d' row. run (createAccessIntent (sample_service_with FakeMode) (sample_env ''paid'') sample_input) empty_db
     = (Inr res, d') \<and> db_receipts d' = [row] \<and> signed_row (sample_service_with FakeMode) row"
proof -
  let ?S = "sample_service_with FakeMode"
  obtain res t' where run: "run (createAccessIntent ?S (sample_env ''paid'') sample_input) empty_db = (Inr res, t')"
    and jti: "map dr_jti (db_receipts t') = [''j'']" using sample_creation by (elim exE conjE) (rule that)
  from jti obtain row where row: "db_receipts t' = [row]" by (auto simp: map_eq_Cons_conv)
  have db: "prisma_service (fls_db ?S) (\<lambda>t. t)" by (simp add: relational_service.prisma_service_axioms)
  have ok: "issuance_ok empty_db" by (simp add: consistent_def empty_db_def)
  have "row \<in> set (db_receipts t') - set (db_receipts empty_db)" using row by (simp add: empty_db_def)
  from creation_issues_only_when_paid [where tables = "\<lambda>t. t", OF db ok run this] run row
  show ?thesis by blast
qed

text \<open>
  C33: a reconciliation issues a receipt only for a stored intent without one, whose payment reference
  the Fiber client reports paid; the receipt is open and unused, belongs to that intent in resource,
  subject and policy, is issued at the settlement date, and a token was signed with its very columns.
\<close>

theorem reconciliation_issues_only_when_paid:
  assumes "prisma_service (fls_db service) tables" and "issuance_ok (tables d)"
    and "run (reconcileSingleAccessIntent service env x) d = (r, d')"
    and "row \<in> set (db_receipts (tables d')) - set (db_receipts (tables d))"
  shows "signed_row service row
    \<and> (\<exists>i \<in> set (db_intents (tables d)). receipt_for i row \<and> int_status i \<noteq> RECEIPT_ISSUED
        \<and> (\<exists>fv. paid_answer env (int_paymentRef i) fv
             \<and> dr_issuedAt row = settled_or (ce_now env) (Some fv)))"
proof -
  from prisma_service.reconcileSingle_tables [OF assms(1) refl assms(2,3)] assms(4)
  obtain out where "reconcile_effect service env (tables d) out (tables d')"
    by (auto split: sum.splits)
  with assms(4) obtain row' where i: "reconcile_issues service env row' (tables d) (tables d')"
    by (auto simp: reconcile_effect_def)
  with assms(4) have "row' = row" by (auto simp: reconcile_issues_def)
  with reconcile_issues_row [OF i] show ?thesis by simp
qed

theorem reconciliation_issues_only_when_paid_witness:
  "\<exists>d' row. run (reconcileSingleAccessIntent (sample_service_with RealMode) (sample_env ''paid'') ''i'') pending_db
     = (Inr OutcomeVerified, d') \<and> db_receipts d' = [row] \<and> signed_row (sample_service_with RealMode) row"
proof -
  let ?S = "sample_service_with RealMode"
  obtain t' where run: "run (reconcileSingleAccessIntent ?S (sample_env ''paid'') ''i'') pending_db = (Inr OutcomeVerified, t')"
    and jti: "map dr_jti (db_receipts t') = [''j'']" using sample_reconciliation by (elim exE conjE) (rule that)
  from jti obtain row where row: "db_receipts t' = [row]" by (auto simp: map_eq_Cons_conv)
  have db: "prisma_service (fls_db ?S) (\<lambda>t. t)" by (simp add: relational_service.prisma_service_axioms)
  have ok: "issuance_ok pending_db"
    by (simp add: consistent_def pending_db_def sample_pending_def sample_policy_def policy_for_def)
  have "row \<in> set (db_receipts t') - set (db_receipts pending_db)" using row by (simp add: pending_db_def)
  from reconciliation_issues_only_when_paid [where tables = "\<lambda>t. t", OF db ok run this] run row
  show ?thesis by blast
qed

text \<open>
  C34: a creation whose idempotency key is not blank and, trimmed, is that of a stored intent changes no
  table and returns that intent with its receipt and no token; it throws only the error of a failed
  lookup of the key or of a failed commit, and neither its clock nor the Fiber client matters. (A blank
  key is outside the contract: it is not looked up, see \<open>repeated_blank_key_fails\<close>.)
\<close>

theorem repeated_creation_returns_stored_intent:
  assumes "prisma_service (fls_db service) tables"
    and "map_option js_trim (ci_idempotencyKey input) = Some key" and "key \<noteq> []"
    and "find (matches_intent (ByIdempotencyKey key)) (db_intents (tables d)) = Some i"
    and "run (createAccessIntent service env input) d = (r, d')"
  shows "tables d' = tables d
    \<and> (case r of
         Inr res \<Rightarrow> \<not> cr_created res \<and> cr_accessIntent res
           = toAccessIntentView i None (find (matches_receipt (ByAccessIntentId (int_id i))) (db_receipts (tables d)))
       | Inl e \<Rightarrow> (\<exists>d1. intent_findUnique (fls_db service) (ByIdempotencyKey key) d = (Inl e, d1))
           \<or> (\<exists>d1 d2. tx_commit (fls_db service) d d1 = (Inl e, d2)))
    \<and> run (createAccessIntent service env' input) d = (r, d')"
proof -
  from prisma_service.run_repeated_body [OF assms(1) refl assms(2-4)] obtain r0 d1 where
    body: "\<And>env. run (createIntentBody service env input) d = (r0, d1)" and t: "tables d1 = tables d"
    and res: "\<And>res. r0 = Inr res \<Longrightarrow> res = \<lparr>cr_accessIntent = toAccessIntentView i None
      (find (matches_receipt (ByAccessIntentId (int_id i))) (db_receipts (tables d))), cr_created = False\<rparr>"
    and failed: "\<And>e. r0 = Inl e \<Longrightarrow> intent_findUnique (fls_db service) (ByIdempotencyKey key) d = (Inl e, d1)"
    by blast
  have same: "run (createAccessIntent service env' input) d = run (createAccessIntent service env input) d"
    by (simp add: createAccessIntent_def inTransaction_def run_transaction body)
  show ?thesis
  proof (cases r0)
    case (Inl e)
    with assms(5) have "r = Inl e" "d' = tx_rollback (fls_db service) d d1"
      by (simp_all add: createAccessIntent_def inTransaction_def run_transaction body)
    with same assms(5) failed [OF Inl] prisma_service.rolled_back [OF assms(1)] show ?thesis by auto
  next
    case (Inr a)
    obtain c d2 where c: "tx_commit (fls_db service) d d1 = (c, d2)" by fastforce
    from prisma_service.commit_tables [OF assms(1) c] t have "tables d2 = tables d" by auto
    with assms(5) Inr c res [OF Inr] same show ?thesis
      by (cases c) (auto simp: createAccessIntent_def inTransaction_def run_transaction body)
  qed
qed

theorem repeated_creation_returns_stored_intent_witness:
  "\<exists>res. run (createAccessIntent (sample_service_with RealMode) (sample_env ''paid'') sample_input) pending_db
     = (Inr res, pending_db) \<and> \<not> cr_created res \<and> nv_id (cr_accessIntent res) = ''i''"
proof -
  let ?S = "sample_service_with RealMode"
  obtain r d' where run: "run (createAccessIntent ?S (sample_env ''paid'') sample_input) pending_db = (r, d')"
    by fastforce
  have db: "prisma_service (fls_db ?S) (\<lambda>t. t)" by (simp add: relational_service.prisma_service_axioms)
  have key: "map_option js_trim (ci_idempotencyKey sample_input) = Some ''k''" "''k'' \<noteq> []" by simp_all
  have found: "find (matches_intent (ByIdempotencyKey ''k'')) (db_intents pending_db) = Some sample_pending"
    by (simp add: pending_db_def sample_pending_def)
  have "intent_findUnique relational_client (ByIdempotencyKey ''k'') pending_db
      = (Inr (with_relations pending_db sample_pending), pending_db)"
    by (simp only: relational_intent_find found option.case)
      (simp add: with_relations_def pending_db_def sample_pending_def sample_policy_def)
  with repeated_creation_returns_stored_intent [where tables = "\<lambda>t. t", OF db key found run] run
  show ?thesis by (cases r) (auto simp: toAccessIntentView_def sample_pending_def relational_others)
qed

text \<open>
  C35: a reconciliation that returns has looked at every reconcilable intent, and each one is counted
  under exactly one outcome; it counts a receipt for each verified intent, and issued no more receipts
  than it counts.
\<close>

theorem reconciliation_counts_every_candidate:
  assumes "prisma_service (fls_db service) tables" and "issuance_ok (tables d)"
    and "run (reconcileOpenAccessIntents service env) d = (Inr s, d')"
  shows "rs_inspected s = rs_verified s + rs_expired s + rs_rejected s + rs_pending s
    \<and> rs_receiptsIssued s = rs_verified s
    \<and> (\<exists>ws. rs_inspected s = length ws \<and> set ws = {w. reconcilable w
          \<and> (\<exists>i \<in> set (db_intents (tables d)). related (tables d) i w)})
    \<and> length (db_receipts (tables d')) \<le> length (db_receipts (tables d)) + rs_receiptsIssued s"
  using returnsD [OF prisma_service.returns_reconcileOpen [OF assms(1) refl assms(2)] assms(3)]
  unfolding summary_adds_up_def by blast

theorem reconciliation_counts_every_candidate_witness:
  "\<exists>s d'. run (reconcileOpenAccessIntents (sample_service_with RealMode) (\<lambda>n. sample_env ''paid'')) pending_db
     = (Inr s, d') \<and> rs_inspected s = 1 \<and> rs_inspected s = rs_verified s + rs_expired s + rs_rejected s + rs_pending s"
proof -
  let ?S = "sample_service_with RealMode"
  obtain t' where one: "run (reconcileSingleAccessIntent ?S (sample_env ''paid'') ''i'') pending_db = (Inr OutcomeVerified, t')"
    using sample_reconciliation by (elim exE conjE) (rule that)
  let ?w = "\<lparr>iw_intent = sample_pending, iw_resourcePolicy = sample_policy, iw_accessReceipt = None\<rparr>"
  have "run (listReconcilableAccessIntents relational_client) pending_db = (Inr [?w], pending_db)"
  proof -
    have "with_relations pending_db sample_pending = Some ?w" "db_intents pending_db = [sample_pending]"
      "reconcilable ?w"
      by (simp_all add: pending_db_def with_relations_def sample_pending_def sample_policy_def reconcilable_def)
    then show ?thesis
      by (simp only: listReconcilableAccessIntents_def run_act relational_intent_many)
        (simp add: List.map_filter_def)
  qed
  moreover have "int_id sample_pending = ''i''" by (simp add: sample_pending_def)
  ultimately have run: "run (reconcileOpenAccessIntents ?S (\<lambda>n. sample_env ''paid'')) pending_db
      = (Inr (counted OutcomeVerified (empty_summary\<lparr>rs_inspected := 1\<rparr>)), t')"
    using one by (simp add: reconcileOpenAccessIntents_def run_andThen empty_summary_def)
  have db: "prisma_service (fls_db ?S) (\<lambda>t. t)" by (simp add: relational_service.prisma_service_axioms)
  have ok: "issuance_ok pending_db"
    by (simp add: consistent_def pending_db_def sample_pending_def sample_policy_def policy_for_def)
  from reconciliation_counts_every_candidate [where tables = "\<lambda>t. t", OF db ok run] run
  show ?thesis by (simp add: empty_summary_def)
qed

end
