(* ===== verification/Legacy_Signer.thy ===== *)
theory Legacy_Signer
  imports Redemption_Policy Ed25519_Jwk Receipt_Claims
begin

text \<open>
  The signer of the historical service (\<^verbatim>\<open>src/integrations/receipts/jwt-access-receipt-signer.ts\<close>) and
  its keys (\<^verbatim>\<open>src/config/signing-key.ts\<close>). The JOSE library and the schema library are parameters, as
  in the access package; what \<open>importJWK\<close> resolves with is taken as a key, as the source casts it.
\<close>

section \<open>Keys\<close>

record 'k key_material =
  km_privateKey :: 'k
  km_publicKey :: 'k
  km_publicJwk :: jsval
  km_kid :: jsval

text \<open>\<open>JSON.parse\<close> and the functions of the JOSE library that the loader calls.\<close>

record 'k key_tools =
  kt_parse :: "string \<Rightarrow> js_exn + jsval"
  kt_importJWK :: "jsval \<Rightarrow> string \<Rightarrow> js_exn + 'k"
  kt_exportJWK :: "'k \<Rightarrow> js_exn + jsval"
  kt_thumbprint :: "jsval \<Rightarrow> js_exn + string"
  kt_generateKeyPair :: "string \<Rightarrow> js_exn + 'k \<times> 'k"
  kt_importPKCS8 :: "string \<Rightarrow> string \<Rightarrow> js_exn + 'k"

definition nullish :: "jsval \<Rightarrow> bool" where
  "nullish v \<longleftrightarrow> v = JUndef \<or> v = JNull"

definition toPublicJwk :: "jsval \<Rightarrow> jsval \<Rightarrow> jsval" where
  "toPublicJwk jwk kid = JObj
     [(''kty'', if nullish (js_get jwk ''kty'') then JStr ''OKP'' else js_get jwk ''kty''),
      (''crv'', js_get jwk ''crv''), (''x'', js_get jwk ''x''), (''use'', JStr ''sig''),
      (''alg'', JStr ''EdDSA''), (''kid'', kid)] []"

definition isLikelyPem :: "string \<Rightarrow> bool" where
  "isLikelyPem value \<longleftrightarrow>
     js_includes value ''BEGIN PRIVATE KEY'' \<or> js_includes value ''BEGIN ENCRYPTED PRIVATE KEY''"

definition loadReceiptSigningKeyMaterial ::
  "'k key_tools \<Rightarrow> string option \<Rightarrow> js_exn + 'k key_material" where
  "loadReceiptSigningKeyMaterial tools privateJwkJson =
     (case privateJwkJson of
        Some (c # cs) \<Rightarrow>
          bindE (kt_parse tools (c # cs)) (\<lambda>parsed.
          bindE (kt_importJWK tools parsed ''EdDSA'') (\<lambda>privateKey.
          bindE (kt_exportJWK tools privateKey) (\<lambda>exportedJwk.
          bindE (if nullish (js_get parsed ''kid'') then map_sum id JStr (kt_thumbprint tools exportedJwk)
                 else Inr (js_get parsed ''kid'')) (\<lambda>kid.
          (let publicJwk = toPublicJwk exportedJwk kid in
           bindE (kt_importJWK tools publicJwk ''EdDSA'') (\<lambda>publicKey.
           Inr \<lparr>km_privateKey = privateKey, km_publicKey = publicKey, km_publicJwk = publicJwk,
                km_kid = kid\<rparr>))))))
      | _ \<Rightarrow>
          bindE (kt_generateKeyPair tools ''Ed25519'') (\<lambda>(privateKey, publicKey).
          bindE (kt_exportJWK tools publicKey) (\<lambda>publicJwk.
          bindE (kt_thumbprint tools publicJwk) (\<lambda>kid.
          Inr \<lparr>km_privateKey = privateKey, km_publicKey = publicKey,
               km_publicJwk = toPublicJwk publicJwk (JStr kid), km_kid = JStr kid\<rparr>))))"

definition importOptionalPrivateKeyPem :: "'k key_tools \<Rightarrow> string \<Rightarrow> js_exn + 'k" where
  "importOptionalPrivateKeyPem tools pem =
     (if \<not> isLikelyPem pem then Inl (JSError ''Unsupported private key format'')
      else kt_importPKCS8 tools pem ''EdDSA'')"

section \<open>Signing\<close>

text \<open>The payload that the builder calls of \<open>SignJWT\<close> put together.\<close>

definition legacy_payload :: "legacy_claims \<Rightarrow> jsval" where
  "legacy_payload c = JObj
     [(''intent_id'', JStr (lc_intent_id c)), (''resource_id'', JStr (lc_resource_id c)),
      (''policy_id'', JStr (lc_policy_id c)), (''payment_ref'', payment_ref_val (lc_payment_ref c)),
      (''grant_type'', JStr (lc_grant_type c)), (''max_redemptions'', JInt (lc_max_redemptions c)),
      (''iss'', JStr (lc_iss c)), (''sub'', JStr (lc_sub c)), (''aud'', JStr (lc_aud c)),
      (''iat'', JInt (lc_iat c)), (''nbf'', JInt (lc_nbf c)), (''exp'', JInt (lc_exp c)),
      (''jti'', JStr (lc_jti c))] []"

definition legacy_header :: "jsval \<Rightarrow> jsval" where
  "legacy_header kid =
     JObj [(''alg'', JStr ''EdDSA''), (''kid'', kid), (''typ'', JStr ''JWT'')] []"

record signed_access_receipt =
  sa_token :: string
  sa_claims :: legacy_claims

definition legacySign ::
  "'k jose_lib \<Rightarrow> 'k key_material \<Rightarrow> sign_input \<Rightarrow> js_exn + signed_access_receipt" where
  "legacySign lib keys input =
     (let claims = buildLegacyClaims input in
      bindE (signJWT lib (legacy_payload claims) (legacy_header (km_kid keys)) (km_privateKey keys))
        (\<lambda>token. Inr \<lparr>sa_token = token, sa_claims = claims\<rparr>))"

section \<open>Verification\<close>

definition LegacyClaimsSchema :: zod_type where
  "LegacyClaimsSchema = ZObject
     [(''iss'', ZString [SMin 1]), (''sub'', ZString [SMin 1]), (''aud'', ZString [SMin 1]),
      (''iat'', ZNumber [NInt]), (''nbf'', ZNumber [NInt]), (''exp'', ZNumber [NInt]),
      (''jti'', ZString [SMin 1]), (''intent_id'', ZString [SMin 1]),
      (''resource_id'', ZString [SMin 1]), (''policy_id'', ZString [SMin 1]),
      (''payment_ref'', ZNullable (ZString [])), (''grant_type'', ZString [SMin 1]),
      (''max_redemptions'', ZNumber [NInt, NPositive])]"

definition legacy_options :: "string \<Rightarrow> string \<Rightarrow> jwt_options" where
  "legacy_options expectedIssuer expectedAudience =
     \<lparr>opt_algorithms = [''EdDSA''], opt_issuer = expectedIssuer, opt_audience = expectedAudience,
      opt_typ = None, opt_clock_tolerance = 0, opt_required_claims = []\<rparr>"

text \<open>The typed reading of what the schema returns.\<close>

definition read_claims :: "jsval \<Rightarrow> legacy_claims" where
  "read_claims v =
     (let str = (\<lambda>k. the_string (js_get v k)); int' = (\<lambda>k. the_int (js_get v k)) in
      \<lparr>lc_iss = str ''iss'', lc_sub = str ''sub'', lc_aud = str ''aud'', lc_iat = int' ''iat'',
       lc_nbf = int' ''nbf'', lc_exp = int' ''exp'', lc_jti = str ''jti'',
       lc_intent_id = str ''intent_id'', lc_resource_id = str ''resource_id'',
       lc_policy_id = str ''policy_id'',
       lc_payment_ref = (case js_get v ''payment_ref'' of JStr s \<Rightarrow> Some s | _ \<Rightarrow> None),
       lc_grant_type = str ''grant_type'', lc_max_redemptions = int' ''max_redemptions''\<rparr>)"

record verified_access_receipt =
  va_verified :: bool
  va_claims :: "legacy_claims option"
  va_reason :: "string option"

text \<open>The reason given for an exception, by its \<open>name\<close>; a failed schema is the last case.\<close>

fun legacy_reason :: "js_exn \<Rightarrow> string" where
  "legacy_reason (JoseError JWTExpired) = ''RECEIPT_EXPIRED''"
| "legacy_reason (JoseError (JWTClaimValidationFailed c)) = ''RECEIPT_CLAIMS_INVALID''"
| "legacy_reason e = ''INVALID_RECEIPT_TOKEN''"

definition refused :: "string \<Rightarrow> verified_access_receipt" where
  "refused reason = \<lparr>va_verified = False, va_claims = None, va_reason = Some reason\<rparr>"

definition legacyVerify ::
  "safe_parse \<Rightarrow> 'k jose_lib \<Rightarrow> int \<Rightarrow> 'k key_material \<Rightarrow> string \<Rightarrow> string \<Rightarrow> string
     \<Rightarrow> verified_access_receipt" where
  "legacyVerify sp lib now keys expectedIssuer expectedAudience token =
     (case jwtVerify lib now token (km_publicKey keys) (legacy_options expectedIssuer expectedAudience) of
        Inl e \<Rightarrow> refused (legacy_reason e)
      | Inr payload \<Rightarrow>
          (case sp LegacyClaimsSchema
                  (object_spread payload (JObj [(''payment_ref'',
                     if nullish (js_get payload ''payment_ref'') then JNull
                     else js_get payload ''payment_ref'')] [])) of
             Inl e \<Rightarrow> refused (legacy_reason e)
           | Inr (Inl issues) \<Rightarrow> refused ''INVALID_RECEIPT_TOKEN''
           | Inr (Inr out) \<Rightarrow>
               \<lparr>va_verified = True, va_claims = Some (read_claims out), va_reason = None\<rparr>))"

text \<open>What the service reads of it.\<close>

definition signature_of :: "verified_access_receipt \<Rightarrow> signature_result" where
  "signature_of v =
     \<lparr>sr_verified = va_verified v,
      sr_claims = map_option (\<lambda>c. \<lparr>sc_jti = lc_jti c, sc_intent_id = lc_intent_id c,
        sc_resource_id = lc_resource_id c, sc_policy_id = lc_policy_id c, sc_sub = lc_sub c,
        sc_max_redemptions = lc_max_redemptions c\<rparr>) (va_claims v),
      sr_reason = va_reason v\<rparr>"

definition getPublicJwks :: "'k key_material \<Rightarrow> jsval" where
  "getPublicJwks keys =
     JObj [(''keys'', JArr [object_spread (km_publicJwk keys) (JObj [] [])])] []"

section \<open>A signed token verifies\<close>

definition well_formed_claims :: "legacy_claims \<Rightarrow> bool" where
  "well_formed_claims c \<longleftrightarrow>
     list_all (\<lambda>s. s \<noteq> []) [lc_iss c, lc_sub c, lc_aud c, lc_jti c, lc_intent_id c, lc_resource_id c,
       lc_policy_id c, lc_grant_type c] \<and> 0 < lc_max_redemptions c"

lemma legacy_payload_get:
  "js_get (legacy_payload c) ''iss'' = JStr (lc_iss c)" "js_get (legacy_payload c) ''aud'' = JStr (lc_aud c)"
  "js_get (legacy_payload c) ''nbf'' = JInt (lc_nbf c)" "js_get (legacy_payload c) ''exp'' = JInt (lc_exp c)"
  "js_get (legacy_payload c) ''payment_ref'' = payment_ref_val (lc_payment_ref c)"
  by (simp_all add: legacy_payload_def)

lemma legacy_payload_spread:
  "object_spread (legacy_payload c) (JObj [(''payment_ref'',
     if nullish (js_get (legacy_payload c) ''payment_ref'') then JNull
     else js_get (legacy_payload c) ''payment_ref'')] []) = legacy_payload c"
proof -
  have "(if nullish (payment_ref_val p) then JNull else payment_ref_val p) = payment_ref_val p" for p
    by (cases p) (simp_all add: payment_ref_val_def nullish_def)
  then have "(if nullish (js_get (legacy_payload c) ''payment_ref'') then JNull
      else js_get (legacy_payload c) ''payment_ref'') = payment_ref_val (lc_payment_ref c)"
    by (simp only: legacy_payload_get)
  moreover have "object_spread (legacy_payload c) (JObj [(''payment_ref'', payment_ref_val (lc_payment_ref c))] [])
      = legacy_payload c"
    by (simp add: object_spread_def legacy_payload_def js_has_own_def)
  ultimately show ?thesis by simp
qed

lemma legacy_schema_accepts:
  assumes "well_formed_claims c"
  shows "zod_accepts Zod3 LegacyClaimsSchema (legacy_payload c)"
    and "read_claims (zod_output LegacyClaimsSchema (legacy_payload c)) = c"
proof -
  have "num_less (Fin 0) (int_num (lc_max_redemptions c))" using assms by (simp add: well_formed_claims_def)
  then show "zod_accepts Zod3 LegacyClaimsSchema (legacy_payload c)"
    using assms
    by (cases "lc_payment_ref c")
      (simp_all add: LegacyClaimsSchema_def legacy_payload_def payment_ref_val_def well_formed_claims_def
        number_ok_def Suc_le_eq)
  show "read_claims (zod_output LegacyClaimsSchema (legacy_payload c)) = c"
    by (cases "lc_payment_ref c")
      (simp_all add: read_claims_def LegacyClaimsSchema_def legacy_payload_def payment_ref_val_def Let_def)
qed

text \<open>
  A token of well-formed claims verifies, with those claims, while the clock is in their window and the
  verifier expects their issuer and audience.
\<close>

lemma legacy_round_trip:
  assumes "zod_parser Zod3 sp" and "jose_round_trip lib (km_privateKey keys) (km_publicKey keys)"
    and "legacySign lib keys input = Inr signed" and "well_formed_claims (sa_claims signed)"
    and "lc_nbf (sa_claims signed) \<le> now" and "now < lc_exp (sa_claims signed)"
    and "iss = lc_iss (sa_claims signed)" and "aud = lc_aud (sa_claims signed)"
  shows "legacyVerify sp lib now keys iss aud (sa_token signed)
    = \<lparr>va_verified = True, va_claims = Some (buildLegacyClaims input), va_reason = None\<rparr>"
proof -
  let ?c = "buildLegacyClaims input"
  from assms(3) have tok: "signJWT lib (legacy_payload ?c) (legacy_header (km_kid keys)) (km_privateKey keys)
      = Inr (sa_token signed)" and c: "sa_claims signed = ?c"
    by (auto simp: legacySign_def Let_def result_simps)
  have "jwt_checks now (legacy_options iss aud) (legacy_payload ?c)"
    using assms(5-8) c
    by (simp add: jwt_checks_def legacy_options_def legacy_payload_get audience_ok_def not_before_ok_def
        expiry_ok_def, simp add: legacy_payload_def)
  moreover have "\<exists>a \<in> set (opt_algorithms (legacy_options iss aud)).
      js_get (legacy_header (km_kid keys)) ''alg'' = JStr a"
    by (simp add: legacy_options_def legacy_header_def)
  moreover have "opt_typ (legacy_options iss aud) = None" by (simp add: legacy_options_def)
  ultimately have "jwtVerify lib now (sa_token signed) (km_publicKey keys) (legacy_options iss aud)
      = Inr (legacy_payload ?c)"
    using assms(2) tok unfolding jose_round_trip_def by force
  moreover have "sp LegacyClaimsSchema (legacy_payload ?c)
      = Inr (Inr (zod_output LegacyClaimsSchema (legacy_payload ?c)))"
    by (rule zod_parser.accepted [OF assms(1)]) (use legacy_schema_accepts(1) assms(4) c in metis)
  ultimately show ?thesis
    using legacy_schema_accepts(2) [of ?c] assms(4) c
    unfolding legacyVerify_def by (simp only: sum.case legacy_payload_spread)
qed

end
