(* ===== verification/Issue_And_Redeem.thy ===== *)
theory Issue_And_Redeem
  imports Issuance_Properties Legacy_Signer Receipt_Verifier
begin

text \<open>
  The service with its own signer: a receipt that was issued is granted to the subject and for the
  resource it was issued for.
\<close>

section \<open>Rows with unique identities\<close>




section \<open>A redemption that must be granted\<close>


section \<open>Redemptions over the relational client end\<close>








section \<open>A token of the service's own signer\<close>





section \<open>Properties\<close>






end
