(* ===== verification/Redemption_Decision.thy ===== *)
theory Redemption_Decision
  imports Issue_And_Redeem
begin

text \<open>
  What a redemption of the historical service answers when it runs alone, from end to end: the pre-atomic
  check, which never reads the status, and the guarded update behind it together refuse a receipt that is
  unknown, expired, not for the request, exhausted, revoked or inactive, and grant any other.
\<close>

section \<open>The decision\<close>







section \<open>Properties\<close>






end
