(* ===== verification/Service_Contracts.thy ===== *)
theory Service_Contracts
  imports Zod_Schema Service_Issuance
begin

text \<open>
  The request and response schemas of the historical service (\<^verbatim>\<open>src/contracts/\<close>), and the JavaScript
  objects of the views that its responses carry.
\<close>

section \<open>Enumerations as strings\<close>

fun resource_type_string :: "resource_type \<Rightarrow> string" where
  "resource_type_string CONTENT = ''CONTENT''"
| "resource_type_string FILE = ''FILE''"
| "resource_type_string API = ''API''"

fun subject_type_string :: "subject_type \<Rightarrow> string" where
  "subject_type_string END_USER = ''END_USER''"
| "subject_type_string SERVICE_ACCOUNT = ''SERVICE_ACCOUNT''"

fun intent_status_string :: "intent_status \<Rightarrow> string" where
  "intent_status_string PENDING_VERIFICATION = ''PENDING_VERIFICATION''"
| "intent_status_string VERIFIED = ''VERIFIED''"
| "intent_status_string RECEIPT_ISSUED = ''RECEIPT_ISSUED''"
| "intent_status_string REJECTED = ''REJECTED''"
| "intent_status_string EXPIRED = ''EXPIRED''"

fun receipt_status_string :: "receipt_status \<Rightarrow> string" where
  "receipt_status_string ISSUED = ''ISSUED''"
| "receipt_status_string EXHAUSTED = ''EXHAUSTED''"
| "receipt_status_string RECEIPT_EXPIRED = ''EXPIRED''"
| "receipt_status_string REVOKED = ''REVOKED''"

fun redemption_status_string :: "redemption_status \<Rightarrow> string" where
  "redemption_status_string GRANTED = ''GRANTED''"
| "redemption_status_string DENIED = ''DENIED''"

definition RESOURCE_TYPES :: "string list" where
  "RESOURCE_TYPES = map resource_type_string [CONTENT, FILE, API]"

definition SUBJECT_TYPES :: "string list" where
  "SUBJECT_TYPES = map subject_type_string [END_USER, SERVICE_ACCOUNT]"

definition ACCESS_RECEIPT_STATUSES :: "string list" where
  "ACCESS_RECEIPT_STATUSES = map receipt_status_string [ISSUED, EXHAUSTED, REVOKED, RECEIPT_EXPIRED]"

definition REDEMPTION_STATUSES :: "string list" where
  "REDEMPTION_STATUSES = map redemption_status_string [GRANTED, DENIED]"

section \<open>Schemas\<close>

definition ResourceSchema :: zod_type where
  "ResourceSchema = ZObject [(''key'', ZString [SMin 1]), (''type'', ZEnum RESOURCE_TYPES)]"

definition SubjectSchema :: zod_type where
  "SubjectSchema = ZObject [(''type'', ZEnum SUBJECT_TYPES), (''id'', ZString [SMin 1])]"

abbreviation nullable_datetime :: zod_type where
  "nullable_datetime \<equiv> ZNullable (ZString [SDatetime])"

definition AccessReceiptSummarySchema :: zod_type where
  "AccessReceiptSummarySchema = ZObject
     [(''id'', ZString [SMin 1]), (''jti'', ZString [SMin 1]), (''status'', ZEnum ACCESS_RECEIPT_STATUSES),
      (''receiptToken'', ZNullable (ZString [])), (''active'', ZBoolean),
      (''redemptionCount'', ZNumber [NInt, NNonnegative]), (''maxRedemptions'', ZNumber [NInt, NPositive]),
      (''issuedAt'', ZString [SDatetime]), (''nbf'', ZString [SDatetime]), (''exp'', ZString [SDatetime]),
      (''redeemedAt'', nullable_datetime), (''exhaustedAt'', nullable_datetime),
      (''revokedAt'', nullable_datetime)]"

definition AccessIntentSchema :: zod_type where
  "AccessIntentSchema = ZObject
     [(''id'', ZString [SMin 1]), (''policyId'', ZString [SMin 1]),
      (''status'', ZEnum [''PENDING_VERIFICATION'', ''VERIFIED'', ''RECEIPT_ISSUED'', ''REJECTED'', ''EXPIRED'']),
      (''resource'', ResourceSchema), (''subject'', SubjectSchema),
      (''paymentRef'', ZNullable (ZString [])), (''verifiedAt'', nullable_datetime),
      (''receiptIssuedAt'', nullable_datetime), (''expiresAt'', nullable_datetime),
      (''createdAt'', ZString [SDatetime]), (''updatedAt'', ZString [SDatetime]),
      (''accessReceipt'', ZNullable AccessReceiptSummarySchema)]"

definition CreateAccessIntentRequestSchema :: zod_type where
  "CreateAccessIntentRequestSchema = ZObject
     [(''resource'', ResourceSchema), (''subject'', SubjectSchema),
      (''paymentRef'', ZOptional (ZString [SMin 1])),
      (''idempotencyKey'', ZOptional (ZString [SMin 1, SMax 128]))]"

definition CreateAccessIntentResponseSchema :: zod_type where
  "CreateAccessIntentResponseSchema = ZObject [(''accessIntent'', AccessIntentSchema)]"

definition GetAccessIntentResponseSchema :: zod_type where
  "GetAccessIntentResponseSchema = ZObject [(''accessIntent'', AccessIntentSchema)]"

definition RedeemAccessReceiptRequestSchema :: zod_type where
  "RedeemAccessReceiptRequestSchema = ZObject
     [(''receiptToken'', ZString [SMin 1]), (''resource'', ResourceSchema), (''subject'', SubjectSchema)]"

definition RedeemAccessReceiptResponseSchema :: zod_type where
  "RedeemAccessReceiptResponseSchema = ZObject [(''redemption'', ZObject
     [(''status'', ZEnum REDEMPTION_STATUSES), (''accessGranted'', ZBoolean),
      (''accessReceiptId'', ZNullable (ZString [])), (''accessIntentId'', ZNullable (ZString [])),
      (''jti'', ZNullable (ZString [])), (''receiptStatus'', ZNullable (ZEnum ACCESS_RECEIPT_STATUSES)),
      (''resource'', ResourceSchema), (''subject'', SubjectSchema),
      (''redemptionCount'', ZNumber [NInt, NNonnegative]),
      (''maxRedemptions'', ZNumber [NInt, NNonnegative]), (''redeemedAt'', ZString [SDatetime]),
      (''reason'', ZNullable (ZString []))])]"

definition VerifyAccessReceiptRequestSchema :: zod_type where
  "VerifyAccessReceiptRequestSchema = ZObject [(''receiptToken'', ZString [SMin 1])]"

definition VerifyAccessReceiptResponseSchema :: zod_type where
  "VerifyAccessReceiptResponseSchema = ZObject [(''receiptVerification'', ZObject
     [(''verified'', ZBoolean), (''accessReceiptId'', ZNullable (ZString [])),
      (''accessIntentId'', ZNullable (ZString [])), (''jti'', ZNullable (ZString [])),
      (''receiptStatus'', ZNullable (ZEnum ACCESS_RECEIPT_STATUSES)),
      (''resource'', ZNullable ResourceSchema), (''subject'', ZNullable SubjectSchema),
      (''issuedAt'', nullable_datetime), (''exp'', nullable_datetime),
      (''verifiedAt'', ZString [SDatetime]), (''reason'', ZNullable (ZString []))])]"

definition HealthResponseSchema :: zod_type where
  "HealthResponseSchema = ZObject
     [(''ok'', ZLiteral (JBool True)), (''service'', ZLiteral (JStr ''fiber-latch'')),
      (''phase'', ZLiteral (JStr ''phase-3'')), (''network'', ZLiteral (JStr ''testnet''))]"

definition JwkSchema :: zod_type where
  "JwkSchema = ZRecord ZUnknown"

definition JwksResponseSchema :: zod_type where
  "JwksResponseSchema = ZObject [(''keys'', ZArray JwkSchema)]"

section \<open>Views as objects\<close>

definition resource_json :: "resource_ref \<Rightarrow> jsval" where
  "resource_json r =
     JObj [(''key'', JStr (res_key r)), (''type'', JStr (resource_type_string (res_type r)))] []"

definition subject_json :: "subject_ref \<Rightarrow> jsval" where
  "subject_json s =
     JObj [(''type'', JStr (subject_type_string (subj_type s))), (''id'', JStr (subj_id s))] []"

definition nullable :: "('a \<Rightarrow> jsval) \<Rightarrow> 'a option \<Rightarrow> jsval" where
  "nullable f v = (case v of Some x \<Rightarrow> f x | None \<Rightarrow> JNull)"

definition receipt_view_json :: "receipt_view \<Rightarrow> jsval" where
  "receipt_view_json v = JObj
     [(''id'', JStr (av_id v)), (''jti'', JStr (av_jti v)),
      (''status'', JStr (receipt_status_string (av_status v))),
      (''receiptToken'', nullable JStr (av_receiptToken v)), (''active'', JBool (av_active v)),
      (''redemptionCount'', JInt (av_redemptionCount v)), (''maxRedemptions'', JInt (av_maxRedemptions v)),
      (''issuedAt'', JStr (av_issuedAt v)), (''nbf'', JStr (av_nbf v)), (''exp'', JStr (av_exp v)),
      (''redeemedAt'', nullable JStr (av_redeemedAt v)), (''exhaustedAt'', nullable JStr (av_exhaustedAt v)),
      (''revokedAt'', nullable JStr (av_revokedAt v))] []"

definition intent_view_json :: "intent_view \<Rightarrow> jsval" where
  "intent_view_json v = JObj
     [(''id'', JStr (nv_id v)), (''policyId'', JStr (nv_policyId v)),
      (''status'', JStr (intent_status_string (nv_status v))),
      (''resource'', resource_json (nv_resource v)), (''subject'', subject_json (nv_subject v)),
      (''paymentRef'', nullable JStr (nv_paymentRef v)), (''verifiedAt'', nullable JStr (nv_verifiedAt v)),
      (''receiptIssuedAt'', nullable JStr (nv_receiptIssuedAt v)),
      (''expiresAt'', nullable JStr (nv_expiresAt v)), (''createdAt'', JStr (nv_createdAt v)),
      (''updatedAt'', JStr (nv_updatedAt v)), (''accessReceipt'', nullable receipt_view_json (nv_accessReceipt v))] []"

definition verification_view_json :: "verification_view \<Rightarrow> jsval" where
  "verification_view_json v = JObj
     [(''verified'', JBool (vv_verified v)), (''accessReceiptId'', nullable JStr (vv_accessReceiptId v)),
      (''accessIntentId'', nullable JStr (vv_accessIntentId v)), (''jti'', nullable JStr (vv_jti v)),
      (''receiptStatus'', nullable (\<lambda>s. JStr (receipt_status_string s)) (vv_receiptStatus v)),
      (''resource'', nullable resource_json (vv_resource v)), (''subject'', nullable subject_json (vv_subject v)),
      (''issuedAt'', nullable (\<lambda>t. JStr (iso_string t)) (vv_issuedAt v)),
      (''exp'', nullable (\<lambda>t. JStr (iso_string t)) (vv_exp v)),
      (''verifiedAt'', JStr (iso_string (vv_verifiedAt v))), (''reason'', nullable JStr (vv_reason v))] []"

definition redemption_view_json :: "redemption_view \<Rightarrow> jsval" where
  "redemption_view_json v = JObj
     [(''status'', JStr (redemption_status_string (rv_status v))), (''accessGranted'', JBool (rv_accessGranted v)),
      (''accessReceiptId'', nullable JStr (rv_accessReceiptId v)),
      (''accessIntentId'', nullable JStr (rv_accessIntentId v)), (''jti'', nullable JStr (rv_jti v)),
      (''receiptStatus'', nullable (\<lambda>s. JStr (receipt_status_string s)) (rv_receiptStatus v)),
      (''resource'', resource_json (rv_resource v)), (''subject'', subject_json (rv_subject v)),
      (''redemptionCount'', JInt (rv_redemptionCount v)), (''maxRedemptions'', JInt (rv_maxRedemptions v)),
      (''redeemedAt'', JStr (iso_string (rv_redeemedAt v))), (''reason'', nullable JStr (rv_reason v))] []"

end
