(* ===== verification/Service_Http.thy ===== *)
theory Service_Http
  imports Service_Contracts Legacy_Signer Program_Logic
begin

text \<open>
  The HTTP interface of the historical service (\<^verbatim>\<open>src/app.ts\<close>, \<^verbatim>\<open>src/routes/\<close>): the composition of the
  application, the handlers of its routes, and the error handler. Fastify is not part of the
  repository: a request is given as what it hands to a handler, the parsed body or the path parameter,
  and the reply is the status and the object that the handler sends. A body that Fastify itself cannot parse
  reaches the error handler as \<open>OtherError\<close>.
\<close>

section \<open>The application\<close>

record legacy_signer =
  ls_sign :: "sign_input \<Rightarrow> js_exn + signed_access_receipt"
  ls_verify :: "int \<Rightarrow> string \<Rightarrow> verified_access_receipt" \<comment> \<open>the first argument is the clock\<close>
  ls_getPublicJwks :: jsval

definition createJwtAccessReceiptSigner ::
  "safe_parse \<Rightarrow> 'k jose_lib \<Rightarrow> 'k key_material \<Rightarrow> string \<Rightarrow> string \<Rightarrow> legacy_signer" where
  "createJwtAccessReceiptSigner sp lib keyMaterial expectedIssuer expectedAudience =
     \<lparr>ls_sign = legacySign lib keyMaterial,
      ls_verify = (\<lambda>now. legacyVerify sp lib now keyMaterial expectedIssuer expectedAudience),
      ls_getPublicJwks = getPublicJwks keyMaterial\<rparr>"

record 'd fiber_latch_app =
  app_service :: "'d fiber_latch_service"
  app_signer :: legacy_signer

text \<open>The options of \<open>buildApp\<close>; of a Fiber client the service reads the mode.\<close>

record ('d, 'k) build_app_options =
  bo_prisma :: "'d prisma option"
  bo_fiberClient :: "client_mode option"
  bo_runtimeConfig :: "runtime_config option"
  bo_signingKeyMaterial :: "'k key_material option"
  bo_receiptSigner :: "legacy_signer option"

definition client_mode_of :: "fiber_client_choice \<Rightarrow> client_mode" where
  "client_mode_of choice = (case choice of RealClient _ \<Rightarrow> RealMode | FakeClient \<Rightarrow> FakeMode)"

definition given_or :: "'a option \<Rightarrow> (js_exn + 'a) \<Rightarrow> js_exn + 'a" where
  "given_or given other = (case given of Some a \<Rightarrow> Inr a | None \<Rightarrow> other)"

definition buildApp ::
  "safe_parse \<Rightarrow> 'k jose_lib \<Rightarrow> 'k key_tools \<Rightarrow> (string \<Rightarrow> string) \<Rightarrow> environment \<Rightarrow> 'd prisma
     \<Rightarrow> ('d, 'k) build_app_options \<Rightarrow> js_exn + 'd fiber_latch_app" where
  "buildApp sp lib tools sha256Hex env defaultPrisma options =
     bindE (given_or (bo_runtimeConfig options) (loadRuntimeConfig env)) (\<lambda>runtimeConfig.
     bindE (given_or (bo_fiberClient options) (map_sum id client_mode_of (createFiberClient runtimeConfig)))
       (\<lambda>mode.
     bindE (given_or (bo_signingKeyMaterial options)
         (loadReceiptSigningKeyMaterial tools (rt_privateJwkJson runtimeConfig))) (\<lambda>keyMaterial.
     (let signer = (case bo_receiptSigner options of Some s \<Rightarrow> s
            | None \<Rightarrow> createJwtAccessReceiptSigner sp lib keyMaterial (rt_issuer runtimeConfig)
                        (rt_audience runtimeConfig))
      in Inr
        \<lparr>app_service =
           \<lparr>fls_db = (case bo_prisma options of Some db \<Rightarrow> db | None \<Rightarrow> defaultPrisma), fls_mode = mode,
            fls_sign = (\<lambda>s. map_sum id sa_token (ls_sign signer s)), fls_hash = sha256Hex,
            fls_runtime = runtimeConfig\<rparr>,
         app_signer = signer\<rparr>))))"

section \<open>Replies\<close>

datatype app_request =
    PostAccessIntents jsval
  | GetAccessIntent "string option"
  | PostReceiptsVerify jsval
  | PostReceiptsRedeem jsval
  | GetJwks
  | GetHealth

record app_reply =
  reply_status :: nat
  reply_body :: jsval

text \<open>What a handler can throw: an error of a schema, or any other.\<close>

datatype thrown = ZodError "zod_issue list" | OtherError js_exn

fun path_segment_json :: "path_segment \<Rightarrow> jsval" where
  "path_segment_json (SKey k) = JStr k"
| "path_segment_json (SIndex n) = JInt (int n)"

definition issue_json :: "zod_issue \<Rightarrow> jsval" where
  "issue_json i = JObj
     [(''code'', JStr (zod_code i)), (''path'', JArr (map path_segment_json (zod_path i))),
      (''message'', JStr (zod_message i))] []"

fun errorHandler :: "thrown \<Rightarrow> app_reply" where
  "errorHandler (ZodError issues) =
     \<lparr>reply_status = 400, reply_body = JObj
        [(''error'', JStr ''Bad Request''), (''message'', JStr ''Request validation failed''),
         (''issues'', JArr (map issue_json issues))] []\<rparr>"
| "errorHandler (OtherError e) =
     \<lparr>reply_status = 500, reply_body = JObj
        [(''error'', JStr ''Internal Server Error''),
         (''message'', JStr ''FiberLatch hit an unexpected error'')] []\<rparr>"

text \<open>\<open>schema.parse(value)\<close>\<close>

definition schema_parse :: "safe_parse \<Rightarrow> zod_type \<Rightarrow> jsval \<Rightarrow> thrown + jsval" where
  "schema_parse sp schema v =
     (case sp schema v of
        Inl e \<Rightarrow> Inl (OtherError e)
      | Inr (Inl issues) \<Rightarrow> Inl (ZodError issues)
      | Inr (Inr out) \<Rightarrow> Inr out)"

definition send_parsed :: "safe_parse \<Rightarrow> zod_type \<Rightarrow> nat \<Rightarrow> jsval \<Rightarrow> thrown + app_reply" where
  "send_parsed sp schema status v =
     map_sum id (\<lambda>out. \<lparr>reply_status = status, reply_body = out\<rparr>) (schema_parse sp schema v)"

section \<open>Reading a parsed body\<close>

definition resource_type_of :: "string \<Rightarrow> resource_type" where
  "resource_type_of s = (if s = ''CONTENT'' then CONTENT else if s = ''FILE'' then FILE else API)"

definition subject_type_of :: "string \<Rightarrow> subject_type" where
  "subject_type_of s = (if s = ''END_USER'' then END_USER else SERVICE_ACCOUNT)"

definition read_resource :: "jsval \<Rightarrow> resource_ref" where
  "read_resource v =
     \<lparr>res_key = the_string (js_get v ''key''),
      res_type = resource_type_of (the_string (js_get v ''type''))\<rparr>"

definition read_subject :: "jsval \<Rightarrow> subject_ref" where
  "read_subject v =
     \<lparr>subj_type = subject_type_of (the_string (js_get v ''type'')),
      subj_id = the_string (js_get v ''id'')\<rparr>"

definition read_optional :: "jsval \<Rightarrow> string option" where
  "read_optional v = (case v of JStr s \<Rightarrow> Some s | _ \<Rightarrow> None)"

definition read_create_input :: "jsval \<Rightarrow> create_intent_input" where
  "read_create_input body =
     \<lparr>ci_resource = read_resource (js_get body ''resource''),
      ci_subject = read_subject (js_get body ''subject''),
      ci_paymentRef = read_optional (js_get body ''paymentRef''),
      ci_idempotencyKey = read_optional (js_get body ''idempotencyKey'')\<rparr>"

section \<open>Handlers\<close>

text \<open>What the calls of one request read from outside.\<close>

record app_request_env =
  re_call :: call_env
  re_clock :: int \<comment> \<open>the second the JOSE library reads\<close>
  re_at :: js_date
  re_now :: js_date
  re_atomicNow :: js_date

text \<open>An error of the service inside a handler, and a reply or an error as the handler's result.\<close>

definition callService ::
  "('d, js_exn + 'a) prog \<Rightarrow> ('a \<Rightarrow> thrown + app_reply) \<Rightarrow> ('d, thrown + app_reply) prog" where
  "callService p answer =
     bindP p (\<lambda>r. Return (case r of Inl e \<Rightarrow> Inl (OtherError e) | Inr a \<Rightarrow> answer a))"

definition postAccessIntents ::
  "safe_parse \<Rightarrow> 'd fiber_latch_app \<Rightarrow> app_request_env \<Rightarrow> jsval \<Rightarrow> ('d, thrown + app_reply) prog" where
  "postAccessIntents sp app env requestBody =
     (case schema_parse sp CreateAccessIntentRequestSchema requestBody of
        Inl e \<Rightarrow> throwP e
      | Inr body \<Rightarrow>
          callService (createAccessIntent (app_service app) (re_call env) (read_create_input body))
            (\<lambda>res. send_parsed sp CreateAccessIntentResponseSchema (if cr_created res then 201 else 200)
               (JObj [(''accessIntent'', intent_view_json (cr_accessIntent res))] [])))"

definition getAccessIntentRoute ::
  "safe_parse \<Rightarrow> 'd fiber_latch_app \<Rightarrow> string option \<Rightarrow> ('d, thrown + app_reply) prog" where
  "getAccessIntentRoute sp app param =
     callService (getAccessIntent (app_service app) (case param of Some i \<Rightarrow> i | None \<Rightarrow> []))
       (\<lambda>found. case found of
          None \<Rightarrow> Inr \<lparr>reply_status = 404, reply_body = JObj
            [(''error'', JStr ''Not Found''), (''message'', JStr ''Access intent not found'')] []\<rparr>
        | Some v \<Rightarrow>
            send_parsed sp GetAccessIntentResponseSchema 200 (JObj [(''accessIntent'', intent_view_json v)] []))"

definition serviceVerify :: "'d fiber_latch_app \<Rightarrow> app_request_env \<Rightarrow> string \<Rightarrow> js_exn + signature_result" where
  "serviceVerify app env token = Inr (signature_of (ls_verify (app_signer app) (re_clock env) token))"

definition postReceiptsVerify ::
  "safe_parse \<Rightarrow> 'd fiber_latch_app \<Rightarrow> app_request_env \<Rightarrow> jsval \<Rightarrow> ('d, thrown + app_reply) prog" where
  "postReceiptsVerify sp app env requestBody =
     (case schema_parse sp VerifyAccessReceiptRequestSchema requestBody of
        Inl e \<Rightarrow> throwP e
      | Inr body \<Rightarrow>
          callService (verifyAccessReceipt (fls_db (app_service app)) (serviceVerify app env) (re_at env)
              (re_now env) (the_string (js_get body ''receiptToken'')))
            (\<lambda>v. send_parsed sp VerifyAccessReceiptResponseSchema 200
               (JObj [(''receiptVerification'', verification_view_json v)] [])))"

definition postReceiptsRedeem ::
  "safe_parse \<Rightarrow> 'd fiber_latch_app \<Rightarrow> app_request_env \<Rightarrow> jsval \<Rightarrow> ('d, thrown + app_reply) prog" where
  "postReceiptsRedeem sp app env requestBody =
     (case schema_parse sp RedeemAccessReceiptRequestSchema requestBody of
        Inl e \<Rightarrow> throwP e
      | Inr body \<Rightarrow>
          callService (redeemReceipt (fls_db (app_service app)) (serviceVerify app env) (re_at env)
              (re_now env) (re_atomicNow env) (the_string (js_get body ''receiptToken''))
              (read_resource (js_get body ''resource'')) (read_subject (js_get body ''subject'')))
            (\<lambda>v. send_parsed sp RedeemAccessReceiptResponseSchema 200
               (JObj [(''redemption'', redemption_view_json v)] [])))"

definition getJwksRoute :: "safe_parse \<Rightarrow> 'd fiber_latch_app \<Rightarrow> thrown + app_reply" where
  "getJwksRoute sp app = send_parsed sp JwksResponseSchema 200 (ls_getPublicJwks (app_signer app))"

definition getHealthRoute :: "safe_parse \<Rightarrow> thrown + app_reply" where
  "getHealthRoute sp = send_parsed sp HealthResponseSchema 200
     (JObj [(''ok'', JBool True), (''service'', JStr ''fiber-latch''), (''phase'', JStr ''phase-3''),
       (''network'', JStr ''testnet'')] [])"

fun handler ::
  "safe_parse \<Rightarrow> 'd fiber_latch_app \<Rightarrow> app_request_env \<Rightarrow> app_request \<Rightarrow> ('d, thrown + app_reply) prog" where
  "handler sp app env (PostAccessIntents body) = postAccessIntents sp app env body"
| "handler sp app env (GetAccessIntent param) = getAccessIntentRoute sp app param"
| "handler sp app env (PostReceiptsVerify body) = postReceiptsVerify sp app env body"
| "handler sp app env (PostReceiptsRedeem body) = postReceiptsRedeem sp app env body"
| "handler sp app env GetJwks = Return (getJwksRoute sp app)"
| "handler sp app env GetHealth = Return (getHealthRoute sp)"

text \<open>The reply of the application, with its error handler.\<close>

definition respondTo ::
  "safe_parse \<Rightarrow> 'd fiber_latch_app \<Rightarrow> app_request_env \<Rightarrow> app_request \<Rightarrow> ('d, app_reply) prog" where
  "respondTo sp app env request =
     bindP (handler sp app env request) (\<lambda>r. Return (case r of Inl e \<Rightarrow> errorHandler e | Inr reply \<Rightarrow> reply))"

end
