(* ===== verification/Http_Properties.thy ===== *)
theory Http_Properties
  imports Service_Http Issuance_Samples
begin

text \<open>
  What the HTTP interface answers: malformed requests, errors, and the responses to well-formed ones,
  which their own schemas accept.
\<close>

section \<open>Dates that a schema accepts\<close>

lemma length_last_digits [simp]: "length (last_digits w n) = w"
  by (induction w arbitrary: n) auto

lemma digits_number_append:
  "digits_number acc (xs @ ys) = Option.bind (digits_number acc xs) (\<lambda>a. digits_number a ys)"
  by (induction xs arbitrary: acc) (auto split: option.split)

lemma decimal_digit_char: "d < 10 \<Longrightarrow> decimal_digit (digit_char d) = Some d"
  by (simp add: decimal_digit_def code_unit_def)

lemma digits_number_last_digits:
  "digits_number acc (last_digits w n) = Some (acc * 10 ^ w + nat (n mod 10 ^ w))"
proof (induction w arbitrary: acc n)
  case (Suc w)
  have "nat (n mod 10) < 10" by simp
  moreover have "n mod 10 ^ Suc w = 10 * (n div 10 mod 10 ^ w) + n mod 10"
    using zmod_zmult2_eq [of "10 ^ w" n 10] by simp
  ultimately show ?case
    by (simp add: digits_number_append Suc.IH decimal_digit_char nat_add_distrib nat_mult_distrib algebra_simps
        del: digit_char.simps)
qed simp

text \<open>The parts of a date string, at their places.\<close>

lemma date_string_parts:
  assumes "length Y = 4" "length M = 2" "length D = 2" "length h = 2" "length mi = 2" "length sc = 2"
    and "s = Y @ ''-'' @ M @ ''-'' @ D @ ''T'' @ h @ '':'' @ mi @ '':'' @ sc @ ''.'' @ f @ ''Z''"
  shows "take 4 s = Y" "take 1 (drop 4 s) = ''-''" "take 2 (drop 5 s) = M" "take 1 (drop 7 s) = ''-''"
    "take 2 (drop 8 s) = D" "take 1 (drop 10 s) = ''T''" "take 2 (drop 11 s) = h" "take 1 (drop 13 s) = '':''"
    "take 2 (drop 14 s) = mi" "drop 16 s = '':'' @ sc @ ''.'' @ f @ ''Z''" "length s = 21 + length f"
  using assms by (simp_all add: numeral_eq_Suc)

lemma iso_string_accepted:
  assumes "common_era t"
  shows "iso_datetime (iso_string t)"
proof -
  obtain y m d where c: "civil_of_days (t div 86400000) = (y, m, d)" by (metis prod_cases3)
  note valid = civil_of_days_valid [OF c] and year = common_era_year [OF assms c]
  let ?ms = "t mod 86400000"
  have ms: "0 \<le> ?ms" "?ms < 86400000" by simp_all
  have d: "d \<le> 31" using valid by (auto simp: days_in_month_def split: if_splits)
  have "existing_day (digits_number 0 (last_digits 4 y)) (digits_number 0 (last_digits 2 m))
      (digits_number 0 (last_digits 2 d))"
    using valid year d by (simp add: digits_number_last_digits existing_day_def nat_le_iff le_nat_iff)
  moreover have "below 24 (digits_number 0 (last_digits 2 (?ms div 3600000)))"
    "below 60 (digits_number 0 (last_digits 2 (?ms div 60000 mod 60)))"
    "below 60 (digits_number 0 (last_digits 2 (?ms div 1000 mod 60)))"
    using ms by (simp_all add: digits_number_last_digits below_def nat_less_iff)
  moreover have "datetime_tail ('':'' @ sc @ ''.'' @ last_digits 3 n @ ''Z'')"
    if "length sc = 2" "below 60 (digits_number 0 sc)" for sc n
  proof -
    have "take 2 (drop 1 ('':'' @ sc @ x)) = sc" "drop 3 ('':'' @ sc @ x) = x" for x
      using that(1) by (simp_all add: numeral_eq_Suc)
    with that show ?thesis
      by (simp add: datetime_tail_def Let_def butlast_append digits_number_last_digits del: append.simps(2))
  qed
  moreover have s: "iso_string t = last_digits 4 y @ ''-'' @ last_digits 2 m @ ''-'' @ last_digits 2 d @ ''T''
      @ last_digits 2 (?ms div 3600000) @ '':'' @ last_digits 2 (?ms div 60000 mod 60) @ '':''
      @ last_digits 2 (?ms div 1000 mod 60) @ ''.'' @ last_digits 3 (?ms mod 1000) @ ''Z''"
    unfolding iso_string_def Let_def c prod.case year_string_def if_P [OF year] ..
  note parts = date_string_parts [OF length_last_digits length_last_digits length_last_digits
      length_last_digits length_last_digits length_last_digits s]
  ultimately show ?thesis
    unfolding iso_datetime_def Let_def drop0 parts by (simp only: simp_thms)
      (simp add: le_iff_add)
qed

section \<open>Printable rows and views\<close>

definition dates_printable :: "js_date option list \<Rightarrow> bool" where
  "dates_printable ds \<longleftrightarrow> list_all (\<lambda>d. case d of None \<Rightarrow> True | Some t \<Rightarrow> common_era t) ds"

definition receipt_printable :: "db_receipt \<Rightarrow> bool" where
  "receipt_printable r \<longleftrightarrow>
     dr_id r \<noteq> [] \<and> dr_jti r \<noteq> [] \<and> dr_resourceKey r \<noteq> [] \<and> dr_subjectId r \<noteq> []
   \<and> 0 \<le> dr_redemptionCount r \<and> 0 < dr_maxRedemptions r
   \<and> dates_printable [Some (dr_issuedAt r), Some (dr_nbf r), Some (dr_exp r), dr_redeemedAt r,
       dr_exhaustedAt r, dr_revokedAt r]"

definition intent_printable :: "intent_row \<Rightarrow> bool" where
  "intent_printable i \<longleftrightarrow>
     int_id i \<noteq> [] \<and> int_resourcePolicyId i \<noteq> [] \<and> int_resourceKey i \<noteq> [] \<and> int_subjectId i \<noteq> []
   \<and> dates_printable [int_verifiedAt i, int_receiptIssuedAt i, int_expiresAt i, Some (int_createdAt i),
       Some (int_updatedAt i)]"

lemma enum_strings [simp]:
  "resource_type_string r \<in> set RESOURCE_TYPES" "subject_type_string u \<in> set SUBJECT_TYPES"
  "receipt_status_string s \<in> set ACCESS_RECEIPT_STATUSES"
  "redemption_status_string x \<in> set REDEMPTION_STATUSES"
  subgoal by (cases r) (simp_all add: RESOURCE_TYPES_def)
  subgoal by (cases u) (simp_all add: SUBJECT_TYPES_def)
  subgoal by (cases s) (simp_all add: ACCESS_RECEIPT_STATUSES_def)
  subgoal by (cases x) (simp_all add: REDEMPTION_STATUSES_def)
  done

lemma nullable_simps [simp]: "nullable f None = JNull" "nullable f (Some x) = f x"
  by (simp_all add: nullable_def)

lemma accepts_nullable:
  "(\<And>x. v = Some x \<Longrightarrow> zod_accepts d t (f x)) \<Longrightarrow> zod_accepts d (ZNullable t) (nullable f v)"
  by (cases v) auto

lemma accepts_resource:
  "zod_accepts d ResourceSchema (resource_json r) = (res_key r \<noteq> [])"
  "zod_accepts d SubjectSchema (subject_json s) = (subj_id s \<noteq> [])"
  by (auto simp: ResourceSchema_def SubjectSchema_def resource_json_def subject_json_def Suc_le_eq)

lemma accepts_dates:
  "common_era t \<Longrightarrow> zod_accepts d (ZString [SDatetime]) (JStr (iso_string t))"
  "(case dt of None \<Rightarrow> True | Some t \<Rightarrow> common_era t) \<Longrightarrow>
     zod_accepts d nullable_datetime (nullable JStr (map_option iso_string dt))"
  "(case dt of None \<Rightarrow> True | Some t \<Rightarrow> common_era t) \<Longrightarrow>
     zod_accepts d nullable_datetime (nullable (\<lambda>t. JStr (iso_string t)) dt)"
  by (auto simp: iso_string_accepted split: option.splits)

lemma accepts_text: "zod_accepts d (ZNullable (ZString [])) (nullable JStr s)"
  by (cases s) simp_all

lemma accepts_number:
  "zod_accepts Zod3 (ZNumber [NInt, NNonnegative]) (JInt i) = (0 \<le> i)"
  "zod_accepts Zod3 (ZNumber [NInt, NPositive]) (JInt i) = (0 < i)"
  using num_le_int [of 0 i] by (simp_all add: number_ok_def del: num_le_int)

lemma intent_status_accepted [simp]:
  "intent_status_string s \<in> set [''PENDING_VERIFICATION'', ''VERIFIED'', ''RECEIPT_ISSUED'', ''REJECTED'', ''EXPIRED'']"
  by (cases s) simp_all

lemma accepts_basic:
  "zod_accepts d (ZString []) (JStr s)" "zod_accepts d (ZString [SMin 1]) (JStr s) = (s \<noteq> [])"
  "zod_accepts d ZBoolean (JBool b)" "zod_accepts d (ZEnum ss) (JStr s) = (s \<in> set ss)"
  by (auto simp: Suc_le_eq)

lemma accepts_object:
  "zod_accepts d (ZObject shape) (JObj own inh)
     = list_all (\<lambda>(k, t). zod_accepts d t (js_get (JObj own inh) k)) shape"
  by (auto simp: zod_accepts_fields_iff list_all_iff)

text \<open>A view's object is accepted field by field.\<close>

lemmas field_by_field = accepts_object accepts_basic accepts_number accepts_resource
  accepts_dates accepts_text enum_strings dates_printable_def

declare zod_accepts.simps [simp del] accepts_payment_ref [simp del]

lemma receipt_summary_accepted:
  assumes "receipt_printable r"
  shows "zod_accepts Zod3 AccessReceiptSummarySchema (receipt_view_json (receipt_view_of tok r))"
  using assms
  unfolding AccessReceiptSummarySchema_def receipt_view_json_def accepts_object
  by (simp add: field_by_field receipt_view_of_def receipt_printable_def)

lemma intent_view_accepted:
  assumes "intent_printable i" and "\<And>r. receipt = Some r \<Longrightarrow> receipt_printable r"
  shows "zod_accepts Zod3 AccessIntentSchema (intent_view_json (toAccessIntentView i tok receipt))"
proof -
  have "zod_accepts Zod3 (ZNullable AccessReceiptSummarySchema)
      (nullable receipt_view_json (map_option (receipt_view_of tok) receipt))"
    using assms(2) by (cases receipt) (simp_all add: receipt_summary_accepted zod_accepts.simps)
  then show ?thesis
    using assms(1) intent_status_accepted [of "int_status i"]
    unfolding AccessIntentSchema_def intent_view_json_def accepts_object
    by (simp add: field_by_field toAccessIntentView_def intent_printable_def)
qed

definition verification_printable :: "verification_view \<Rightarrow> bool" where
  "verification_printable v \<longleftrightarrow>
     (case vv_resource v of None \<Rightarrow> True | Some r \<Rightarrow> res_key r \<noteq> [])
   \<and> (case vv_subject v of None \<Rightarrow> True | Some s \<Rightarrow> subj_id s \<noteq> [])
   \<and> dates_printable [vv_issuedAt v, vv_exp v, Some (vv_verifiedAt v)]"

lemma verification_view_accepted:
  assumes "verification_printable v"
  shows "zod_accepts Zod3 VerifyAccessReceiptResponseSchema
    (JObj [(''receiptVerification'', verification_view_json v)] [])"
proof -
  have "zod_accepts Zod3 (ZNullable ResourceSchema) (nullable resource_json (vv_resource v))"
    "zod_accepts Zod3 (ZNullable SubjectSchema) (nullable subject_json (vv_subject v))"
    "zod_accepts Zod3 (ZNullable (ZEnum ACCESS_RECEIPT_STATUSES))
       (nullable (\<lambda>s. JStr (receipt_status_string s)) (vv_receiptStatus v))"
    by (rule accepts_nullable; use assms in \<open>simp add: field_by_field verification_printable_def\<close>)+
  then show ?thesis
    using assms unfolding VerifyAccessReceiptResponseSchema_def verification_view_json_def accepts_object
    by (simp add: field_by_field verification_printable_def)
qed

definition redemption_printable :: "redemption_view \<Rightarrow> bool" where
  "redemption_printable v \<longleftrightarrow>
     res_key (rv_resource v) \<noteq> [] \<and> subj_id (rv_subject v) \<noteq> []
   \<and> 0 \<le> rv_redemptionCount v \<and> 0 \<le> rv_maxRedemptions v \<and> common_era (rv_redeemedAt v)"

lemma redemption_view_accepted:
  assumes "redemption_printable v"
  shows "zod_accepts Zod3 RedeemAccessReceiptResponseSchema (JObj [(''redemption'', redemption_view_json v)] [])"
proof -
  have "zod_accepts Zod3 (ZNullable (ZEnum ACCESS_RECEIPT_STATUSES))
      (nullable (\<lambda>s. JStr (receipt_status_string s)) (rv_receiptStatus v))"
    by (rule accepts_nullable) (simp add: field_by_field)
  then show ?thesis
    using assms unfolding RedeemAccessReceiptResponseSchema_def redemption_view_json_def accepts_object
    by (simp add: field_by_field redemption_printable_def)
qed

section \<open>What the service returns from printable rows\<close>

definition rows_printable :: "db \<Rightarrow> bool" where
  "rows_printable t \<longleftrightarrow>
     list_all receipt_printable (db_receipts t) \<and> list_all intent_printable (db_intents t)"

lemma found_printable:
  "rows_printable t \<Longrightarrow> find q (db_receipts t) = Some r \<Longrightarrow> receipt_printable r"
  by (metis find_Some_iff list_all_length rows_printable_def)

lemma printable_change:
  assumes "rows_printable t" and "\<And>r. receipt_printable r \<Longrightarrow> receipt_printable (f r)"
  shows "rows_printable (change_receipts p f t)"
  using assms by (auto simp: rows_printable_def change_receipts_def list_all_iff)

lemma printable_event [simp]: "rows_printable (add_event e t) = rows_printable t"
  by (simp add: rows_printable_def)

lemma printable_redeemed: "receipt_printable r \<Longrightarrow> common_era now \<Longrightarrow> receipt_printable (redeemed_row b now r)"
  by (simp add: receipt_printable_def redeemed_row_def dates_printable_def)

context prisma_service
begin

lemma returns_getAccessIntent:
  assumes "fls_db service = ops" and "rows_printable (tables d)"
  shows "returns (getAccessIntent service i)
    (\<lambda>v d'. case v of
        None \<Rightarrow> find (matches_intent (ByIntentId i)) (db_intents (tables d)) = None
      | Some w \<Rightarrow> find (matches_intent (ByIntentId i)) (db_intents (tables d)) \<noteq> None
          \<and> zod_accepts Zod3 AccessIntentSchema (intent_view_json w)) d"
  unfolding getAccessIntent_def getAccessIntentById_def assms(1)
proof (rule returns_andThen, rule returns_intent_find)
  fix d' w
  assume found: "find (matches_intent (ByIntentId i)) (db_intents (tables d)) = Some (iw_intent w)"
    and "iw_intent w \<in> set (db_intents (tables d))" and "related (tables d) (iw_intent w) w"
  with assms(2) have "intent_printable (iw_intent w)" "\<And>r. iw_accessReceipt w = Some r \<Longrightarrow> receipt_printable r"
    by (auto simp: rows_printable_def list_all_iff related_def intro: found_printable [OF assms(2)])
  then show "returns (returnP (map_option (\<lambda>w. toAccessIntentView (iw_intent w) None (iw_accessReceipt w)) (Some w)))
     (\<lambda>v d'. case v of
         None \<Rightarrow> find (matches_intent (ByIntentId i)) (db_intents (tables d)) = None
       | Some w \<Rightarrow> find (matches_intent (ByIntentId i)) (db_intents (tables d)) \<noteq> None
           \<and> zod_accepts Zod3 AccessIntentSchema (intent_view_json w)) d'"
    by (simp add: intent_view_accepted found del: matches_intent.simps)
qed simp

lemma returns_verify_printable:
  assumes rows: "rows_printable (tables d)" and at': "common_era verifiedAt"
  shows "returns (verifyAccessReceipt ops verify verifiedAt now token) (\<lambda>v d'. verification_printable v) d"
proof -
  have un: "verification_printable (unstored_view j s r verifiedAt)" for j s r
    using at' by (simp add: verification_printable_def unstored_view_def dates_printable_def)
  have st: "verification_printable (stored_view b s r verifiedAt row)" if "receipt_printable row" for b s r row
    using at' that by (simp add: verification_printable_def stored_view_def dates_printable_def receipt_printable_def)
  show ?thesis
    unfolding verifyAccessReceipt_def getAccessReceiptByJti_def setReceiptExpired_def
    by (auto intro!: returns_andThen returns_receipt_find returns_receipt_update returns_event un st
        found_printable [OF rows] split: sum.split option.split bool.split)
qed

lemma returns_redeem_rows:
  assumes rows: "rows_printable (tables d)" and now: "common_era now"
  shows "returns (redeemAccessReceiptAtomically ops i now)
    (\<lambda>r d'. rows_printable (tables d') \<and> (\<forall>u. redeemed_receipt r = Some u \<longrightarrow> receipt_printable u)) d"
  unfolding redeemAccessReceiptAtomically_def Let_def
proof (rule returns_andThen, rule returns_receipt_find, rule returns_option, goal_cases)
  case (1 d1)
  then show ?case using rows by simp
next
  case (2 d1 r)
  show ?case
  proof (rule returns_andThen, rule returns_updateMany, rule returns_if, goal_cases)
    case (1 d2)
    with 2 rows now show ?case by (simp add: printable_change printable_redeemed)
  next
    case (2 d2)
    with \<open>tables d1 = tables d\<close> rows now have ok: "rows_printable (tables d2)"
      by (simp add: printable_change printable_redeemed)
    show ?case
      by (rule returns_andThen, rule returns_receipt_find) (auto simp: ok intro: found_printable [OF ok])
  qed
qed

lemma returns_redeem_printable:
  assumes rows: "rows_printable (tables d)" and t: "common_era at'" "common_era atomicNow"
    and r: "res_key resource \<noteq> []" "subj_id subject \<noteq> []"
  shows "returns (redeemReceipt ops verify at' now atomicNow token resource subject)
    (\<lambda>v d'. redemption_printable v) d"
proof -
  have den: "redemption_printable (denial_view dn)"
    if "evaluatePreAtomicRedemptionDenial sig (map_option snapshot_of found) resource subject at' now = Some dn"
      "\<And>q. found = Some q \<Longrightarrow> receipt_printable q" for sig found dn
    using that t r
    by (auto simp: evaluatePreAtomicRedemptionDenial_def redemption_printable_def denial_view_def
        receipt_printable_def snapshot_of_def split: bool.splits option.splits if_splits)
  have nac: "redemption_printable (not_active_view q j resource subject at')" if "receipt_printable q" for q j
    using that t r by (simp add: redemption_printable_def not_active_view_def receipt_printable_def)
  have gra: "redemption_printable (granted_view q resource subject at')" if "receipt_printable q" for q
    using that t r by (simp add: redemption_printable_def granted_view_def receipt_printable_def)
  have stored: "returns (redeemStored ops at' atomicNow resource subject q) (\<lambda>v d'. redemption_printable v) d1"
    if q: "receipt_printable q" and d1: "rows_printable (tables d1)" for q d1
    unfolding redeemStored_def
  proof (rule returns_andThen, rule returns_mono [OF returns_redeem_rows [OF d1 t(2)]])
    fix red d2
    assume red: "rows_printable (tables d2) \<and> (\<forall>u. redeemed_receipt red = Some u \<longrightarrow> receipt_printable u)"
    have look: "returns (andThen (getAccessReceiptByJti ops j) (\<lambda>current.
        returnP (not_active_view (case current of Some c \<Rightarrow> c | None \<Rightarrow> q) j resource subject at')))
        (\<lambda>v d'. redemption_printable v) d2" for j
      unfolding getAccessReceiptByJti_def
      by (rule returns_andThen, rule returns_receipt_find)
        (use red q in \<open>auto intro!: nac intro: found_printable split: option.split\<close>)
    have grant: "returns (andThen (redeemed_events ops u) (\<lambda>_. returnP (granted_view u resource subject at')))
        (\<lambda>v d'. redemption_printable v) d2" if "receipt_printable u" for u
      by (rule returns_andThen, rule returnsI) (simp add: gra that)
    show "returns (case (updated red, redeemed_receipt red) of
        (True, Some u) \<Rightarrow> andThen (redeemed_events ops u) (\<lambda>_. returnP (granted_view u resource subject at'))
      | _ \<Rightarrow> andThen (getAccessReceiptByJti ops (dr_jti q)) (\<lambda>current.
          returnP (not_active_view (case current of Some c \<Rightarrow> c | None \<Rightarrow> q) (dr_jti q) resource subject at')))
        (\<lambda>v d'. redemption_printable v) d2"
      using red look grant by (auto split: bool.split option.split)
  qed
  have looked: "returns (redeemLookedUp ops at' now atomicNow resource subject sig found)
      (\<lambda>v d'. redemption_printable v) d1"
    if "\<And>q. found = Some q \<Longrightarrow> receipt_printable q" "rows_printable (tables d1)" for sig found d1
  proof (cases "evaluatePreAtomicRedemptionDenial sig (map_option snapshot_of found) resource subject at' now")
    case None
    with that show ?thesis by (auto simp: redeemLookedUp_def intro: stored split: option.split)
  next
    case (Some dn)
    with den [OF Some that(1)] show ?thesis
      by (auto simp: redeemLookedUp_def setReceiptExpired_def intro!: returns_andThen returns_receipt_update
          split: option.split)
  qed
  show ?thesis
    unfolding redeemReceipt_def getAccessReceiptByJti_def
    by (auto intro!: returns_andThen returns_receipt_find looked found_printable [OF rows] simp: rows
        split: sum.split option.split bool.split)
qed

end

section \<open>Requests\<close>

definition well_formed :: "app_request \<Rightarrow> bool" where
  "well_formed request \<longleftrightarrow>
     (case request of
        PostAccessIntents b \<Rightarrow> zod_accepts Zod3 CreateAccessIntentRequestSchema b
      | PostReceiptsVerify b \<Rightarrow> zod_accepts Zod3 VerifyAccessReceiptRequestSchema b
      | PostReceiptsRedeem b \<Rightarrow> zod_accepts Zod3 RedeemAccessReceiptRequestSchema b
      | _ \<Rightarrow> True)"

lemma schema_parse_accepted:
  "zod_parser Zod3 sp \<Longrightarrow> zod_accepts Zod3 t v \<Longrightarrow> schema_parse sp t v = Inr (zod_output t v)"
  by (simp add: schema_parse_def zod_parser.accepted)

lemma schema_parse_rejected:
  "zod_parser Zod3 sp \<Longrightarrow> \<not> zod_accepts Zod3 t v \<Longrightarrow> \<exists>is. is \<noteq> [] \<and> schema_parse sp t v = Inl (ZodError is)"
  using zod_parser.rejected by (fastforce simp: schema_parse_def)

lemma send_accepted:
  "zod_parser Zod3 sp \<Longrightarrow> zod_accepts Zod3 t v \<Longrightarrow>
   send_parsed sp t st v = Inr \<lparr>reply_status = st, reply_body = zod_output t v\<rparr>"
  by (simp add: send_parsed_def schema_parse_accepted)

lemma sent_body:
  "zod_parser d sp \<Longrightarrow> send_parsed sp t st v = Inr reply \<Longrightarrow> reply_body reply = zod_output t v"
  by (auto simp: send_parsed_def schema_parse_def zod_parser.sp_Inr_Inr_iff split: sum.splits)

lemma read_resource_nonempty:
  "zod_accepts d ResourceSchema v \<Longrightarrow> res_key (read_resource (zod_output ResourceSchema v)) \<noteq> []"
  "zod_accepts d SubjectSchema v \<Longrightarrow> subj_id (read_subject (zod_output SubjectSchema v)) \<noteq> []"
  by (auto simp: ResourceSchema_def SubjectSchema_def read_resource_def read_subject_def zod_accepts.simps
      Suc_le_eq split: jsval.splits)

lemma redeem_body_nonempty:
  assumes "zod_accepts d RedeemAccessReceiptRequestSchema b"
  defines "out \<equiv> zod_output RedeemAccessReceiptRequestSchema b"
  shows "res_key (read_resource (js_get out ''resource'')) \<noteq> []"
    "subj_id (read_subject (js_get out ''subject'')) \<noteq> []"
proof -
  have "zod_accepts d ResourceSchema (js_get b ''resource'')" "zod_accepts d SubjectSchema (js_get b ''subject'')"
    using assms(1) by (simp_all add: RedeemAccessReceiptRequestSchema_def zod_accepts.simps)
  moreover have "js_get out ''resource'' = zod_output ResourceSchema (js_get b ''resource'')"
    "js_get out ''subject'' = zod_output SubjectSchema (js_get b ''subject'')"
    by (simp_all add: out_def RedeemAccessReceiptRequestSchema_def ResourceSchema_def SubjectSchema_def)
  ultimately show "res_key (read_resource (js_get out ''resource'')) \<noteq> []"
    "subj_id (read_subject (js_get out ''subject'')) \<noteq> []"
    by (simp_all add: read_resource_nonempty)
qed

lemma run_callService:
  "run (callService p answer) d =
     (case run p d of (Inl e, d') \<Rightarrow> (Inl (OtherError e), d') | (Inr a, d') \<Rightarrow> (answer a, d'))"
  by (auto simp: callService_def run_bindP split: prod.split sum.split)

text \<open>A handler whose service call returns only what it can send answers with that, or with 500.\<close>

definition answers :: "('d, thrown + app_reply) prog \<Rightarrow> (nat \<Rightarrow> bool) \<Rightarrow> 'd \<Rightarrow> bool" where
  "answers p S d \<longleftrightarrow>
     (case run p d of (Inr reply, d') \<Rightarrow> S (reply_status reply) | (Inl (ZodError is), d') \<Rightarrow> S 400
      | (Inl (OtherError e), d') \<Rightarrow> S 500)"

lemma answers_reply:
  assumes "run (respondTo sp app env request) d = (reply, d')" and "answers (handler sp app env request) S d"
  shows "S (reply_status reply)"
proof -
  obtain r d1 where "run (handler sp app env request) d = (r, d1)" by fastforce
  with assms show ?thesis
    by (cases r; auto simp: respondTo_def run_bindP answers_def split: thrown.splits)
qed

lemma answers_callService:
  assumes "returns p (\<lambda>a d'. \<exists>reply. answer a = Inr reply \<and> S (reply_status reply)) d" and "S 500"
  shows "answers (callService p answer) S d"
proof -
  obtain r d1 where r: "run p d = (r, d1)" by fastforce
  with assms show ?thesis
    by (cases r) (auto simp: answers_def run_callService dest: returnsD)
qed

lemma accepts_wrapped:
  "zod_accepts d (ZObject [(k, t)]) (JObj [(k, v)] []) = zod_accepts d t v"
  by (simp add: zod_accepts.simps)

lemma jwks_accepted: "zod_accepts Zod3 JwksResponseSchema (getPublicJwks keys)"
  by (simp add: JwksResponseSchema_def JwkSchema_def getPublicJwks_def object_spread_def zod_accepts.simps
      list_all_iff case_prod_beta)

lemma built_jwks:
  assumes "buildApp sp lib tools sha256Hex env db options = Inr app" and "bo_receiptSigner options = None"
  shows "zod_accepts Zod3 JwksResponseSchema (ls_getPublicJwks (app_signer app))"
  using assms by (auto simp: buildApp_def Let_def createJwtAccessReceiptSigner_def result_simps jwks_accepted)

text \<open>The request repeats the idempotency key of a stored intent.\<close>

definition repeats_key :: "create_intent_input \<Rightarrow> db \<Rightarrow> bool" where
  "repeats_key input t \<longleftrightarrow>
     (case map_option js_trim (ci_idempotencyKey input) of
        None \<Rightarrow> False
      | Some k \<Rightarrow> k \<noteq> [] \<and> find (matches_intent (ByIdempotencyKey k)) (db_intents t) \<noteq> None)"

definition create_input :: "jsval \<Rightarrow> create_intent_input" where
  "create_input b = read_create_input (zod_output CreateAccessIntentRequestSchema b)"

text \<open>The statuses that a well-formed request can be answered with.\<close>

definition allowed_statuses :: "app_request \<Rightarrow> db \<Rightarrow> nat set" where
  "allowed_statuses request t =
     (case request of
        PostAccessIntents b \<Rightarrow> {if repeats_key (create_input b) t then 200 else 201, 500}
      | GetAccessIntent p \<Rightarrow>
          (if find (matches_intent (ByIntentId (case p of Some i \<Rightarrow> i | None \<Rightarrow> []))) (db_intents t) = None
           then {404, 500} else {200, 500})
      | GetJwks \<Rightarrow> {200}
      | GetHealth \<Rightarrow> {200}
      | _ \<Rightarrow> {200, 500})"

lemma answers_send:
  assumes "zod_parser Zod3 sp" and "zod_accepts Zod3 t v"
  shows "\<exists>reply. send_parsed sp t st v = Inr reply \<and> reply_status reply = st"
  using send_accepted [OF assms, of st] by simp

context prisma_service
begin

text \<open>The answers of each route to a well-formed request.\<close>

lemma getAccessIntent_answers:
  assumes sp: "zod_parser Zod3 sp" and db: "fls_db (app_service app) = ops" and rows: "rows_printable (tables d)"
  shows "answers (getAccessIntentRoute sp app p)
    (\<lambda>s. s \<in> allowed_statuses (GetAccessIntent p) (tables d)) d"
  unfolding getAccessIntentRoute_def
proof (rule answers_callService, rule returns_mono [OF returns_getAccessIntent [OF db rows]], goal_cases)
  case (1 a d')
  have "\<exists>reply. send_parsed sp GetAccessIntentResponseSchema 200 (JObj [(''accessIntent'', intent_view_json w)] [])
      = Inr reply \<and> reply_status reply = 200" if "a = Some w" for w
    by (rule answers_send [OF sp]) (use 1 that in \<open>simp add: GetAccessIntentResponseSchema_def accepts_wrapped\<close>)
  with 1 show ?case by (cases a) (auto simp: allowed_statuses_def)
qed (simp add: allowed_statuses_def)

lemma postReceiptsVerify_answers:
  assumes sp: "zod_parser Zod3 sp" and db: "fls_db (app_service app) = ops" and rows: "rows_printable (tables d)"
    and t: "common_era (re_at env)" and b: "zod_accepts Zod3 VerifyAccessReceiptRequestSchema b"
  shows "answers (postReceiptsVerify sp app env b) (\<lambda>s. s \<in> {200, 500}) d"
proof -
  have "answers (callService
      (verifyAccessReceipt (fls_db (app_service app)) (serviceVerify app env) (re_at env) (re_now env) token)
      (\<lambda>v. send_parsed sp VerifyAccessReceiptResponseSchema 200
         (JObj [(''receiptVerification'', verification_view_json v)] []))) (\<lambda>s. s \<in> {200, 500}) d" for token
    unfolding db
    by (rule answers_callService, rule returns_mono [OF returns_verify_printable [OF rows t]])
      (use answers_send [OF sp verification_view_accepted, of _ 200] in auto)
  then show ?thesis by (simp add: postReceiptsVerify_def schema_parse_accepted [OF sp b])
qed

lemma postReceiptsRedeem_answers:
  assumes sp: "zod_parser Zod3 sp" and db: "fls_db (app_service app) = ops" and rows: "rows_printable (tables d)"
    and t: "common_era (re_at env)" "common_era (re_atomicNow env)"
    and b: "zod_accepts Zod3 RedeemAccessReceiptRequestSchema b"
  shows "answers (postReceiptsRedeem sp app env b) (\<lambda>s. s \<in> {200, 500}) d"
proof -
  let ?out = "zod_output RedeemAccessReceiptRequestSchema b"
  have "answers (callService (redeemReceipt (fls_db (app_service app)) (serviceVerify app env) (re_at env)
        (re_now env) (re_atomicNow env) token (read_resource (js_get ?out ''resource''))
        (read_subject (js_get ?out ''subject'')))
      (\<lambda>v. send_parsed sp RedeemAccessReceiptResponseSchema 200 (JObj [(''redemption'', redemption_view_json v)] [])))
      (\<lambda>s. s \<in> {200, 500}) d" for token
    unfolding db
    by (rule answers_callService, rule returns_mono [OF returns_redeem_printable [OF rows t redeem_body_nonempty [OF b]]])
      (use answers_send [OF sp redemption_view_accepted, of _ 200] in auto)
  then show ?thesis by (simp add: postReceiptsRedeem_def schema_parse_accepted [OF sp b])
qed

end

lemma malformed_refused:
  assumes "zod_parser Zod3 sp" and "\<not> well_formed request"
  shows "\<exists>is. is \<noteq> [] \<and> run (handler sp app env request) d = (Inl (ZodError is), d)"
proof -
  have "\<exists>is. is \<noteq> [] \<and> schema_parse sp t v = Inl (ZodError is)" if "\<not> zod_accepts Zod3 t v" for t v
    by (rule schema_parse_rejected [OF assms(1) that])
  with assms(2) show ?thesis
    by (cases request)
      (fastforce simp: well_formed_def postAccessIntents_def postReceiptsVerify_def postReceiptsRedeem_def)+
qed

section \<open>A sample of the application\<close>

definition sample_tools :: "string key_tools" where
  "sample_tools =
     \<lparr>kt_parse = (\<lambda>s. Inr JNull), kt_importJWK = (\<lambda>j a. Inr ''priv''), kt_exportJWK = (\<lambda>k. Inr (JObj [] [])),
      kt_thumbprint = (\<lambda>j. Inr ''kid''), kt_generateKeyPair = (\<lambda>c. Inr (''priv'', ''pub'')),
      kt_importPKCS8 = (\<lambda>p a. Inr ''priv'')\<rparr>"

definition sample_options :: "(db, string) build_app_options" where
  "sample_options =
     \<lparr>bo_prisma = None, bo_fiberClient = Some FakeMode, bo_runtimeConfig = Some sample_runtime,
      bo_signingKeyMaterial = None, bo_receiptSigner = None\<rparr>"

definition sample_request_env :: app_request_env where
  "sample_request_env =
     \<lparr>re_call = sample_env ''paid'', re_clock = 0, re_at = 0, re_now = 0, re_atomicNow = 0\<rparr>"

end
