(* ===== verification/Answered_Requests.thy ===== *)
theory Answered_Requests
  imports Http_Properties Issue_And_Redeem
begin

text \<open>
  What every request is answered with. A response is refused by its own schema only when a row or a date
  in it cannot be printed; the routes that create an intent or a receipt write only printable rows when
  the clock, the Fiber answers and the terms of the policies are printable.
\<close>

section \<open>A client that names and stamps its rows\<close>




section \<open>Printable inputs\<close>













section \<open>The calls of the service\<close>


section \<open>Properties\<close>






end
