(* ===== verification/Reconciliation_Worker.thy ===== *)
theory Reconciliation_Worker
  imports Issuance_Properties
begin

text \<open>
  The reconciliation worker of the historical service
  (\<^verbatim>\<open>src/workers/fiber-reconciliation-worker.ts\<close>): an object with one timer that starts a reconciliation
  at every tick. A system of one worker holds the intervals it has set, the reconciliations that are
  under way, and the database they share with the rest of the program; its step relation has a step for
  every call of \<open>start\<close> and \<open>stop\<close>, every tick, and every access of a reconciliation to the database.
\<close>

section \<open>Intervals of Node\<close>

record interval_timer =
  it_id :: nat
  it_delay :: int
  it_ref :: bool \<comment> \<open>whether it keeps the process alive\<close>

record node_timers =
  nt_next :: nat
  nt_active :: "interval_timer list"

text \<open>A delay that is not between 1 and 2147483647 is set to 1; others are truncated.\<close>

definition timer_delay :: "jsnum \<Rightarrow> int" where
  "timer_delay ms = (case ms of Fin q \<Rightarrow> if 1 \<le> q \<and> q \<le> 2147483647 then \<lfloor>q\<rfloor> else 1 | _ \<Rightarrow> 1)"

definition setInterval :: "jsnum \<Rightarrow> node_timers \<Rightarrow> nat \<times> node_timers" where
  "setInterval ms ts =
     (nt_next ts,
      \<lparr>nt_next = Suc (nt_next ts),
       nt_active = nt_active ts @ [\<lparr>it_id = nt_next ts, it_delay = timer_delay ms, it_ref = True\<rparr>]\<rparr>)"

definition unref :: "nat \<Rightarrow> node_timers \<Rightarrow> node_timers" where
  "unref t ts =
     ts\<lparr>nt_active := map (\<lambda>iv. if it_id iv = t then iv\<lparr>it_ref := False\<rparr> else iv) (nt_active ts)\<rparr>"

definition clearInterval :: "nat \<Rightarrow> node_timers \<Rightarrow> node_timers" where
  "clearInterval t ts = ts\<lparr>nt_active := filter (\<lambda>iv. it_id iv \<noteq> t) (nt_active ts)\<rparr>"

lemma timer_delay_bounds: "1 \<le> timer_delay ms" "timer_delay ms \<le> 2147483647"
  by (auto simp: timer_delay_def floor_le_iff split: jsnum.split)

section \<open>The worker\<close>

record 'd fiber_worker =
  wk_service :: "'d fiber_latch_service"
  wk_pollIntervalMs :: jsnum
  wk_timer :: "nat option"

definition newWorker :: "'d fiber_latch_service \<Rightarrow> jsnum \<Rightarrow> 'd fiber_worker" where
  "newWorker service pollIntervalMs =
     \<lparr>wk_service = service, wk_pollIntervalMs = pollIntervalMs, wk_timer = None\<rparr>"

definition runOnce ::
  "'d fiber_worker \<Rightarrow> (nat \<Rightarrow> call_env) \<Rightarrow> ('d, js_exn + reconciliation_summary) prog" where
  "runOnce worker env = reconcileOpenAccessIntents (wk_service worker) env"

text \<open>The callback of the interval: its promise is left to itself, and a rejection is caught.\<close>

definition worker_tick :: "'d fiber_worker \<Rightarrow> (nat \<Rightarrow> call_env) \<Rightarrow> ('d, js_exn + unit) prog" where
  "worker_tick worker env = catchP (andThen (runOnce worker env) (\<lambda>_. returnP ())) (\<lambda>_. returnP ())"

definition worker_start :: "'d fiber_worker \<Rightarrow> node_timers \<Rightarrow> 'd fiber_worker \<times> node_timers" where
  "worker_start worker ts =
     (case wk_timer worker of
        Some _ \<Rightarrow> (worker, ts)
      | None \<Rightarrow>
          (case setInterval (wk_pollIntervalMs worker) ts of
             (timer, ts') \<Rightarrow> (worker\<lparr>wk_timer := Some timer\<rparr>, unref timer ts')))"

definition worker_stop :: "'d fiber_worker \<Rightarrow> node_timers \<Rightarrow> 'd fiber_worker \<times> node_timers" where
  "worker_stop worker ts =
     (case wk_timer worker of
        None \<Rightarrow> (worker, ts)
      | Some timer \<Rightarrow> (worker\<lparr>wk_timer := None\<rparr>, clearInterval timer ts))"

section \<open>The system of one worker\<close>

record 'd worker_system =
  sys_worker :: "'d fiber_worker"
  sys_timers :: node_timers
  sys_runs :: "('d, js_exn + unit) prog list" \<comment> \<open>the promises of the ticks so far\<close>
  sys_data :: 'd

definition new_system :: "'d fiber_latch_service \<Rightarrow> jsnum \<Rightarrow> 'd \<Rightarrow> 'd worker_system" where
  "new_system service ms d =
     \<lparr>sys_worker = newWorker service ms, sys_timers = \<lparr>nt_next = 0, nt_active = []\<rparr>, sys_runs = [],
      sys_data = d\<rparr>"

inductive worker_step :: "('d \<Rightarrow> 'd \<Rightarrow> bool) \<Rightarrow> 'd worker_system \<Rightarrow> 'd worker_system \<Rightarrow> bool"
  for others where
  start: "worker_start (sys_worker s) (sys_timers s) = (w, ts) \<Longrightarrow>
    worker_step others s (s\<lparr>sys_worker := w, sys_timers := ts\<rparr>)"
| stop: "worker_stop (sys_worker s) (sys_timers s) = (w, ts) \<Longrightarrow>
    worker_step others s (s\<lparr>sys_worker := w, sys_timers := ts\<rparr>)"
| tick: "iv \<in> set (nt_active (sys_timers s)) \<Longrightarrow>
    worker_step others s (s\<lparr>sys_runs := sys_runs s @ [worker_tick (sys_worker s) env]\<rparr>)"
| access: "i < length (sys_runs s) \<Longrightarrow> sys_runs s ! i = Step f \<Longrightarrow> f (sys_data s) = (p, d') \<Longrightarrow>
    worker_step others s (s\<lparr>sys_runs := (sys_runs s)[i := p], sys_data := d'\<rparr>)"
| other: "others (sys_data s) d' \<Longrightarrow> worker_step others s (s\<lparr>sys_data := d'\<rparr>)"

definition worker_reachable ::
  "('d \<Rightarrow> 'd \<Rightarrow> bool) \<Rightarrow> 'd worker_system \<Rightarrow> 'd worker_system \<Rightarrow> bool" where
  "worker_reachable others = (worker_step others)\<^sup>*\<^sup>*"

section \<open>The invariant of the system\<close>

text \<open>The intervals that are set are the worker's own one, and it does not keep the process alive.\<close>

definition timers_ok :: "'d fiber_worker \<Rightarrow> node_timers \<Rightarrow> bool" where
  "timers_ok w ts \<longleftrightarrow>
     nt_active ts = (case wk_timer w of None \<Rightarrow> []
       | Some t \<Rightarrow> [\<lparr>it_id = t, it_delay = timer_delay (wk_pollIntervalMs w), it_ref = False\<rparr>])"

lemma start_ok: "timers_ok w ts \<Longrightarrow> worker_start w ts = (w', ts') \<Longrightarrow> timers_ok w' ts'"
  by (auto simp: timers_ok_def worker_start_def setInterval_def unref_def split: option.splits)

lemma stop_ok: "timers_ok w ts \<Longrightarrow> worker_stop w ts = (w', ts') \<Longrightarrow> timers_ok w' ts'"
  by (auto simp: timers_ok_def worker_stop_def clearInterval_def split: option.splits)

lemma start_service: "worker_start w ts = (w', ts') \<Longrightarrow>
    wk_service w' = wk_service w \<and> wk_pollIntervalMs w' = wk_pollIntervalMs w"
  by (auto simp: worker_start_def setInterval_def split: option.splits)

lemma stop_service: "worker_stop w ts = (w', ts') \<Longrightarrow>
    wk_service w' = wk_service w \<and> wk_pollIntervalMs w' = wk_pollIntervalMs w"
  by (auto simp: worker_stop_def split: option.splits)

text \<open>A run keeps \<open>I\<close> at each of its steps, and ends without an error.\<close>

definition quiet :: "('d \<Rightarrow> bool) \<Rightarrow> ('d, js_exn + unit) prog \<Rightarrow> bool" where
  "quiet I p \<longleftrightarrow> accounts I (\<lambda>_. 0) (\<lambda>r _. r = Inr ()) p 0"

lemma quiet_step: "quiet I (Step f) \<Longrightarrow> I d \<Longrightarrow> f d = (p, d') \<Longrightarrow> I d' \<and> quiet I p"
  unfolding quiet_def by (drule accounts_Step_D) auto

lemma quiet_tick:
  assumes "prisma_service (fls_db (wk_service w)) tables"
  shows "quiet (\<lambda>d. issuance_ok (tables d)) (worker_tick w env)"
proof -
  let ?I = "\<lambda>d. issuance_ok (tables d)"
  have "keeps ?I (andThen (runOnce w env) (\<lambda>_. returnP ()))"
    unfolding runOnce_def
    by (intro keeps_andThen prisma_service.keeps_reconcileOpen [OF assms refl]) simp
  from accounts_constant [OF this [unfolded keeps_def]]
  have "accounts ?I (\<lambda>_. 0) (\<lambda>_ n. n = 0) (andThen (runOnce w env) (\<lambda>_. returnP ())) 0" .
  then show ?thesis
    unfolding quiet_def worker_tick_def catchP_def
    by (intro accounts_bindP) (auto elim!: accounts_mono split: sum.split)
qed

definition system_ok :: "'d fiber_latch_service \<Rightarrow> ('d \<Rightarrow> bool) \<Rightarrow> 'd worker_system \<Rightarrow> bool" where
  "system_ok service I s \<longleftrightarrow>
     wk_service (sys_worker s) = service \<and> timers_ok (sys_worker s) (sys_timers s)
     \<and> (\<forall>p \<in> set (sys_runs s). quiet I p) \<and> I (sys_data s)"

lemma system_step:
  assumes "prisma_service (fls_db service) tables"
    and "\<And>d d'. issuance_ok (tables d) \<Longrightarrow> others d d' \<Longrightarrow> issuance_ok (tables d')"
    and "worker_step others s s'" and "system_ok service (\<lambda>d. issuance_ok (tables d)) s"
  shows "system_ok service (\<lambda>d. issuance_ok (tables d)) s'"
  using assms(3)
proof cases
  case (start w ts)
  with assms(4) show ?thesis by (auto simp: system_ok_def dest: start_service intro: start_ok)
next
  case (stop w ts)
  with assms(4) show ?thesis by (auto simp: system_ok_def dest: stop_service intro: stop_ok)
next
  case (tick iv env)
  with assms(1,4) show ?thesis by (auto simp: system_ok_def quiet_tick)
next
  case (access i f p d')
  from access(2) nth_mem [OF access(2)] assms(4) have "quiet (\<lambda>d. issuance_ok (tables d)) (Step f)"
    by (auto simp: system_ok_def access(3))
  from quiet_step [OF this _ access(4)] assms(4) access(1) show ?thesis
    by (auto simp: system_ok_def dest!: set_update_subset_insert [THEN subsetD])
next
  case (other d')
  with assms(2,4) show ?thesis by (auto simp: system_ok_def)
qed

lemma system_reachable:
  assumes "prisma_service (fls_db service) tables"
    and "\<And>d d'. issuance_ok (tables d) \<Longrightarrow> others d d' \<Longrightarrow> issuance_ok (tables d')"
    and "worker_reachable others (new_system service ms d0) s" and "issuance_ok (tables d0)"
  shows "system_ok service (\<lambda>d. issuance_ok (tables d)) s"
  using assms(3) unfolding worker_reachable_def
proof (induction rule: rtranclp_induct)
  case base
  with assms(4) show ?case by (simp add: system_ok_def new_system_def newWorker_def timers_ok_def)
next
  case (step s s')
  from system_step [OF assms(1,2) step.hyps(2) step.IH] show ?case .
qed

section \<open>Property\<close>

text \<open>
  C38: however the calls of \<open>start\<close> and \<open>stop\<close>, the ticks, the database accesses of the reconciliations
  under way and those of other code follow each other: the worker has an interval set exactly while it
  holds a timer, and then only that one, with a delay of 1 to 2147483647 milliseconds and without keeping the
  process alive; no tick ends in an unhandled error; and intents and receipts stay matched, even when
  reconciliations overlap.
\<close>

theorem worker_keeps_one_interval:
  assumes "prisma_service (fls_db service) tables"
    and "\<And>d d'. issuance_ok (tables d) \<Longrightarrow> others d d' \<Longrightarrow> issuance_ok (tables d')"
    and "worker_reachable others (new_system service ms d0) s" and "issuance_ok (tables d0)"
  shows "map it_id (nt_active (sys_timers s))
      = (case wk_timer (sys_worker s) of None \<Rightarrow> [] | Some t \<Rightarrow> [t])
    \<and> (\<forall>iv \<in> set (nt_active (sys_timers s)). \<not> it_ref iv \<and> 1 \<le> it_delay iv \<and> it_delay iv \<le> 2147483647)
    \<and> (\<forall>e. Return (Inl e) \<notin> set (sys_runs s)) \<and> issuance_ok (tables (sys_data s))"
proof -
  have ok: "system_ok service (\<lambda>d. issuance_ok (tables d)) s"
    by (rule system_reachable [OF assms(1) _ assms(3,4)]) (rule assms(2))
  have "\<not> quiet (\<lambda>d. issuance_ok (tables d)) (Return (Inl e))" for e by (simp add: quiet_def)
  with ok show ?thesis
    by (auto simp: system_ok_def timers_ok_def timer_delay_bounds split: option.splits)
qed

text \<open>Started twice, ticked, stopped and started again: one interval, the second that was set.\<close>

theorem worker_keeps_one_interval_witness:
  "\<exists>s. worker_reachable (=) (new_system (sample_service_with RealMode) (Fin 5000) pending_db) s
     \<and> length (sys_runs s) = 1 \<and> map it_id (nt_active (sys_timers s)) = [1]"
proof -
  let ?S = "sample_service_with RealMode" and ?env = "\<lambda>n :: nat. sample_env ''paid''"
  let ?w = "newWorker ?S (Fin 5000)" and ?iv = "\<lambda>t. \<lparr>it_id = t, it_delay = 5000, it_ref = False\<rparr>"
  let ?on = "\<lambda>t runs. \<lparr>sys_worker = ?w\<lparr>wk_timer := Some t\<rparr>,
      sys_timers = \<lparr>nt_next = Suc t, nt_active = [?iv t]\<rparr>, sys_runs = runs, sys_data = pending_db\<rparr>"
  let ?r = "worker_tick (?w\<lparr>wk_timer := Some 0\<rparr>) ?env"
  let ?off = "\<lparr>sys_worker = ?w, sys_timers = \<lparr>nt_next = 1, nt_active = []\<rparr>, sys_runs = [?r], sys_data = pending_db\<rparr>"
  have delay: "timer_delay (Fin 5000) = 5000" by (simp add: timer_delay_def)
  have "worker_step (=) (new_system ?S (Fin 5000) pending_db) (?on 0 [])"
    using worker_step.start [of "new_system ?S (Fin 5000) pending_db"]
    by (simp add: new_system_def worker_start_def newWorker_def setInterval_def unref_def delay)
  moreover have "worker_step (=) (?on 0 []) (?on 0 [])"
    using worker_step.start [of "?on 0 []"] by (simp add: worker_start_def)
  moreover have "worker_step (=) (?on 0 []) (?on 0 [?r])"
    using worker_step.tick [of "?iv 0" "?on 0 []" "(=)" ?env] by simp
  moreover have "worker_step (=) (?on 0 [?r]) ?off"
    using worker_step.stop [of "?on 0 [?r]" _ _ "(=)"] by (simp add: worker_stop_def clearInterval_def newWorker_def)
  moreover have "worker_step (=) ?off (?on 1 [?r])"
    using worker_step.start [of ?off] by (simp add: worker_start_def newWorker_def setInterval_def unref_def delay)
  ultimately have run: "worker_reachable (=) (new_system ?S (Fin 5000) pending_db) (?on 1 [?r])"
    unfolding worker_reachable_def by (meson rtranclp.rtrancl_into_rtrancl rtranclp.rtrancl_refl)
  have db: "prisma_service (fls_db ?S) (\<lambda>t. t)" by (simp add: relational_service.prisma_service_axioms)
  have ok: "issuance_ok pending_db"
    by (simp add: consistent_def pending_db_def sample_pending_def sample_policy_def policy_for_def)
  from worker_keeps_one_interval [where tables = "\<lambda>t. t", OF db _ run ok] run
  show ?thesis by (intro exI [of _ "?on 1 [?r]"]) simp
qed

end
