(* ===== verification/Testnet_Verify.thy ===== *)
theory Testnet_Verify
  imports Runtime_Config JS_Dates
begin

text \<open>
  The manual check against a live Fiber node (\<^verbatim>\<open>scripts/fiber-testnet-verify.ts\<close>): reading of its
  environment, the choice between verifying a payment and creating an invoice, and what it prints with
  addresses and hashes masked. A run of the script maps the environment and the state of the network
  to the object it prints, or to the error with which it exits.
\<close>

section \<open>Masking\<close>

text \<open>\<open>s.slice(-n)\<close>\<close>

definition slice_end :: "nat \<Rightarrow> string \<Rightarrow> string" where
  "slice_end n s = drop (length s - n) s"

definition maskValue :: "string option \<Rightarrow> string option" where
  "maskValue value =
     (case value of
        None \<Rightarrow> None
      | Some v \<Rightarrow>
          if v = [] then None
          else (let trimmed = js_trim v in
            if length trimmed \<le> 8
            then Some (take 2 trimmed @ ''...'' @ slice_end 2 trimmed)
            else Some (take 4 trimmed @ ''...'' @ slice_end 4 trimmed)))"

lemma slice_end_append: "n \<le> length b \<Longrightarrow> slice_end n (a @ b) = slice_end n b"
  by (simp add: slice_end_def)

text \<open>Of a value of more than eight characters a mask shows the first four and the last four.\<close>

lemma mask_hides_middle:
  assumes "js_trim v = a @ m @ b" and "length a = 4" and "length b = 4" and "m \<noteq> []"
  shows "maskValue (Some v) = Some (a @ ''...'' @ b)"
proof -
  have "v \<noteq> []" using assms by (auto simp: js_trim_def)
  moreover have "length (js_trim v) > 8" using assms by (cases m) simp_all
  moreover have "slice_end 4 (js_trim v) = b"
    using assms(1,3) by (simp add: slice_end_append) (simp add: slice_end_def)
  ultimately show ?thesis using assms(1,2) by (simp add: maskValue_def Let_def)
qed

section \<open>The environment of the script\<close>

definition js_truthy_string :: "string option \<Rightarrow> bool" where
  "js_truthy_string v \<longleftrightarrow> (case v of None \<Rightarrow> False | Some s \<Rightarrow> s \<noteq> [])"

definition readOptionalEnv :: "environment \<Rightarrow> string \<Rightarrow> string option" where
  "readOptionalEnv env name = trimmed_or_null (env name)"

definition requireEnv :: "environment \<Rightarrow> string \<Rightarrow> js_exn + string" where
  "requireEnv env name =
     (case trimmed_or_null (env name) of
        None \<Rightarrow> Inl (JSError (''Missing required environment variable: '' @ name))
      | Some value \<Rightarrow> Inr value)"

definition parsePositiveAmountSats :: "string \<Rightarrow> js_exn + jsnum" where
  "parsePositiveAmountSats value =
     (let parsed = js_number_of_string value in
      if \<not> is_integer parsed \<or> num_le parsed (Fin 0)
      then Inl (JSError ''FIBER_MANUAL_AMOUNT_SATS must be a positive integer'')
      else Inr parsed)"

definition readManualPaymentHash :: "environment \<Rightarrow> js_exn + string option" where
  "readManualPaymentHash env =
     (let paymentHash = readOptionalEnv env ''FIBER_MANUAL_PAYMENT_HASH'';
          legacyPaymentRef = readOptionalEnv env ''FIBER_MANUAL_PAYMENT_REF''
      in if js_truthy_string paymentHash \<and> js_truthy_string legacyPaymentRef \<and> paymentHash \<noteq> legacyPaymentRef
         then Inl (JSError ''FIBER_MANUAL_PAYMENT_HASH and FIBER_MANUAL_PAYMENT_REF were both set with different values'')
         else Inr (case paymentHash of Some h \<Rightarrow> Some h | None \<Rightarrow> legacyPaymentRef))"

record live_test_env =
  le_paymentHash :: "string option"
  le_amountSats :: "jsnum option"
  le_memo :: "string option"

definition ensureLiveTestEnv :: "environment \<Rightarrow> js_exn + live_test_env" where
  "ensureLiveTestEnv env =
     bindE (requireEnv env ''FIBER_CLIENT_MODE'') (\<lambda>fiberClientMode.
     if fiberClientMode \<noteq> ''real''
     then Inl (JSError ''FIBER_CLIENT_MODE must be set to real for live Fiber testnet verification'')
     else bindE (requireEnv env ''FIBER_NETWORK'') (\<lambda>fiberNetwork.
     if fiberNetwork \<noteq> ''testnet''
     then Inl (JSError ''FIBER_NETWORK must be set to testnet for live Fiber testnet verification'')
     else bindE (requireEnv env ''FIBER_RPC_URL'') (\<lambda>_.
     bindE (readManualPaymentHash env) (\<lambda>paymentHash.
     let amountSatsRaw = readOptionalEnv env ''FIBER_MANUAL_AMOUNT_SATS'';
         memo = readOptionalEnv env ''FIBER_MANUAL_MEMO''
     in if js_truthy_string paymentHash \<and> js_truthy_string amountSatsRaw
        then Inl (JSError ''Set only one of FIBER_MANUAL_PAYMENT_HASH/FIBER_MANUAL_PAYMENT_REF or FIBER_MANUAL_AMOUNT_SATS'')
        else if \<not> js_truthy_string paymentHash \<and> \<not> js_truthy_string amountSatsRaw
        then Inl (JSError ''Set either FIBER_MANUAL_PAYMENT_HASH (preferred), FIBER_MANUAL_PAYMENT_REF (legacy alias), or FIBER_MANUAL_AMOUNT_SATS'')
        else if js_truthy_string amountSatsRaw \<and> \<not> js_truthy_string memo
        then Inl (JSError ''FIBER_MANUAL_MEMO is required when FIBER_MANUAL_AMOUNT_SATS is set'')
        else map_sum id (\<lambda>amount.
               \<lparr>le_paymentHash = paymentHash, le_amountSats = amount, le_memo = memo\<rparr>)
             (case amountSatsRaw of
                Some raw \<Rightarrow> if raw \<noteq> [] then map_sum id Some (parsePositiveAmountSats raw) else Inr None
              | None \<Rightarrow> Inr None)))))"

section \<open>The script\<close>

definition or_null :: "('a \<Rightarrow> jsval) \<Rightarrow> 'a option \<Rightarrow> jsval" where
  "or_null f v = (case v of Some a \<Rightarrow> f a | None \<Rightarrow> JNull)"

fun invoice_status_json :: "invoice_status \<Rightarrow> jsval" where
  "invoice_status_json PAID = JStr ''PAID''"
| "invoice_status_json UNPAID = JStr ''UNPAID''"
| "invoice_status_json UNKNOWN = JStr ''UNKNOWN''"

definition verify_report :: "string \<Rightarrow> verification_result \<Rightarrow> jsval" where
  "verify_report paymentHash v = JObj
     [(''operation'', JStr ''verify''), (''paymentHash'', or_null JStr (maskValue (Some paymentHash))),
      (''verified'', JBool (vr_verified v)), (''invoiceStatus'', invoice_status_json (vr_invoiceStatus v)),
      (''rawStatus'', or_null JStr (vr_rawStatus v)),
      (''invoiceAddress'', or_null JStr (maskValue (vr_invoiceAddress v))),
      (''settledAt'', or_null (JStr \<circ> iso_string) (vr_settledAt v)),
      (''lastUpdatedAt'', or_null (JStr \<circ> iso_string) (vr_lastUpdatedAt v)),
      (''failedError'', or_null JStr (vr_failedError v)), (''fee'', or_null JStr (vr_fee v))] []"

definition invoice_report :: "invoice_result \<Rightarrow> jsval" where
  "invoice_report i = JObj
     [(''operation'', JStr ''create-invoice''),
      (''invoiceAddress'', or_null JStr (maskValue (Some (ir_invoiceAddress i)))),
      (''paymentHash'', or_null JStr (maskValue (Some (ir_paymentHash i)))),
      (''invoiceStatus'', invoice_status_json (ir_invoiceStatus i)),
      (''rawStatus'', or_null JStr (ir_rawStatus i)),
      (''settledAt'', or_null (JStr \<circ> iso_string) (ir_settledAt i))] []"

definition client_verify ::
  "'t fetch_fun \<Rightarrow> string \<Rightarrow> js_date \<Rightarrow> fiber_client_choice \<Rightarrow> string \<Rightarrow> 't
     \<Rightarrow> (js_exn + verification_result) \<times> 't" where
  "client_verify fetch uuid verifiedAt client paymentHash s =
     (case client of
        RealClient options \<Rightarrow>
          realVerifyPayment (createJsonRpcTransport fetch options uuid) verifiedAt paymentHash s
      | FakeClient \<Rightarrow> (Inr (fakeVerifyPayment verifiedAt paymentHash), s))"

definition client_createInvoice ::
  "'t fetch_fun \<Rightarrow> string \<Rightarrow> fiber_client_choice \<Rightarrow> invoice_input \<Rightarrow> 't
     \<Rightarrow> (js_exn + invoice_result) \<times> 't" where
  "client_createInvoice fetch uuid client input s =
     (case client of
        RealClient options \<Rightarrow>
          realCreateInvoice (createJsonRpcTransport fetch options uuid) options input s
      | FakeClient \<Rightarrow> (Inr (fakeCreateInvoice uuid input), s))"

definition run_live_test ::
  "'t fetch_fun \<Rightarrow> string \<Rightarrow> js_date \<Rightarrow> runtime_config \<Rightarrow> live_test_env \<Rightarrow> fiber_client_choice \<Rightarrow> 't
     \<Rightarrow> (js_exn + jsval) \<times> 't" where
  "run_live_test fetch uuid verifiedAt runtime liveTestEnv client s =
     (case (le_paymentHash liveTestEnv, le_amountSats liveTestEnv) of
        (Some paymentHash, _) \<Rightarrow>
          map_prod (map_sum id (verify_report paymentHash)) id (client_verify fetch uuid verifiedAt client paymentHash s)
      | (None, Some amount) \<Rightarrow>
          map_prod (map_sum id invoice_report) id
            (client_createInvoice fetch uuid client
              \<lparr>ii_amount = amount,
               ii_description = (case le_memo liveTestEnv of Some m \<Rightarrow> m
                 | None \<Rightarrow> ''FiberLatch manual testnet invoice''),
               ii_expiry = Some (rt_fiberInvoiceTimeoutSeconds runtime)\<rparr> s)
      | (None, None) \<Rightarrow>
          (Inl (JSError ''Set either FIBER_MANUAL_PAYMENT_HASH/FIBER_MANUAL_PAYMENT_REF or FIBER_MANUAL_AMOUNT_SATS to run the manual Fiber testnet script''), s))"

definition testnet_main ::
  "'t fetch_fun \<Rightarrow> string \<Rightarrow> js_date \<Rightarrow> environment \<Rightarrow> 't \<Rightarrow> (js_exn + jsval) \<times> 't" where
  "testnet_main fetch uuid verifiedAt env s =
     (case bindE (loadRuntimeConfig (env(''FIBER_CLIENT_MODE'' \<mapsto> ''real'', ''FIBER_NETWORK'' \<mapsto> ''testnet'')))
        (\<lambda>runtime. bindE (ensureLiveTestEnv env) (\<lambda>liveTestEnv.
         bindE (createFiberClient runtime) (\<lambda>client. Inr (runtime, liveTestEnv, client)))) of
        Inl e \<Rightarrow> (Inl e, s)
      | Inr (runtime, liveTestEnv, client) \<Rightarrow> run_live_test fetch uuid verifiedAt runtime liveTestEnv client s)"

section \<open>What the script asks of the node\<close>

text \<open>A network that keeps the requests it is sent.\<close>

definition recording :: "'t fetch_fun \<Rightarrow> (http_request list \<times> 't) fetch_fun" where
  "recording fetch req w = (case fetch req (snd w) of (res, s) \<Rightarrow> (res, (fst w @ [req], s)))"

definition requested :: "http_request \<Rightarrow> string \<times> jsval \<times> jsval" where
  "requested req = (hq_url req, js_get (hq_body req) ''method'', js_get (hq_body req) ''params'')"

lemma transport_recording:
  "createJsonRpcTransport (recording fetch) options uuid req (sent, s) = (res, w) \<Longrightarrow>
   \<exists>q. fst w = sent @ [q]
     \<and> requested q = (ro_rpcUrl options, JStr (rq_method req), JArr [rq_params req])"
  by (auto simp: createJsonRpcTransport_def recording_def requested_def rpc_http_request_def js_get_def
      split: prod.splits sum.splits)

lemma verify_requests:
  assumes "realVerifyPayment (createJsonRpcTransport (recording fetch) options uuid) verifiedAt h ([], s) = (res, w)"
  shows "map requested (fst w) = [(ro_rpcUrl options, JStr ''get_invoice'', JArr [hash_params h])]
    \<or> map requested (fst w) = [(ro_rpcUrl options, JStr ''get_invoice'', JArr [hash_params h]),
        (ro_rpcUrl options, JStr ''get_payment'', JArr [hash_params h])]"
proof -
  let ?tr = "createJsonRpcTransport (recording fetch) options uuid"
  obtain r1 w1 where one: "?tr \<lparr>rq_method = ''get_invoice'', rq_params = hash_params h\<rparr> ([], s) = (r1, w1)"
    by (rule prod.exhaust)
  from transport_recording [OF one] obtain q1 where q1: "fst w1 = [q1]"
    "requested q1 = (ro_rpcUrl options, JStr ''get_invoice'', JArr [hash_params h])" by auto
  obtain r2 w2 where two: "?tr \<lparr>rq_method = ''get_payment'', rq_params = hash_params h\<rparr> ([q1], snd w1) = (r2, w2)"
    by (rule prod.exhaust)
  from transport_recording [OF two] obtain q2 where q2: "fst w2 = [q1, q2]"
    "requested q2 = (ro_rpcUrl options, JStr ''get_payment'', JArr [hash_params h])" by auto
  have "w1 = ([q1], snd w1)" using q1(1) by (cases w1) simp
  with two have two': "?tr \<lparr>rq_method = ''get_payment'', rq_params = hash_params h\<rparr> w1 = (r2, w2)" by simp
  have "w = w1 \<or> w = w2"
    using assms one two' by (auto simp: realVerifyPayment_def Let_def split: sum.splits if_splits)
  with q1 q2 show ?thesis by auto
qed

lemma create_requests:
  assumes "realCreateInvoice (createJsonRpcTransport (recording fetch) options uuid) options input ([], s) = (res, w)"
    and "invoice_params options input = Inr params"
  shows "map requested (fst w) = [(ro_rpcUrl options, JStr ''new_invoice'', JArr [params])]"
proof -
  let ?tr = "createJsonRpcTransport (recording fetch) options uuid"
  obtain r1 w1 where one: "?tr \<lparr>rq_method = ''new_invoice'', rq_params = params\<rparr> ([], s) = (r1, w1)"
    by (rule prod.exhaust)
  have "w = w1"
    using assms one by (auto simp: realCreateInvoice_def Let_def split: sum.splits option.splits)
  with transport_recording [OF one] show ?thesis by auto
qed

lemma trimmed_or_null_nonempty [simp]: "trimmed_or_null v \<noteq> Some []"
  by (auto simp: trimmed_or_null_def split: option.split)

lemma js_truthy_env [simp]: "js_truthy_string (readOptionalEnv env name) = (readOptionalEnv env name \<noteq> None)"
  by (auto simp: js_truthy_string_def readOptionalEnv_def split: option.split)

lemma readOptionalEnv_nonempty [simp]: "readOptionalEnv env name \<noteq> Some []"
  by (simp add: readOptionalEnv_def)

lemma requireEnv_Inr: "(requireEnv env name = Inr v) = (readOptionalEnv env name = Some v)"
  by (auto simp: requireEnv_def readOptionalEnv_def split: option.split)

text \<open>The one operation that an environment selects: a payment to verify, or an invoice to create.\<close>

definition selects_payment :: "environment \<Rightarrow> string \<Rightarrow> bool" where
  "selects_payment env h \<longleftrightarrow>
     readOptionalEnv env ''FIBER_MANUAL_AMOUNT_SATS'' = None
   \<and> (readOptionalEnv env ''FIBER_MANUAL_PAYMENT_HASH'' = Some h
        \<and> readOptionalEnv env ''FIBER_MANUAL_PAYMENT_REF'' \<in> {None, Some h}
      \<or> readOptionalEnv env ''FIBER_MANUAL_PAYMENT_HASH'' = None
        \<and> readOptionalEnv env ''FIBER_MANUAL_PAYMENT_REF'' = Some h)"

definition selects_invoice :: "environment \<Rightarrow> jsnum \<Rightarrow> string \<Rightarrow> bool" where
  "selects_invoice env amount memo \<longleftrightarrow>
     readOptionalEnv env ''FIBER_MANUAL_PAYMENT_HASH'' = None
   \<and> readOptionalEnv env ''FIBER_MANUAL_PAYMENT_REF'' = None
   \<and> readOptionalEnv env ''FIBER_MANUAL_MEMO'' = Some memo \<and> positive_integer amount
   \<and> (\<exists>raw. readOptionalEnv env ''FIBER_MANUAL_AMOUNT_SATS'' = Some raw \<and> js_number_of_string raw = amount)"

definition live_testnet :: "environment \<Rightarrow> string \<Rightarrow> bool" where
  "live_testnet env url \<longleftrightarrow>
     readOptionalEnv env ''FIBER_CLIENT_MODE'' = Some ''real'' \<and> readOptionalEnv env ''FIBER_NETWORK'' = Some ''testnet''
   \<and> readOptionalEnv env ''FIBER_RPC_URL'' = Some url"

lemma map_sum_Inr_iff: "(map_sum id f x = Inr b) = (\<exists>a. x = Inr a \<and> b = f a)"
  by (cases x) auto

lemma parsePositiveAmountSats_Inr:
  "(parsePositiveAmountSats raw = Inr a) = (js_number_of_string raw = a \<and> positive_integer a)"
  by (cases "js_number_of_string raw")
    (auto simp: parsePositiveAmountSats_def positive_integer_def Let_def is_integer_def)

lemma readManualPaymentHash_Inr:
  assumes "readManualPaymentHash env = Inr h"
  shows "h = None \<and> readOptionalEnv env ''FIBER_MANUAL_PAYMENT_HASH'' = None
      \<and> readOptionalEnv env ''FIBER_MANUAL_PAYMENT_REF'' = None
    \<or> (\<exists>v. h = Some v \<and> (readOptionalEnv env ''FIBER_MANUAL_PAYMENT_HASH'' = Some v
          \<and> readOptionalEnv env ''FIBER_MANUAL_PAYMENT_REF'' \<in> {None, Some v}
        \<or> readOptionalEnv env ''FIBER_MANUAL_PAYMENT_HASH'' = None
          \<and> readOptionalEnv env ''FIBER_MANUAL_PAYMENT_REF'' = Some v))"
  using assms unfolding readManualPaymentHash_def Let_def js_truthy_env
  by (cases "readOptionalEnv env ''FIBER_MANUAL_PAYMENT_HASH''";
      cases "readOptionalEnv env ''FIBER_MANUAL_PAYMENT_REF''"; cases h) (auto split: if_splits)

lemma ensureLiveTestEnv_Inr:
  assumes "ensureLiveTestEnv env = Inr le"
  shows "(\<exists>url. live_testnet env url)
    \<and> ((\<exists>h. le_paymentHash le = Some h \<and> selects_payment env h)
      \<or> (\<exists>amount memo. le_paymentHash le = None \<and> le_amountSats le = Some amount \<and> le_memo le = Some memo
           \<and> selects_invoice env amount memo))"
proof -
  from assms obtain url h where mode: "live_testnet env url" and h: "readManualPaymentHash env = Inr h"
    by (auto simp: ensureLiveTestEnv_def result_simps requireEnv_Inr live_testnet_def split: if_splits)
  obtain raw where raw: "readOptionalEnv env ''FIBER_MANUAL_AMOUNT_SATS'' = raw" by simp
  have "h \<noteq> Some []" "raw \<noteq> Some []"
    using readManualPaymentHash_Inr [OF h] raw readOptionalEnv_nonempty by blast+
  then have "(case h of Some v \<Rightarrow> raw = None \<and> le_paymentHash le = Some v
      | None \<Rightarrow> \<exists>r a memo. raw = Some r \<and> parsePositiveAmountSats r = Inr a
          \<and> readOptionalEnv env ''FIBER_MANUAL_MEMO'' = Some memo
          \<and> le = \<lparr>le_paymentHash = None, le_amountSats = Some a, le_memo = Some memo\<rparr>)"
    using assms mode h raw
    by (cases h; cases raw)
      (auto simp: ensureLiveTestEnv_def result_simps requireEnv_Inr live_testnet_def Let_def
        map_sum_Inr_iff js_truthy_string_def split: if_splits option.splits)
  with readManualPaymentHash_Inr [OF h] raw mode show ?thesis
    by (cases h) (auto simp: selects_payment_def selects_invoice_def parsePositiveAmountSats_Inr)
qed

lemma real_testnet_config:
  assumes "loadRuntimeConfig (env(''FIBER_CLIENT_MODE'' \<mapsto> ''real'', ''FIBER_NETWORK'' \<mapsto> ''testnet'')) = Inr c"
    and "createFiberClient c = Inr client" and "live_testnet env url"
  shows "\<exists>options. client = RealClient options \<and> ro_rpcUrl options = url \<and> ro_network options = ''testnet''
    \<and> positive_integer (rt_fiberInvoiceTimeoutSeconds c)"
proof -
  have "parseFiberClientMode (Some ''real'') = Inr RealMode" by code_simp
  moreover have "js_lower (js_trim ''testnet'') = ''testnet''" by code_simp
  moreover have "positive_integer (Fin 900)" by (simp add: positive_integer_def is_integer_def)
  ultimately have c: "rt_fiberClientMode c = RealMode" "rt_fiberRpcUrl c = trimmed_or_null (env ''FIBER_RPC_URL'')"
    "rt_fiberNetwork c = ''testnet''" "positive_integer (rt_fiberInvoiceTimeoutSeconds c)"
    using assms(1) by (auto simp: loadRuntimeConfig_def or_default_def Let_def parsePositiveInt_positive)
  with assms(2,3) show ?thesis
    by (auto simp: createFiberClient_def live_testnet_def readOptionalEnv_def split: if_splits)
qed

lemma positive_invoice_params:
  assumes "ro_network options = ''testnet''" and "positive_integer (ii_amount input)"
    and "ii_expiry input = Some e" and "positive_integer e"
  shows "\<exists>params hex. invoice_params options input = Inr params \<and> toHexQuantity (ii_amount input) = Inr hex
    \<and> js_get params ''amount'' = JStr hex"
proof -
  from assms(2,4) obtain hex eh where h: "toHexQuantity (ii_amount input) = Inr hex" "toHexQuantity e = Inr eh"
    using toHexQuantity_positive by metis
  moreover have "num_less (Fin 0) e" using assms(4) by (simp add: positive_integer_def)
  ultimately show ?thesis
    using assms(1,3) by (simp add: invoice_params_def toFiberCurrency_def js_get_def Let_def)
qed

section \<open>Property\<close>

text \<open>
  C28: a run of the check either stops before it sends anything, with an error, or its environment asks
  explicitly for the real client on \<open>testnet\<close> and for exactly one operation. It then sends to the given
  address only: one \<open>get_invoice\<close> for the given payment hash, followed at most by one
  \<open>get_payment\<close> for the same hash; or one \<open>new_invoice\<close> of the given positive amount.
\<close>

theorem live_check_requests:
  assumes "testnet_main (recording fetch) uuid verifiedAt env ([], s) = (result, w)"
  shows "fst w = [] \<and> (\<exists>e. result = Inl e)
    \<or> (\<exists>url. live_testnet env url \<and>
        ((\<exists>h. selects_payment env h
            \<and> map requested (fst w)
                \<in> {[(url, JStr ''get_invoice'', JArr [hash_params h])],
                   [(url, JStr ''get_invoice'', JArr [hash_params h]), (url, JStr ''get_payment'', JArr [hash_params h])]})
         \<or> (\<exists>amount memo hex params. selects_invoice env amount memo \<and> toHexQuantity amount = Inr hex
            \<and> js_get params ''amount'' = JStr hex
            \<and> map requested (fst w) = [(url, JStr ''new_invoice'', JArr [params])])))"
proof (cases "\<exists>c le client. loadRuntimeConfig
    (env(''FIBER_CLIENT_MODE'' \<mapsto> ''real'', ''FIBER_NETWORK'' \<mapsto> ''testnet'')) = Inr c
    \<and> ensureLiveTestEnv env = Inr le \<and> createFiberClient c = Inr client")
  case False
  with assms show ?thesis
    by (auto simp: testnet_main_def bindE_def split: sum.splits)
next
  case True
  then obtain c le client where c: "loadRuntimeConfig
      (env(''FIBER_CLIENT_MODE'' \<mapsto> ''real'', ''FIBER_NETWORK'' \<mapsto> ''testnet'')) = Inr c"
    and le: "ensureLiveTestEnv env = Inr le" and client: "createFiberClient c = Inr client" by blast
  from ensureLiveTestEnv_Inr [OF le] obtain url where url: "live_testnet env url" by blast
  from real_testnet_config [OF c client url] obtain options where o: "client = RealClient options"
    "ro_rpcUrl options = url" "ro_network options = ''testnet''"
    and t: "positive_integer (rt_fiberInvoiceTimeoutSeconds c)" by blast
  have run: "run_live_test (recording fetch) uuid verifiedAt c le (RealClient options) ([], s) = (result, w)"
    using assms c le client by (simp add: testnet_main_def o(1))
  from ensureLiveTestEnv_Inr [OF le] consider
      (payment) h where "le_paymentHash le = Some h" "selects_payment env h"
    | (invoice) amount memo where "le_paymentHash le = None" "le_amountSats le = Some amount"
        "selects_invoice env amount memo" by blast
  then show ?thesis
  proof cases
    case payment
    obtain r where "realVerifyPayment (createJsonRpcTransport (recording fetch) options uuid) verifiedAt h ([], s)
        = (r, w)"
      using run payment(1) by (auto simp: run_live_test_def client_verify_def map_prod_def split: prod.splits)
    from verify_requests [OF this] url payment(2) show ?thesis
      unfolding o(2) by (intro disjI2 exI [of _ url] conjI disjI1 exI [of _ h]) auto
  next
    case invoice
    define input where "input = \<lparr>ii_amount = amount,
      ii_description = (case le_memo le of Some m \<Rightarrow> m | None \<Rightarrow> ''FiberLatch manual testnet invoice''),
      ii_expiry = Some (rt_fiberInvoiceTimeoutSeconds c)\<rparr>"
    obtain r where r: "realCreateInvoice (createJsonRpcTransport (recording fetch) options uuid) options input ([], s)
        = (r, w)"
      using run invoice(1,2)
      by (auto simp: run_live_test_def client_createInvoice_def input_def map_prod_def split: prod.splits)
    have "positive_integer (ii_amount input)" "ii_expiry input = Some (rt_fiberInvoiceTimeoutSeconds c)"
      and a: "ii_amount input = amount"
      using invoice(3) by (simp_all add: input_def selects_invoice_def)
    from positive_invoice_params [OF o(3) this(1,2) t] obtain params hex where
      "invoice_params options input = Inr params" "toHexQuantity amount = Inr hex" "js_get params ''amount'' = JStr hex"
      unfolding a by blast
    with create_requests [OF r] url invoice(3) show ?thesis unfolding o(2) by blast
  qed
qed

definition sample_live_environment :: environment where
  "sample_live_environment =
     [''FIBER_CLIENT_MODE'' \<mapsto> ''real'', ''FIBER_NETWORK'' \<mapsto> ''testnet'', ''FIBER_RPC_URL'' \<mapsto> ''http://node'',
      ''FIBER_MANUAL_PAYMENT_REF'' \<mapsto> '' 0xabcdef0123 '']"

definition sample_node :: "unit fetch_fun" where
  "sample_node req s =
     (Inr \<lparr>hr_status = 200, hr_json = Inr (JObj [(''result'', JObj [(''status'', JStr ''Paid'')] [])] [])\<rparr>, s)"

lemma sample_live_client:
  "case loadRuntimeConfig (sample_live_environment(''FIBER_CLIENT_MODE'' \<mapsto> ''real'', ''FIBER_NETWORK'' \<mapsto> ''testnet'')) of
     Inl e \<Rightarrow> False
   | Inr c \<Rightarrow> (case createFiberClient c of Inr (RealClient options) \<Rightarrow> True | _ \<Rightarrow> False)"
  by code_simp

lemma sample_live_test:
  "ensureLiveTestEnv sample_live_environment
   = Inr \<lparr>le_paymentHash = Some ''0xabcdef0123'', le_amountSats = None, le_memo = None\<rparr>"
  by code_simp

lemma sample_node_pays:
  "case realVerifyPayment (createJsonRpcTransport (recording sample_node) options ''u'') 0 ''0xabcdef0123'' ([], ()) of
     (Inl e, w) \<Rightarrow> False
   | (Inr v, w) \<Rightarrow> js_get (verify_report ''0xabcdef0123'' v) ''paymentHash'' = JStr ''0xab...0123''"
  by code_simp

theorem live_check_requests_witness:
  "\<exists>report w. testnet_main (recording sample_node) ''u'' 0 sample_live_environment ([], ()) = (Inr report, w)
     \<and> js_get report ''paymentHash'' = JStr ''0xab...0123'' \<and> fst w \<noteq> []"
proof -
  obtain c options where config: "loadRuntimeConfig
        (sample_live_environment(''FIBER_CLIENT_MODE'' \<mapsto> ''real'', ''FIBER_NETWORK'' \<mapsto> ''testnet'')) = Inr c"
    and client: "createFiberClient c = Inr (RealClient options)"
    using sample_live_client by (auto split: sum.splits fiber_client_choice.splits)
  obtain v w where verify: "realVerifyPayment (createJsonRpcTransport (recording sample_node) options ''u'') 0
        ''0xabcdef0123'' ([], ()) = (Inr v, w)"
    and masked: "js_get (verify_report ''0xabcdef0123'' v) ''paymentHash'' = JStr ''0xab...0123''"
    using sample_node_pays [of options] by (auto split: prod.splits sum.splits)
  have run: "testnet_main (recording sample_node) ''u'' 0 sample_live_environment ([], ())
      = (Inr (verify_report ''0xabcdef0123'' v), w)"
    by (simp add: testnet_main_def config sample_live_test client run_live_test_def client_verify_def verify bindE_def)
  with masked live_check_requests [OF run] show ?thesis by auto
qed

end
