(* ===== verification/Routing_Diagnostics.thy ===== *)
theory Routing_Diagnostics
  imports Fiber_Clients
begin

text \<open>
  The payment attempts of the routing diagnostics (\<^verbatim>\<open>scripts/phase3-routing-diagnostics.mjs\<close>): its
  JSON-RPC call, which never throws, its masks, the public keys it reads from the nodes, and the three
  test amounts with their invoices, dry runs and real payments. The rest of the script is in
  \<open>Diagnostics_Report\<close>. The network is a parameter: it answers a call with the parsed body of the response, or with
  the message of the error that was thrown. Dashes of the messages outside ASCII are written \<open>--\<close>.
\<close>

section \<open>Masks and quantities\<close>

text \<open>\<open>s.slice(0, a) + "..." + s.slice(-b)\<close>\<close>

definition elided :: "nat \<Rightarrow> nat \<Rightarrow> string \<Rightarrow> string" where
  "elided a b s = take a s @ ''...'' @ drop (length s - b) s"

definition mask :: "jsval \<Rightarrow> jsval" where
  "mask v = (case v of JStr s \<Rightarrow> if length s \<le> 12 then v else JStr (elided 8 6 s) | _ \<Rightarrow> v)"

definition maskHex :: "jsval \<Rightarrow> jsval" where
  "maskHex v =
     (case v of
        JStr s \<Rightarrow> if \<not> starts_with s ''0x'' \<or> length s \<le> 14 then v else JStr (elided 10 6 s)
      | _ \<Rightarrow> v)"

definition maskInvoice :: "jsval \<Rightarrow> jsval" where
  "maskInvoice v = (case v of JStr s \<Rightarrow> if length s \<le> 16 then v else JStr (elided 12 6 s) | _ \<Rightarrow> v)"

section \<open>JSON-RPC\<close>

definition LOCAL_RPC :: string where
  "LOCAL_RPC = ''http://127.0.0.1:8227''"

definition NODE1_RPC :: string where
  "NODE1_RPC = ''http://18.162.235.225:8227''"

definition NODE2_RPC :: string where
  "NODE2_RPC = ''http://18.163.221.211:8227''"

text \<open>A call, without its random identifier and its constant headers.\<close>

record rpc_call =
  call_url :: string
  call_method :: string
  call_params :: jsval \<comment> \<open>the only element of \<open>params\<close>\<close>

type_synonym 't net = "rpc_call \<Rightarrow> 't \<Rightarrow> (string + jsval) \<times> 't"

definition rpc_failure :: "string \<Rightarrow> jsval" where
  "rpc_failure message = JObj
     [(''ok'', JBool False), (''error'', JObj [(''message'', JStr message)] []), (''body'', JNull)] []"

definition rpc_result :: "string + jsval \<Rightarrow> jsval" where
  "rpc_result reply =
     (case reply of
        Inl message \<Rightarrow> rpc_failure message
      | Inr body \<Rightarrow>
          if body = JNull \<or> body = JUndef then rpc_failure ''Cannot read properties of null (reading 'error')''
          else if js_truthy (js_get body ''error'')
          then JObj [(''ok'', JBool False), (''error'', js_get body ''error''), (''body'', body)] []
          else JObj [(''ok'', JBool True), (''result'', js_get body ''result''), (''body'', body)] [])"

definition rpc :: "'t net \<Rightarrow> string \<Rightarrow> string \<Rightarrow> jsval \<Rightarrow> 't \<Rightarrow> jsval \<times> 't" where
  "rpc net url method params s =
     (case net \<lparr>call_url = url, call_method = method, call_params = params\<rparr> s of
        (reply, s') \<Rightarrow> (rpc_result reply, s'))"

section \<open>The nodes\<close>

record node_keys =
  nk_localPubkey :: jsval
  nk_node1Pubkey :: jsval
  nk_node2Pubkey :: jsval

definition nodeQueries :: "'t net \<Rightarrow> 't \<Rightarrow> (jsval \<times> jsval \<times> jsval) \<times> 't" where
  "nodeQueries net s =
     (case rpc net LOCAL_RPC ''node_info'' (JObj [] []) s of (localInfo, s1) \<Rightarrow>
     (case rpc net NODE1_RPC ''node_info'' (JObj [] []) s1 of (node1Info, s2) \<Rightarrow>
     (case rpc net NODE2_RPC ''node_info'' (JObj [] []) s2 of (node2Info, s3) \<Rightarrow>
       ((localInfo, node1Info, node2Info), s3))))"

definition nodeKeys :: "jsval \<Rightarrow> jsval \<Rightarrow> jsval \<Rightarrow> node_keys" where
  "nodeKeys localInfo node1Info node2Info =
     \<lparr>nk_localPubkey = js_or (js_opt (js_opt localInfo ''result'') ''node_id'')
        (js_or (js_opt (js_opt localInfo ''result'') ''pubkey'') JNull),
      nk_node1Pubkey = js_or (js_opt (js_opt node1Info ''result'') ''pubkey'') JNull,
      nk_node2Pubkey = js_or (js_opt (js_opt node2Info ''result'') ''pubkey'') JNull\<rparr>"

definition info_field :: "jsval \<Rightarrow> string \<Rightarrow> jsval" where
  "info_field info k = js_or (js_opt (js_opt info ''result'') k) JNull"

definition nodeInfo :: "jsval \<Rightarrow> jsval \<Rightarrow> jsval \<Rightarrow> node_keys \<Rightarrow> jsval" where
  "nodeInfo localInfo node1Info node2Info keys = JObj
     [(''local'', JObj
        [(''reachable'', js_or (js_opt localInfo ''ok'') (JBool False)), (''version'', info_field localInfo ''version''),
         (''pubkeyMasked'', mask (nk_localPubkey keys)), (''channelCount'', info_field localInfo ''channel_count''),
         (''peersCount'', info_field localInfo ''peers_count'')] []),
      (''node1'', JObj
        [(''reachable'', js_or (js_opt node1Info ''ok'') (JBool False)), (''version'', info_field node1Info ''version''),
         (''nodeName'', info_field node1Info ''node_name''), (''pubkeyMasked'', mask (nk_node1Pubkey keys)),
         (''channelCount'', info_field node1Info ''channel_count'')] []),
      (''node2'', JObj
        [(''reachable'', js_or (js_opt node2Info ''ok'') (JBool False)), (''version'', info_field node2Info ''version''),
         (''nodeName'', info_field node2Info ''node_name''), (''pubkeyMasked'', mask (nk_node2Pubkey keys)),
         (''channelCount'', info_field node2Info ''channel_count'')] [])] []"

section \<open>The amount tests\<close>

record test_amount =
  ta_hex :: string
  ta_shannons :: int
  ta_label :: string

definition TEST_AMOUNTS :: "test_amount list" where
  "TEST_AMOUNTS =
     [\<lparr>ta_hex = ''0x3e8'', ta_shannons = 1000, ta_label = ''1000 shannons (~0.00001 CKB)''\<rparr>,
      \<lparr>ta_hex = ''0x2710'', ta_shannons = 10000, ta_label = ''10,000 shannons (~0.0001 CKB)''\<rparr>,
      \<lparr>ta_hex = ''0xf4240'', ta_shannons = 1000000, ta_label = ''1,000,000 shannons (~0.01 CKB)''\<rparr>]"

definition error_message :: "jsval \<Rightarrow> jsval" where
  "error_message res = js_or (js_opt (js_get res ''error'') ''message'') (JStr ''failed'')"

definition dry_run_outcome :: "jsval \<Rightarrow> jsval" where
  "dry_run_outcome res =
     (if js_truthy (js_get res ''ok'')
      then JObj [(''status'', js_opt (js_get res ''result'') ''status''), (''fee'', js_opt (js_get res ''result'') ''fee'')] []
      else JObj [(''error'', error_message res)] [])"

definition invoice_status_of :: "jsval \<Rightarrow> jsval" where
  "invoice_status_of res =
     js_or (js_opt (js_opt res ''result'') ''status'')
       (js_or (js_opt (js_opt (js_opt res ''result'') ''invoice'') ''status'') (JStr ''unknown''))"

definition hash_query :: "jsval \<Rightarrow> jsval" where
  "hash_query paymentHash = JObj [(''payment_hash'', paymentHash)] []"

definition new_invoice_params :: "test_amount \<Rightarrow> jsval" where
  "new_invoice_params amt = JObj
     [(''amount'', JStr (ta_hex amt)), (''currency'', JStr ''Fibt''),
      (''description'', JStr ''FiberLatch Phase3 routing diagnostic''), (''expiry'', JStr ''0xe10'')] []"

definition trampoline_params :: "jsval \<Rightarrow> jsval \<Rightarrow> (string \<times> jsval) list" where
  "trampoline_params invoiceAddress node1Pubkey =
     [(''invoice'', invoiceAddress), (''trampoline_hops'', JArr [node1Pubkey])]"

text \<open>The real payment, and the states of payment and invoice after five seconds.\<close>

definition realSend ::
  "'t net \<Rightarrow> jsval \<Rightarrow> jsval \<Rightarrow> jsval \<Rightarrow> 't \<Rightarrow> (string \<times> jsval) list \<times> 't" where
  "realSend net node1Pubkey invoiceAddress paymentHash s =
     (case rpc net LOCAL_RPC ''send_payment'' (JObj (trampoline_params invoiceAddress node1Pubkey) []) s of
        (sent, s1) \<Rightarrow>
          if js_truthy (js_get sent ''ok'')
          then (case rpc net LOCAL_RPC ''get_payment'' (hash_query paymentHash) s1 of (getPayment, s2) \<Rightarrow>
               (case rpc net NODE2_RPC ''get_invoice'' (hash_query paymentHash) s2 of (finalInvoice, s3) \<Rightarrow>
                 ([(''realSendAttempted'', JBool True),
                   (''realSend'', JObj
                      [(''status'', js_opt (js_get sent ''result'') ''status''),
                       (''fee'', js_opt (js_get sent ''result'') ''fee''),
                       (''paymentHashMasked'', maskHex (js_opt (js_get sent ''result'') ''payment_hash''))] []),
                   (''getPaymentStatus'', js_or (js_opt (js_opt getPayment ''result'') ''status'')
                      (js_or (js_opt (js_opt getPayment ''error'') ''message'') (JStr ''unknown''))),
                   (''finalInvoiceStatus'', invoice_status_of finalInvoice),
                   (''paidReached'', JBool (js_eq (invoice_status_of finalInvoice) (JStr ''Paid'')))], s3)))
          else ([(''realSendAttempted'', JBool True),
                 (''realSend'', JObj [(''error'', error_message sent)] [])], s1))"

definition attemptPayment ::
  "'t net \<Rightarrow> jsval \<Rightarrow> test_amount \<Rightarrow> jsval \<Rightarrow> jsval \<Rightarrow> jsval \<Rightarrow> 't \<Rightarrow> (string \<times> jsval) list \<times> 't" where
  "attemptPayment net node1Pubkey amt invoiceAddress paymentHash dryTrampolineResult s =
     (let dryOk = js_truthy dryTrampolineResult \<and> \<not> js_truthy (js_get dryTrampolineResult ''error'');
          isTiny = (ta_shannons amt \<le> 10000)
      in if dryOk \<and> isTiny then realSend net node1Pubkey invoiceAddress paymentHash s
         else if dryOk \<and> \<not> isTiny
         then ([(''realSendAttempted'', JBool False),
                (''realSendSkipped'', JStr (''dry-run succeeded but amount '' @ ta_label amt
                   @ '' > 10000 shannons safe threshold -- skipping real send, trying next smaller amount''))], s)
         else ([(''realSendAttempted'', JBool False),
                (''realSendSkipped'', JStr ''dry-run failed -- not attempting real send'')], s))"

definition dryTrampoline :: "'t net \<Rightarrow> jsval \<Rightarrow> jsval \<Rightarrow> 't \<Rightarrow> jsval \<times> 't" where
  "dryTrampoline net node1Pubkey invoiceAddress s =
     (if js_truthy node1Pubkey
      then map_prod dry_run_outcome id
        (rpc net LOCAL_RPC ''send_payment''
          (JObj (trampoline_params invoiceAddress node1Pubkey @ [(''dry_run'', JBool True)]) []) s)
      else (JNull, s))"

definition testInvoice ::
  "'t net \<Rightarrow> jsval \<Rightarrow> test_amount \<Rightarrow> jsval \<Rightarrow> jsval \<Rightarrow> 't \<Rightarrow> (string \<times> jsval) list \<times> 't" where
  "testInvoice net node1Pubkey amt invoiceAddress paymentHash s =
     (case rpc net NODE2_RPC ''get_invoice'' (hash_query paymentHash) s of (getInv, s1) \<Rightarrow>
     (case rpc net LOCAL_RPC ''send_payment''
         (JObj [(''invoice'', invoiceAddress), (''dry_run'', JBool True)] []) s1 of (dryAuto, s2) \<Rightarrow>
     (case dryTrampoline net node1Pubkey invoiceAddress s2 of (dryTrampolineResult, s3) \<Rightarrow>
       map_prod (\<lambda>attempt.
         [(''invoiceCreated'', JBool True), (''invoiceMasked'', maskInvoice invoiceAddress),
          (''paymentHashMasked'', maskHex paymentHash), (''initialInvoiceStatus'', invoice_status_of getInv),
          (''dryRunAuto'', dry_run_outcome dryAuto), (''dryRunTrampoline'', dryTrampolineResult)] @ attempt) id
         (attemptPayment net node1Pubkey amt invoiceAddress paymentHash dryTrampolineResult s3))))"

definition invResult :: "jsval \<Rightarrow> jsval" where
  "invResult created =
     js_or (js_get created ''result'') (js_or (js_opt (js_get created ''body'') ''result'') (JObj [] []))"

definition testAmount :: "'t net \<Rightarrow> jsval \<Rightarrow> test_amount \<Rightarrow> 't \<Rightarrow> jsval \<times> 't" where
  "testAmount net node1Pubkey amt s =
     (case rpc net NODE2_RPC ''new_invoice'' (new_invoice_params amt) s of (created, s1) \<Rightarrow>
       let invoiceAddress = js_get (invResult created) ''invoice_address'';
           paymentHash = js_or (js_get (invResult created) ''payment_hash'')
             (js_or (js_opt (js_opt (js_opt (invResult created) ''invoice'') ''data'') ''payment_hash'') JNull)
       in map_prod (\<lambda>amtResult.
            JObj ([(''amount'', JStr (ta_hex amt)), (''label'', JStr (ta_label amt))] @ amtResult) []) id
          (if \<not> js_truthy (js_get created ''ok'')
           then ([(''invoiceCreated'', JBool False), (''invoiceError'', error_message created)], s1)
           else if \<not> js_truthy invoiceAddress \<or> \<not> js_truthy paymentHash
           then ([(''invoiceCreated'', JBool False),
                  (''invoiceError'', JStr ''missing invoice_address or payment_hash in response'')], s1)
           else testInvoice net node1Pubkey amt invoiceAddress paymentHash s1))"

fun amountTests :: "'t net \<Rightarrow> jsval \<Rightarrow> test_amount list \<Rightarrow> 't \<Rightarrow> jsval list \<times> 't" where
  "amountTests net node1Pubkey [] s = ([], s)"
| "amountTests net node1Pubkey (amt # amts) s =
     (case testAmount net node1Pubkey amt s of (amtResult, s1) \<Rightarrow>
     (case amountTests net node1Pubkey amts s1 of (results, s2) \<Rightarrow> (amtResult # results, s2)))"

text \<open>What the script reports at its end.\<close>

definition succeededPayment :: "jsval list \<Rightarrow> jsval option" where
  "succeededPayment amountResults = find (\<lambda>t. js_truthy (js_get t ''paidReached'')) amountResults"

definition amountSummary :: "jsval \<Rightarrow> jsval" where
  "amountSummary t = JObj
     [(''amount'', js_get t ''label''), (''invoiceCreated'', js_get t ''invoiceCreated''),
      (''dryRunAutoOk'', JBool (\<not> js_truthy (js_opt (js_get t ''dryRunAuto'') ''error''))),
      (''dryRunTrampolineOk'', JBool (\<not> js_truthy (js_opt (js_get t ''dryRunTrampoline'') ''error''))),
      (''realSendAttempted'', js_get t ''realSendAttempted''),
      (''paidReached'', js_or (js_get t ''paidReached'') (JBool False))] []"

definition fiberLatchVerification :: "jsval list \<Rightarrow> jsval" where
  "fiberLatchVerification amountResults =
     (case succeededPayment amountResults of
        Some t \<Rightarrow> JObj
          [(''attempted'', JBool False),
           (''reason'', JStr (''paid hash exists -- run: FIBER_CLIENT_MODE=real FIBER_NETWORK=testnet ''
              @ ''FIBER_RPC_URL=http://18.163.221.211:8227 FIBER_MANUAL_PAYMENT_HASH=<paid_hash> ''
              @ ''npm run fiber:testnet:verify'')),
           (''paidAmountLabel'', js_get t ''label''), (''paidInvoiceMasked'', js_get t ''invoiceMasked''),
           (''paymentHashMasked'', js_get t ''paymentHashMasked'')] []
      | None \<Rightarrow> JObj
          [(''attempted'', JBool False),
           (''reason'', JStr ''no payment reached Paid status -- FiberLatch verification not run'')] [])"

section \<open>The calls of a run\<close>

type_synonym exchange = "rpc_call \<times> (string + jsval)"

text \<open>A network that keeps the calls with their answers.\<close>

definition logging :: "'t net \<Rightarrow> (exchange list \<times> 't) net" where
  "logging net call w = (case net call (snd w) of (reply, s) \<Rightarrow> (reply, (fst w @ [(call, reply)], s)))"

definition is_payment :: "exchange \<Rightarrow> bool" where
  "is_payment x \<longleftrightarrow>
     call_method (fst x) = ''send_payment'' \<and> \<not> js_truthy (js_get (call_params (fst x)) ''dry_run'')"

definition payments :: "exchange list \<Rightarrow> exchange list" where
  "payments = filter is_payment"

definition pay_call :: "jsval \<Rightarrow> jsval \<Rightarrow> rpc_call" where
  "pay_call invoice key = \<lparr>call_url = LOCAL_RPC, call_method = ''send_payment'',
     call_params = JObj (trampoline_params invoice key) []\<rparr>"

definition dry_call :: "jsval \<Rightarrow> jsval \<Rightarrow> rpc_call" where
  "dry_call invoice key = \<lparr>call_url = LOCAL_RPC, call_method = ''send_payment'',
     call_params = JObj (trampoline_params invoice key @ [(''dry_run'', JBool True)]) []\<rparr>"

definition invoice_call :: "test_amount \<Rightarrow> rpc_call" where
  "invoice_call amt = \<lparr>call_url = NODE2_RPC, call_method = ''new_invoice'', call_params = new_invoice_params amt\<rparr>"

text \<open>The invoice of an answer to \<open>new_invoice\<close>.\<close>

definition invoice_of :: "string + jsval \<Rightarrow> jsval" where
  "invoice_of issued = js_get (invResult (rpc_result issued)) ''invoice_address''"

text \<open>
  The calls \<open>t\<close> of one test pay nothing, or once: the invoice that the second node gave when it was asked
  for this small amount, over the first node, after a dry run of just that payment whose answer showed no error.
\<close>

definition authorised :: "jsval \<Rightarrow> test_amount \<Rightarrow> exchange list \<Rightarrow> bool" where
  "authorised key amt t \<longleftrightarrow>
     payments t = [] \<or>
     ta_shannons amt \<le> 10000 \<and>
     (\<exists>pre invoice reply post issued dry. t = pre @ (pay_call invoice key, reply) # post
        \<and> payments pre = [] \<and> payments post = []
        \<and> (invoice_call amt, issued) \<in> set pre \<and> invoice = invoice_of issued \<and> js_truthy invoice
        \<and> (dry_call invoice key, dry) \<in> set pre
        \<and> \<not> js_truthy (js_get (dry_run_outcome (rpc_result dry)) ''error''))"

lemma payments_simps [simp]:
  "payments [] = []" "payments (s @ t) = payments s @ payments t"
  "payments (x # t) = (if is_payment x then x # payments t else payments t)"
  by (simp_all add: payments_def)

lemma is_payment_simps [simp]:
  "is_payment (pay_call invoice key, reply)" "\<not> is_payment (dry_call invoice key, reply)"
  "\<not> is_payment (invoice_call amt, reply)"
  "m \<noteq> ''send_payment'' \<Longrightarrow> \<not> is_payment (\<lparr>call_url = url, call_method = m, call_params = p\<rparr>, reply)"
  by (simp_all add: is_payment_def pay_call_def dry_call_def invoice_call_def trampoline_params_def js_get_def)

lemma rpc_logging:
  "rpc (logging net) url m p w = (r, w') \<Longrightarrow>
   \<exists>reply. fst w' = fst w @ [(\<lparr>call_url = url, call_method = m, call_params = p\<rparr>, reply)] \<and> r = rpc_result reply"
  by (auto simp: rpc_def logging_def split: prod.splits)

lemma realSend_calls:
  assumes "realSend (logging net) key invoice hash w = (r, w')"
  shows "\<exists>reply post. fst w' = fst w @ (pay_call invoice key, reply) # post \<and> payments post = []"
proof -
  obtain sent w1 where one: "rpc (logging net) LOCAL_RPC ''send_payment'' (JObj (trampoline_params invoice key) []) w = (sent, w1)"
    by (rule prod.exhaust)
  obtain p w2 where two: "rpc (logging net) LOCAL_RPC ''get_payment'' (hash_query hash) w1 = (p, w2)"
    by (rule prod.exhaust)
  obtain i w3 where three: "rpc (logging net) NODE2_RPC ''get_invoice'' (hash_query hash) w2 = (i, w3)"
    by (rule prod.exhaust)
  from rpc_logging [OF one] obtain r1 where r1: "fst w1 = fst w @ [(pay_call invoice key, r1)]"
    by (auto simp: pay_call_def)
  have "w' = w1 \<or> w' = w3"
    using assms by (auto simp: realSend_def one two three split: if_splits)
  with r1 rpc_logging [OF two] rpc_logging [OF three] show ?thesis by fastforce
qed

lemma attemptPayment_calls:
  assumes "attemptPayment (logging net) key amt invoice hash dry w = (r, w')"
  shows "w' = w \<or> js_truthy dry \<and> \<not> js_truthy (js_get dry ''error'') \<and> ta_shannons amt \<le> 10000
    \<and> (\<exists>reply post. fst w' = fst w @ (pay_call invoice key, reply) # post \<and> payments post = [])"
proof (cases "js_truthy dry \<and> \<not> js_truthy (js_get dry ''error'') \<and> ta_shannons amt \<le> 10000")
  case True
  with assms have "realSend (logging net) key invoice hash w = (r, w')" by (simp add: attemptPayment_def)
  from realSend_calls [OF this] True show ?thesis by blast
next
  case False
  with assms show ?thesis by (auto simp: attemptPayment_def Let_def split: if_splits)
qed

lemma dryTrampoline_calls:
  assumes "dryTrampoline (logging net) key invoice w = (dry, w')"
  shows "w' = w \<and> dry = JNull
    \<or> (\<exists>reply. fst w' = fst w @ [(dry_call invoice key, reply)] \<and> dry = dry_run_outcome (rpc_result reply))"
proof (cases "js_truthy key")
  case True
  obtain d w1 where one: "rpc (logging net) LOCAL_RPC ''send_payment''
      (JObj (trampoline_params invoice key @ [(''dry_run'', JBool True)]) []) w = (d, w1)"
    by (rule prod.exhaust)
  with assms True have "dry = dry_run_outcome d" "w' = w1" by (auto simp: dryTrampoline_def)
  with rpc_logging [OF one] show ?thesis by (auto simp: dry_call_def)
qed (use assms in \<open>simp add: dryTrampoline_def\<close>)

lemma testInvoice_calls:
  assumes "testInvoice (logging net) key amt invoice hash w = (r, w')"
  shows "\<exists>t. fst w' = fst w @ t \<and>
    (payments t = [] \<or> ta_shannons amt \<le> 10000 \<and>
      (\<exists>pre reply post dry. t = pre @ (pay_call invoice key, reply) # post \<and> payments pre = [] \<and> payments post = []
         \<and> (dry_call invoice key, dry) \<in> set pre
         \<and> \<not> js_truthy (js_get (dry_run_outcome (rpc_result dry)) ''error'')))"
proof -
  obtain g w1 where one: "rpc (logging net) NODE2_RPC ''get_invoice'' (hash_query hash) w = (g, w1)"
    by (rule prod.exhaust)
  obtain a w2 where two: "rpc (logging net) LOCAL_RPC ''send_payment''
      (JObj [(''invoice'', invoice), (''dry_run'', JBool True)] []) w1 = (a, w2)"
    by (rule prod.exhaust)
  obtain dry w3 where three: "dryTrampoline (logging net) key invoice w2 = (dry, w3)" by (rule prod.exhaust)
  obtain x where four: "attemptPayment (logging net) key amt invoice hash dry w3 = (x, w')"
    using assms by (auto simp: testInvoice_def one two three map_prod_def split: prod.splits)
  from rpc_logging [OF one] rpc_logging [OF two] obtain t where t: "fst w2 = fst w @ t" "payments t = []"
    by (fastforce simp: is_payment_def js_get_def)
  show ?thesis
  proof (cases "w' = w3")
    case True
    with dryTrampoline_calls [OF three] t show ?thesis by auto
  next
    case False
    with attemptPayment_calls [OF four] obtain reply post where pay: "js_truthy dry" "\<not> js_truthy (js_get dry ''error'')"
      "ta_shannons amt \<le> 10000" "fst w' = fst w3 @ (pay_call invoice key, reply) # post" "payments post = []" by blast
    with dryTrampoline_calls [OF three] obtain d where "fst w3 = fst w2 @ [(dry_call invoice key, d)]"
      "dry = dry_run_outcome (rpc_result d)" by auto
    with pay t show ?thesis
      by (intro exI [of _ "(t @ [(dry_call invoice key, d)]) @ (pay_call invoice key, reply) # post"] conjI disjI2
          exI [of _ "t @ [(dry_call invoice key, d)]"] exI [of _ reply] exI [of _ post] exI [of _ d]) auto
  qed
qed

lemma testAmount_calls:
  assumes "testAmount (logging net) key amt w = (r, w')"
  shows "\<exists>t. fst w' = fst w @ t \<and> authorised key amt t"
proof -
  obtain c w1 where one: "rpc (logging net) NODE2_RPC ''new_invoice'' (new_invoice_params amt) w = (c, w1)"
    by (rule prod.exhaust)
  from rpc_logging [OF one] obtain issued where issued: "fst w1 = fst w @ [(invoice_call amt, issued)]"
    "c = rpc_result issued" by (auto simp: invoice_call_def)
  let ?invoice = "invoice_of issued"
  have "w' = w1 \<or> js_truthy ?invoice \<and> (\<exists>hash x. testInvoice (logging net) key amt ?invoice hash w1 = (x, w'))"
    using assms
    by (auto simp: testAmount_def one issued(2) invoice_of_def Let_def map_prod_def split: if_splits prod.splits)
  then show ?thesis
  proof
    assume "w' = w1"
    with issued show ?thesis by (auto simp: authorised_def)
  next
    assume "js_truthy ?invoice \<and> (\<exists>hash x. testInvoice (logging net) key amt ?invoice hash w1 = (x, w'))"
    then obtain hash x where made: "js_truthy ?invoice"
      and "testInvoice (logging net) key amt ?invoice hash w1 = (x, w')" by blast
    from testInvoice_calls [OF this(2)] obtain t where t: "fst w' = fst w1 @ t"
      "payments t = [] \<or> ta_shannons amt \<le> 10000 \<and>
      (\<exists>pre reply post dry. t = pre @ (pay_call ?invoice key, reply) # post \<and> payments pre = [] \<and> payments post = []
         \<and> (dry_call ?invoice key, dry) \<in> set pre
         \<and> \<not> js_truthy (js_get (dry_run_outcome (rpc_result dry)) ''error''))" by blast
    have "authorised key amt ((invoice_call amt, issued) # t)"
      using t(2)
    proof (elim disjE exE conjE)
      fix pre reply post dry
      assume "ta_shannons amt \<le> 10000" "t = pre @ (pay_call ?invoice key, reply) # post" "payments pre = []"
        "payments post = []" "(dry_call ?invoice key, dry) \<in> set pre"
        "\<not> js_truthy (js_get (dry_run_outcome (rpc_result dry)) ''error'')"
      then show ?thesis
        unfolding authorised_def
        by (intro disjI2 conjI exI [of _ "(invoice_call amt, issued) # pre"] exI [of _ reply] exI [of _ post]
            exI [of _ issued] exI [of _ dry] exI [of _ ?invoice]) (use made in auto)
    qed (simp add: authorised_def)
    with t(1) issued(1) show ?thesis by auto
  qed
qed

lemma amountTests_calls:
  assumes "amountTests (logging net) key amts w = (r, w')"
  shows "\<exists>ts. fst w' = fst w @ concat ts \<and> list_all2 (authorised key) amts ts"
  using assms
proof (induction amts arbitrary: w r)
  case (Cons amt amts)
  obtain x w1 where one: "testAmount (logging net) key amt w = (x, w1)" by (rule prod.exhaust)
  obtain y where "amountTests (logging net) key amts w1 = (y, w')"
    using Cons.prems by (auto simp: one split: prod.splits)
  from Cons.IH [OF this] obtain ts where "fst w' = fst w1 @ concat ts" "list_all2 (authorised key) amts ts" by blast
  moreover from testAmount_calls [OF one] obtain t where "fst w1 = fst w @ t" "authorised key amt t" by blast
  ultimately show ?case by (intro exI [of _ "t # ts"]) simp
qed simp

lemma authorised_at_most_one: "authorised key amt t \<Longrightarrow> length (payments t) \<le> (if ta_shannons amt \<le> 10000 then 1 else 0)"
  by (auto simp: authorised_def)

lemma nodeQueries_calls:
  assumes "nodeQueries (logging net) w = (infos, w')"
  shows "\<exists>t. fst w' = fst w @ t \<and> payments t = []"
proof -
  obtain a w1 where one: "rpc (logging net) LOCAL_RPC ''node_info'' (JObj [] []) w = (a, w1)" by (rule prod.exhaust)
  obtain b w2 where two: "rpc (logging net) NODE1_RPC ''node_info'' (JObj [] []) w1 = (b, w2)" by (rule prod.exhaust)
  obtain c w3 where three: "rpc (logging net) NODE2_RPC ''node_info'' (JObj [] []) w2 = (c, w3)" by (rule prod.exhaust)
  have "w' = w3" using assms by (auto simp: nodeQueries_def one two three)
  with rpc_logging [OF one] rpc_logging [OF two] rpc_logging [OF three] show ?thesis by fastforce
qed

section \<open>What a run pays\<close>

text \<open>
  The amount that an invoice demands is inside it, where the script does not look: \<open>worth\<close> stands for it.
  The second node is honest when an invoice demands what it was asked for.
\<close>

definition shannons_paid :: "(jsval \<Rightarrow> int) \<Rightarrow> exchange list \<Rightarrow> int" where
  "shannons_paid worth xs = sum_list (map (\<lambda>x. worth (js_get (call_params (fst x)) ''invoice'')) xs)"

definition honest_invoices :: "(jsval \<Rightarrow> int) \<Rightarrow> exchange list \<Rightarrow> bool" where
  "honest_invoices worth calls \<longleftrightarrow>
     (\<forall>amt \<in> set TEST_AMOUNTS. \<forall>(call, issued) \<in> set calls.
        call = invoice_call amt \<and> js_truthy (invoice_of issued) \<longrightarrow> worth (invoice_of issued) = ta_shannons amt)"

text \<open>A refused call says why.\<close>

definition refusals_explained :: "exchange list \<Rightarrow> bool" where
  "refusals_explained calls \<longleftrightarrow>
     (\<forall>(call, reply) \<in> set calls. js_truthy (js_get (rpc_result reply) ''ok'')
        \<or> js_truthy (error_message (rpc_result reply)))"

lemma pay_call_invoice [simp]: "js_get (call_params (pay_call invoice key)) ''invoice'' = invoice"
  by (simp add: pay_call_def trampoline_params_def js_get_def)

lemma authorised_pays:
  assumes "authorised key amt t" and "amt \<in> set TEST_AMOUNTS" and "honest_invoices worth t"
  shows "shannons_paid worth (payments t) \<le> (if ta_shannons amt \<le> 10000 then ta_shannons amt else 0)"
proof -
  have "0 < ta_shannons amt" using assms(2) by (auto simp: TEST_AMOUNTS_def)
  with assms(1) consider "payments t = []" | invoice reply issued where
    "payments t = [(pay_call invoice key, reply)]" "ta_shannons amt \<le> 10000" "invoice = invoice_of issued"
    "js_truthy invoice" "(invoice_call amt, issued) \<in> set t" by (auto simp: authorised_def)
  then show ?thesis
  proof cases
    case 2
    with assms(2,3) have "worth invoice = ta_shannons amt" by (auto simp: honest_invoices_def)
    with 2 show ?thesis by (simp add: shannons_paid_def)
  qed (use \<open>0 < ta_shannons amt\<close> in \<open>simp add: shannons_paid_def\<close>)
qed

lemma honest_mono: "honest_invoices worth calls \<Longrightarrow> set calls' \<subseteq> set calls \<Longrightarrow> honest_invoices worth calls'"
  by (fastforce simp: honest_invoices_def)

lemma tests_pay_little:
  assumes "list_all2 (authorised key) TEST_AMOUNTS ts" and "honest_invoices worth (concat ts)"
  shows "shannons_paid worth (payments (concat ts)) \<le> 11000 \<and> length (payments (concat ts)) \<le> 2"
proof -
  from assms(1) obtain t1 t2 t3 where ts: "ts = [t1, t2, t3]"
    and a: "authorised key (TEST_AMOUNTS ! 0) t1" "authorised key (TEST_AMOUNTS ! 1) t2" "authorised key (TEST_AMOUNTS ! 2) t3"
    by (auto simp: TEST_AMOUNTS_def list_all2_Cons1)
  have "honest_invoices worth t" if "t \<in> set ts" for t
    by (rule honest_mono [OF assms(2)]) (use that in auto)
  with a [THEN authorised_pays] ts have "shannons_paid worth (payments t1) \<le> 1000"
    "shannons_paid worth (payments t2) \<le> 10000" "shannons_paid worth (payments t3) \<le> 0"
    by (simp_all add: TEST_AMOUNTS_def)
  moreover from a [THEN authorised_at_most_one]
  have "length (payments t1) \<le> 1" "length (payments t2) \<le> 1" "length (payments t3) = 0"
    by (simp_all add: TEST_AMOUNTS_def)
  ultimately show ?thesis by (simp add: shannons_paid_def ts)
qed

text \<open>A dry run that showed no error was accepted, when refusals are explained.\<close>

lemma dry_run_accepted:
  "\<not> js_truthy (js_get (dry_run_outcome r) ''error'') \<Longrightarrow> js_truthy (js_get r ''ok'') \<or> js_truthy (error_message r) \<Longrightarrow>
   js_truthy (js_get r ''ok'')"
  by (auto simp: dry_run_outcome_def js_get_def split: if_splits)

lemma authorised_dry_run:
  assumes "authorised key amt t" and "refusals_explained t" and "x \<in> set (payments t)"
  shows "\<exists>invoice dry pre post. fst x = pay_call invoice key \<and> t = pre @ x # post
    \<and> (dry_call invoice key, dry) \<in> set pre \<and> js_truthy (js_get (rpc_result dry) ''ok'')"
proof -
  from assms(1,3) obtain pre invoice reply post dry where t: "t = pre @ (pay_call invoice key, reply) # post"
    "payments pre = []" "payments post = []" and dry: "(dry_call invoice key, dry) \<in> set pre"
    "\<not> js_truthy (js_get (dry_run_outcome (rpc_result dry)) ''error'')" by (auto simp: authorised_def)
  with assms(3) have "x = (pay_call invoice key, reply)" by simp
  moreover from dry(1) t(1) assms(2) have
    "js_truthy (js_get (rpc_result dry) ''ok'') \<or> js_truthy (error_message (rpc_result dry))"
    by (force simp: refusals_explained_def)
  ultimately show ?thesis using t(1) dry dry_run_accepted by fastforce
qed

lemma paid_after_dry_run:
  assumes "list_all2 (authorised key) amts ts" and "refusals_explained (before @ concat ts)"
    and "x \<in> set (payments (concat ts))"
  shows "\<exists>invoice dry earlier later. fst x = pay_call invoice key \<and> before @ concat ts = earlier @ x # later
    \<and> (dry_call invoice key, dry) \<in> set earlier \<and> js_truthy (js_get (rpc_result dry) ''ok'')"
proof -
  from assms(3) obtain t where t: "t \<in> set ts" "x \<in> set (payments t)" by (auto simp: payments_def)
  then obtain us vs where ts: "ts = us @ t # vs" by (auto dest: split_list)
  from assms(1) t(1) obtain amt where "authorised key amt t"
    by (auto simp: list_all2_conv_all_nth in_set_conv_nth)
  moreover have "refusals_explained t" using assms(2) by (auto simp: refusals_explained_def ts)
  ultimately obtain invoice dry pre post where p: "fst x = pay_call invoice key" "t = pre @ x # post"
    "(dry_call invoice key, dry) \<in> set pre" "js_truthy (js_get (rpc_result dry) ''ok'')"
    using authorised_dry_run [OF _ _ t(2)] by blast
  then show ?thesis
    by (intro exI [of _ invoice] exI [of _ dry] exI [of _ "before @ concat us @ pre"] exI [of _ "post @ concat vs"])
      (simp add: ts)
qed

end
