(* ===== verification/Diagnostics_Report.thy ===== *)
theory Diagnostics_Report
  imports Routing_Diagnostics Runtime_Config
begin

text \<open>
  The whole run of the routing diagnostics (\<^verbatim>\<open>scripts/phase3-routing-diagnostics.mjs\<close>): the nodes, the
  listed channels and peers with their balances, the channels between the two public nodes, the amount
  tests of \<open>Routing_Diagnostics\<close>, the analysis of the channel reserve and the summary. The result is the
  object that the script saves; a \<open>TypeError\<close> in the report ends the script, so it is \<open>Inl\<close>. The console
  output and the file are left out. \<open>BigInt\<close> amounts are integers, and the CKB figures go through doubles
  and \<open>toFixed(4)\<close> as in the source.
\<close>

section \<open>Printing numbers\<close>

definition int_string :: "int \<Rightarrow> string" where
  "int_string i = (if i < 0 then ''-'' @ nat_string (nat (- i)) else nat_string (nat i))"

text \<open>
  \<open>String(x)\<close> of a double that is at least \<open>10 ^ 21\<close>: the fewest decimal digits that read back as \<open>x\<close>,
  and among those the closest. The number is an integer, so that all its digits are enough.
\<close>

definition closest_digits :: "rat \<Rightarrow> nat \<Rightarrow> nat option" where
  "closest_digits x p =
     (let lo = nat \<lfloor>x / of_nat p\<rfloor>;
          low = nearest_double (of_nat (lo * p)) = x; high = nearest_double (of_nat ((lo + 1) * p)) = x
      in if low \<and> (high \<longrightarrow> x - of_nat (lo * p) \<le> of_nat ((lo + 1) * p) - x) then Some lo
         else if high then Some (lo + 1) else None)"

definition exponent_string :: "string \<Rightarrow> nat \<Rightarrow> string" where
  "exponent_string digits e =
     (case digits of
        [] \<Rightarrow> []
      | c # cs \<Rightarrow> (if cs = [] then [c] else c # CHR ''.'' # cs) @ ''e+'' @ nat_string e)"

definition trailing_zeros :: "string \<Rightarrow> string" where
  "trailing_zeros s = rev (dropWhile (\<lambda>c. c = CHR ''0'') (rev s))"

definition large_number_string :: "rat \<Rightarrow> string" where
  "large_number_string x =
     (let places = length (nat_string (nat \<lfloor>x\<rfloor>));
          tries = map (\<lambda>k. (places - k, closest_digits x (10 ^ (places - k)))) [1..<Suc places]
      in case find (\<lambda>(_, found). found \<noteq> None) tries of
           Some (shift, Some n) \<Rightarrow>
             (let digits = nat_string n in exponent_string (trailing_zeros digits) (length digits + shift - 1))
         | _ \<Rightarrow> [])"

text \<open>\<open>x.toFixed(4)\<close>: the integer of ten-thousandths nearest to \<open>x\<close>, the larger one of two.\<close>

definition fixed4_units :: "rat \<Rightarrow> nat" where
  "fixed4_units x = nat \<lfloor>x * 10000 + 1 / 2\<rfloor>"

definition fixed4_string :: "nat \<Rightarrow> string" where
  "fixed4_string n =
     (let m = nat_string n; s = replicate (5 - length m) CHR ''0'' @ m
      in take (length s - 4) s @ ''.'' @ drop (length s - 4) s)"

definition unsigned_fixed4 :: "rat \<Rightarrow> string" where
  "unsigned_fixed4 x =
     (if 10 ^ 21 \<le> x then large_number_string x else fixed4_string (fixed4_units x))"

fun to_fixed4 :: "jsnum \<Rightarrow> string" where
  "to_fixed4 NaN = ''NaN''"
| "to_fixed4 PosInf = ''Infinity''"
| "to_fixed4 NegInf = ''-Infinity''"
| "to_fixed4 (Fin x) = (if x < 0 then ''-'' @ unsigned_fixed4 (- x) else unsigned_fixed4 x)"

text \<open>\<open>Number(shannons) / 100_000_000\<close>, each operation rounded to a double.\<close>

definition ckb_number :: "int \<Rightarrow> jsnum" where
  "ckb_number shannons =
     (case as_double (of_int shannons) of Fin x \<Rightarrow> as_double (x / 100000000) | n \<Rightarrow> n)"

lemma fixed4_nearest: "0 \<le> x \<Longrightarrow> \<bar>of_nat (fixed4_units x) - x * 10000\<bar> \<le> 1 / 2"
proof -
  assume "0 \<le> x"
  then have "0 \<le> \<lfloor>x * 10000 + 1 / 2\<rfloor>" by simp
  then have "(of_nat (fixed4_units x) :: rat) = of_int \<lfloor>x * 10000 + 1 / 2\<rfloor>"
    by (simp add: fixed4_units_def)
  with floor_correct [of "x * 10000 + 1 / 2"] show ?thesis unfolding abs_le_iff by linarith
qed

section \<open>Amounts\<close>

text \<open>
  \<open>BigInt\<close> on a text: white space around it is ignored. A text that is not a number makes it throw, which
  the script catches.
\<close>

definition hexToDecimal :: "jsval \<Rightarrow> js_exn + jsval" where
  "hexToDecimal h =
     (if \<not> js_truthy h then Inr h
      else case h of
        JStr s \<Rightarrow>
          if \<not> starts_with s ''0x'' then Inr h
          else (case bigint_of_string (js_trim s) of
             Some n \<Rightarrow> Inr (JStr (nat_string n)) | None \<Rightarrow> Inr h)
      | _ \<Rightarrow> Inl (JSTypeError ''h.startsWith is not a function''))"

text \<open>\<open>null\<close> is \<open>None\<close>.\<close>

definition hexToShannons :: "jsval \<Rightarrow> js_exn + int option" where
  "hexToShannons h =
     (if \<not> js_truthy h then Inr None
      else case h of
        JStr s \<Rightarrow>
          if \<not> starts_with s ''0x'' then Inr None
          else Inr (map_option int (bigint_of_string (js_trim s)))
      | _ \<Rightarrow> Inl (JSTypeError ''h.startsWith is not a function''))"

definition ckbFromShannons :: "jsval \<Rightarrow> js_exn + string option" where
  "ckbFromShannons h =
     map_sum id (map_option (\<lambda>s. to_fixed4 (ckb_number s) @ '' CKB'')) (hexToShannons h)"

definition text_or_null :: "string option \<Rightarrow> jsval" where
  "text_or_null s = (case s of Some t \<Rightarrow> JStr t | None \<Rightarrow> JNull)"

section \<open>Channels\<close>

definition reserve_of :: "jsval \<Rightarrow> jsval" where
  "reserve_of ch = js_or (js_get ch ''local_reserve_balance'') (js_or (js_get ch ''to_local_amount_limit'') JNull)"

definition effectiveOutboundEstimate :: "jsval \<Rightarrow> js_exn + jsval" where
  "effectiveOutboundEstimate ch =
     bindE (hexToShannons (js_get ch ''local_balance'')) (\<lambda>lb.
     bindE (hexToShannons (reserve_of ch)) (\<lambda>rv.
     case lb of
       None \<Rightarrow> Inr JNull
     | Some lb \<Rightarrow>
         (case rv of
            None \<Rightarrow> bindE (ckbFromShannons (js_get ch ''local_balance'')) (\<lambda>ckb.
              Inr (JStr (''unknown reserve; localBalance='' @ (case ckb of Some t \<Rightarrow> t | None \<Rightarrow> ''null''))))
          | Some rv \<Rightarrow>
              Inr (JStr ((if 0 \<le> lb - rv then int_string (lb - rv) else ''NEGATIVE'') @ '' shannons (''
                @ to_fixed4 (ckb_number (if lb - rv < 0 then 0 else lb - rv)) @ '' CKB) after reserve'')))))"

definition state_name_of :: "jsval \<Rightarrow> jsval" where
  "state_name_of ch = js_or (js_get ch ''state_name'') (js_opt (js_get ch ''state'') ''state_name'')"

text \<open>Reading a property of \<open>null\<close> or \<open>undefined\<close> throws.\<close>

definition readable :: "jsval \<Rightarrow> js_exn + unit" where
  "readable v = (if v = JUndef \<or> v = JNull then Inl (JSTypeError ''Cannot read properties of null'') else Inr ())"

definition sanitizeChannel :: "jsval \<Rightarrow> js_exn + jsval" where
  "sanitizeChannel ch =
     bindE (readable ch) (\<lambda>_.
     bindE (ckbFromShannons (js_get ch ''local_balance'')) (\<lambda>localCkb.
     bindE (ckbFromShannons (js_get ch ''remote_balance'')) (\<lambda>remoteCkb.
     bindE (effectiveOutboundEstimate ch) (\<lambda>estimate.
     Inr (JObj
       [(''channelIdMasked'', maskHex (js_get ch ''channel_id'')),
        (''channelOutpointMasked'', maskHex (js_get ch ''channel_outpoint'')),
        (''stateName'', js_or (state_name_of ch) JNull),
        (''stateFlags'', js_or (js_opt (js_get ch ''state'') ''state_flags'') JNull),
        (''fundingUdtTypeScript'', js_or (js_get ch ''funding_udt_type_script'') JNull),
        (''localBalance'', js_get ch ''local_balance''),
        (''localBalanceCkb'', text_or_null localCkb),
        (''remoteBalance'', js_get ch ''remote_balance''),
        (''remoteBalanceCkb'', text_or_null remoteCkb),
        (''offeredTlcBalance'', js_get ch ''offered_tlc_balance''),
        (''receivedTlcBalance'', js_get ch ''received_tlc_balance''),
        (''localReserveBalance'', reserve_of ch),
        (''remoteReserveBalance'', js_or (js_get ch ''remote_reserve_balance'') JNull),
        (''minTlcValue'', js_or (js_get ch ''min_tlc_value'') JNull),
        (''maxTlcValue'', js_or (js_get ch ''max_tlc_value'') JNull),
        (''feeRatePerKw'', js_or (js_get ch ''commitment_fee_rate'') (js_or (js_get ch ''fee_rate_per_kw'') JNull)),
        (''isPublic'', js_get ch ''is_public''),
        (''enabled'', js_get ch ''enabled''),
        (''peerIdMasked'', mask (js_get ch ''peer_id'')),
        (''failureDetail'', js_or (js_get ch ''failure_detail'') JNull),
        (''createdAt'', js_or (js_get ch ''created_at'') JNull),
        (''_effectiveOutboundEstimate'', estimate)] [])))))"

text \<open>\<open>xs.map(f)\<close> with an \<open>f\<close> that may throw.\<close>

fun map_throwing :: "('a \<Rightarrow> js_exn + 'b) \<Rightarrow> 'a list \<Rightarrow> js_exn + 'b list" where
  "map_throwing f [] = Inr []"
| "map_throwing f (x # xs) = bindE (f x) (\<lambda>y. bindE (map_throwing f xs) (\<lambda>ys. Inr (y # ys)))"

text \<open>\<open>(answer?.result?.channels ?? [])\<close>, of which \<open>map\<close> or \<open>filter\<close> is called.\<close>

definition channels_of :: "jsval \<Rightarrow> js_exn + jsval list" where
  "channels_of answer =
     (case js_or (js_opt (js_opt answer ''result'') ''channels'') (JArr []) of
        JArr vs \<Rightarrow> Inr vs
      | _ \<Rightarrow> Inl (JSTypeError ''not a function''))"

definition localChannelsReport :: "jsval \<Rightarrow> js_exn + jsval list \<times> jsval" where
  "localChannelsReport answer =
     bindE (channels_of answer) (\<lambda>rawChannels.
     bindE (map_throwing sanitizeChannel rawChannels) (\<lambda>channels.
     Inr (rawChannels, JObj [(''count'', JInt (int (length rawChannels))), (''channels'', JArr channels)] [])))"

section \<open>Peers\<close>

definition shown_address :: "jsval \<Rightarrow> jsval" where
  "shown_address a = (case a of JStr s \<Rightarrow> if js_includes s ''ip4'' then a else mask a | _ \<Rightarrow> mask a)"

text \<open>\<open>[].concat(v)\<close>\<close>

definition spread_into :: "jsval \<Rightarrow> jsval list" where
  "spread_into v = (case v of JArr vs \<Rightarrow> vs | _ \<Rightarrow> [v])"

definition sanitizePeer :: "jsval \<Rightarrow> js_exn + jsval" where
  "sanitizePeer p =
     bindE (readable p) (\<lambda>_. Inr (JObj
       [(''nodeIdMasked'', mask (js_or (js_get p ''id'') (js_or (js_get p ''peer_id'') (js_get p ''node_id'')))),
        (''address'', JArr (map shown_address (spread_into (js_or (js_get p ''addresses'')
           (js_or (js_get p ''connected_addresses'') (js_or (js_get p ''address'') (JArr []))))))),
        (''connected'', js_or (js_get p ''is_connected'') (js_or (js_get p ''connected'') JNull))] []))"

definition localPeersReport :: "jsval \<Rightarrow> js_exn + jsval" where
  "localPeersReport answer =
     (let rawPeers = js_or (js_opt (js_opt answer ''result'') ''peers'') (js_or (js_opt answer ''result'') (JArr [])) in
      case rawPeers of
        JArr ps \<Rightarrow> bindE (map_throwing sanitizePeer ps) (\<lambda>peers.
          Inr (JObj [(''count'', JInt (int (length ps))), (''peers'', JArr peers)] []))
      | _ \<Rightarrow> Inr (JObj [(''count'', JStr ''unknown''), (''peers'', rawPeers)] []))"

section \<open>The channels between the public nodes, and the local graph\<close>

definition ready_sample :: "jsval \<Rightarrow> js_exn + jsval" where
  "ready_sample c =
     bindE (ckbFromShannons (js_get c ''local_balance'')) (\<lambda>ckb. Inr (JObj
       [(''channelIdMasked'', maskHex (js_get c ''channel_id'')), (''stateName'', state_name_of c),
        (''localBalance'', js_get c ''local_balance''), (''localBalanceCkb'', text_or_null ckb),
        (''remoteBalance'', js_get c ''remote_balance''), (''isPublic'', js_get c ''is_public'')] []))"

definition node1ToNode2Report :: "jsval \<Rightarrow> js_exn + jsval" where
  "node1ToNode2Report n1n2 =
     bindE (channels_of n1n2) (\<lambda>n1n2Channels.
     bindE (map_throwing readable n1n2Channels) (\<lambda>_.
     let ckbOnly = filter (\<lambda>c. \<not> js_truthy (js_get c ''funding_udt_type_script'')) n1n2Channels;
         ready = filter (\<lambda>c. js_eq (state_name_of c) (JStr ''ChannelReady'')) ckbOnly
     in bindE (map_throwing ready_sample (take 3 ready)) (\<lambda>sample.
        Inr (JObj
          [(''queried'', js_or (js_opt n1n2 ''ok'') (JBool False)),
           (''totalChannels'', JInt (int (length n1n2Channels))),
           (''ckbOnlyChannels'', JInt (int (length ckbOnly))),
           (''readyCkbChannels'', JInt (int (length ready))), (''readySample'', JArr sample)] []))))"

text \<open>The parameters of the listings.\<close>

definition all_channels :: jsval where
  "all_channels = JObj [(''limit'', JInt 100)] []"

definition node2_channels :: "node_keys \<Rightarrow> jsval" where
  "node2_channels keys = JObj [(''pubkey'', nk_node2Pubkey keys), (''limit'', JInt 200)] []"

definition node1_graph :: "node_keys \<Rightarrow> jsval" where
  "node1_graph keys = JObj [(''peer_id'', nk_node1Pubkey keys), (''limit'', JInt 20)] []"

definition queryNode1ToNode2 :: "'t net \<Rightarrow> node_keys \<Rightarrow> 't \<Rightarrow> (js_exn + jsval) \<times> 't" where
  "queryNode1ToNode2 net keys s =
     (if js_truthy (nk_node1Pubkey keys) \<and> js_truthy (nk_node2Pubkey keys)
      then map_prod node1ToNode2Report id
        (rpc net NODE1_RPC ''list_channels'' (node2_channels keys) s)
      else (Inr (JObj [(''queried'', JBool False), (''note'', JNull)] []), s))"

definition localGraphReport :: "jsval \<Rightarrow> js_exn + jsval" where
  "localGraphReport answer =
     bindE (channels_of answer) (\<lambda>lgCh1.
     bindE (map_throwing sanitizeChannel lgCh1) (\<lambda>channels.
     Inr (JObj
       [(''queried'', js_or (js_opt answer ''ok'') (JBool False)), (''error'', js_or (js_opt answer ''error'') JNull),
        (''channelCount'', JInt (int (length lgCh1))), (''channels'', JArr channels)] [])))"

section \<open>The channel reserve\<close>

text \<open>
  \<open>totalChannel\<close> and \<open>estimatedReserve1pct\<close> are \<open>BigInt\<close>s whatever the channel says; the division is by
  a positive number of a sum that is not negative.
\<close>

definition big_or_null :: "int option \<Rightarrow> jsval" where
  "big_or_null i = text_or_null (map_option int_string i)"

definition channelReserveAnalysis :: "jsval \<Rightarrow> js_exn + jsval" where
  "channelReserveAnalysis ch0 =
     bindE (hexToShannons (js_get ch0 ''local_balance'')) (\<lambda>lb.
     bindE (hexToShannons (js_get ch0 ''remote_balance'')) (\<lambda>rb.
     bindE (hexToShannons (js_get ch0 ''offered_tlc_balance'')) (\<lambda>offeredTlc.
     bindE (hexToShannons (js_get ch0 ''received_tlc_balance'')) (\<lambda>receivedTlc.
     let reserveField = js_or (js_get ch0 ''local_reserve_balance'') (js_or (js_get ch0 ''to_local_amount_limit'')
           (js_or (js_get ch0 ''remote_reserve_balance'') JNull));
         totalChannel = (case lb of Some i \<Rightarrow> i | None \<Rightarrow> 0) + (case rb of Some i \<Rightarrow> i | None \<Rightarrow> 0);
         estimatedReserve1pct = totalChannel div 100;
         effective = map_option (\<lambda>i. i - estimatedReserve1pct) lb
     in bindE (ckbFromShannons (js_get ch0 ''local_balance'')) (\<lambda>localCkb.
        bindE (ckbFromShannons (js_get ch0 ''remote_balance'')) (\<lambda>remoteCkb.
        bindE (ckbFromShannons (JStr (''0x'' @ hex_string (nat totalChannel)))) (\<lambda>totalCkb.
        Inr (JObj
          [(''localBalanceShannons'', big_or_null lb), (''localBalanceCkb'', text_or_null localCkb),
           (''remoteBalanceShannons'', big_or_null rb), (''remoteBalanceCkb'', text_or_null remoteCkb),
           (''offeredTlcBalance'', big_or_null offeredTlc), (''receivedTlcBalance'', big_or_null receivedTlc),
           (''reserveFieldFromRpc'', reserveField),
           (''totalChannelShannons'', JStr (int_string totalChannel)), (''totalChannelCkb'', text_or_null totalCkb),
           (''estimated1pctReserveShannons'', JStr (int_string estimatedReserve1pct)),
           (''effectiveOutboundAfter1pctReserve'', text_or_null (map_option (\<lambda>i.
              int_string i @ '' shannons ('' @ to_fixed4 (ckb_number i) @ '' CKB)'') effective)),
           (''previousFailedAmountShannons'', JStr ''100000000''),
           (''hypothesis'', JStr (case effective of
              Some i \<Rightarrow> if i < 100000000
                then ''CONFIRMED: 1% channel reserve would reduce effective outbound below 1 CKB (previous failed amount)''
                else ''1% reserve alone does not explain the failure -- another constraint may be active''
            | None \<Rightarrow> ''1% reserve alone does not explain the failure -- another constraint may be active''))] []))))))))"

section \<open>The script\<close>

definition summaryReport :: "jsval \<Rightarrow> jsval \<Rightarrow> jsval list \<Rightarrow> jsval" where
  "summaryReport info localChannels amountResults =
     JObj
       [(''localNodeReachable'', js_get (js_get info ''local'') ''reachable''),
        (''node1Reachable'', js_get (js_get info ''node1'') ''reachable''),
        (''node2Reachable'', js_get (js_get info ''node2'') ''reachable''),
        (''localChannelCount'', js_get localChannels ''count''),
        (''paidPaymentAchieved'', JBool (succeededPayment amountResults \<noteq> None)),
        (''fiberLatchVerificationRun'', js_get (fiberLatchVerification amountResults) ''attempted''),
        (''amountTestResults'', JArr (map amountSummary amountResults))] []"

text \<open>What is computed after the last call of a node.\<close>

definition finalReport ::
  "jsval \<Rightarrow> jsval list \<Rightarrow> jsval \<Rightarrow> (string \<times> jsval) list \<Rightarrow> jsval list \<Rightarrow> js_exn + jsval" where
  "finalReport info rawChannels localChannels before amountResults =
     bindE (case rawChannels of
         ch0 # _ \<Rightarrow> if js_truthy ch0 then channelReserveAnalysis ch0 else Inr (JObj [] [])
       | [] \<Rightarrow> Inr (JObj [] [])) (\<lambda>analysis.
     Inr (JObj (before @
       [(''amountTests'', JArr amountResults), (''fiberLatchVerification'', fiberLatchVerification amountResults),
        (''channelReserveAnalysis'', analysis),
        (''summary'', summaryReport info localChannels amountResults)]) []))"

definition routingDiagnostics :: "'t net \<Rightarrow> 't \<Rightarrow> (js_exn + jsval) \<times> 't" where
  "routingDiagnostics net s =
     (case nodeQueries net s of ((localInfo, node1Info, node2Info), s1) \<Rightarrow>
      let keys = nodeKeys localInfo node1Info node2Info; info = nodeInfo localInfo node1Info node2Info keys in
      case rpc net LOCAL_RPC ''list_channels'' all_channels s1 of (channelAnswer, s2) \<Rightarrow>
      (case localChannelsReport channelAnswer of
         Inl e \<Rightarrow> (Inl e, s2)
       | Inr (rawChannels, localChannels) \<Rightarrow>
      (case rpc net LOCAL_RPC ''list_peers'' (JObj [] []) s2 of (peerAnswer, s3) \<Rightarrow>
      (case localPeersReport peerAnswer of
         Inl e \<Rightarrow> (Inl e, s3)
       | Inr localPeers \<Rightarrow>
      (case queryNode1ToNode2 net keys s3 of
         (Inl e, s4) \<Rightarrow> (Inl e, s4)
       | (Inr node1ToNode2, s4) \<Rightarrow>
      (case rpc net LOCAL_RPC ''list_channels'' (node1_graph keys) s4 of (graphAnswer, s5) \<Rightarrow>
      (case localGraphReport graphAnswer of
         Inl e \<Rightarrow> (Inl e, s5)
       | Inr localGraph \<Rightarrow>
      (case amountTests net (nk_node1Pubkey keys) TEST_AMOUNTS s5 of (amountResults, s6) \<Rightarrow>
         (finalReport info rawChannels localChannels
            [(''nodeInfo'', info), (''localChannels'', localChannels), (''localPeers'', localPeers),
             (''node1ToNode2'', node1ToNode2), (''localGraphToNode1'', localGraph)] amountResults, s6)))))))))"

section \<open>The calls of a run\<close>





section \<open>Properties\<close>


text \<open>
  Nodes that agree to everything; \<open>err\<close> is the error that a dry run is answered with, if any. Their
  invoices are written as the amounts they demand.
\<close>

definition sample_nodes :: "jsval option \<Rightarrow> unit net" where
  "sample_nodes err call s =
     (let dry = js_truthy (js_get (call_params call) ''dry_run'') in
      (Inr (case (err, dry) of
          (Some e, True) \<Rightarrow> JObj [(''error'', e)] []
        | _ \<Rightarrow> JObj [(''result'', JObj [(''pubkey'', JStr ''02ab''),
            (''invoice_address'', js_get (call_params call) ''amount''),
            (''payment_hash'', JStr ''0x01''), (''status'', JStr ''Paid'')] [])] []), s))"



text \<open>
  A dry run that is refused with an empty message counts as passed, and the payment is made; so does one whose
  status is not \<open>Created\<close>.
\<close>

lemma refused_dry_run_is_paid:
  "length (payments (fst (snd (routingDiagnostics
     (logging (sample_nodes (Some (JObj [(''message'', JStr [])] [])))) ([], ()))))) = 2"
  by code_simp

lemma refused_dry_run_is_not_paid:
  "payments (fst (snd (routingDiagnostics
     (logging (sample_nodes (Some (JObj [(''message'', JStr ''no route'')] [])))) ([], ())))) = []"
  by code_simp

text \<open>
  A test that made no invoice ran no dry run, and is summed up with both of them passed.
\<close>

lemma missing_dry_run_is_ok:
  "js_get (amountSummary (JObj [(''amount'', a), (''label'', l), (''invoiceCreated'', JBool False),
     (''invoiceError'', e)] [])) ''dryRunAutoOk'' = JBool True"
  "js_get (amountSummary (JObj [(''amount'', a), (''label'', l), (''invoiceCreated'', JBool False),
     (''invoiceError'', e)] [])) ''dryRunTrampolineOk'' = JBool True"
  by (simp_all add: amountSummary_def js_get_def js_opt_def)

text \<open>An address that contains \<open>ip4\<close> is shown in full, with the identity of the peer at its end.\<close>

lemma address_is_not_masked:
  "shown_address (JStr ''/ip4/18.162.235.225/tcp/8119/p2p/QmXen3eUHhywmutEzydCsW4hXBoeVmdET2FJvMX69XJ1Eo'')
     = JStr ''/ip4/18.162.235.225/tcp/8119/p2p/QmXen3eUHhywmutEzydCsW4hXBoeVmdET2FJvMX69XJ1Eo''"
  by code_simp

end
