(* ===== verification/Step_Bounds.thy ===== *)
theory Step_Bounds
  imports Service_Http Reconciliation_Worker
begin

text \<open>
  Termination of the service's calls. A program is finite however the shared state answers, but its
  length can depend on the answers; \<open>ends_within n p\<close> says that \<open>p\<close> ends after at most \<open>n\<close> of its own
  steps, whatever other programs and the environment do between them. A request of the HTTP interface
  has a fixed bound; a reconciliation has one that is fixed by the list of candidates it was given.
\<close>

section \<open>Bounded programs\<close>

fun ends_within :: "nat \<Rightarrow> ('d, 'r) prog \<Rightarrow> bool" where
  "ends_within n (Return r) = True"
| "ends_within 0 (Step f) = False"
| "ends_within (Suc n) (Step f) = (\<forall>d. ends_within n (fst (f d)))"

text \<open>\<open>after k p q\<close>: \<open>q\<close> is what is left of \<open>p\<close> after \<open>k\<close> steps, each from some state.\<close>

inductive after :: "nat \<Rightarrow> ('d, 'r) prog \<Rightarrow> ('d, 'r) prog \<Rightarrow> bool" where
  now: "after 0 p p"
| later: "after k (fst (f d)) q \<Longrightarrow> after (Suc k) (Step f) q"

inductive_cases after_StepE: "after k (Step f) q"
inductive_cases after_ReturnE: "after k (Return r) q"

lemma ends_within_mono: "ends_within m p \<Longrightarrow> m \<le> n \<Longrightarrow> ends_within n p"
proof (induction m p arbitrary: n rule: ends_within.induct)
  case (3 m f)
  then show ?case by (cases n) auto
qed simp_all

text \<open>The bound is met in every execution, and the program has then returned.\<close>

lemma ends_within_after:
  "after k p q \<Longrightarrow> ends_within n p \<Longrightarrow> k \<le> n \<and> ends_within (n - k) q"
proof (induction arbitrary: n rule: after.induct)
  case (later k f d q)
  then show ?case by (cases n) auto
qed simp

lemma ends_within_0: "ends_within 0 p \<Longrightarrow> \<exists>r. p = Return r"
  by (cases p) simp_all

lemma ends_within_bindP:
  "ends_within m p \<Longrightarrow> (\<And>a. ends_within n (k a)) \<Longrightarrow> ends_within (m + n) (bindP p k)"
proof (induction m p rule: ends_within.induct)
  case (1 m r)
  then show ?case by (simp add: ends_within_mono [of n])
qed simp_all

lemma ends_within_andThen:
  "ends_within m p \<Longrightarrow> (\<And>a. ends_within n (k a)) \<Longrightarrow> ends_within (m + n) (andThen p k)"
  unfolding andThen_def by (rule ends_within_bindP) (auto split: sum.split)

lemma bindP_assoc: "bindP (bindP p k) h = bindP p (\<lambda>a. bindP (k a) h)"
proof (induction p)
  case (Step f)
  have "map_prod (\<lambda>p. bindP p h) id (map_prod (\<lambda>p. bindP p k) id (f d)) =
      map_prod (\<lambda>p. bindP p (\<lambda>a. bindP (k a) h)) id (f d)" for d
    using Step.IH [OF rangeI, of "fst (f d)" d] by (cases "f d") simp
  then show ?case by simp
qed simp

lemma bindP_act_step:
  "\<exists>f. bindP (act op) k = Step f \<and> (\<forall>d. fst (f d) = k (fst (op d)))"
  by (simp add: act_def)

lemma ends_within_catchP:
  "ends_within m p \<Longrightarrow> (\<And>e. ends_within n (h e)) \<Longrightarrow> ends_within (m + n) (catchP p h)"
  unfolding catchP_def by (rule ends_within_bindP) (auto split: sum.split)

lemma ends_within_bindP_Return: "ends_within n p \<Longrightarrow> ends_within n (bindP p (\<lambda>r. Return (g r)))"
  using ends_within_bindP [of n p 0 "\<lambda>r. Return (g r)"] by simp

lemma ends_within_act [simp]: "0 < n \<Longrightarrow> ends_within n (act op)"
  by (cases n) (simp_all add: act_def)

lemma ends_within_transaction [simp]: "0 < n \<Longrightarrow> ends_within n (transaction rollback commit p)"
  by (simp add: transaction_def)

lemma ends_within_returnP [simp]: "ends_within n (returnP a)"
  by (simp add: returnP_def)

lemma ends_within_throwP [simp]: "ends_within n (throwP e)"
  by (simp add: throwP_def)

text \<open>One access of the database, then the rest.\<close>

lemma ends_within_act_andThen:
  "(\<And>a. ends_within n (k a)) \<Longrightarrow> ends_within (Suc n) (andThen (act op) k)"
  using ends_within_andThen [of 1 "act op" n k] by simp

lemma ends_within_access:
  "0 < n \<Longrightarrow> (\<And>a. ends_within (n - 1) (k a)) \<Longrightarrow> ends_within n (andThen (act op) k)"
  using ends_within_andThen [of 1 "act op" "n - 1" k] by simp

section \<open>Verification and redemption\<close>

lemma verify_ends: "ends_within 2 (verifyAccessReceipt db verify at' now token)"
  unfolding verifyAccessReceipt_def one_access
  by (auto split: sum.split bool.split option.split intro!: ends_within_access)

lemma redeemAtomically_ends: "ends_within 3 (redeemAccessReceiptAtomically db i now)"
  unfolding redeemAccessReceiptAtomically_def Let_def
  by (auto split: option.split intro!: ends_within_access)

lemma redeemed_events_ends: "ends_within 2 (redeemed_events db u)"
  unfolding redeemed_events_def one_access
  by (auto intro!: ends_within_access)

lemma redeemStored_ends: "ends_within 5 (redeemStored db at' atomicNow resource subject r)"
proof -
  have "ends_within (2 + 0) (andThen (redeemed_events db u)
      (\<lambda>_. returnP (granted_view u resource subject at')))" for u
    by (rule ends_within_andThen [OF redeemed_events_ends]) simp
  moreover have "ends_within 2 (andThen (getAccessReceiptByJti db (dr_jti r)) (\<lambda>current.
      returnP (not_active_view (case current of Some c \<Rightarrow> c | None \<Rightarrow> r) (dr_jti r) resource subject at')))"
    unfolding one_access by (auto intro!: ends_within_access)
  ultimately have "ends_within (3 + 2) (redeemStored db at' atomicNow resource subject r)"
    unfolding redeemStored_def
    by (intro ends_within_andThen redeemAtomically_ends)
      (auto split: option.split bool.split)
  then show ?thesis by (rule ends_within_mono) simp
qed

lemma redeemLookedUp_ends:
  "ends_within 5 (redeemLookedUp db at' now atomicNow resource subject sig found)"
  using redeemStored_ends unfolding redeemLookedUp_def one_access
  by (auto split: option.split intro!: ends_within_access)

lemma redeem_ends:
  "ends_within 6 (redeemReceipt db verify at' now atomicNow token resource subject)"
proof (cases "verify token")
  case (Inl e)
  then show ?thesis by (simp add: redeemReceipt_def)
next
  case (Inr sig)
  have "ends_within (1 + 5) (andThen
      (case (sr_verified sig, sr_claims sig) of
         (True, Some claims) \<Rightarrow> getAccessReceiptByJti db (sc_jti claims) | _ \<Rightarrow> returnP None)
      (redeemLookedUp db at' now atomicNow resource subject sig))"
    by (rule ends_within_andThen [OF _ redeemLookedUp_ends])
      (auto simp: one_access split: bool.split option.split)
  with Inr show ?thesis by (simp add: redeemReceipt_def)
qed

section \<open>Intents and reconciliation\<close>

lemma getAccessIntent_ends: "ends_within (Suc 0) (getAccessIntent service i)"
  unfolding getAccessIntent_def one_access by (auto intro!: ends_within_access)

lemma createAccessIntent_ends: "ends_within (Suc 0) (createAccessIntent service env input)"
  by (simp add: createAccessIntent_def inTransaction_def)

lemma reconcileCandidates_end: "ends_within (length ws) (reconcileCandidates service env n ws s)"
proof (induction ws arbitrary: n s)
  case (Cons w ws)
  have "ends_within (1 + length ws) (reconcileCandidates service env n (w # ws) s)"
    unfolding reconcileCandidates.simps
    by (rule ends_within_andThen [OF _ Cons.IH])
      (simp add: reconcileSingleAccessIntent_def inTransaction_def)
  then show ?case by (rule ends_within_mono) simp
qed simp

text \<open>The bodies of the two transactions: how many calls of the client they make at most.\<close>

lemma hydrated_ends: "ends_within 1 (hydrated db i fallback)"
  unfolding hydrated_def one_access by (auto intro!: ends_within_access)

lemma adoptExisting_ends: "ends_within 2 (adoptExisting db input r)"
proof -
  have "ends_within (1 + (1 + 0)) (adoptExisting db input r)"
    unfolding adoptExisting_def one_access
    by (intro ends_within_andThen hydrated_ends) (auto intro!: ends_within_access)
  then show ?thesis by (rule ends_within_mono) simp
qed

lemma finishIssuance_ends: "ends_within 4 (finishIssuance db input jti token r)"
proof -
  have "ends_within (Suc (Suc (Suc (1 + 0)))) (finishIssuance db input jti token r)"
    unfolding finishIssuance_def one_access
    by (intro ends_within_act_andThen ends_within_andThen [OF hydrated_ends]) simp
  then show ?thesis by (rule ends_within_mono) simp
qed

lemma issueReceiptForIntent_ends: "ends_within 6 (issueReceiptForIntent service env input)"
proof -
  have adopt: "ends_within 5 (adoptExisting db input r)" for db r
    by (rule ends_within_mono [OF adoptExisting_ends]) simp
  have conflict: "ends_within 3 (adoptConflicting db input e)" for db e
    unfolding adoptConflicting_def one_access
    by (auto split: option.split intro!: ends_within_access
        adoptExisting_ends)
  have "ends_within (1 + 4) (createSigned service env input expiresAt token)" for expiresAt token
    unfolding createSigned_def Let_def createAccessReceipt_def
    by (rule ends_within_bindP)
      (auto simp: finishIssuance_ends split: sum.split intro: ends_within_mono [OF conflict])
  with adopt show ?thesis
    unfolding issueReceiptForIntent_def one_access
    by (auto split: option.split sum.split intro!: ends_within_access)
qed

lemma concludeCreation_ends:
  "ends_within 7 (concludeCreation service env input policy issuedAt fv i)"
proof -
  have marked: "ends_within 7 (andThen (appendEventLog db ev) (\<lambda>_. andThen (act op) (\<lambda>r.
      andThen (hydrated db (int_id r) i) returnCreated)))" for db ev op
  proof -
    have "ends_within (Suc (Suc (1 + 0))) (andThen (appendEventLog db ev) (\<lambda>_. andThen (act op) (\<lambda>r.
      andThen (hydrated db (int_id r) i) returnCreated)))"
      unfolding appendEventLog_def
      by (intro ends_within_act_andThen ends_within_andThen [OF hydrated_ends]) (simp add: returnCreated_def)
    then show ?thesis by (rule ends_within_mono) simp
  qed
  have unpaid: "ends_within 7 (andThen (logWhen b db ev) (\<lambda>_.
      andThen (hydrated db j i) returnCreated))" for b db ev j
  proof -
    have "ends_within (1 + (1 + 0)) (andThen (logWhen b db ev) (\<lambda>_.
      andThen (hydrated db j i) returnCreated))"
      by (intro ends_within_andThen hydrated_ends) (auto simp: logWhen_def returnCreated_def appendEventLog_def)
    then show ?thesis by (rule ends_within_mono) simp
  qed
  have paid: "ends_within 7 (andThen (hydrated db j i) (\<lambda>current.
      andThen (issueReceiptForIntent service env (g current)) (\<lambda>issued. returnP (h issued))))"
    for db j g and h :: "issuance \<Rightarrow> create_result"
  proof -
    have "ends_within (1 + (6 + 0)) (andThen (hydrated db j i) (\<lambda>current.
      andThen (issueReceiptForIntent service env (g current)) (\<lambda>issued. returnP (h issued))))"
      by (intro ends_within_andThen hydrated_ends issueReceiptForIntent_ends) simp
    then show ?thesis by (rule ends_within_mono) simp
  qed
  show ?thesis
    unfolding concludeCreation_def Let_def markAccessIntentExpired_def markAccessIntentRejected_def
    by (simp only: marked unpaid paid split: if_split) simp
qed

lemma createVerifiedIntent_ends:
  "ends_within 10 (createVerifiedIntent service env input policy fv)"
proof (cases "valid_date (ce_now env + pol_receiptTtlSeconds policy * 1000)")
  case (Inl e)
  then show ?thesis by (simp add: createVerifiedIntent_def)
next
  case (Inr expiresAt)
  have "ends_within (Suc (Suc (1 + 7))) (createVerifiedIntent service env input policy fv)"
    unfolding createVerifiedIntent_def Let_def Inr sum.case createAccessIntentRecord_def appendEventLog_def
    by (intro ends_within_act_andThen ends_within_andThen concludeCreation_ends)
      (simp add: logWhen_def appendEventLog_def)
  then show ?thesis by (rule ends_within_mono) simp
qed

lemma ensureResourcePolicy_ends: "ends_within 2 (ensureResourcePolicy db input)"
  unfolding ensureResourcePolicy_def
  by (auto split: option.split sum.split intro!: ends_within_access)

lemma createIntentBody_ends: "ends_within 13 (createIntentBody service env input)"
proof -
  have "ends_within (1 + (2 + 10)) (createIntentBody service env input)"
    unfolding createIntentBody_def Let_def
  proof (rule ends_within_andThen, goal_cases)
    case 1
    show ?case by (simp add: getAccessIntentByIdempotencyKey_def)
  next
    case (2 existing)
    have "ends_within (2 + 10) (andThen (ensureResourcePolicy (fls_db service) (intent_policy service input))
        (\<lambda>policy. case asked_fiber env (map_option js_trim (ci_paymentRef input)) of
           Inl e \<Rightarrow> throwP e | Inr fv \<Rightarrow> createVerifiedIntent service env input policy fv))"
      by (rule ends_within_andThen [OF ensureResourcePolicy_ends])
        (simp add: createVerifiedIntent_ends split: sum.split)
    then show ?case by (simp split: option.split)
  qed
  then show ?thesis by (rule ends_within_mono) simp
qed

lemma reconcileAnswered_ends: "ends_within 6 (reconcileAnswered service env w r)"
proof -
  have "ends_within (6 + 0) (andThen (issueReceiptForIntent service env input) (\<lambda>_. returnP x))"
    for input and x :: reconcile_outcome
    by (rule ends_within_andThen [OF issueReceiptForIntent_ends]) simp
  moreover have "ends_within 6 (andThen (act f) (\<lambda>_. andThen (act g) (\<lambda>_. returnP x)))"
    for f :: "'a \<Rightarrow> (js_exn + unit) \<times> 'a" and g :: "'a \<Rightarrow> (js_exn + intent_row) \<times> 'a" and x :: reconcile_outcome
    by (auto intro!: ends_within_access)
  ultimately show ?thesis
    unfolding reconcileAnswered_def Let_def one_access by simp
qed

lemma reconcileBody_ends: "ends_within 8 (reconcileBody service env i)"
proof -
  have unpaid: "ends_within 7 (reconcileUnpaid (fls_db service) now j)" for now j
    unfolding reconcileUnpaid_def one_access by (auto intro!: ends_within_access)
  have answered: "ends_within (Suc 6) (andThen (updateAccessIntentFiberResponse db j v)
      (\<lambda>_. reconcileAnswered service env w r))" for db j v w r
    unfolding updateAccessIntentFiberResponse_def
    by (intro ends_within_act_andThen reconcileAnswered_ends)
  have "ends_within (Suc 7) (reconcileBody service env i)"
    unfolding reconcileBody_def Let_def getAccessIntentById_def
    using unpaid answered by (auto split: option.split sum.split intro!: ends_within_access)
  then show ?thesis by (rule ends_within_mono) simp
qed

text \<open>After the list was read, one transaction for every candidate in it.\<close>

lemma worker_tick_step:
  "\<exists>f. worker_tick worker env = Step f \<and> (\<forall>d. ends_within
     (case intent_findMany (fls_db (wk_service worker)) reconcilable d of
        (Inr ws, _) \<Rightarrow> length ws | (Inl e, _) \<Rightarrow> 0) (fst (f d)))"
proof -
  let ?find = "intent_findMany (fls_db (wk_service worker)) reconcilable"
  let ?rest = "\<lambda>r. catchP (andThen
      (case r of Inl e \<Rightarrow> Return (Inl e)
       | Inr ws \<Rightarrow> reconcileCandidates (wk_service worker) env 0 ws empty_summary)
      (\<lambda>_. returnP ())) (\<lambda>_. returnP ())"
  have tick: "worker_tick worker env = bindP (act ?find) ?rest"
    by (simp only: worker_tick_def runOnce_def reconcileOpenAccessIntents_def
        listReconcilableAccessIntents_def andThen_def catchP_def bindP_assoc)
  have "ends_within (length ws + 0 + 0) (?rest (Inr ws))" for ws
    unfolding sum.case
    by (intro ends_within_catchP ends_within_andThen reconcileCandidates_end ends_within_returnP)
  then have "ends_within (length ws) (?rest (Inr ws))" for ws by simp
  moreover have "ends_within 0 (?rest (Inl e))" for e
    by (simp add: andThen_def catchP_def returnP_def)
  moreover obtain f where "bindP (act ?find) ?rest = Step f" "\<And>d. fst (f d) = ?rest (fst (?find d))"
    using bindP_act_step [of ?find ?rest] by blast
  ultimately show ?thesis
    unfolding tick by (auto split: prod.split sum.split)
qed

section \<open>Requests\<close>

text \<open>How often a request accesses the database at most; a transaction counts as one access.\<close>

fun database_accesses :: "app_request \<Rightarrow> nat" where
  "database_accesses (PostAccessIntents body) = 1"
| "database_accesses (GetAccessIntent param) = 1"
| "database_accesses (PostReceiptsVerify body) = 2"
| "database_accesses (PostReceiptsRedeem body) = 6"
| "database_accesses GetJwks = 0"
| "database_accesses GetHealth = 0"

lemma callService_ends: "ends_within n p \<Longrightarrow> ends_within n (callService p answer)"
  unfolding callService_def by (rule ends_within_bindP_Return)

lemma handler_ends: "ends_within (database_accesses request) (handler sp app env request)"
  by (cases request)
    (simp_all add: postAccessIntents_def getAccessIntentRoute_def postReceiptsVerify_def
      postReceiptsRedeem_def callService_ends createAccessIntent_ends getAccessIntent_ends
      verify_ends redeem_ends split: sum.split)

text \<open>
  C27: Every call of the service ends, whatever the database answers and whatever other calls and
  the environment do to it meanwhile. A request of the HTTP interface accesses the database at most
  once (the two intent routes, where a creation is one transaction), twice (verification) or six times
  (redemption), or not at all; the body of a creation's transaction makes at most thirteen calls of the
  client and that of a reconciled intent at most eight. A tick of the worker reads the list of
  candidates, and then ends after at most one transaction for each candidate that the list had when it
  was read, even if new candidates appear meanwhile.
\<close>

theorem service_calls_end:
  "ends_within (database_accesses request) (respondTo sp app env request)
   \<and> ends_within 13 (createIntentBody service call input)
   \<and> ends_within 8 (reconcileBody service call intent)
   \<and> (\<exists>f. worker_tick worker calls = Step f \<and> (\<forall>d. ends_within
       (case intent_findMany (fls_db (wk_service worker)) reconcilable d of
          (Inr candidates, _) \<Rightarrow> length candidates | (Inl e, _) \<Rightarrow> 0) (fst (f d))))"
proof (intro conjI)
  show "ends_within (database_accesses request) (respondTo sp app env request)"
    unfolding respondTo_def by (rule ends_within_bindP_Return [OF handler_ends])
qed (rule createIntentBody_ends reconcileBody_ends worker_tick_step)+

end
