(* ===== verification/Package_Consumers.thy ===== *)
theory Package_Consumers
  imports Paid_Resource_Server
begin

text \<open>
  The packed consumers of the access package (\<^verbatim>\<open>packages/access/test-consumers/\<close>): an ES module, a
  CommonJS and a TypeScript program that install the package and use all of it: they build claims, sign
  them, verify the token, check bindings, and redeem through a store of their own. A program that throws
  is \<open>Inl\<close>. The exported halves of the generated key pair, the clock and the JOSE library are arguments;
  what the programs check of the module object (its exports, its prototype) and the type-level part of
  the TypeScript consumer are not modelled.
\<close>

section \<open>What the programs share\<close>

text \<open>The seconds that the program reads, and the verifier's clock at its three verifications.\<close>

record consumer_env =
  cn_now :: int
  cn_first :: int
  cn_second :: int
  cn_third :: int

definition expect :: "bool \<Rightarrow> string \<Rightarrow> js_exn + unit" where
  "expect b message = (if b then Inr () else Inl (JSError message))"

definition consumer_jwk :: "string \<Rightarrow> jsval \<Rightarrow> jsval" where
  "consumer_jwk kid exported =
     object_spread exported (JObj [(''alg'', JStr ''EdDSA''), (''kid'', JStr kid)] [])"

definition consumer_input :: "int \<Rightarrow> string \<Rightarrow> string \<Rightarrow> jsval \<Rightarrow> jsval" where
  "consumer_input now jti intent_id payment_ref = JObj
     [(''iss'', JStr ''https://access.example.test''),
      (''sub'', JStr ''user_42''),
      (''aud'', JStr ''protected-api''),
      (''iat'', JInt (now - 30)),
      (''nbf'', JInt (now - 20)),
      (''exp'', JInt (now + 300)),
      (''jti'', JStr jti),
      (''intent_id'', JStr intent_id),
      (''resource_id'', JStr ''course/module-1''),
      (''policy_id'', JStr ''policy_single_access_v1''),
      (''payment_ref'', payment_ref),
      (''grant_type'', JStr ''single_redemption''),
      (''max_redemptions'', JInt 1)] []"

definition consumer_signer :: "'k jose_lib \<Rightarrow> jsval \<Rightarrow> js_exn + 'k imported_key" where
  "consumer_signer lib privateJwk = createAccessReceiptSigner lib (JObj [(''privateKey'', privateJwk)] [])"

definition consumer_verifier :: "'k jose_lib \<Rightarrow> jsval \<Rightarrow> js_exn + 'k verifier_state" where
  "consumer_verifier lib publicJwk = createAccessReceiptVerifier lib (JObj
     [(''publicKeys'', JArr [publicJwk]), (''issuer'', JStr ''https://access.example.test''),
      (''audience'', JStr ''protected-api'')] [])"

text \<open>The four identifiers of verified claims, and all five expectations.\<close>

definition identifiers_of :: "jsval \<Rightarrow> (string \<times> jsval) list" where
  "identifiers_of verified =
     [(''sub'', js_get verified ''sub''), (''resource_id'', js_get verified ''resource_id''),
      (''policy_id'', js_get verified ''policy_id''), (''intent_id'', js_get verified ''intent_id'')]"

definition expected_of :: "jsval \<Rightarrow> jsval" where
  "expected_of verified =
     JObj (identifiers_of verified @ [(''max_redemptions'', js_get verified ''max_redemptions'')]) []"

text \<open>A store that consumes once; its state counts the calls.\<close>

definition counting_consume :: "jsval \<Rightarrow> nat receipt_store" where
  "counting_consume verified cmd consumeCalls =
     (if cmd_jti cmd \<noteq> js_get verified ''jti'' then (Inl (JSError ''Unexpected redemption command.''), consumeCalls + 1)
      else if consumeCalls + 1 = 1
      then (Inr (JObj [(''outcome'', JStr ''consumed''), (''exhausted'', JBool False)] []), consumeCalls + 1)
      else (Inr (JObj [(''outcome'', JStr ''receipt_exhausted'')] []), consumeCalls + 1))"

definition consumer_redeem ::
  "safe_parse \<Rightarrow> 'k jose_lib \<Rightarrow> 'k verifier_state \<Rightarrow> int \<Rightarrow> int \<Rightarrow> string \<Rightarrow> jsval \<Rightarrow> 's receipt_store
     \<Rightarrow> 's \<Rightarrow> redemption_result \<times> 's" where
  "consumer_redeem sp lib verifier clock now token expected consume s =
     redeemAccessReceipt sp
       (RedeemInput (JStr token) expected (Some (\<lambda>t. verifyToken sp lib clock t verifier)) (Some consume)
          (JInt now)) s"

section \<open>The programs\<close>

definition esm_consumer ::
  "safe_parse \<Rightarrow> 'k jose_lib \<Rightarrow> consumer_env \<Rightarrow> jsval \<times> jsval \<Rightarrow> js_exn + unit" where
  "esm_consumer sp lib env exported =
     bindE (buildAccessReceiptClaims sp
       (consumer_input (cn_now env) ''jti_esm_01'' ''intent_esm_01'' JNull)) (\<lambda>claims.
     bindE (expect (js_get claims ''grant_type'' = JStr ''single_redemption'')
       ''Expected a single-redemption claim.'') (\<lambda>_.
     bindE (consumer_signer lib (consumer_jwk ''consumer-esm-key'' (fst exported))) (\<lambda>signer.
     bindE (consumer_verifier lib (consumer_jwk ''consumer-esm-key'' (snd exported))) (\<lambda>verifier.
     bindE (accessReceiptSigner sp lib signer claims) (\<lambda>token.
     bindE (verifyToken sp lib (cn_first env) (JStr token) verifier) (\<lambda>verified.
     bindE (expect (js_get verified ''sub'' = JStr ''user_42'' \<and> js_get verified ''payment_ref'' = JNull)
       ''Expected the sign-and-verify round trip to preserve claims.'') (\<lambda>_.
     bindE (evaluateAccessReceiptBindings sp verified (expected_of verified)) (\<lambda>matched.
     bindE (expect (matched = Matched) ''Expected the packed ESM binding to match.'') (\<lambda>_.
     bindE (evaluateAccessReceiptBindings sp verified (JObj
       [(''sub'', js_get verified ''sub''), (''resource_id'', JStr ''course/other-module''),
        (''policy_id'', js_get verified ''policy_id''), (''intent_id'', js_get verified ''intent_id'')] []))
       (\<lambda>denied.
     bindE (expect (denied = BindingDenied) ''Expected the packed ESM binding denial.'') (\<lambda>_.
     case consumer_redeem sp lib verifier (cn_second env) (cn_now env) token
            (JObj (identifiers_of verified) []) (counting_consume verified) 0 of
       (redemptionSuccess, consumeCalls) \<Rightarrow>
         bindE (expect (redemptionSuccess = Success False) ''Expected the packed ESM redemption success.'') (\<lambda>_.
         expect (fst (consumer_redeem sp lib verifier (cn_third env) (cn_now env) token
             (JObj (identifiers_of verified) []) (counting_consume verified) consumeCalls)
               = ConsumptionDenied ReceiptExhausted)
           ''Expected the packed ESM redemption denial.''))))))))))))"

text \<open>The CommonJS program keeps a payment reference, and signs anew for each redemption.\<close>

definition commonjs_consumer ::
  "safe_parse \<Rightarrow> 'k jose_lib \<Rightarrow> consumer_env \<Rightarrow> jsval \<times> jsval \<Rightarrow> js_exn + unit" where
  "commonjs_consumer sp lib env exported =
     bindE (buildAccessReceiptClaims sp (consumer_input (cn_now env) ''jti_commonjs_01''
       ''intent_commonjs_01'' (JStr ''payment_ref_commonjs_01''))) (\<lambda>claims.
     bindE (consumer_signer lib (consumer_jwk ''consumer-commonjs-key'' (fst exported))) (\<lambda>signer.
     bindE (consumer_verifier lib (consumer_jwk ''consumer-commonjs-key'' (snd exported))) (\<lambda>verifier.
     bindE (accessReceiptSigner sp lib signer claims) (\<lambda>token.
     bindE (verifyToken sp lib (cn_first env) (JStr token) verifier) (\<lambda>verified.
     bindE (expect (js_get verified ''payment_ref'' = JStr ''payment_ref_commonjs_01'')
       ''Expected the payment reference to be preserved.'') (\<lambda>_.
     bindE (evaluateAccessReceiptBindings sp verified (JObj (identifiers_of verified) [])) (\<lambda>matched.
     bindE (expect (matched = Matched) ''Expected the packed CommonJS binding to match.'') (\<lambda>_.
     bindE (evaluateAccessReceiptBindings sp verified (JObj
       [(''sub'', js_get verified ''sub''), (''resource_id'', JStr ''course/other-module''),
        (''policy_id'', js_get verified ''policy_id''), (''intent_id'', js_get verified ''intent_id'')] []))
       (\<lambda>denied.
     bindE (expect (denied = BindingDenied) ''Expected the packed CommonJS binding denial.'') (\<lambda>_.
     bindE (accessReceiptSigner sp lib signer claims) (\<lambda>token1.
     case consumer_redeem sp lib verifier (cn_second env) (cn_now env) token1
            (JObj (identifiers_of verified) []) (counting_consume verified) 0 of
       (redemptionSuccess, consumeCalls) \<Rightarrow>
         bindE (expect (redemptionSuccess = Success False)
           ''Expected the packed CommonJS redemption success.'') (\<lambda>_.
         bindE (accessReceiptSigner sp lib signer claims) (\<lambda>token2.
         expect (fst (consumer_redeem sp lib verifier (cn_third env) (cn_now env) token2
             (JObj (identifiers_of verified) []) (counting_consume verified) consumeCalls)
               = ConsumptionDenied ReceiptExhausted)
           ''Expected the packed CommonJS redemption denial.'')))))))))))))"

text \<open>
  The TypeScript program has a store that always consumes, calls it once itself, and redeems with all
  five expectations; the result of the redemption is its result here (the program only narrows its type).
\<close>

definition typescript_consume :: "unit receipt_store" where
  "typescript_consume receivedCommand s =
     (Inr (JObj [(''outcome'', JStr ''consumed''), (''exhausted'', JBool False)] []), s)"

definition typescript_command :: "jsval \<Rightarrow> int \<Rightarrow> consume_command" where
  "typescript_command verified now =
     \<lparr>cmd_jti = js_get verified ''jti'', cmd_iss = js_get verified ''iss'',
      cmd_sub = js_get verified ''sub'', cmd_aud = js_get verified ''aud'',
      cmd_intent_id = js_get verified ''intent_id'', cmd_resource_id = js_get verified ''resource_id'',
      cmd_policy_id = js_get verified ''policy_id'', cmd_grant_type = js_get verified ''grant_type'',
      cmd_max_redemptions = js_get verified ''max_redemptions'', cmd_exp = js_get verified ''exp'',
      cmd_current_time = JInt now,
      cmd_expected_max_redemptions = js_get verified ''max_redemptions''\<rparr>"

definition typescript_consumer ::
  "safe_parse \<Rightarrow> 'k jose_lib \<Rightarrow> consumer_env \<Rightarrow> jsval \<times> jsval \<Rightarrow> js_exn + redemption_result" where
  "typescript_consumer sp lib env exported =
     bindE (buildAccessReceiptClaims sp
       (consumer_input (cn_now env) ''jti_typescript_01'' ''intent_typescript_01'' JNull)) (\<lambda>claims.
     bindE (consumer_signer lib (consumer_jwk ''consumer-typescript-key'' (fst exported))) (\<lambda>signer.
     bindE (consumer_verifier lib (consumer_jwk ''consumer-typescript-key'' (snd exported))) (\<lambda>verifier.
     bindE (accessReceiptSigner sp lib signer claims) (\<lambda>token.
     bindE (verifyToken sp lib (cn_first env) (JStr token) verifier) (\<lambda>verified.
     bindE (expect (js_get verified ''payment_ref'' = JNull \<and> js_get verified ''sub'' = JStr ''user_42'')
       ''Expected the TypeScript sign-and-verify round trip to preserve claims.'') (\<lambda>_.
     bindE (evaluateAccessReceiptBindings sp verified (expected_of verified)) (\<lambda>matched.
     bindE (expect (matched = Matched) ''Expected the TypeScript binding to match.'') (\<lambda>_.
     bindE (evaluateAccessReceiptBindings sp verified (object_spread (expected_of verified)
       (JObj [(''resource_id'', JStr ''course/other-module'')] []))) (\<lambda>denied.
     bindE (expect (denied = BindingDenied) ''Expected the TypeScript binding denial.'') (\<lambda>_.
     bindE (fst (typescript_consume (typescript_command verified (cn_now env)) ())) (\<lambda>consumeResult.
     Inr (fst (consumer_redeem sp lib verifier (cn_second env) (cn_now env) token (expected_of verified)
       typescript_consume ())))))))))))))"

section \<open>The claims of the programs\<close>

definition consumer_claims :: "int \<Rightarrow> string \<Rightarrow> string \<Rightarrow> string option \<Rightarrow> receipt_claims" where
  "consumer_claims now jti intent_id payment_ref =
     \<lparr>rc_iss = ''https://access.example.test'', rc_sub = ''user_42'', rc_aud = ''protected-api'',
      rc_iat = now - 30, rc_nbf = now - 20, rc_exp = now + 300, rc_jti = jti,
      rc_intent_id = intent_id, rc_resource_id = ''course/module-1'',
      rc_policy_id = ''policy_single_access_v1'', rc_payment_ref = payment_ref,
      rc_grant_type = SingleRedemption, rc_max_redemptions = 1\<rparr>"

lemma consumer_input_carries:
  "consumer_input now jti intent_id (payment_ref_val p) = claims_obj (consumer_claims now jti intent_id p)"
  by (simp add: consumer_input_def consumer_claims_def claims_obj_def claims_props_def)

lemma consumer_claims_valid:
  assumes "0 \<le> now" and "now + 300 \<le> max_safe_integer" and "jti \<noteq> []" and "intent_id \<noteq> []"
  shows "claims_valid (consumer_claims now jti intent_id p)"
  using assms by (simp add: consumer_claims_def claims_valid_def safe_int_def max_safe_integer_def abs_le_iff)

section \<open>What the programs rely on\<close>

text \<open>
  Two JWKs with the same \<open>kid\<close> are trusted keys that the library imports, a token signed with the
  private one verifies under the public one, and the library signs the program's claims with a token
  that fits the default size.
\<close>

definition key_setting :: "'k jose_lib \<Rightarrow> jsval \<Rightarrow> jsval \<Rightarrow> string \<Rightarrow> receipt_claims \<Rightarrow> bool" where
  "key_setting lib privateJwk publicJwk kid c \<longleftrightarrow>
     (\<exists>priv pub tok. trusted_jwk lib PrivateKey privateJwk \<and> js_get privateJwk ''kid'' = JStr kid
       \<and> importJWK lib (copyForImport privateJwk) ''EdDSA'' = Inr (ImportedKey priv)
       \<and> trusted_jwk lib PublicKey publicJwk \<and> js_get publicJwk ''kid'' = JStr kid
       \<and> importJWK lib (copyForImport publicJwk) ''EdDSA'' = Inr (ImportedKey pub)
       \<and> jose_round_trip lib priv pub
       \<and> signJWT lib (claims_obj c) (signer_header kid) priv = Inr tok \<and> utf8_length tok \<le> 4096)"

definition consumer_setting :: "'k jose_lib \<Rightarrow> jsval \<times> jsval \<Rightarrow> string \<Rightarrow> receipt_claims \<Rightarrow> bool" where
  "consumer_setting lib exported kid c \<longleftrightarrow>
     key_setting lib (consumer_jwk kid (fst exported)) (consumer_jwk kid (snd exported)) kid c"

lemma object_spread_own:
  "map_of (own_props (object_spread v (JObj ps []))) k =
     (case map_of ps k of Some y \<Rightarrow> Some y | None \<Rightarrow> map_of (own_props v) k)"
proof -
  have m: "map_of (map (\<lambda>(k, x). (k, case map_of ps k of Some y \<Rightarrow> y | None \<Rightarrow> x)) xs) k =
      map_option (\<lambda>x. case map_of ps k of Some y \<Rightarrow> y | None \<Rightarrow> x) (map_of xs k)" for xs
    by (induction xs) (auto split: option.split)
  have f: "map_of (filter (\<lambda>(k, y). map_of (own_props v) k = None) ps) k =
      (if map_of (own_props v) k = None then map_of ps k else None)"
    by (induction ps) auto
  show ?thesis
    by (auto simp: object_spread_def m f js_has_own_def map_add_def split: option.split)
qed

lemma object_spread_get:
  "js_get (object_spread v (JObj ps [])) k =
     (case map_of ps k of Some y \<Rightarrow> y
      | None \<Rightarrow> case map_of (own_props v) k of Some y \<Rightarrow> y | None \<Rightarrow> JUndef)"
proof -
  have "js_get (JObj own []) k = (case map_of own k of Some y \<Rightarrow> y | None \<Rightarrow> JUndef)" for own
    by (simp add: js_get_def split: option.split)
  moreover have "\<exists>own. object_spread v (JObj ps []) = JObj own []" by (simp add: object_spread_def)
  ultimately show ?thesis
    using object_spread_own [of v ps k] by (auto split: option.split)
qed

lemma consumer_jwk_kid: "js_get (consumer_jwk kid exported) ''kid'' = JStr kid"
  by (simp add: consumer_jwk_def object_spread_get)

lemma key_setting_works:
  assumes "zod_parser Zod4 sp" and "key_setting lib privateJwk publicJwk kid c" and "kid \<noteq> []"
    and c: "claims_valid c"
  obtains signer verifier tok where
    "createAccessReceiptSigner lib (JObj [(''privateKey'', privateJwk)] []) = Inr signer"
    "createAccessReceiptVerifier lib (JObj [(''publicKeys'', JArr [publicJwk]),
       (''issuer'', JStr (rc_iss c)), (''audience'', JStr (rc_aud c))] []) = Inr verifier"
    "accessReceiptSigner sp lib signer (claims_obj c) = Inr tok"
    "\<And>clock. rc_nbf c \<le> clock \<Longrightarrow> clock < rc_exp c \<Longrightarrow>
      verifyToken sp lib clock (JStr tok) verifier = Inr (claims_obj c)"
proof -
  from assms(2) obtain priv pub tok where
    keys: "trusted_jwk lib PrivateKey privateJwk" "js_get privateJwk ''kid'' = JStr kid"
      "importJWK lib (copyForImport privateJwk) ''EdDSA'' = Inr (ImportedKey priv)"
      "trusted_jwk lib PublicKey publicJwk" "js_get publicJwk ''kid'' = JStr kid"
      "importJWK lib (copyForImport publicJwk) ''EdDSA'' = Inr (ImportedKey pub)"
    and rt: "jose_round_trip lib priv pub"
    and sign: "signJWT lib (claims_obj c) (signer_header kid) priv = Inr tok" "utf8_length tok \<le> 4096"
    unfolding key_setting_def by blast
  let ?signer = "\<lparr>ik_kid = kid, ik_key = priv\<rparr>"
  let ?verifier = "\<lparr>vs_keys = [(kid, pub)], vs_issuer = rc_iss c, vs_audience = rc_aud c,
      vs_clockTolerance = 0, vs_maxTokenSize = 4096\<rparr>"
  have named: "rc_iss c \<noteq> []" "rc_aud c \<noteq> []" using c by (simp_all add: claims_valid_def)
  have "createAccessReceiptSigner lib (JObj [(''privateKey'', privateJwk)] []) = Inr ?signer"
    using keys by (simp add: createAccessReceiptSigner_def requireConfigurationRecord_def
        rejectUnsupportedConfiguration_def js_has_own_def importTrustedPrivateKey_def importKey_Inr_iff)
  moreover have "createAccessReceiptVerifier lib (JObj [(''publicKeys'', JArr [publicJwk]),
       (''issuer'', JStr (rc_iss c)), (''audience'', JStr (rc_aud c))] []) = Inr ?verifier"
    unfolding create_verifier_Inr_iff
    using keys named by (simp add: unsupported_verifier_properties_def js_has_own_def options_are_def
        options_of_def number_option_is_def configured_key_def)
  moreover have sg: "accessReceiptSigner sp lib ?signer (claims_obj c) = Inr tok"
    unfolding signer_Inr_iff [OF assms(1)] using c sign(1) carries_claims_obj by auto
  moreover have "verifyToken sp lib clock (JStr tok) ?verifier = Inr (claims_obj c)"
    if "rc_nbf c \<le> clock" and "clock < rc_exp c" for clock
  proof (rule signed_token_verifies [OF assms(1) _ sg carries_claims_obj])
    show "in_validity_window clock (vs_clockTolerance ?verifier) c"
      using that by (simp add: in_validity_window_def)
    show "within_size ?verifier tok" using sign(2) by (simp add: within_size_def)
  qed (use rt c assms(3) in simp_all)
  ultimately show thesis by (rule that)
qed

lemma consumer_setting_works:
  assumes "zod_parser Zod4 sp" and "consumer_setting lib exported kid c" and "kid \<noteq> []"
    and c: "claims_valid c" "rc_iss c = ''https://access.example.test''" "rc_aud c = ''protected-api''"
  obtains signer verifier tok where
    "consumer_signer lib (consumer_jwk kid (fst exported)) = Inr signer"
    "consumer_verifier lib (consumer_jwk kid (snd exported)) = Inr verifier"
    "accessReceiptSigner sp lib signer (claims_obj c) = Inr tok"
    "\<And>clock. rc_nbf c \<le> clock \<Longrightarrow> clock < rc_exp c \<Longrightarrow>
      verifyToken sp lib clock (JStr tok) verifier = Inr (claims_obj c)"
  using key_setting_works [OF assms(1) assms(2) [unfolded consumer_setting_def] assms(3) c(1)]
  unfolding c(2,3) consumer_signer_def consumer_verifier_def by blast

text \<open>A redemption with the verified claims' own identifiers reaches the store.\<close>

lemma identifiers_valid:
  assumes "claims_valid c"
  shows "isValidExpectedBindings (JObj (identifiers_of (claims_obj c)) [])"
    and "isValidExpectedBindings (expected_of (claims_obj c))"
    and "bindings_agree (JObj (identifiers_of (claims_obj c)) []) c"
    and "bindings_agree (expected_of (claims_obj c)) c"
  using assms
  by (auto simp: isValidExpectedBindings_def bindings_agree_def identifiers_of_def expected_of_def
      js_has_own_def claims_valid_def is_non_empty_string_iff is_safe_integer_iff num_le_def
      split: grant_type.splits) (simp_all add: js_get_def)

lemma consumer_redeem_reaches:
  assumes "zod_parser Zod4 sp" and "verifyToken sp lib clock (JStr tok) verifier = Inr (claims_obj c)"
    and "claims_valid c" and "isValidExpectedBindings expected" and "bindings_agree expected c"
    and "0 \<le> now" and "safe_int now"
  shows "consumer_redeem sp lib verifier clock now tok expected consume s =
    map_prod store_result id (consume (command_of c expected (JInt now)) s)"
  unfolding consumer_redeem_def
  by (rule redeem_reaches [OF assms(1)]) (use assms in \<open>auto simp: reaches_store_def\<close>)

lemma other_resource_denied:
  assumes "zod_parser Zod4 sp" and "js_get expected ''resource_id'' = JStr r" and "r \<noteq> rc_resource_id c"
  shows "evaluateAccessReceiptBindings sp (claims_obj c) expected = Inr BindingDenied"
proof -
  have "evaluateAccessReceiptBindings sp (claims_obj c) expected \<noteq> Inr Matched"
    using assms(2,3) carries_unique [OF carries_claims_obj]
    by (auto simp: evaluate_Matched_iff [OF assms(1)] bindings_agree_def)
  then show ?thesis using evaluate_returns [OF assms(1)] by blast
qed

section \<open>The programs pass\<close>

text \<open>The clock when the program starts, and the verifier's readings within the receipt's lifetime.\<close>

definition consumer_env_ok :: "consumer_env \<Rightarrow> bool" where
  "consumer_env_ok env \<longleftrightarrow>
     0 \<le> cn_now env \<and> cn_now env + 300 \<le> max_safe_integer
   \<and> (\<forall>clock \<in> {cn_first env, cn_second env, cn_third env}.
        cn_now env - 20 \<le> clock \<and> clock < cn_now env + 300)"

lemma counting_consume_result:
  assumes "cmd_jti cmd = js_get verified ''jti''"
  shows "counting_consume verified cmd n =
    (Inr (result_obj (if n = 0 then Consumed False else ReceiptExhausted)), n + 1)"
  using assms by (simp add: counting_consume_def result_obj.simps)

lemma matched_identifiers:
  assumes "zod_parser Zod4 sp" and "claims_valid c"
  shows "evaluateAccessReceiptBindings sp (claims_obj c) (JObj (identifiers_of (claims_obj c)) [])
      = Inr Matched"
    and "evaluateAccessReceiptBindings sp (claims_obj c) (expected_of (claims_obj c)) = Inr Matched"
  using identifiers_valid [OF assms(2)] assms(2) carries_claims_obj
  unfolding evaluate_Matched_iff [OF assms(1)] by blast+

text \<open>Two redemptions at the counting store.\<close>

lemma counting_redemptions:
  assumes "zod_parser Zod4 sp" and "verifyToken sp lib clock (JStr tok) verifier = Inr (claims_obj c)"
    and "claims_valid c" and "0 \<le> now" and "safe_int now"
  shows "consumer_redeem sp lib verifier clock now tok (JObj (identifiers_of (claims_obj c)) [])
      (counting_consume (claims_obj c)) n =
    (if n = 0 then Success False else ConsumptionDenied ReceiptExhausted, n + 1)"
proof -
  have "cmd_jti (command_of c (JObj (identifiers_of (claims_obj c)) []) (JInt now))
      = js_get (claims_obj c) ''jti''" by (simp add: command_of_def)
  from counting_consume_result [OF this, of n] show ?thesis
    unfolding consumer_redeem_reaches [OF assms(1-3) identifiers_valid(1,3) [OF assms(3)] assms(4,5)]
    by (simp add: store_result_def)
qed

text \<open>The first half of each program.\<close>

lemma consumer_setup:
  assumes sp: "zod_parser Zod4 sp" and env: "consumer_env_ok env"
    and c: "c = consumer_claims (cn_now env) jti intent_id p"
    and setting: "consumer_setting lib exported kid c" and "kid \<noteq> []" "jti \<noteq> []" "intent_id \<noteq> []"
  obtains signer verifier tok where
    "consumer_signer lib (consumer_jwk kid (fst exported)) = Inr signer"
    "consumer_verifier lib (consumer_jwk kid (snd exported)) = Inr verifier"
    "accessReceiptSigner sp lib signer (claims_obj c) = Inr tok"
    "verifyToken sp lib (cn_first env) (JStr tok) verifier = Inr (claims_obj c)"
    "verifyToken sp lib (cn_second env) (JStr tok) verifier = Inr (claims_obj c)"
    "verifyToken sp lib (cn_third env) (JStr tok) verifier = Inr (claims_obj c)"
    "buildAccessReceiptClaims sp (consumer_input (cn_now env) jti intent_id (payment_ref_val p))
      = Inr (claims_obj c)"
    "claims_valid c" "0 \<le> cn_now env" "safe_int (cn_now env)"
proof -
  have valid: "claims_valid c"
    using env assms(6,7) by (simp add: consumer_env_ok_def consumer_claims_valid c)
  have fields: "rc_iss c = ''https://access.example.test''" "rc_aud c = ''protected-api''"
    "rc_nbf c = cn_now env - 20" "rc_exp c = cn_now env + 300" by (simp_all add: c consumer_claims_def)
  obtain signer verifier tok where made:
    "consumer_signer lib (consumer_jwk kid (fst exported)) = Inr signer"
    "consumer_verifier lib (consumer_jwk kid (snd exported)) = Inr verifier"
    "accessReceiptSigner sp lib signer (claims_obj c) = Inr tok"
    and verifies: "\<And>clock. rc_nbf c \<le> clock \<Longrightarrow> clock < rc_exp c \<Longrightarrow>
      verifyToken sp lib clock (JStr tok) verifier = Inr (claims_obj c)"
    using consumer_setting_works [OF sp setting assms(5) valid fields(1,2)] by blast
  have "verifyToken sp lib (cn_first env) (JStr tok) verifier = Inr (claims_obj c)"
    "verifyToken sp lib (cn_second env) (JStr tok) verifier = Inr (claims_obj c)"
    "verifyToken sp lib (cn_third env) (JStr tok) verifier = Inr (claims_obj c)"
    using env fields(3,4) by (simp_all add: consumer_env_ok_def verifies)
  moreover have "buildAccessReceiptClaims sp (consumer_input (cn_now env) jti intent_id (payment_ref_val p))
      = Inr (claims_obj c)"
    unfolding consumer_input_carries c [symmetric] by (rule build_carries [OF sp valid carries_claims_obj])
  moreover have "0 \<le> cn_now env" "safe_int (cn_now env)"
    using env by (simp_all add: consumer_env_ok_def safe_int_def)
  ultimately show thesis using made valid by (intro that) simp_all
qed

lemma esm_consumer_passes:
  assumes sp: "zod_parser Zod4 sp" and env: "consumer_env_ok env"
    and setting: "consumer_setting lib exported ''consumer-esm-key''
      (consumer_claims (cn_now env) ''jti_esm_01'' ''intent_esm_01'' None)"
  shows "esm_consumer sp lib env exported = Inr ()"
proof -
  define c where c: "c = consumer_claims (cn_now env) ''jti_esm_01'' ''intent_esm_01'' None"
  obtain signer verifier tok where made:
    "consumer_signer lib (consumer_jwk ''consumer-esm-key'' (fst exported)) = Inr signer"
    "consumer_verifier lib (consumer_jwk ''consumer-esm-key'' (snd exported)) = Inr verifier"
    "accessReceiptSigner sp lib signer (claims_obj c) = Inr tok"
    and v: "verifyToken sp lib (cn_first env) (JStr tok) verifier = Inr (claims_obj c)"
    "verifyToken sp lib (cn_second env) (JStr tok) verifier = Inr (claims_obj c)"
    "verifyToken sp lib (cn_third env) (JStr tok) verifier = Inr (claims_obj c)"
    and built: "buildAccessReceiptClaims sp (consumer_input (cn_now env) ''jti_esm_01'' ''intent_esm_01''
      (payment_ref_val None)) = Inr (claims_obj c)"
    and valid: "claims_valid c" "0 \<le> cn_now env" "safe_int (cn_now env)"
    by (rule consumer_setup [OF sp env c setting [folded c]]) simp_all
  have fields: "rc_sub c = ''user_42''" "rc_payment_ref c = None" "rc_grant_type c = SingleRedemption"
    "rc_resource_id c = ''course/module-1''" by (simp_all add: c consumer_claims_def)
  from built have "buildAccessReceiptClaims sp (consumer_input (cn_now env) ''jti_esm_01''
      ''intent_esm_01'' JNull) = Inr (claims_obj c)" by (simp add: payment_ref_val_def)
  then show ?thesis
    by (simp add: esm_consumer_def made v expect_def fields payment_ref_val_def
        matched_identifiers [OF sp valid(1)] counting_redemptions [OF sp v(2) valid]
        counting_redemptions [OF sp v(3) valid] other_resource_denied [OF sp, where r = "''course/other-module''"])
qed

lemma commonjs_consumer_passes:
  assumes sp: "zod_parser Zod4 sp" and env: "consumer_env_ok env"
    and setting: "consumer_setting lib exported ''consumer-commonjs-key'' (consumer_claims (cn_now env)
      ''jti_commonjs_01'' ''intent_commonjs_01'' (Some ''payment_ref_commonjs_01''))"
  shows "commonjs_consumer sp lib env exported = Inr ()"
proof -
  define c where c: "c = consumer_claims (cn_now env) ''jti_commonjs_01'' ''intent_commonjs_01''
    (Some ''payment_ref_commonjs_01'')"
  obtain signer verifier tok where made:
    "consumer_signer lib (consumer_jwk ''consumer-commonjs-key'' (fst exported)) = Inr signer"
    "consumer_verifier lib (consumer_jwk ''consumer-commonjs-key'' (snd exported)) = Inr verifier"
    "accessReceiptSigner sp lib signer (claims_obj c) = Inr tok"
    and v: "verifyToken sp lib (cn_first env) (JStr tok) verifier = Inr (claims_obj c)"
    "verifyToken sp lib (cn_second env) (JStr tok) verifier = Inr (claims_obj c)"
    "verifyToken sp lib (cn_third env) (JStr tok) verifier = Inr (claims_obj c)"
    and built: "buildAccessReceiptClaims sp (consumer_input (cn_now env) ''jti_commonjs_01''
      ''intent_commonjs_01'' (payment_ref_val (Some ''payment_ref_commonjs_01''))) = Inr (claims_obj c)"
    and valid: "claims_valid c" "0 \<le> cn_now env" "safe_int (cn_now env)"
    by (rule consumer_setup [OF sp env c setting [folded c]]) simp_all
  have fields: "rc_payment_ref c = Some ''payment_ref_commonjs_01''"
    "rc_resource_id c = ''course/module-1''" by (simp_all add: c consumer_claims_def)
  from built have "buildAccessReceiptClaims sp (consumer_input (cn_now env) ''jti_commonjs_01''
      ''intent_commonjs_01'' (JStr ''payment_ref_commonjs_01'')) = Inr (claims_obj c)"
    by (simp add: payment_ref_val_def)
  then show ?thesis
    by (simp add: commonjs_consumer_def made v expect_def fields payment_ref_val_def
        matched_identifiers [OF sp valid(1)] counting_redemptions [OF sp v(2) valid]
        counting_redemptions [OF sp v(3) valid] other_resource_denied [OF sp, where r = "''course/other-module''"])
qed

lemma typescript_consumer_passes:
  assumes sp: "zod_parser Zod4 sp" and env: "consumer_env_ok env"
    and setting: "consumer_setting lib exported ''consumer-typescript-key''
      (consumer_claims (cn_now env) ''jti_typescript_01'' ''intent_typescript_01'' None)"
  shows "typescript_consumer sp lib env exported = Inr (Success False)"
proof -
  define c where c: "c = consumer_claims (cn_now env) ''jti_typescript_01'' ''intent_typescript_01'' None"
  obtain signer verifier tok where made:
    "consumer_signer lib (consumer_jwk ''consumer-typescript-key'' (fst exported)) = Inr signer"
    "consumer_verifier lib (consumer_jwk ''consumer-typescript-key'' (snd exported)) = Inr verifier"
    "accessReceiptSigner sp lib signer (claims_obj c) = Inr tok"
    and v: "verifyToken sp lib (cn_first env) (JStr tok) verifier = Inr (claims_obj c)"
    "verifyToken sp lib (cn_second env) (JStr tok) verifier = Inr (claims_obj c)"
    "verifyToken sp lib (cn_third env) (JStr tok) verifier = Inr (claims_obj c)"
    and built: "buildAccessReceiptClaims sp (consumer_input (cn_now env) ''jti_typescript_01''
      ''intent_typescript_01'' (payment_ref_val None)) = Inr (claims_obj c)"
    and valid: "claims_valid c" "0 \<le> cn_now env" "safe_int (cn_now env)"
    by (rule consumer_setup [OF sp env c setting [folded c]]) simp_all
  have fields: "rc_sub c = ''user_42''" "rc_payment_ref c = None" "rc_resource_id c = ''course/module-1''"
    by (simp_all add: c consumer_claims_def)
  have consumed: "typescript_consume cmd () = (Inr (result_obj (Consumed False)), ())" for cmd
    by (simp add: typescript_consume_def result_obj.simps)
  have "js_get (object_spread (expected_of (claims_obj c))
      (JObj [(''resource_id'', JStr ''course/other-module'')] [])) ''resource_id''
    = JStr ''course/other-module''" by (simp add: object_spread_get)
  from other_resource_denied [OF sp this, of c] fields(3)
  have denied: "evaluateAccessReceiptBindings sp (claims_obj c) (object_spread (expected_of (claims_obj c))
      (JObj [(''resource_id'', JStr ''course/other-module'')] [])) = Inr BindingDenied" by simp
  have redeemed: "consumer_redeem sp lib verifier (cn_second env) (cn_now env) tok
      (expected_of (claims_obj c)) typescript_consume () = (Success False, ())"
    by (simp add: consumer_redeem_reaches [OF sp v(2) valid(1) identifiers_valid(2,4) [OF valid(1)] valid(2,3)]
        consumed store_result_def)
  from built have "buildAccessReceiptClaims sp (consumer_input (cn_now env) ''jti_typescript_01''
      ''intent_typescript_01'' JNull) = Inr (claims_obj c)" by (simp add: payment_ref_val_def)
  then show ?thesis
    by (simp add: typescript_consumer_def made v expect_def fields payment_ref_val_def
        matched_identifiers [OF sp valid(1)] denied consumed redeemed)
qed

section \<open>Properties\<close>

text \<open>
  C5: the packed consumers pass: with a generated key pair whose exported halves are trusted keys of the
  JOSE library, and within the lifetime of the receipt, the ES module and the CommonJS program end
  without an error, and the TypeScript program ends with a success. So the operations of the package
  compose as its users compose them: claims that are built are signed, verified to the same claims,
  match their own identifiers, are denied for another resource, and are redeemed once.
\<close>

theorem packed_consumers_pass:
  assumes "zod_parser Zod4 sp" and "consumer_env_ok env"
    and "consumer_setting esm_lib esm_keys ''consumer-esm-key''
      (consumer_claims (cn_now env) ''jti_esm_01'' ''intent_esm_01'' None)"
    and "consumer_setting commonjs_lib commonjs_keys ''consumer-commonjs-key'' (consumer_claims (cn_now env)
      ''jti_commonjs_01'' ''intent_commonjs_01'' (Some ''payment_ref_commonjs_01''))"
    and "consumer_setting typescript_lib typescript_keys ''consumer-typescript-key''
      (consumer_claims (cn_now env) ''jti_typescript_01'' ''intent_typescript_01'' None)"
  shows "esm_consumer sp esm_lib env esm_keys = Inr ()
    \<and> commonjs_consumer sp commonjs_lib env commonjs_keys = Inr ()
    \<and> typescript_consumer sp typescript_lib env typescript_keys = Inr (Success False)"
  using esm_consumer_passes [OF assms(1-3)] commonjs_consumer_passes [OF assms(1,2,4)]
    typescript_consumer_passes [OF assms(1,2,5)] by blast

definition sample_consumer_lib :: "string \<Rightarrow> receipt_claims \<Rightarrow> string jose_lib" where
  "sample_consumer_lib kid c = scripted_jose (signer_header kid) (claims_obj c) sample_token"

lemma consumer_jwk_has_own:
  "js_has_own (consumer_jwk kid exported) k \<longleftrightarrow> js_has_own exported k \<or> k \<in> {''alg'', ''kid''}"
  by (simp add: consumer_jwk_def js_has_own_def object_spread_own split: option.split)

lemma consumer_jwk_get:
  "js_get (consumer_jwk kid exported) k =
     (if k = ''alg'' then JStr ''EdDSA'' else if k = ''kid'' then JStr kid
      else case map_of (own_props exported) k of Some y \<Rightarrow> y | None \<Rightarrow> JUndef)"
  by (simp add: consumer_jwk_def object_spread_get)

lemma consumer_jwk_record: "is_record (consumer_jwk kid exported)"
  by (simp add: consumer_jwk_def object_spread_def)

lemma sample_consumer_setting:
  assumes "kid \<noteq> []"
  shows "consumer_setting (sample_consumer_lib kid c) sample_exported kid c"
proof -
  let ?lib = "sample_consumer_lib kid c"
  have octets: "octets32 ?lib (JStr (replicate 43 ch))" if "base64url_char ch" for ch
    using that by (auto simp: octets32_def sample_consumer_lib_def scripted_jose_def
        base64url_pattern_def list_all_iff)
  have "trusted_jwk ?lib PrivateKey (consumer_jwk kid (fst sample_exported))"
    "trusted_jwk ?lib PublicKey (consumer_jwk kid (snd sample_exported))"
    using assms octets
    by (simp_all add: trusted_jwk_def consumer_jwk_has_own consumer_jwk_get consumer_jwk_record)
      (simp_all add: sample_exported_def js_has_own_def)
  moreover have "importJWK ?lib (copyForImport (consumer_jwk kid (fst sample_exported))) ''EdDSA''
      = Inr (ImportedKey ''priv'')"
    "importJWK ?lib (copyForImport (consumer_jwk kid (snd sample_exported))) ''EdDSA''
      = Inr (ImportedKey ''pub'')"
    by (simp_all add: sample_consumer_lib_def scripted_jose_def copyForImport_def consumer_jwk_def
        object_spread_def sample_exported_def js_has_own_def js_get_def)
  moreover have "jose_round_trip ?lib ''priv'' ''pub''"
    unfolding sample_consumer_lib_def by (rule scripted_jose_round_trip) simp
  moreover have "signJWT ?lib (claims_obj c) (signer_header kid) ''priv'' = Inr sample_token"
    by (simp add: sample_consumer_lib_def scripted_jose_def)
  moreover have "utf8_length sample_token \<le> 4096"
    by (simp add: sample_token_def utf8_length_def code_unit_def)
  ultimately show ?thesis unfolding consumer_setting_def key_setting_def using consumer_jwk_kid by blast
qed

definition sample_consumer_env :: consumer_env where
  "sample_consumer_env = \<lparr>cn_now = 1000, cn_first = 1000, cn_second = 1000, cn_third = 1001\<rparr>"

lemma sample_consumer_env_ok: "consumer_env_ok sample_consumer_env"
  by (simp add: consumer_env_ok_def sample_consumer_env_def max_safe_integer_def)

theorem packed_consumers_pass_witness:
  "esm_consumer (zod_reference Zod4) (sample_consumer_lib ''consumer-esm-key''
       (consumer_claims 1000 ''jti_esm_01'' ''intent_esm_01'' None)) sample_consumer_env sample_exported = Inr ()
   \<and> typescript_consumer (zod_reference Zod4) (sample_consumer_lib ''consumer-typescript-key''
       (consumer_claims 1000 ''jti_typescript_01'' ''intent_typescript_01'' None)) sample_consumer_env
       sample_exported = Inr (Success False)"
proof -
  have now: "cn_now sample_consumer_env = 1000" by (simp add: sample_consumer_env_def)
  from packed_consumers_pass [OF reference.zod_parser_axioms sample_consumer_env_ok
      sample_consumer_setting sample_consumer_setting sample_consumer_setting, unfolded now]
  show ?thesis by simp
qed

end
