(* ===== verification/Protected_Resource_Demo.thy ===== *)
theory Protected_Resource_Demo
  imports Http_Properties
begin

text \<open>
  The gate of a demonstration (\<^verbatim>\<open>scripts/demo-protected-resource.ts\<close>): how a host that protects a
  resource asks the historical service over its HTTP interface to redeem a receipt, and returns the
  resource's content only when access was granted. The script's own sequence of steps reads the token from a
  wrapper of the signer that remembers what it signed; the service of this development takes a signer
  without memory, so the sequence is left out, like the temporary database and the console output.
\<close>

section \<open>The gate\<close>

text \<open>The fake client that calls itself real, so that a creation does not issue at once.\<close>

definition createDemoFiberClient :: client_mode where
  "createDemoFiberClient = RealMode"

definition PROTECTED_RESOURCE :: resource_ref where
  "PROTECTED_RESOURCE = \<lparr>res_key = ''demo:protected:premium-article'', res_type = CONTENT\<rparr>"

definition SUBJECT :: subject_ref where
  "SUBJECT = \<lparr>subj_type = END_USER, subj_id = ''demo-protected-user-001''\<rparr>"

record gate_attempt =
  ga_granted :: jsval
  ga_contentReturned :: jsval
  ga_reason :: jsval
  ga_accessReceiptId :: jsval
  ga_jti :: jsval

definition gate_payload :: "string \<Rightarrow> jsval" where
  "gate_payload receiptToken = JObj
     [(''receiptToken'', JStr receiptToken), (''resource'', resource_json PROTECTED_RESOURCE),
      (''subject'', subject_json SUBJECT)] []"

text \<open>What the gate reads of the reply; a reply without \<open>redemption\<close> makes it throw.\<close>

definition read_attempt :: "jsval \<Rightarrow> js_exn + gate_attempt" where
  "read_attempt body =
     (if js_get body ''redemption'' = JUndef
      then Inl (JSTypeError ''Cannot read properties of undefined (reading 'accessGranted')'')
      else Inr
        \<lparr>ga_granted = js_get (js_get body ''redemption'') ''accessGranted'',
         ga_contentReturned = js_get (js_get body ''redemption'') ''accessGranted'',
         ga_reason = js_get (js_get body ''redemption'') ''reason'',
         ga_accessReceiptId = js_get (js_get body ''redemption'') ''accessReceiptId'',
         ga_jti = js_get (js_get body ''redemption'') ''jti''\<rparr>)"

definition accessProtectedResource ::
  "safe_parse \<Rightarrow> 'd fiber_latch_app \<Rightarrow> app_request_env \<Rightarrow> string option \<Rightarrow> ('d, js_exn + gate_attempt) prog" where
  "accessProtectedResource sp app env receiptToken =
     (case receiptToken of
        Some (c # cs) \<Rightarrow>
          bindP (respondTo sp app env (PostReceiptsRedeem (gate_payload (c # cs)))) (\<lambda>response.
            Return (read_attempt (reply_body response)))
      | _ \<Rightarrow> returnP \<lparr>ga_granted = JBool False, ga_contentReturned = JBool False,
             ga_reason = JStr ''NO_RECEIPT_PROVIDED'', ga_accessReceiptId = JNull, ga_jti = JNull\<rparr>)"

section \<open>What the gate lets through\<close>

text \<open>The attempt returned the content, for the receipt \<open>x\<close>.\<close>

fun content_for :: "string \<Rightarrow> js_exn + gate_attempt \<Rightarrow> bool" where
  "content_for x (Inr g) = (js_truthy (ga_contentReturned g) \<and> ga_accessReceiptId g = JStr x)"
| "content_for x (Inl e) = False"

text \<open>A reply that grants access for the receipt \<open>x\<close>.\<close>

definition reply_grants :: "string \<Rightarrow> app_reply \<Rightarrow> bool" where
  "reply_grants x reply \<longleftrightarrow>
     js_truthy (js_get (js_get (reply_body reply) ''redemption'') ''accessGranted'')
   \<and> js_get (js_get (reply_body reply) ''redemption'') ''accessReceiptId'' = JStr x"

lemma error_grants_nothing: "\<not> reply_grants x (errorHandler e)"
  by (cases e) (simp_all add: reply_grants_def js_get_def)

lemma nullable_text [simp]: "nullable JStr s = JStr x \<longleftrightarrow> s = Some x"
  by (cases s) simp_all

lemma sent_view_grants:
  assumes "zod_parser Zod3 sp"
    and "send_parsed sp RedeemAccessReceiptResponseSchema 200
      (JObj [(''redemption'', redemption_view_json v)] []) = Inr reply"
    and "reply_grants x reply"
  shows "grants_on x v"
proof -
  from assms(3) sent_body [OF assms(1,2)] show ?thesis
    by (cases "rv_accessReceiptId v") (simp_all add: reply_grants_def grants_on_def RedeemAccessReceiptResponseSchema_def redemption_view_json_def
        js_get_def)
qed

section \<open>Every reply that grants has taken a redemption\<close>

lemma answered_grant:
  assumes "zod_parser Zod3 sp"
    and "reply_grants x (case (case r of Inl e \<Rightarrow> Inl (OtherError e)
        | Inr v \<Rightarrow> send_parsed sp RedeemAccessReceiptResponseSchema 200
            (JObj [(''redemption'', redemption_view_json v)] [])) of
      Inl e \<Rightarrow> errorHandler e | Inr reply \<Rightarrow> reply)"
  shows "\<exists>v. r = Inr v \<and> grants_on x v"
  using assms(2) sent_view_grants [OF assms(1)]
  by (auto simp: error_grants_nothing split: sum.splits)

lemma accounts_answer_redeem:
  assumes "prisma_client (fls_db (app_service app)) tables" and "zod_parser Zod3 sp"
  shows "accounts (\<lambda>d. receipt_within x M (tables d)) (\<lambda>d. count_of x (tables d))
     (\<lambda>r n. reply_grants x r \<longrightarrow> 1 \<le> n) (respondTo sp app env (PostReceiptsRedeem body)) 0"
proof -
  note view = prisma_client.accounts_redeem_view [OF assms(1)]
  have "accounts (\<lambda>d. receipt_within x M (tables d)) (\<lambda>d. count_of x (tables d))
     (\<lambda>r n. reply_grants x (case r of Inl e \<Rightarrow> errorHandler e | Inr reply \<Rightarrow> reply) \<longrightarrow> 1 \<le> n)
     (postReceiptsRedeem sp app env body) 0"
    unfolding postReceiptsRedeem_def callService_def
    by (cases "schema_parse sp RedeemAccessReceiptRequestSchema body")
      (auto simp: error_grants_nothing intro!: accounts_bindP accounts_mono [OF view]
        dest!: answered_grant [OF assms(2)])
  then show ?thesis
    unfolding respondTo_def handler.simps by (auto intro!: accounts_bindP elim: accounts_mono)
qed

lemma attempt_is_grant: "content_for x (read_attempt (reply_body r)) \<Longrightarrow> reply_grants x r"
  by (simp add: read_attempt_def reply_grants_def split: if_splits)

lemma accounts_gate:
  assumes "prisma_client (fls_db (app_service app)) tables" and "zod_parser Zod3 sp"
  shows "accounts (\<lambda>d. receipt_within x M (tables d)) (\<lambda>d. count_of x (tables d))
     (\<lambda>r n. content_for x r \<longrightarrow> 1 \<le> n) (accessProtectedResource sp app env token) 0"
  unfolding accessProtectedResource_def
  by (auto intro!: accounts_bindP accounts_mono [OF accounts_answer_redeem [OF assms]]
      dest: attempt_is_grant split: option.split list.split)

section \<open>What the gate asks and reads\<close>

lemma payload_accepted: "token \<noteq> [] \<Longrightarrow> zod_accepts Zod3 RedeemAccessReceiptRequestSchema (gate_payload token)"
  by (cases token) (simp_all add: RedeemAccessReceiptRequestSchema_def gate_payload_def PROTECTED_RESOURCE_def
      SUBJECT_def accepts_object field_by_field)

lemma payload_read:
  "the_string (js_get (zod_output RedeemAccessReceiptRequestSchema (gate_payload token)) ''receiptToken'') = token"
  "read_resource (js_get (zod_output RedeemAccessReceiptRequestSchema (gate_payload token)) ''resource'')
     = PROTECTED_RESOURCE"
  "read_subject (js_get (zod_output RedeemAccessReceiptRequestSchema (gate_payload token)) ''subject'') = SUBJECT"
  by (simp_all add: RedeemAccessReceiptRequestSchema_def gate_payload_def PROTECTED_RESOURCE_def SUBJECT_def
      ResourceSchema_def SubjectSchema_def js_get_def read_resource_def read_subject_def resource_json_def
      subject_json_def resource_type_of_def subject_type_of_def)

definition attempt_view :: "redemption_view \<Rightarrow> gate_attempt" where
  "attempt_view v =
     \<lparr>ga_granted = JBool (rv_accessGranted v), ga_contentReturned = JBool (rv_accessGranted v),
      ga_reason = nullable JStr (rv_reason v), ga_accessReceiptId = nullable JStr (rv_accessReceiptId v),
      ga_jti = nullable JStr (rv_jti v)\<rparr>"

lemma sent_view_read:
  "read_attempt (zod_output RedeemAccessReceiptResponseSchema (JObj [(''redemption'', redemption_view_json v)] []))
     = Inr (attempt_view v)"
  by (simp add: read_attempt_def attempt_view_def RedeemAccessReceiptResponseSchema_def redemption_view_json_def
      js_get_def)

lemma gate_reads:
  assumes "zod_parser Zod3 sp" and "token \<noteq> []" and "redemption_printable v"
    and "run (redeemReceipt (fls_db (app_service app)) (serviceVerify app env) (re_at env) (re_now env)
      (re_atomicNow env) token PROTECTED_RESOURCE SUBJECT) d = (Inr v, d')"
  shows "run (accessProtectedResource sp app env (Some token)) d = (Inr (attempt_view v), d')"
  using assms(2,4)
  by (cases token) (simp_all add: accessProtectedResource_def respondTo_def run_bindP postReceiptsRedeem_def
      schema_parse_accepted [OF assms(1) payload_accepted] payload_read run_callService
      send_accepted [OF assms(1) redemption_view_accepted [OF assms(3)]] sent_view_read)

section \<open>A sample\<close>

definition gate_claims :: legacy_claims where
  "gate_claims =
     \<lparr>lc_iss = ''iss'', lc_sub = subj_id SUBJECT, lc_aud = ''aud'', lc_iat = 0, lc_nbf = 0, lc_exp = 1,
      lc_jti = ''j1'', lc_intent_id = ''i1'', lc_resource_id = res_key PROTECTED_RESOURCE, lc_policy_id = ''p1'',
      lc_payment_ref = None, lc_grant_type = ''ACCESS'', lc_max_redemptions = 1\<rparr>"

definition gate_app :: "db fiber_latch_app" where
  "gate_app =
     \<lparr>app_service = sample_service_with createDemoFiberClient,
      app_signer = \<lparr>ls_sign = (\<lambda>s. Inl (JSError ''not used'')),
        ls_verify = (\<lambda>now token. \<lparr>va_verified = True, va_claims = Some gate_claims, va_reason = None\<rparr>),
        ls_getPublicJwks = JNull\<rparr>\<rparr>"

definition gate_receipt :: db_receipt where
  "gate_receipt = sample_db_receipt
     \<lparr>dr_resourceKey := res_key PROTECTED_RESOURCE, dr_resourceType := res_type PROTECTED_RESOURCE,
      dr_subjectType := subj_type SUBJECT, dr_subjectId := subj_id SUBJECT\<rparr>"

definition gate_db :: db where
  "gate_db = \<lparr>db_receipts = [gate_receipt], db_events = [], db_policies = [], db_intents = []\<rparr>"

definition gate_env :: app_request_env where
  "gate_env = \<lparr>re_call = sample_env ''paid'', re_clock = 0, re_at = 150, re_now = 150, re_atomicNow = 150\<rparr>"

lemma gate_opens:
  "\<exists>g d'. run (accessProtectedResource (zod_reference Zod3) gate_app gate_env (Some ''t'')) gate_db = (Inr g, d')
     \<and> content_for ''x1'' (Inr g)"
proof -
  let ?redeem = "redeemReceipt (fls_db (app_service gate_app)) (serviceVerify gate_app gate_env) (re_at gate_env)
      (re_now gate_env) (re_atomicNow gate_env) ''t'' PROTECTED_RESOURCE SUBJECT"
  have "case run ?redeem gate_db of
      (Inl e, d') \<Rightarrow> False
    | (Inr v, d') \<Rightarrow> redemption_printable v \<and> rv_accessGranted v \<and> rv_accessReceiptId v = Some ''x1''"
    by code_simp
  then obtain v d' where v: "run ?redeem gate_db = (Inr v, d')" "redemption_printable v" "rv_accessGranted v"
    "rv_accessReceiptId v = Some ''x1''" by (auto split: prod.splits sum.splits)
  from gate_reads [OF reference.zod_parser_axioms _ v(2,1)] v(3,4) show ?thesis
    by (auto simp: attempt_view_def)
qed

section \<open>Properties\<close>

text \<open>
  C4: however many attempts at the protected resource run at the same time, each with any token and
  clock, interleaved at every access to the database and with other code that leaves the receipt's
  limit alone and takes no redemption back: the attempts that return the content on a receipt are at
  most the redemptions it had left.
\<close>

theorem content_within_limit:
  assumes "prisma_client (fls_db (app_service app)) tables" and "zod_parser Zod3 sp"
    and "pool_reachable (\<lambda>p. \<exists>env token. p = accessProtectedResource sp app env token)
      (others_keep tables x M) d0 ps d"
    and "receipt_within x M (tables d0)"
  shows "receipt_within x M (tables d) \<and> int (finished (content_for x) ps) \<le> M - count_of x (tables d0)"
proof -
  have "receipt_within x M (tables d)
      \<and> int (finished (content_for x) ps) \<le> count_of x (tables d) - count_of x (tables d0)"
    by (rule pool_accounts [OF assms(3), where I = "\<lambda>d. receipt_within x M (tables d)"])
      (use assms(4) accounts_gate [OF assms(1,2)] in \<open>auto simp: others_keep_def\<close>)
  with receipt_within_count [of x M "tables d"] show ?thesis by simp
qed

theorem content_within_limit_witness:
  "\<exists>(ps :: (db, js_exn + gate_attempt) prog list) d. finished (content_for ''x1'') ps = 1
     \<and> receipt_within ''x1'' 1 d \<and> int (finished (content_for ''x1'') ps) \<le> 1 - count_of ''x1'' gate_db"
proof -
  let ?p = "accessProtectedResource (zod_reference Zod3) gate_app gate_env (Some ''t'')"
    and ?entry = "\<lambda>p. \<exists>env token. p = accessProtectedResource (zod_reference Zod3) gate_app env token"
  from gate_opens obtain g d' where g: "run ?p gate_db = (Inr g, d')" "content_for ''x1'' (Inr g)" by blast
  have pool: "pool_reachable ?entry (others_keep (\<lambda>t. t) ''x1'' 1) gate_db ([] @ [Return (Inr g)]) d'"
    by (rule pool_run [OF pool_reachable.empty _ g(1)]) blast
  have start: "receipt_within ''x1'' 1 gate_db"
    by (simp add: receipt_within_def rows_of_def gate_db_def gate_receipt_def sample_db_receipt_def row_within_def)
  have db: "prisma_client (fls_db (app_service gate_app)) (\<lambda>t. t)"
    by (simp add: gate_app_def sample_service_signing_def relational.prisma_client_axioms)
  have "finished (content_for ''x1'') ([] @ [Return (Inr g)] :: (db, js_exn + gate_attempt) prog list) = 1"
    using g(2) by (simp add: finished_def)
  with content_within_limit [where tables = "\<lambda>t. t", OF db reference.zod_parser_axioms pool start]
  show ?thesis by blast
qed

end
