(* ===== verification/Paid_Resource_Demo.thy ===== *)
theory Paid_Resource_Demo
  imports Package_Consumers
begin

text \<open>
  The demonstration of the example host (\<^verbatim>\<open>examples/paid-resource/src/demo.mjs\<close>): it starts the server,
  asks for a receipt with the verified payment fixture, fetches the resource with it, and tries again.
  The body that the client sends and the bodies it reads pass the wire unchanged; the parser of JSON and of
  URLs are those of the server, and the circumstances of the three requests are arguments.
\<close>

section \<open>The demonstration\<close>

definition receipt_request :: "(jsval \<Rightarrow> string) \<Rightarrow> server_request" where
  "receipt_request json_stringify =
     \<lparr>rq_method = ''POST'', rq_url = Some ''/receipt'', rq_authorization = JUndef,
      rq_chunks = [json_stringify (JObj [(''payment_fixture_id'', JStr VERIFIED_PAYMENT_FIXTURE_ID)] [])]\<rparr>"

definition resource_request :: "jsval \<Rightarrow> server_request" where
  "resource_request receipt =
     \<lparr>rq_method = ''GET'', rq_url = Some ''/resource'',
      rq_authorization = JStr (''Bearer '' @ the_string receipt), rq_chunks = []\<rparr>"

text \<open>What the program does with a server: the responses it asserts, in order, or the failed assertion.\<close>

definition demo_session ::
  "(request_env \<Rightarrow> server_request \<Rightarrow> demo_store \<Rightarrow> server_response \<times> demo_store) \<Rightarrow> (jsval \<Rightarrow> string)
   \<Rightarrow> request_env \<Rightarrow> request_env \<Rightarrow> request_env \<Rightarrow> demo_store \<Rightarrow> js_exn + unit" where
  "demo_session serve json_stringify env_issue env_first env_second s0 =
     (case serve env_issue (receipt_request json_stringify) s0 of (issued, s1) \<Rightarrow>
      bindE (expect (resp_status issued = 201) ''201'') (\<lambda>_.
      bindE (expect (js_typeof (js_get (resp_body issued) ''receipt'') = ''string'') ''receipt'') (\<lambda>_.
      case serve env_first (resource_request (js_get (resp_body issued) ''receipt'')) s1 of (firstAccess, s2) \<Rightarrow>
      bindE (expect (resp_status firstAccess = 200) ''200'') (\<lambda>_.
      bindE (expect (js_typeof (js_get (resp_body firstAccess) ''content'') = ''string'') ''content'') (\<lambda>_.
      case serve env_second (resource_request (js_get (resp_body issued) ''receipt'')) s2 of (secondAccess, s3) \<Rightarrow>
      bindE (expect (resp_status secondAccess = 403) ''403'') (\<lambda>_.
      expect (resp_body secondAccess = JObj [(''error'', JStr ''access_denied'')] []) ''access_denied''))))))"

definition paid_resource_demo ::
  "safe_parse \<Rightarrow> 'k jose_lib \<Rightarrow> (string \<Rightarrow> js_exn + jsval) \<Rightarrow> (jsval \<Rightarrow> string) \<Rightarrow> (string \<Rightarrow> js_exn + string)
   \<Rightarrow> jsval \<times> jsval \<Rightarrow> request_env \<Rightarrow> request_env \<Rightarrow> request_env \<Rightarrow> js_exn + unit" where
  "paid_resource_demo sp lib json_parse json_stringify url_pathname exported env_issue env_first env_second =
     bindE (createPaidResourceService lib exported) (\<lambda>(service, s0).
       demo_session (respond sp lib json_parse url_pathname service) json_stringify env_issue env_first env_second s0)"

section \<open>The requests of the demonstration\<close>

lemma spaces_split:
  "list_all (\<lambda>c. \<not> is_space c) s \<longleftrightarrow> list_all (list_all (\<lambda>c. \<not> is_space c)) (js_split CHR ''.'' s)"
proof (induction s)
  case (Cons c s)
  have "\<not> is_space CHR ''.''" by (simp add: is_space_def code_unit_def)
  with Cons show ?case by (cases "js_split CHR ''.'' s") auto
qed simp

lemma base64url_not_space: "base64url_char c \<Longrightarrow> \<not> is_space c"
  by (auto simp: base64url_char_def is_space_def)

lemma compact_token_is_bearer:
  assumes "compact_form tok"
  shows "bearerToken (resource_request (JStr tok)) = Some tok"
proof -
  have "list_all (list_all (\<lambda>c. \<not> is_space c)) (js_split CHR ''.'' tok)"
    using assms base64url_not_space by (auto simp: compact_form_def base64url_pattern_def list_all_iff)
  then have "list_all (\<lambda>c. \<not> is_space c) tok" by (rule spaces_split [THEN iffD2])
  moreover have "tok \<noteq> []" using assms by auto
  ultimately show ?thesis by (simp add: bearerToken_def resource_request_def)
qed

lemma issue_served:
  assumes "json_parse (json_stringify (JObj [(''payment_fixture_id'', JStr VERIFIED_PAYMENT_FIXTURE_ID)] []))
      = Inr (JObj [(''payment_fixture_id'', JStr VERIFIED_PAYMENT_FIXTURE_ID)] [])"
    and "length (json_stringify (JObj [(''payment_fixture_id'', JStr VERIFIED_PAYMENT_FIXTURE_ID)] []))
      \<le> MAX_BODY_BYTES"
    and "url_pathname ''/receipt'' = Inr ''/receipt''"
    and "demo_issueReceipt sp lib service (env_clock env) (env_uuid env) (JStr VERIFIED_PAYMENT_FIXTURE_ID) s
      = (Inr (Issued tok), s')"
  shows "respond sp lib json_parse url_pathname service env (receipt_request json_stringify) s
    = (writeJson 201 [(''receipt'', JStr tok)], s')"
  using assms by (simp add: respond_def handleRequest_def receipt_request_def readJson_def)

lemma access_served:
  assumes "compact_form tok" and "url_pathname ''/resource'' = Inr ''/resource''"
    and "demo_redeemReceipt sp lib service (env_now env) (env_clock env) (JStr tok)
      (ps_expectedBindings service) s = (res, s')"
  shows "respond sp lib json_parse url_pathname service env (resource_request (JStr tok)) s =
    (case res of
       Success _ \<Rightarrow> writeJson 200 [(''resource_id'', js_get (ps_expectedBindings service) ''resource_id''),
         (''content'', JStr PROTECTED_RESOURCE_CONTENT)]
     | RedemptionSystemFailure \<Rightarrow> writeJson 503 [(''error'', JStr ''service_unavailable'')]
     | _ \<Rightarrow> writeJson 403 [(''error'', JStr ''access_denied'')], s')"
  using assms compact_token_is_bearer [OF assms(1)]
  by (cases res) (simp_all add: respond_def handleRequest_def resource_request_def)

section \<open>The session passes once a receipt was issued\<close>

lemma demo_session_passes:
  assumes "zod_parser Zod4 sp" and "createPaidResourceService lib exported = Inr (service, s0)"
    and "jose_round_trip lib (ik_key (ps_signer service)) (snd (hd (vs_keys (ps_verifier service))))"
    and "demo_ok s" and "env_clock env_issue = Fin q"
    and "demo_issueReceipt sp lib service (Fin q) (env_uuid env_issue) (JStr VERIFIED_PAYMENT_FIXTURE_ID) s
      = (Inr (Issued tok), s1)"
    and "within_size (ps_verifier service) tok"
    and "\<forall>env \<in> {env_first, env_second}. \<lfloor>q\<rfloor> \<le> env_now env \<and> env_now env < \<lfloor>q\<rfloor> + RECEIPT_LIFETIME_SECONDS
      \<and> (\<exists>time. env_clock env = Fin time \<and> 0 \<le> \<lfloor>time\<rfloor> \<and> \<lfloor>time\<rfloor> < \<lfloor>q\<rfloor> + RECEIPT_LIFETIME_SECONDS)"
    and "json_parse (json_stringify (JObj [(''payment_fixture_id'', JStr VERIFIED_PAYMENT_FIXTURE_ID)] []))
      = Inr (JObj [(''payment_fixture_id'', JStr VERIFIED_PAYMENT_FIXTURE_ID)] [])"
    and "length (json_stringify (JObj [(''payment_fixture_id'', JStr VERIFIED_PAYMENT_FIXTURE_ID)] []))
      \<le> MAX_BODY_BYTES"
    and "\<forall>path \<in> {''/receipt'', ''/resource''}. url_pathname path = Inr path"
  shows "demo_session (respond sp lib json_parse url_pathname service) json_stringify env_issue env_first env_second s = Inr ()"
proof -
  from assms(8) obtain time1 time2 where clocks: "env_clock env_first = Fin time1" "env_clock env_second = Fin time2"
    and times: "\<forall>now \<in> {env_now env_first, env_now env_second}. \<lfloor>q\<rfloor> \<le> now \<and> now < \<lfloor>q\<rfloor> + RECEIPT_LIFETIME_SECONDS"
      "\<forall>time \<in> {time1, time2}. 0 \<le> \<lfloor>time\<rfloor> \<and> \<lfloor>time\<rfloor> < \<lfloor>q\<rfloor> + RECEIPT_LIFETIME_SECONDS" by auto
  from issued_receipt_redeems_once [OF assms(1-4,6,7) times]
  obtain s2 s3 where r1: "demo_redeemReceipt sp lib service (env_now env_first) (env_clock env_first) (JStr tok)
      (ps_expectedBindings service) s1 = (Success True, s2)"
    and r2: "demo_redeemReceipt sp lib service (env_now env_second) (env_clock env_second) (JStr tok)
      (ps_expectedBindings service) s2 = (ConsumptionDenied ReceiptExhausted, s3)"
    unfolding clocks by blast
  have compact: "compact_form tok"
    using assms(3,6) by (auto simp: issueReceipt_Issued_iff [OF assms(1)] jose_round_trip_def)
  have "respond sp lib json_parse url_pathname service env_issue (receipt_request json_stringify) s
      = (writeJson 201 [(''receipt'', JStr tok)], s1)"
    using assms(5,6,11) by (intro issue_served assms(9,10)) simp_all
  with access_served [OF compact _ r1] access_served [OF compact _ r2] assms(11) show ?thesis
    by (simp add: demo_session_def expect_def writeJson_def)
qed

section \<open>The service is made and issues\<close>

text \<open>With keys that work together the factory makes the service, whose first request is issued a receipt.\<close>

lemma demo_service_issues:
  assumes "zod_parser Zod4 sp"
    and "key_setting lib (demo_jwk (fst exported)) (demo_jwk (snd exported)) DEMO_KEY_ID (paid_claims \<lfloor>q\<rfloor> uuid)"
    and "uuid \<noteq> []" and "0 \<le> \<lfloor>q\<rfloor>" and "\<lfloor>q\<rfloor> + RECEIPT_LIFETIME_SECONDS \<le> max_safe_integer"
  obtains service tok s1 where
    "createPaidResourceService lib exported = Inr (service, newDemoStore)"
    "jose_round_trip lib (ik_key (ps_signer service)) (snd (hd (vs_keys (ps_verifier service))))"
    "demo_issueReceipt sp lib service (Fin q) uuid (JStr VERIFIED_PAYMENT_FIXTURE_ID) newDemoStore
      = (Inr (Issued tok), s1)"
    "within_size (ps_verifier service) tok"
proof -
  let ?c = "paid_claims \<lfloor>q\<rfloor> uuid"
  from assms(2) obtain priv pub tok where
    keys: "trusted_jwk lib PrivateKey (demo_jwk (fst exported))"
      "importJWK lib (copyForImport (demo_jwk (fst exported))) ''EdDSA'' = Inr (ImportedKey priv)"
      "trusted_jwk lib PublicKey (demo_jwk (snd exported))"
      "importJWK lib (copyForImport (demo_jwk (snd exported))) ''EdDSA'' = Inr (ImportedKey pub)"
    and rt: "jose_round_trip lib priv pub"
    and sign: "signJWT lib (claims_obj ?c) (signer_header DEMO_KEY_ID) priv = Inr tok" "utf8_length tok \<le> 4096"
    unfolding key_setting_def by blast
  let ?signer = "\<lparr>ik_kid = DEMO_KEY_ID, ik_key = priv\<rparr>"
  let ?verifier = "\<lparr>vs_keys = [(DEMO_KEY_ID, pub)], vs_issuer = DEMO_ISSUER, vs_audience = DEMO_AUDIENCE,
      vs_clockTolerance = 0, vs_maxTokenSize = 4096\<rparr>"
  let ?service = "\<lparr>ps_signer = ?signer, ps_verifier = ?verifier, ps_expectedBindings = HOST_EXPECTED_BINDINGS\<rparr>"
  have "createAccessReceiptSigner lib (JObj [(''privateKey'', demo_jwk (fst exported))] []) = Inr ?signer"
    using keys by (simp add: createAccessReceiptSigner_def requireConfigurationRecord_def demo_jwk_kid
        rejectUnsupportedConfiguration_def js_has_own_def importTrustedPrivateKey_def importKey_Inr_iff)
  moreover have "createAccessReceiptVerifier lib (JObj [(''publicKeys'', JArr [demo_jwk (snd exported)]),
       (''issuer'', JStr DEMO_ISSUER), (''audience'', JStr DEMO_AUDIENCE)] []) = Inr ?verifier"
    unfolding create_verifier_Inr_iff
    using keys by (simp add: unsupported_verifier_properties_def js_has_own_def options_are_def demo_jwk_kid
        options_of_def number_option_is_def configured_key_def DEMO_ISSUER_def DEMO_AUDIENCE_def)
  ultimately have "createPaidResourceService lib exported = Inr (?service, newDemoStore)"
    by (simp add: createPaidResourceService_def generateDemoKeys_def)
  moreover have "claims_valid ?c"
    using assms(3-5) by (simp add: paid_claims_valid_iff safe_int_def RECEIPT_LIFETIME_SECONDS_def)
  with sign(1) have "demo_issueReceipt sp lib ?service (Fin q) uuid (JStr VERIFIED_PAYMENT_FIXTURE_ID) newDemoStore
      = (Inr (Issued tok), registered ?c newDemoStore)"
    unfolding issueReceipt_Issued_iff [OF assms(1)]
    by (intro exI [of _ q]) (simp add: newDemoStore_def)
  moreover have "within_size ?verifier tok" using sign(2) by (simp add: within_size_def)
  ultimately show thesis using rt by (intro that [of ?service tok]) simp_all
qed

section \<open>Properties\<close>

text \<open>The clocks of the three requests: the accesses fall into the lifetime of the receipt.\<close>

definition demo_times_ok :: "request_env \<Rightarrow> request_env \<Rightarrow> request_env \<Rightarrow> bool" where
  "demo_times_ok env_issue env_first env_second \<longleftrightarrow>
     (\<exists>q. env_clock env_issue = Fin q \<and> 0 \<le> \<lfloor>q\<rfloor> \<and> \<lfloor>q\<rfloor> + RECEIPT_LIFETIME_SECONDS \<le> max_safe_integer
        \<and> (\<forall>env \<in> {env_first, env_second}. \<lfloor>q\<rfloor> \<le> env_now env \<and> env_now env < \<lfloor>q\<rfloor> + RECEIPT_LIFETIME_SECONDS
            \<and> (\<exists>time. env_clock env = Fin time \<and> 0 \<le> \<lfloor>time\<rfloor> \<and> \<lfloor>time\<rfloor> < \<lfloor>q\<rfloor> + RECEIPT_LIFETIME_SECONDS)))"

text \<open>
  C29: the demonstration of the paid-resource server passes: with a generated key pair that the JOSE
  library imports, signs with and verifies by, the service is made, a request with the verified payment is
  answered 201 with a receipt, the first request for the resource with it 200 with the content, and the
  next 403, when the requests fall into the lifetime of the receipt.
\<close>

theorem issued_receipt_serves_once:
  assumes "zod_parser Zod4 sp"
    and "env_uuid env_issue \<noteq> []" and "demo_times_ok env_issue env_first env_second"
    and "\<forall>q. env_clock env_issue = Fin q \<longrightarrow> key_setting lib (demo_jwk (fst exported)) (demo_jwk (snd exported))
      DEMO_KEY_ID (paid_claims \<lfloor>q\<rfloor> (env_uuid env_issue))"
    and "json_parse (json_stringify (JObj [(''payment_fixture_id'', JStr VERIFIED_PAYMENT_FIXTURE_ID)] []))
      = Inr (JObj [(''payment_fixture_id'', JStr VERIFIED_PAYMENT_FIXTURE_ID)] [])"
    and "length (json_stringify (JObj [(''payment_fixture_id'', JStr VERIFIED_PAYMENT_FIXTURE_ID)] []))
      \<le> MAX_BODY_BYTES"
    and "\<forall>path \<in> {''/receipt'', ''/resource''}. url_pathname path = Inr path"
  shows "paid_resource_demo sp lib json_parse json_stringify url_pathname exported env_issue env_first env_second
    = Inr ()"
proof -
  from assms(3) obtain q where q: "env_clock env_issue = Fin q" "0 \<le> \<lfloor>q\<rfloor>"
      "\<lfloor>q\<rfloor> + RECEIPT_LIFETIME_SECONDS \<le> max_safe_integer"
    and times: "\<forall>env \<in> {env_first, env_second}. \<lfloor>q\<rfloor> \<le> env_now env \<and> env_now env < \<lfloor>q\<rfloor> + RECEIPT_LIFETIME_SECONDS
      \<and> (\<exists>time. env_clock env = Fin time \<and> 0 \<le> \<lfloor>time\<rfloor> \<and> \<lfloor>time\<rfloor> < \<lfloor>q\<rfloor> + RECEIPT_LIFETIME_SECONDS)"
    unfolding demo_times_ok_def by blast
  from assms(4) q(1) have "key_setting lib (demo_jwk (fst exported)) (demo_jwk (snd exported)) DEMO_KEY_ID
      (paid_claims \<lfloor>q\<rfloor> (env_uuid env_issue))" by blast
  from demo_service_issues [OF assms(1) this assms(2) q(2,3)] obtain service tok s1 where
    service: "createPaidResourceService lib exported = Inr (service, newDemoStore)"
    and rt: "jose_round_trip lib (ik_key (ps_signer service)) (snd (hd (vs_keys (ps_verifier service))))"
    and issue: "demo_issueReceipt sp lib service (Fin q) (env_uuid env_issue) (JStr VERIFIED_PAYMENT_FIXTURE_ID)
      newDemoStore = (Inr (Issued tok), s1)"
    and fits: "within_size (ps_verifier service) tok" by blast
  from demo_session_passes [where json_parse = json_parse and json_stringify = json_stringify
      and url_pathname = url_pathname, OF assms(1) service rt newDemoStore_ok q(1) issue fits times assms(5-7)] service
  show ?thesis by (simp add: paid_resource_demo_def)
qed

definition sample_stringify :: "jsval \<Rightarrow> string" where
  "sample_stringify v = ''body''"

definition sample_moment :: "int \<Rightarrow> request_env" where
  "sample_moment now = \<lparr>env_clock = int_num now, env_now = now, env_uuid = ''u1''\<rparr>"

theorem issued_receipt_serves_once_witness:
  "paid_resource_demo (zod_reference Zod4) paid_jose sample_json sample_stringify Inr sample_exported
     (sample_moment 1000) (sample_moment 1100) (sample_moment 1101) = Inr ()"
proof -
  have "signJWT paid_jose (claims_obj (paid_claims 1000 ''u1'')) (signer_header DEMO_KEY_ID) ''priv'' = Inr sample_token"
    by (simp add: paid_jose_def scripted_jose_def)
  moreover have "utf8_length sample_token \<le> 4096"
    using sample_token_fits by (simp add: within_size_def sample_service_def)
  ultimately have keys: "key_setting paid_jose (demo_jwk (fst sample_exported)) (demo_jwk (snd sample_exported))
      DEMO_KEY_ID (paid_claims 1000 ''u1'')"
    unfolding key_setting_def
    using sample_keys_trusted sample_keys_import paid_round_trip by (auto simp: demo_jwk_kid)
  have "demo_times_ok (sample_moment 1000) (sample_moment 1100) (sample_moment 1101)"
    by (simp add: demo_times_ok_def sample_moment_def RECEIPT_LIFETIME_SECONDS_def max_safe_integer_def)
  with keys show ?thesis
    by (intro issued_receipt_serves_once [OF reference.zod_parser_axioms])
      (simp_all add: sample_moment_def sample_json_def sample_stringify_def MAX_BODY_BYTES_def)
qed

end
