(* ===== verification/Postgres_Consumers.thy ===== *)
theory Postgres_Consumers
  imports Package_Consumers Postgres_Store
begin

text \<open>
  The packed consumers of the PostgreSQL store (\<^verbatim>\<open>packages/postgres-store/test-consumers/\<close>):
  \<^verbatim>\<open>runtime.mjs\<close> calls the store once over an executor of its own, and \<^verbatim>\<open>postgres.mjs\<close> runs against a
  database: it inserts a receipt for three uses, signs its token, redeems it four times with the access
  package, and deletes the row in the end. The table is the state; the clocks and the faults of the
  connection during a redemption are arguments. What \<^verbatim>\<open>runtime.mjs\<close> checks of the installed package
  (its exports and files), the connection string and the closing of the pool are not modelled.
\<close>

section \<open>The executor of the runtime consumer\<close>

definition runtime_command :: consume_command where
  "runtime_command =
     \<lparr>cmd_jti = JStr (''packed-'' @ [CHR 0x27] @ '' OR true --''), cmd_iss = JStr ''issuer'',
      cmd_sub = JStr ''subject'', cmd_aud = JStr ''audience'', cmd_intent_id = JStr ''intent'',
      cmd_resource_id = JStr ''resource'', cmd_policy_id = JStr ''policy'',
      cmd_grant_type = JStr ''multi_redemption'', cmd_max_redemptions = JInt 3,
      cmd_exp = JInt 2000000000, cmd_current_time = JInt 1, cmd_expected_max_redemptions = JUndef\<rparr>"

text \<open>The executor counts its calls and wants the identifier as a bound parameter.\<close>

definition runtime_query :: "nat query_executor" where
  "runtime_query parameters calls =
     (if hd parameters = to_param (cmd_jti runtime_command)
      then (Inr [JObj [(''outcome'', JStr ''receipt_missing''), (''exhausted'', JNull)] []], calls + 1)
      else (Inl (JSError ''parameters[0]''), calls + 1))"

definition runtime_consumer :: "js_exn + unit" where
  "runtime_consumer =
     (case postgres_consume runtime_query runtime_command 0 of (result, calls) \<Rightarrow>
      bindE result (\<lambda>r.
      bindE (expect (r = JObj [(''outcome'', JStr ''receipt_missing'')] []) ''receipt_missing'') (\<lambda>_.
      expect (calls = 1) ''calls'')))"

lemma runtime_consumer_passes: "runtime_consumer = Inr ()"
  by (simp add: runtime_consumer_def postgres_consume_def runtime_command_def runtime_query_def
      validCommand_def positive_safe_integer_def safe_integer_value_def is_safe_integer_def
      max_safe_integer_def num_le_def command_params_def result_of_rows_def expect_def)

section \<open>The database consumer\<close>

definition packed_input :: "string \<Rightarrow> int \<Rightarrow> jsval" where
  "packed_input jti now = JObj
     [(''jti'', JStr jti), (''iss'', JStr ''packed-issuer''), (''sub'', JStr ''packed-subject''),
      (''aud'', JStr ''packed-audience''), (''intent_id'', JStr ''packed-intent''),
      (''resource_id'', JStr ''packed-resource''), (''policy_id'', JStr ''packed-policy''),
      (''grant_type'', JStr ''multi_redemption''), (''max_redemptions'', JInt 3),
      (''iat'', JInt (now - 20)), (''nbf'', JInt (now - 10)), (''exp'', JInt (now + 300)),
      (''payment_ref'', JNull)] []"

text \<open>The thirteen columns of the \<open>INSERT\<close>; the count has its default and the revocation is NULL.\<close>

definition row_of_claims :: "jsval \<Rightarrow> receipt_row" where
  "row_of_claims claims =
     \<lparr>row_jti = the_string (js_get claims ''jti''), row_iss = the_string (js_get claims ''iss''),
      row_sub = the_string (js_get claims ''sub''), row_aud = the_string (js_get claims ''aud''),
      row_intent_id = the_string (js_get claims ''intent_id''),
      row_resource_id = the_string (js_get claims ''resource_id''),
      row_policy_id = the_string (js_get claims ''policy_id''),
      row_grant_type = the_string (js_get claims ''grant_type''),
      row_max_redemptions = the_int (js_get claims ''max_redemptions''), row_redemption_count = 0,
      row_iat = the_int (js_get claims ''iat''), row_nbf = the_int (js_get claims ''nbf''),
      row_exp = the_int (js_get claims ''exp''),
      row_payment_ref = (case js_get claims ''payment_ref'' of JStr p \<Rightarrow> Some p | _ \<Rightarrow> None),
      row_revoked_at = None\<rparr>"

definition insert_receipt :: "jsval \<Rightarrow> receipt_table \<Rightarrow> (js_exn + unit) \<times> receipt_table" where
  "insert_receipt claims t =
     (if t (row_jti (row_of_claims claims)) \<noteq> None then (Inl (JSError ''duplicate key''), t)
      else if \<not> row_checks (row_of_claims claims) then (Inl (JSError ''violates check constraint''), t)
      else (Inr (), t(row_jti (row_of_claims claims) \<mapsto> row_of_claims claims)))"

definition packed_jwk :: "jsval \<Rightarrow> jsval" where
  "packed_jwk exported = object_spread exported (JObj [(''kid'', JStr ''packed-key'')] [])"

definition packed_verifier :: "'k jose_lib \<Rightarrow> jsval \<Rightarrow> jsval \<Rightarrow> js_exn + 'k verifier_state" where
  "packed_verifier lib exported claims = createAccessReceiptVerifier lib (JObj
     [(''publicKeys'', JArr [packed_jwk exported]), (''issuer'', js_get claims ''iss''),
      (''audience'', js_get claims ''aud'')] [])"

definition packed_expected :: "jsval \<Rightarrow> jsval" where
  "packed_expected claims = JObj
     [(''sub'', js_get claims ''sub''), (''resource_id'', js_get claims ''resource_id''),
      (''policy_id'', js_get claims ''policy_id''), (''intent_id'', js_get claims ''intent_id''),
      (''max_redemptions'', JInt 3)] []"

text \<open>What one use reads: the verifier's clock, the host's, and the circumstances of the statement.\<close>

record use_env =
  ue_clock :: int
  ue_now :: int
  ue_db :: circumstances

definition expected_use :: "nat \<Rightarrow> redemption_result" where
  "expected_use use = (if use \<le> 3 then Success (use = 3) else ConsumptionDenied ReceiptExhausted)"

fun packed_uses ::
  "safe_parse \<Rightarrow> 'k jose_lib \<Rightarrow> 'k verifier_state \<Rightarrow> string \<Rightarrow> string \<Rightarrow> jsval \<Rightarrow> nat \<Rightarrow> use_env list
     \<Rightarrow> receipt_table \<Rightarrow> (js_exn + unit) \<times> receipt_table" where
  "packed_uses sp lib verifier jti token expected use [] t = (Inr (), t)"
| "packed_uses sp lib verifier jti token expected use (w # ws) t =
     (case consumer_redeem sp lib verifier (ue_clock w) (ue_now w) token expected
             (postgres_consume (pg_query (ue_db w))) t of (result, t') \<Rightarrow>
        if result \<noteq> expected_use use then (Inl (JSError ''result''), t')
        else if map_option row_redemption_count (t' jti) \<noteq> Some (int (min use 3))
        then (Inl (JSError ''count''), t')
        else packed_uses sp lib verifier jti token expected (use + 1) ws t')"

text \<open>The body of \<open>try\<close>, from the clock of the database on.\<close>

definition packed_redemptions ::
  "safe_parse \<Rightarrow> 'k jose_lib \<Rightarrow> jsval \<times> jsval \<Rightarrow> string \<Rightarrow> int \<Rightarrow> use_env list \<Rightarrow> receipt_table
     \<Rightarrow> (js_exn + unit) \<times> receipt_table" where
  "packed_redemptions sp lib exported jti now uses t =
     (case buildAccessReceiptClaims sp (packed_input jti now) of
        Inl e \<Rightarrow> (Inl e, t)
      | Inr claims \<Rightarrow>
          (case insert_receipt claims t of
             (Inl e, t1) \<Rightarrow> (Inl e, t1)
           | (Inr _, t1) \<Rightarrow>
               (case bindE (createAccessReceiptSigner lib
                         (JObj [(''privateKey'', packed_jwk (fst exported))] [])) (\<lambda>signer.
                     bindE (packed_verifier lib (snd exported) claims) (\<lambda>verifier.
                     bindE (accessReceiptSigner sp lib signer claims) (\<lambda>token. Inr (verifier, token)))) of
                  Inl e \<Rightarrow> (Inl e, t1)
                | Inr (verifier, token) \<Rightarrow>
                    packed_uses sp lib verifier jti token (packed_expected claims) 1 uses t1)))"

text \<open>With \<open>finally\<close>: the row is deleted, whatever happened.\<close>

definition packed_store_consumer ::
  "safe_parse \<Rightarrow> 'k jose_lib \<Rightarrow> jsval \<times> jsval \<Rightarrow> string \<Rightarrow> int \<Rightarrow> use_env list \<Rightarrow> receipt_table
     \<Rightarrow> (js_exn + unit) \<times> receipt_table" where
  "packed_store_consumer sp lib exported jti now uses t =
     map_prod id (\<lambda>t'. t'(jti := None)) (packed_redemptions sp lib exported jti now uses t)"

section \<open>The claims of the consumer\<close>

definition packed_claims :: "string \<Rightarrow> int \<Rightarrow> receipt_claims" where
  "packed_claims jti now =
     \<lparr>rc_iss = ''packed-issuer'', rc_sub = ''packed-subject'', rc_aud = ''packed-audience'',
      rc_iat = now - 20, rc_nbf = now - 10, rc_exp = now + 300, rc_jti = jti,
      rc_intent_id = ''packed-intent'', rc_resource_id = ''packed-resource'',
      rc_policy_id = ''packed-policy'', rc_payment_ref = None, rc_grant_type = MultiRedemption,
      rc_max_redemptions = 3\<rparr>"

definition packed_row :: "string \<Rightarrow> int \<Rightarrow> int \<Rightarrow> receipt_row" where
  "packed_row jti now n =
     \<lparr>row_jti = jti, row_iss = ''packed-issuer'', row_sub = ''packed-subject'', row_aud = ''packed-audience'',
      row_intent_id = ''packed-intent'', row_resource_id = ''packed-resource'',
      row_policy_id = ''packed-policy'', row_grant_type = ''multi_redemption'', row_max_redemptions = 3,
      row_redemption_count = n, row_iat = now - 20, row_nbf = now - 10, row_exp = now + 300,
      row_payment_ref = None, row_revoked_at = None\<rparr>"

lemma packed_input_carries: "carries (packed_input jti now) (packed_claims jti now)"
  unfolding carries_iff by (simp add: packed_input_def packed_claims_def js_get_def payment_ref_val_def)

lemma packed_claims_valid:
  "jti \<noteq> [] \<Longrightarrow> 20 \<le> now \<Longrightarrow> now + 300 \<le> max_safe_integer \<Longrightarrow> claims_valid (packed_claims jti now)"
  by (simp add: packed_claims_def claims_valid_def safe_int_def max_safe_integer_def abs_le_iff)

lemma packed_row_of_claims: "row_of_claims (claims_obj (packed_claims jti now)) = packed_row jti now 0"
  by (simp add: row_of_claims_def packed_claims_def packed_row_def payment_ref_val_def)

lemma packed_row_checks:
  "jti \<noteq> [] \<Longrightarrow> 20 \<le> now \<Longrightarrow> now + 300 \<le> max_safe_integer \<Longrightarrow> 0 \<le> n \<Longrightarrow> n \<le> 3
   \<Longrightarrow> row_checks (packed_row jti now n)"
  by (simp add: row_checks_def packed_row_def max_safe_integer_def)

section \<open>One use\<close>

text \<open>A use within the receipt's lifetime on every clock, over a connection without fault.\<close>

definition use_ok :: "int \<Rightarrow> use_env \<Rightarrow> bool" where
  "use_ok now w \<longleftrightarrow> cs_fault (ue_db w) = NoFault
     \<and> (\<forall>clock \<in> {ue_clock w, ue_now w, fst (cs_clock (ue_db w)), snd (cs_clock (ue_db w))}.
          now - 10 \<le> clock \<and> clock < now + 300)"

definition packed_command :: "string \<Rightarrow> int \<Rightarrow> int \<Rightarrow> consume_command" where
  "packed_command jti now host =
     command_of (packed_claims jti now) (packed_expected (claims_obj (packed_claims jti now))) (JInt host)"

lemma packed_command_fields:
  "packed_command jti now host =
     \<lparr>cmd_jti = JStr jti, cmd_iss = JStr ''packed-issuer'', cmd_sub = JStr ''packed-subject'',
      cmd_aud = JStr ''packed-audience'', cmd_intent_id = JStr ''packed-intent'',
      cmd_resource_id = JStr ''packed-resource'', cmd_policy_id = JStr ''packed-policy'',
      cmd_grant_type = JStr ''multi_redemption'', cmd_max_redemptions = JInt 3,
      cmd_exp = JInt (now + 300), cmd_current_time = JInt host, cmd_expected_max_redemptions = JInt 3\<rparr>"
  by (simp add: packed_command_def command_of_def packed_claims_def packed_expected_def js_has_own_def)

lemma packed_command_valid:
  assumes "jti \<noteq> []" and "20 \<le> now" and "now + 300 \<le> max_safe_integer" and "now - 10 \<le> host"
    and "host < now + 300"
  shows "validCommand (packed_command jti now host)"
proof -
  have s: "safe_int (now + 300)" "safe_int host" "safe_int 3" and h: "0 \<le> host"
    using assms by (auto simp: safe_int_def max_safe_integer_def)
  have "positive_safe_integer (JInt 3)" unfolding positive_safe_integer_iff using s by auto
  moreover have "safe_integer_value (JInt (now + 300))" "safe_integer_value (JInt host)"
    unfolding safe_integer_value_iff using s by blast+
  moreover have "js_num_le (JInt 0) (JInt host)" "js_num_less (JInt 1) (JInt 3)"
    unfolding js_num_le.simps js_num_less.simps num_le_int num_less_int using h by simp_all
  ultimately show ?thesis
    using assms(1) unfolding packed_command_fields validCommand_def by simp
qed

lemma packed_decision:
  assumes "use_ok now w" and "0 \<le> n" and "n \<le> 3"
  shows "spec_consume (cs_clock (ue_db w)) (packed_command jti now (ue_now w)) (t(jti \<mapsto> packed_row jti now n)) =
    (if n < 3 then (Consumed (n + 1 = 3), t(jti \<mapsto> packed_row jti now (n + 1)))
     else (ReceiptExhausted, t(jti \<mapsto> packed_row jti now n)))"
proof -
  have "authority_matches (packed_command jti now (ue_now w)) (receipt_of (packed_row jti now n))"
    by (simp add: packed_command_fields authority_matches_def receipt_of_def packed_row_def)
  moreover have "\<not> js_num_le (JInt (now + 300)) (JInt (ue_now w))"
    "\<not> js_num_less (JInt (ue_now w)) (JInt (now - 10))"
    unfolding js_num_le.simps js_num_less.simps num_le_int num_less_int using assms(1) by (simp_all add: use_ok_def)
  ultimately show ?thesis
    using assms by (auto simp: spec_consume_def spec_decision_def packed_command_fields use_ok_def packed_row_def)
qed

lemma packed_use:
  assumes sp: "zod_parser Zod4 sp" and ok: "table_ok t" "0 \<le> n" "n \<le> 3" and w: "use_ok now w"
    and j: "jti \<noteq> []" "20 \<le> now" "now + 300 \<le> max_safe_integer"
    and v: "verifyToken sp lib (ue_clock w) (JStr tok) verifier = Inr (claims_obj (packed_claims jti now))"
  shows "consumer_redeem sp lib verifier (ue_clock w) (ue_now w) tok
      (packed_expected (claims_obj (packed_claims jti now))) (postgres_consume (pg_query (ue_db w)))
      (t(jti \<mapsto> packed_row jti now n)) =
    (if n < 3 then (Success (n + 1 = 3), t(jti \<mapsto> packed_row jti now (n + 1)))
     else (ConsumptionDenied ReceiptExhausted, t(jti \<mapsto> packed_row jti now n)))"
proof -
  let ?c = "packed_claims jti now" and ?t = "t(jti \<mapsto> packed_row jti now n)"
  let ?cmd = "packed_command jti now (ue_now w)"
  have valid: "claims_valid ?c" by (rule packed_claims_valid [OF j])
  have host: "now - 10 \<le> ue_now w" "ue_now w < now + 300" using w by (simp_all add: use_ok_def)
  then have h: "0 \<le> ue_now w" "safe_int (ue_now w)"
    using j by (auto simp: safe_int_def max_safe_integer_def)
  have e: "isValidExpectedBindings (packed_expected (claims_obj ?c))"
    "bindings_agree (packed_expected (claims_obj ?c)) ?c"
    by (simp_all add: isValidExpectedBindings_def bindings_agree_def packed_expected_def packed_claims_def
        js_has_own_def is_safe_integer_def max_safe_integer_def num_le_def)
  have t: "table_ok ?t"
    using ok packed_row_checks [OF j ok(2,3)] by (simp add: table_ok_def packed_row_def)
  have cmd: "validCommand ?cmd" by (rule packed_command_valid [OF j host])
  have q: "pg_query (ue_db w) = consumeSql (cs_clock (ue_db w))"
    using w by (simp add: pg_query_def use_ok_def fun_eq_iff)
  have "fst (spec_consume (cs_clock (ue_db w)) ?cmd ?t) \<noteq> SystemFailure"
    by (simp add: packed_decision [OF w ok(2,3)])
  then have "postgres_consume (pg_query (ue_db w)) ?cmd ?t =
      (Inr (result_obj (fst (spec_consume (cs_clock (ue_db w)) ?cmd ?t))),
       snd (spec_consume (cs_clock (ue_db w)) ?cmd ?t))"
    using cmd t by (simp add: q postgres_consume_def consumeSql_refines result_of_spec_row)
  then show ?thesis
    using ok(3) by (simp add: consumer_redeem_reaches [OF sp v valid e h] packed_command_def [symmetric]
        packed_decision [OF w ok(2,3)] store_result_def)
qed

section \<open>The consumer passes\<close>

lemma packed_uses_pass:
  assumes sp: "zod_parser Zod4 sp" and ok: "table_ok t"
    and j: "jti \<noteq> []" "20 \<le> now" "now + 300 \<le> max_safe_integer"
    and v: "\<And>clock. now - 10 \<le> clock \<Longrightarrow> clock < now + 300 \<Longrightarrow>
      verifyToken sp lib clock (JStr tok) verifier = Inr (claims_obj (packed_claims jti now))"
    and uses: "list_all (use_ok now) ws" and use: "1 \<le> use"
  defines "T \<equiv> \<lambda>n. t(jti \<mapsto> packed_row jti now n)"
  shows "\<exists>n. packed_uses sp lib verifier jti tok (packed_expected (claims_obj (packed_claims jti now))) use ws
      (T (int (min (use - 1) 3))) = (Inr (), T n)"
  using uses use
proof (induction ws arbitrary: use)
  case (Cons w ws)
  have w: "use_ok now w" using Cons.prems by simp
  have vw: "verifyToken sp lib (ue_clock w) (JStr tok) verifier = Inr (claims_obj (packed_claims jti now))"
    using w by (intro v) (simp_all add: use_ok_def)
  have step: "consumer_redeem sp lib verifier (ue_clock w) (ue_now w) tok
      (packed_expected (claims_obj (packed_claims jti now))) (postgres_consume (pg_query (ue_db w))) (T n) =
    (if n < 3 then (Success (n + 1 = 3), T (n + 1)) else (ConsumptionDenied ReceiptExhausted, T n))"
    if "0 \<le> n" "n \<le> 3" for n
    unfolding T_def by (rule packed_use [OF sp ok that w j vw])
  have "consumer_redeem sp lib verifier (ue_clock w) (ue_now w) tok
      (packed_expected (claims_obj (packed_claims jti now))) (postgres_consume (pg_query (ue_db w)))
      (T (int (min (use - 1) 3))) = (expected_use use, T (int (min use 3)))"
  proof (cases "use \<le> 3")
    case True
    then have "min (use - 1) 3 = use - 1" "int (use - 1) + 1 = int use" using Cons.prems(2) by simp_all
    with step [of "int (use - 1)"] True show ?thesis by (simp add: expected_use_def)
  next
    case False
    then have "min (use - 1) 3 = 3" by simp
    with step [of 3] False show ?thesis by (simp add: expected_use_def)
  qed
  moreover have "map_option row_redemption_count (T n jti) = Some n" for n
    by (simp add: T_def packed_row_def)
  ultimately show ?case
    using Cons.IH [of "use + 1"] Cons.prems by simp
qed (simp, blast)

text \<open>
  The consumer passes, whatever else the table holds, and leaves it as it found it: the claims are
  inserted, three uses succeed, the third of them as the last, and every further one is exhausted.
\<close>

lemma packed_store_consumer_passes:
  assumes sp: "zod_parser Zod4 sp" and ok: "table_ok t" "t jti = None"
    and j: "jti \<noteq> []" "20 \<le> now" "now + 300 \<le> max_safe_integer"
    and keys: "key_setting lib (packed_jwk (fst exported)) (packed_jwk (snd exported)) ''packed-key''
      (packed_claims jti now)"
    and uses: "list_all (use_ok now) ws"
  shows "packed_store_consumer sp lib exported jti now ws t = (Inr (), t)"
proof -
  let ?c = "packed_claims jti now"
  have valid: "claims_valid ?c" by (rule packed_claims_valid [OF j])
  obtain signer verifier tok where made:
    "createAccessReceiptSigner lib (JObj [(''privateKey'', packed_jwk (fst exported))] []) = Inr signer"
    "createAccessReceiptVerifier lib (JObj [(''publicKeys'', JArr [packed_jwk (snd exported)]),
       (''issuer'', JStr (rc_iss ?c)), (''audience'', JStr (rc_aud ?c))] []) = Inr verifier"
    "accessReceiptSigner sp lib signer (claims_obj ?c) = Inr tok"
    and v: "\<And>clock. rc_nbf ?c \<le> clock \<Longrightarrow> clock < rc_exp ?c \<Longrightarrow>
      verifyToken sp lib clock (JStr tok) verifier = Inr (claims_obj ?c)"
    using key_setting_works [OF sp keys _ valid] by blast
  have built: "buildAccessReceiptClaims sp (packed_input jti now) = Inr (claims_obj ?c)"
    by (rule build_carries [OF sp valid packed_input_carries])
  have inserted: "insert_receipt (claims_obj ?c) t = (Inr (), t(jti \<mapsto> packed_row jti now 0))"
    using ok(2) packed_row_checks [OF j, of 0]
    by (simp add: insert_receipt_def packed_row_of_claims) (simp add: packed_row_def)
  have window: "verifyToken sp lib clock (JStr tok) verifier = Inr (claims_obj ?c)"
    if "now - 10 \<le> clock" "clock < now + 300" for clock
    by (rule v) (use that in \<open>simp_all add: packed_claims_def\<close>)
  from packed_uses_pass [OF sp ok(1) j window uses, of 1] obtain n where
    run: "packed_uses sp lib verifier jti tok (packed_expected (claims_obj ?c)) 1 ws
      (t(jti \<mapsto> packed_row jti now 0)) = (Inr (), t(jti \<mapsto> packed_row jti now n))" by auto
  have "packed_verifier lib (snd exported) (claims_obj ?c) = Inr verifier"
    using made(2) by (simp add: packed_verifier_def)
  with made(1,3) run have "packed_redemptions sp lib exported jti now ws t = (Inr (), t(jti \<mapsto> packed_row jti now n))"
    by (simp add: packed_redemptions_def built inserted)
  then show ?thesis using ok(2) by (simp add: packed_store_consumer_def fun_upd_idem)
qed

end
