(* ===== verification/Packaging_Host.thy ===== *)
theory Packaging_Host
  imports JS_Values
begin

text \<open>
  What the checks of the packed archives use of their host: computations that may throw on a state, the file
  system and child processes as parameters, the recording of what was asked of them, and the paths of
  Node on a POSIX system. A file operation answers with a JavaScript value: the path of a temporary directory,
  the text of a file, the names in a directory, and \<open>undefined\<close> otherwise.
\<close>

section \<open>Computations\<close>

type_synonym ('t, 'a) io = "'t \<Rightarrow> (js_exn + 'a) \<times> 't"

definition liftIO :: "js_exn + 'a \<Rightarrow> ('t, 'a) io" where
  "liftIO r = (\<lambda>s. (r, s))"

definition bindIO :: "('t, 'a) io \<Rightarrow> ('a \<Rightarrow> ('t, 'b) io) \<Rightarrow> ('t, 'b) io" where
  "bindIO p f = (\<lambda>s. case p s of (Inl e, s') \<Rightarrow> (Inl e, s') | (Inr a, s') \<Rightarrow> f a s')"

text \<open>\<open>try { p } finally { q }\<close>: an exception of \<open>q\<close> replaces the result of \<open>p\<close>.\<close>

definition finallyIO :: "('t, 'a) io \<Rightarrow> ('t, unit) io \<Rightarrow> ('t, 'a) io" where
  "finallyIO p q = (\<lambda>s. case p s of (r, s1) \<Rightarrow>
     (case q s1 of (Inl e, s2) \<Rightarrow> (Inl e, s2) | (Inr _, s2) \<Rightarrow> (r, s2)))"

text \<open>A loop over a list.\<close>

fun each :: "('a \<Rightarrow> ('t, unit) io) \<Rightarrow> 'a list \<Rightarrow> ('t, unit) io" where
  "each f [] = liftIO (Inr ())"
| "each f (x # xs) = bindIO (f x) (\<lambda>_. each f xs)"

section \<open>Files and processes\<close>

datatype fs_call =
    AccessFile string
  | RemoveFile string \<comment> \<open>\<open>rmSync(path, { force: true })\<close>\<close>
  | RemoveTree string \<comment> \<open>\<open>rmSync(path, { recursive: true, force: true })\<close>\<close>
  | MakeDirectory string
  | MakeTemporary string
  | CopyTree string string
  | ReadDirectory string
  | ReadText string
  | WriteText string string
  | CopyFile string string
  | IsSymbolicLink string

text \<open>A process to start: with its output read back or inherited.\<close>

record spawn_call =
  sc_command :: string
  sc_args :: "string list"
  sc_cwd :: string
  sc_piped :: bool

record process_result =
  pr_error :: "js_exn option"
  pr_status :: "int option"
  pr_stdout :: "string option"
  pr_stderr :: "string option"

record 't machine =
  mc_files :: "fs_call \<Rightarrow> ('t, jsval) io"
  mc_spawn :: "spawn_call \<Rightarrow> 't \<Rightarrow> process_result \<times> 't"

datatype host_call = Files fs_call | Spawn spawn_call

text \<open>A machine that keeps the list of what was asked of it.\<close>

definition recorded :: "'t machine \<Rightarrow> ('t \<times> host_call list) machine" where
  "recorded m =
     \<lparr>mc_files = (\<lambda>c (s, cs). case mc_files m c s of (r, s') \<Rightarrow> (r, (s', cs @ [Files c]))),
      mc_spawn = (\<lambda>c (s, cs). case mc_spawn m c s of (r, s') \<Rightarrow> (r, (s', cs @ [Spawn c])))\<rparr>"

definition files_unit :: "'t machine \<Rightarrow> fs_call \<Rightarrow> ('t, unit) io" where
  "files_unit m c = bindIO (mc_files m c) (\<lambda>_. liftIO (Inr ()))"

definition files_text :: "'t machine \<Rightarrow> fs_call \<Rightarrow> ('t, string) io" where
  "files_text m c = bindIO (mc_files m c) (\<lambda>v. liftIO (Inr (the_string v)))"

section \<open>Strings\<close>

fun join_strings :: "string \<Rightarrow> string list \<Rightarrow> string" where
  "join_strings sep [] = []"
| "join_strings sep [s] = s"
| "join_strings sep (s # ss) = s @ sep @ join_strings sep ss"

definition newline :: string where
  "newline = [CHR 0x0A]"

section \<open>Paths\<close>

text \<open>The segments of a path, the empty ones and \<open>.\<close> left out, and \<open>..\<close> resolved below the root.\<close>

fun climb :: "string list \<Rightarrow> string list \<Rightarrow> string list" where
  "climb up [] = rev up"
| "climb up (s # ss) = climb (if s = ''..'' then tl up else s # up) ss"

definition path_segments :: "string \<Rightarrow> string list" where
  "path_segments p = climb [] (filter (\<lambda>s. s \<noteq> [] \<and> s \<noteq> ''.'') (js_split CHR ''/'' p))"

definition absolute_path :: "string list \<Rightarrow> string" where
  "absolute_path segs = ''/'' @ join_strings ''/'' segs"

definition path_is_absolute :: "string \<Rightarrow> bool" where
  "path_is_absolute p \<longleftrightarrow> starts_with p ''/''"

text \<open>\<open>path.join(base, name)\<close> for an absolute \<open>base\<close>, and \<open>path.resolve(p)\<close> in the working directory.\<close>

definition path_join :: "string \<Rightarrow> string \<Rightarrow> string" where
  "path_join base name = absolute_path (path_segments (base @ ''/'' @ name))"

definition path_resolve :: "string \<Rightarrow> string \<Rightarrow> string" where
  "path_resolve cwd p = (if path_is_absolute p then absolute_path (path_segments p) else path_join cwd p)"

fun relative_segments :: "string list \<Rightarrow> string list \<Rightarrow> string list" where
  "relative_segments [] ys = ys"
| "relative_segments (x # xs) [] = replicate (length (x # xs)) ''..''"
| "relative_segments (x # xs) (y # ys) =
     (if x = y then relative_segments xs ys else replicate (length (x # xs)) ''..'' @ y # ys)"

text \<open>\<open>path.relative(base, target)\<close> of absolute paths.\<close>

definition path_relative :: "string \<Rightarrow> string \<Rightarrow> string" where
  "path_relative base target =
     join_strings ''/'' (relative_segments (path_segments base) (path_segments target))"

lemma join_starts: "starts_with (join_strings sep (s # ss)) s"
  by (cases ss) (simp_all add: starts_with_def)

text \<open>A relative path that does not begin with two dots leads below its base.\<close>

lemma relative_below:
  "\<not> starts_with (join_strings ''/'' (relative_segments xs ys)) ''..'' \<Longrightarrow> \<exists>zs. ys = xs @ zs"
proof (induction xs ys rule: relative_segments.induct)
  case (2 x xs)
  then show ?case
    using join_starts [of "''/''" "''..''"] by auto
next
  case (3 x xs y ys)
  then show ?case
    using join_starts [of "''/''" "''..''"] by (cases "x = y") auto
qed simp

section \<open>Calls and their record\<close>

text \<open>\<open>p\<close> asks the recorded machine only for what \<open>P\<close> allows, and keeps what was recorded before.\<close>

definition asks :: "(host_call \<Rightarrow> bool) \<Rightarrow> ('t \<times> host_call list, 'a) io \<Rightarrow> bool" where
  "asks P p \<longleftrightarrow> (\<forall>s cs. \<exists>new. snd (snd (p (s, cs))) = cs @ new \<and> list_all P new)"

lemma asksI: "(\<And>s cs. \<exists>new. snd (snd (p (s, cs))) = cs @ new \<and> list_all P new) \<Longrightarrow> asks P p"
  by (simp add: asks_def)

lemma asks_lift [intro, simp]: "asks P (liftIO r)"
  by (simp add: asks_def liftIO_def)

lemma asks_bind [intro]: "asks P p \<Longrightarrow> (\<And>a. asks P (f a)) \<Longrightarrow> asks P (bindIO p f)"
proof (rule asksI)
  fix s cs
  assume p: "asks P p" and f: "\<And>a. asks P (f a)"
  obtain r s1 cs1 where r: "p (s, cs) = (r, (s1, cs1))" by (metis prod.exhaust)
  with p obtain new where new: "cs1 = cs @ new" "list_all P new" unfolding asks_def by (metis snd_conv)
  show "\<exists>new. snd (snd (bindIO p f (s, cs))) = cs @ new \<and> list_all P new"
  proof (cases r)
    case (Inl e)
    with r new show ?thesis by (simp add: bindIO_def)
  next
    case (Inr a)
    from f [of a] obtain new' where "snd (snd (f a (s1, cs1))) = cs1 @ new'" "list_all P new'"
      unfolding asks_def by blast
    with r new Inr show ?thesis by (intro exI [of _ "new @ new'"]) (simp add: bindIO_def)
  qed
qed

lemma asks_finally [intro]: "asks P p \<Longrightarrow> asks P q \<Longrightarrow> asks P (finallyIO p q)"
proof (rule asksI)
  fix s cs
  assume p: "asks P p" and q: "asks P q"
  obtain r s1 cs1 where r: "p (s, cs) = (r, (s1, cs1))" by (metis prod.exhaust)
  obtain r2 s2 cs2 where r2: "q (s1, cs1) = (r2, (s2, cs2))" by (metis prod.exhaust)
  from p r obtain new where "cs1 = cs @ new" "list_all P new" unfolding asks_def by (metis snd_conv)
  moreover from q r2 obtain new' where "cs2 = cs1 @ new'" "list_all P new'" unfolding asks_def by (metis snd_conv)
  ultimately show "\<exists>new. snd (snd (finallyIO p q (s, cs))) = cs @ new \<and> list_all P new"
    using r r2 by (intro exI [of _ "new @ new'"]) (simp add: finallyIO_def split: sum.split)
qed

lemma asks_each [intro]: "(\<And>x. x \<in> set xs \<Longrightarrow> asks P (f x)) \<Longrightarrow> asks P (each f xs)"
  by (induction xs) auto

lemma asks_files [intro]: "P (Files c) \<Longrightarrow> asks P (mc_files (recorded m) c)"
  by (simp add: asks_def recorded_def case_prod_beta)

lemma asks_files_unit [intro]: "P (Files c) \<Longrightarrow> asks P (files_unit (recorded m) c)"
  unfolding files_unit_def by blast

lemma asks_files_text [intro]: "P (Files c) \<Longrightarrow> asks P (files_text (recorded m) c)"
  unfolding files_text_def by blast

end
