(* ===== verification/Distribution_Check.thy ===== *)
theory Distribution_Check
  imports Packaging_Host
begin

text \<open>
  The check of the packed access package (\<^verbatim>\<open>packages/access/scripts/verify-distribution.mjs\<close>): it packs the
  package into a temporary directory, installs the archive into three consumer projects and runs each.
  The parser of JSON, the directories and the path of npm are arguments; console output is left out.
\<close>

section \<open>Processes\<close>

definition stream_text :: "string \<Rightarrow> string option \<Rightarrow> string" where
  "stream_text name stream =
     (case stream of
        None \<Rightarrow> []
      | Some text \<Rightarrow> if js_trim text = [] then [] else name @ '':'' @ newline @ js_trim text)"

definition process_failure :: "spawn_call \<Rightarrow> process_result \<Rightarrow> js_exn" where
  "process_failure c r = JSError (join_strings (newline @ newline) (filter (\<lambda>s. s \<noteq> [])
     [''Command failed: '' @ sc_command c @ '' '' @ join_strings '' '' (sc_args c),
      stream_text ''stdout'' (pr_stdout r), stream_text ''stderr'' (pr_stderr r)]))"

definition process_output :: "spawn_call \<Rightarrow> process_result \<Rightarrow> js_exn + string" where
  "process_output c r =
     (case pr_error r of
        Some e \<Rightarrow> Inl e
      | None \<Rightarrow>
          if pr_status r \<noteq> Some 0 then Inl (process_failure c r)
          else Inr (case pr_stdout r of Some out \<Rightarrow> out | None \<Rightarrow> []))"

definition runProcess :: "'t machine \<Rightarrow> string \<Rightarrow> string list \<Rightarrow> string \<Rightarrow> ('t, string) io" where
  "runProcess m command args cwd =
     (let c = \<lparr>sc_command = command, sc_args = args, sc_cwd = cwd, sc_piped = True\<rparr>
      in (\<lambda>s. case mc_spawn m c s of (r, s') \<Rightarrow> (process_output c r, s')))"

text \<open>The directories of the script, the program that runs it, and npm's own path.\<close>

record check_env =
  ck_packageDir :: string
  ck_repoRoot :: string
  ck_tmpdir :: string
  ck_cwd :: string
  ck_execPath :: string
  ck_npmCli :: "string option"

definition runNpm :: "'t machine \<Rightarrow> check_env \<Rightarrow> string list \<Rightarrow> string \<Rightarrow> ('t, string) io" where
  "runNpm m env args cwd =
     runProcess m (ck_execPath env) ((case ck_npmCli env of Some p \<Rightarrow> p | None \<Rightarrow> []) # args) cwd"

section \<open>The archive\<close>

definition pack_info :: "jsval \<Rightarrow> jsval" where
  "pack_info parsed = (case parsed of JArr [] \<Rightarrow> JUndef | JArr (v # vs) \<Rightarrow> v | _ \<Rightarrow> parsed)"

definition nonempty_text :: "jsval \<Rightarrow> string option" where
  "nonempty_text v = (case v of JStr s \<Rightarrow> if s = [] then None else Some s | _ \<Rightarrow> None)"

definition parsePackResult ::
  "(string \<Rightarrow> js_exn + jsval) \<Rightarrow> string \<Rightarrow> string \<Rightarrow> string \<Rightarrow> js_exn + string" where
  "parsePackResult json_parse cwd output packDir =
     (if js_trim output = [] then Inl (JSError ''npm pack did not return JSON output.'')
      else bindE (json_parse (js_trim output)) (\<lambda>parsed.
        if \<not> js_truthy (pack_info parsed) \<or> js_typeof (pack_info parsed) \<noteq> ''object''
        then Inl (JSError ''npm pack returned an unexpected payload.'')
        else (case nonempty_text (js_get (pack_info parsed) ''path'') of
            Some path \<Rightarrow> Inr (path_resolve cwd path)
          | None \<Rightarrow>
              (case nonempty_text (js_get (pack_info parsed) ''filename'') of
                 Some filename \<Rightarrow> Inr (path_resolve cwd (path_join packDir filename))
               | None \<Rightarrow> Inl (JSError ''npm pack did not report a tarball path.'')))))"

definition assertWithin :: "string \<Rightarrow> string \<Rightarrow> js_exn + unit" where
  "assertWithin baseDir targetPath =
     (if starts_with (path_relative baseDir targetPath) ''..'' \<or> path_is_absolute (path_relative baseDir targetPath)
      then Inl (JSError (''Path escaped workspace boundary: '' @ targetPath))
      else Inr ())"

section \<open>The check\<close>

record fixture =
  ft_name :: string
  ft_source :: string
  ft_project :: string
  ft_args :: "string list"

definition fixtures :: "check_env \<Rightarrow> string \<Rightarrow> fixture list" where
  "fixtures env tempRoot =
     [\<lparr>ft_name = ''esm'', ft_source = path_join (ck_packageDir env) ''test-consumers/esm'',
       ft_project = path_join tempRoot ''esm-consumer'', ft_args = [''index.js'']\<rparr>,
      \<lparr>ft_name = ''commonjs'', ft_source = path_join (ck_packageDir env) ''test-consumers/commonjs'',
       ft_project = path_join tempRoot ''commonjs-consumer'', ft_args = [''index.cjs'']\<rparr>,
      \<lparr>ft_name = ''typescript'', ft_source = path_join (ck_packageDir env) ''test-consumers/typescript'',
       ft_project = path_join tempRoot ''typescript-consumer'',
       ft_args = [path_join (ck_repoRoot env) ''node_modules/typescript/bin/tsc'', ''-p'', ''tsconfig.json'']\<rparr>]"

definition check_fixture :: "'t machine \<Rightarrow> check_env \<Rightarrow> string \<Rightarrow> fixture \<Rightarrow> ('t, unit) io" where
  "check_fixture m env tarballPath f =
     bindIO (files_unit m (CopyTree (ft_source f) (ft_project f))) (\<lambda>_.
     bindIO (runNpm m env [''install'', ''--no-save'', ''--ignore-scripts'', ''--no-audit'', ''--no-fund'',
         ''--package-lock=false'', tarballPath] (ft_project f)) (\<lambda>_.
     bindIO (runProcess m (ck_execPath env) (ft_args f) (ft_project f)) (\<lambda>_. liftIO (Inr ()))))"

text \<open>The body of \<open>try\<close> up to the assignment of \<open>tarballPath\<close>, and the rest of it.\<close>

definition pack_archive ::
  "'t machine \<Rightarrow> (string \<Rightarrow> js_exn + jsval) \<Rightarrow> check_env \<Rightarrow> string \<Rightarrow> ('t, string) io" where
  "pack_archive m json_parse env tempRoot =
     bindIO (files_unit m (RemoveTree (path_join tempRoot ''pack''))) (\<lambda>_.
     bindIO (files_unit m (MakeDirectory (path_join tempRoot ''pack''))) (\<lambda>_.
     bindIO (files_unit m (RemoveTree (path_join tempRoot ''esm-consumer''))) (\<lambda>_.
     bindIO (files_unit m (RemoveTree (path_join tempRoot ''commonjs-consumer''))) (\<lambda>_.
     bindIO (files_unit m (RemoveTree (path_join tempRoot ''typescript-consumer''))) (\<lambda>_.
     bindIO (runNpm m env [''pack'', ''--json'', ''--pack-destination'', path_join tempRoot ''pack'']
         (ck_packageDir env)) (\<lambda>packJson.
     liftIO (parsePackResult json_parse (ck_cwd env) packJson (path_join tempRoot ''pack''))))))))"

definition check_archive :: "'t machine \<Rightarrow> check_env \<Rightarrow> string \<Rightarrow> string \<Rightarrow> ('t, unit) io" where
  "check_archive m env tempRoot tarballPath =
     bindIO (liftIO (assertWithin (path_join tempRoot ''pack'') tarballPath)) (\<lambda>_.
     bindIO (files_unit m (AccessFile tarballPath)) (\<lambda>_.
     each (check_fixture m env tarballPath) (fixtures env tempRoot)))"

text \<open>\<open>finally\<close>, with the value of \<open>tarballPath\<close>.\<close>

definition clean_up :: "'t machine \<Rightarrow> string \<Rightarrow> string \<Rightarrow> ('t, unit) io" where
  "clean_up m tempRoot tarballPath =
     bindIO (if tarballPath = [] then liftIO (Inr ()) else files_unit m (RemoveFile tarballPath)) (\<lambda>_.
     files_unit m (RemoveTree tempRoot))"

definition check_in ::
  "'t machine \<Rightarrow> (string \<Rightarrow> js_exn + jsval) \<Rightarrow> check_env \<Rightarrow> string \<Rightarrow> ('t, unit) io" where
  "check_in m json_parse env tempRoot = (\<lambda>s.
     case pack_archive m json_parse env tempRoot s of
       (Inl e, s') \<Rightarrow> finallyIO (liftIO (Inl e)) (clean_up m tempRoot []) s'
     | (Inr tarballPath, s') \<Rightarrow>
         finallyIO (check_archive m env tempRoot tarballPath) (clean_up m tempRoot tarballPath) s')"

definition verify_distribution ::
  "'t machine \<Rightarrow> (string \<Rightarrow> js_exn + jsval) \<Rightarrow> check_env \<Rightarrow> ('t, unit) io" where
  "verify_distribution m json_parse env =
     (if ck_npmCli env = None \<or> ck_npmCli env = Some []
      then liftIO (Inl (JSError ''npm_execpath is required to run distribution verification.''))
      else bindIO (files_unit m (AccessFile (path_join (ck_packageDir env) ''dist/index.js''))) (\<lambda>_.
        bindIO (files_unit m (AccessFile (path_join (ck_packageDir env) ''dist/index.d.ts''))) (\<lambda>_.
        bindIO (files_text m (MakeTemporary (path_join (ck_tmpdir env) ''fiberlatch-access-'')))
          (check_in m json_parse env))))"

section \<open>What the check does to its host\<close>

lemma asks_spawn [intro]:
  "P (Spawn \<lparr>sc_command = command, sc_args = args, sc_cwd = cwd, sc_piped = True\<rparr>) \<Longrightarrow>
   asks P (runProcess (recorded m) command args cwd)"
  by (simp add: asks_def runProcess_def recorded_def case_prod_beta Let_def)

lemma assertWithin_below:
  "assertWithin base target = Inr () \<Longrightarrow> \<exists>rest. path_segments target = path_segments base @ rest"
  by (auto simp: assertWithin_def path_relative_def split: if_splits dest: relative_below)

text \<open>
  What the check asks: trees are removed only at and below the temporary directory, and npm installs only an
  archive that is below the directory it was packed into.
\<close>

definition own_trees :: "string \<Rightarrow> string set" where
  "own_trees tempRoot = {tempRoot, path_join tempRoot ''pack'', path_join tempRoot ''esm-consumer'',
     path_join tempRoot ''commonjs-consumer'', path_join tempRoot ''typescript-consumer''}"

definition is_install :: "spawn_call \<Rightarrow> bool" where
  "is_install c \<longleftrightarrow> take 1 (drop 1 (sc_args c)) = [''install'']"

definition careful :: "string \<Rightarrow> host_call \<Rightarrow> bool" where
  "careful tempRoot c \<longleftrightarrow>
     (case c of
        Files (RemoveTree p) \<Rightarrow> p \<in> own_trees tempRoot
      | Files (CopyTree src dst) \<Rightarrow> dst \<in> own_trees tempRoot
      | Spawn p \<Rightarrow> is_install p \<longrightarrow>
          (\<exists>rest. path_segments (last (sc_args p)) = path_segments (path_join tempRoot ''pack'') @ rest)
      | _ \<Rightarrow> True)"

lemma asks_npm:
  "(\<And>command npm. P (Spawn \<lparr>sc_command = command, sc_args = npm # args, sc_cwd = cwd, sc_piped = True\<rparr>)) \<Longrightarrow>
   asks P (runNpm (recorded m) env args cwd)"
  unfolding runNpm_def by blast

lemma pack_is_careful: "asks (careful tempRoot) (pack_archive (recorded m) json_parse env tempRoot)"
  unfolding pack_archive_def
  by (intro asks_bind asks_files_unit asks_npm asks_lift)
    (simp_all add: careful_def own_trees_def is_install_def)

lemma clean_up_is_careful: "asks (careful tempRoot) (clean_up (recorded m) tempRoot tarballPath)"
  unfolding clean_up_def
  by (intro asks_bind asks_files_unit) (auto simp: careful_def own_trees_def intro!: asks_files_unit)

lemma fixture_is_careful:
  assumes "f \<in> set (fixtures env tempRoot)"
    and "\<exists>rest. path_segments tarballPath = path_segments (path_join tempRoot ''pack'') @ rest"
  shows "asks (careful tempRoot) (check_fixture (recorded m) env tarballPath f)"
  unfolding check_fixture_def using assms
  by (intro asks_bind asks_files_unit asks_npm asks_spawn asks_lift)
    (auto simp: careful_def own_trees_def is_install_def fixtures_def)

lemma archive_is_careful: "asks (careful tempRoot) (check_archive (recorded m) env tempRoot tarballPath)"
proof (cases "assertWithin (path_join tempRoot ''pack'') tarballPath")
  case (Inl e)
  then have "check_archive (recorded m) env tempRoot tarballPath = liftIO (Inl e)"
    by (simp add: check_archive_def bindIO_def liftIO_def fun_eq_iff)
  then show ?thesis by simp
next
  case (Inr u)
  with assertWithin_below have "\<exists>rest. path_segments tarballPath = path_segments (path_join tempRoot ''pack'') @ rest"
    by simp
  then show ?thesis
    unfolding check_archive_def
    by (intro asks_bind asks_lift asks_each asks_files_unit fixture_is_careful) (simp_all add: careful_def)
qed

lemma check_is_careful: "asks (careful tempRoot) (check_in (recorded m) json_parse env tempRoot)"
proof (rule asksI)
  fix s cs
  obtain r s1 cs1 where r: "pack_archive (recorded m) json_parse env tempRoot (s, cs) = (r, (s1, cs1))"
    by (metis prod.exhaust)
  let ?rest = "case r of Inl e \<Rightarrow> finallyIO (liftIO (Inl e)) (clean_up (recorded m) tempRoot [])
    | Inr t \<Rightarrow> finallyIO (check_archive (recorded m) env tempRoot t) (clean_up (recorded m) tempRoot t)"
  have "asks (careful tempRoot) ?rest"
    by (auto intro!: asks_finally clean_up_is_careful archive_is_careful split: sum.split)
  moreover obtain new where new: "cs1 = cs @ new" "list_all (careful tempRoot) new"
    using pack_is_careful [of tempRoot m json_parse env] r unfolding asks_def by (metis snd_conv)
  ultimately obtain new' where "snd (snd (?rest (s1, cs1))) = cs1 @ new'" "list_all (careful tempRoot) new'"
    unfolding asks_def by blast
  with new r show "\<exists>new. snd (snd (check_in (recorded m) json_parse env tempRoot (s, cs))) = cs @ new
      \<and> list_all (careful tempRoot) new"
    by (intro exI [of _ "new @ new'"]) (cases r; simp add: check_in_def)
qed

text \<open>A removal that never throws, as \<open>force: true\<close> asks for.\<close>

definition removes :: "'t machine \<Rightarrow> bool" where
  "removes m \<longleftrightarrow> (\<forall>p s. (\<exists>v s'. mc_files m (RemoveFile p) s = (Inr v, s'))
     \<and> (\<exists>v s'. mc_files m (RemoveTree p) s = (Inr v, s')))"

lemma clean_up_calls:
  assumes "removes m"
  shows "\<exists>s'. clean_up (recorded m) tempRoot tarballPath (s, cs) = (Inr (), (s', cs
    @ (if tarballPath = [] then [] else [Files (RemoveFile tarballPath)]) @ [Files (RemoveTree tempRoot)]))"
proof -
  from assms obtain v s1 where removed: "mc_files m (RemoveFile tarballPath) s = (Inr v, s1)"
    unfolding removes_def by blast
  from assms obtain w s2 where tree: "mc_files m (RemoveTree tempRoot) s1 = (Inr w, s2)"
    unfolding removes_def by blast
  from assms obtain w' s3 where tree': "mc_files m (RemoveTree tempRoot) s = (Inr w', s3)"
    unfolding removes_def by blast
  show ?thesis
    using removed tree tree' by (simp add: clean_up_def bindIO_def liftIO_def files_unit_def recorded_def)
qed

text \<open>However the check ends, the last thing it does is to remove its temporary directory.\<close>

lemma check_cleans_up:
  assumes "removes m"
  shows "last (snd (snd (check_in (recorded m) json_parse env tempRoot (s, cs)))) = Files (RemoveTree tempRoot)"
proof -
  have fin: "last (snd (snd (finallyIO p (clean_up (recorded m) tempRoot t) sc))) = Files (RemoveTree tempRoot)"
    for p :: "('a \<times> host_call list, unit) io" and t sc
  proof -
    obtain r s1 cs1 where "p sc = (r, (s1, cs1))" by (metis prod.exhaust)
    then show ?thesis using clean_up_calls [OF assms, of tempRoot t s1 cs1] by (auto simp: finallyIO_def)
  qed
  obtain r s1 where "pack_archive (recorded m) json_parse env tempRoot (s, cs) = (r, s1)"
    by (rule prod.exhaust)
  then show ?thesis by (cases r) (simp_all add: check_in_def fin)
qed

text \<open>
  The archive that npm reported is removed even when it was refused because it lies outside the directory
  that the check owns.
\<close>

lemma refused_archive_is_removed:
  assumes "removes m"
    and "pack_archive (recorded m) json_parse env tempRoot (s, cs) = (Inr tarballPath, (s1, cs1))"
    and "assertWithin (path_join tempRoot ''pack'') tarballPath = Inl e" and "tarballPath \<noteq> []"
  shows "\<exists>s2. check_in (recorded m) json_parse env tempRoot (s, cs)
    = (Inl e, (s2, cs1 @ [Files (RemoveFile tarballPath), Files (RemoveTree tempRoot)]))"
proof -
  have "check_archive (recorded m) env tempRoot tarballPath (s1, cs1) = (Inl e, (s1, cs1))"
    using assms(3) by (simp add: check_archive_def bindIO_def liftIO_def)
  moreover obtain s2 where "clean_up (recorded m) tempRoot tarballPath (s1, cs1)
      = (Inr (), (s2, cs1 @ [Files (RemoveFile tarballPath)] @ [Files (RemoveTree tempRoot)]))"
    using clean_up_calls [OF assms(1), of tempRoot tarballPath s1 cs1] assms(4) by auto
  ultimately show ?thesis using assms(2) by (simp add: check_in_def finallyIO_def)
qed

lemma outside_is_refused:
  "assertWithin ''/tmp/fiberlatch-access-1/pack'' ''/home/user/notes''
     = Inl (JSError (''Path escaped workspace boundary: '' @ ''/home/user/notes''))"
  by (simp add: assertWithin_def path_relative_def path_segments_def starts_with_def)

end
