(* ===== verification/Packed_Example_Check.thy ===== *)
theory Packed_Example_Check
  imports Distribution_Check
begin

text \<open>
  The check of the packed example (\<^verbatim>\<open>examples/paid-resource/scripts/verify-packed.mjs\<close>): no source file of the
  example may import the access package by a path into the repository; the example's tests and demonstration
  run in the repository and, with the packed archive, in a copy outside it. A directory is a snapshot of its
  entries, read from the state of the machine; console output is left out.
\<close>

section \<open>Imports of the example\<close>

datatype dir_entry =
    DirEntry string "dir_entry list"
  | FileEntry string string \<comment> \<open>name and contents\<close>
  | OtherEntry string

fun visit_entry :: "string \<Rightarrow> dir_entry \<Rightarrow> (string \<times> string) list" where
  "visit_entry directory (DirEntry name entries) =
     (if name = ''scripts'' then [] else concat (map (visit_entry (path_join directory name)) entries))"
| "visit_entry directory (FileEntry name contents) =
     (if ends_with (path_join directory name) ''.mjs'' then [(path_join directory name, contents)] else [])"
| "visit_entry directory (OtherEntry name) = []"

definition exampleFiles :: "string \<Rightarrow> dir_entry list \<Rightarrow> (string \<times> string) list" where
  "exampleFiles directory entries = concat (map (visit_entry directory) entries)"

definition forbidden_imports :: "string list" where
  "forbidden_imports =
     [''../../packages/access/src'', ''../../../packages/access/src'', ''packages/access/dist'',
      ''../../packages/access/dist'', ''@fiberlatch/access/src'', ''@fiberlatch/access/dist'']"

text \<open>The forbidden fragments that occur, in the order of the two loops.\<close>

definition violations :: "string \<Rightarrow> dir_entry list \<Rightarrow> (string \<times> string) list" where
  "violations directory entries =
     concat (map (\<lambda>(path, contents). map (Pair path) (filter (js_includes contents) forbidden_imports))
       (exampleFiles directory entries))"

definition verifyPackageRootImports :: "string \<Rightarrow> dir_entry list \<Rightarrow> js_exn + unit" where
  "verifyPackageRootImports directory entries =
     (case violations directory entries of
        [] \<Rightarrow> Inr ()
      | (path, fragment) # _ \<Rightarrow>
          Inl (JSError (''Forbidden package import path in '' @ path @ '': '' @ fragment)))"

lemma imports_verified_iff:
  "verifyPackageRootImports directory entries = Inr () \<longleftrightarrow>
     (\<forall>(path, contents) \<in> set (exampleFiles directory entries).
        \<forall>fragment \<in> set forbidden_imports. \<not> js_includes contents fragment)"
proof -
  have "verifyPackageRootImports directory entries = Inr () \<longleftrightarrow> violations directory entries = []"
    by (auto simp: verifyPackageRootImports_def split: list.split)
  then show ?thesis by (auto simp: violations_def filter_empty_conv)
qed

section \<open>Processes\<close>

definition packed_failure :: "spawn_call \<Rightarrow> process_result \<Rightarrow> js_exn" where
  "packed_failure c r =
     (let output = join_strings newline (filter (\<lambda>s. s \<noteq> [])
            [stream_text ''stdout'' (pr_stdout r), stream_text ''stderr'' (pr_stderr r)])
      in JSError (''Command failed: '' @ sc_command c @ '' '' @ join_strings '' '' (sc_args c)
           @ (if output = [] then [] else newline @ output)))"

definition packed_output :: "spawn_call \<Rightarrow> process_result \<Rightarrow> js_exn + string" where
  "packed_output c r =
     (case pr_error r of
        Some e \<Rightarrow> Inl e
      | None \<Rightarrow>
          if pr_status r \<noteq> Some 0 then Inl (packed_failure c r)
          else Inr (case pr_stdout r of Some out \<Rightarrow> out | None \<Rightarrow> []))"

definition npm_in :: "'t machine \<Rightarrow> check_env \<Rightarrow> bool \<Rightarrow> string list \<Rightarrow> string \<Rightarrow> ('t, string) io" where
  "npm_in m env piped args cwd =
     (let c = \<lparr>sc_command = ck_execPath env,
               sc_args = (case ck_npmCli env of Some p \<Rightarrow> p | None \<Rightarrow> []) # args, sc_cwd = cwd, sc_piped = piped\<rparr>
      in (\<lambda>s. case mc_spawn m c s of (r, s') \<Rightarrow> (packed_output c r, s')))"

definition npm_unit :: "'t machine \<Rightarrow> check_env \<Rightarrow> string list \<Rightarrow> string \<Rightarrow> ('t, unit) io" where
  "npm_unit m env args cwd = bindIO (npm_in m env False args cwd) (\<lambda>_. liftIO (Inr ()))"

section \<open>The archive\<close>

definition reported_filename :: "jsval \<Rightarrow> js_exn + string" where
  "reported_filename packInfo =
     (let info = (case packInfo of JArr [] \<Rightarrow> JUndef | JArr (v # vs) \<Rightarrow> v | _ \<Rightarrow> packInfo)
      in if info = JUndef \<or> info = JNull
         then Inl (JSTypeError ''Cannot read properties of undefined (reading 'filename')'')
         else (case js_get info ''filename'' of
             JStr filename \<Rightarrow> Inr filename
           | _ \<Rightarrow> Inl (JSTypeError ''The \"paths[1]\" argument must be of type string'')))"

definition base_name :: "string \<Rightarrow> string" where
  "base_name path = last (js_split CHR ''/'' (map (\<lambda>c. if c = CHR 0x5C then CHR ''/'' else c) path))"

definition directory_names :: "jsval \<Rightarrow> jsval list" where
  "directory_names v = (case v of JArr names \<Rightarrow> names | _ \<Rightarrow> [])"

section \<open>The check\<close>

text \<open>The example's directory is \<open>ck_packageDir\<close>; the access package is found from the repository's root.\<close>

definition acceptance ::
  "'t machine \<Rightarrow> (string \<Rightarrow> 't \<Rightarrow> dir_entry list) \<Rightarrow> (string \<Rightarrow> js_exn + jsval) \<Rightarrow> check_env \<Rightarrow> string
     \<Rightarrow> ('t, unit) io" where
  "acceptance m tree json_parse env temporaryRoot =
     (let packedDirectory = path_join temporaryRoot ''packed'';
          consumerDirectory = path_join temporaryRoot ''consumer''
      in
     bindIO (files_unit m (MakeDirectory packedDirectory)) (\<lambda>_.
     bindIO (npm_in m env True [''pack'', ''--json'', ''--pack-destination'', packedDirectory]
       (path_join (ck_repoRoot env) ''packages/access'')) (\<lambda>packOutput.
     bindIO (liftIO (bindE (json_parse packOutput) reported_filename)) (\<lambda>filename.
     (let tarball = path_resolve packedDirectory filename in
     bindIO (mc_files m (ReadDirectory packedDirectory)) (\<lambda>names.
     bindIO (liftIO (if JStr (base_name tarball) \<in> set (directory_names names) then Inr ()
       else Inl (JSError ''npm pack did not produce an access package tarball.''))) (\<lambda>_.
     bindIO (files_unit m (CopyTree (ck_packageDir env) consumerDirectory)) (\<lambda>_.
     bindIO (\<lambda>s. (verifyPackageRootImports consumerDirectory (tree consumerDirectory s), s)) (\<lambda>_.
     bindIO (npm_unit m env [''install'', ''--no-audit'', ''--no-fund'', ''--ignore-scripts'',
       ''--no-package-lock'', tarball] consumerDirectory) (\<lambda>_.
     bindIO (npm_unit m env [''run'', ''test''] consumerDirectory) (\<lambda>_.
     npm_unit m env [''run'', ''demo''] consumerDirectory)))))))))))"

definition verify_packed ::
  "'t machine \<Rightarrow> (string \<Rightarrow> 't \<Rightarrow> dir_entry list) \<Rightarrow> (string \<Rightarrow> js_exn + jsval) \<Rightarrow> check_env \<Rightarrow> ('t, unit) io" where
  "verify_packed m tree json_parse env =
     (if ck_npmCli env = None \<or> ck_npmCli env = Some []
      then liftIO (Inl (JSError ''npm_execpath is required to run packed example verification.''))
      else bindIO (\<lambda>s. (verifyPackageRootImports (ck_packageDir env) (tree (ck_packageDir env) s), s)) (\<lambda>_.
        bindIO (npm_unit m env [''run'', ''build:access''] (ck_repoRoot env)) (\<lambda>_.
        bindIO (npm_unit m env [''run'', ''test:access:example''] (ck_repoRoot env)) (\<lambda>_.
        bindIO (npm_unit m env [''run'', ''demo:access:example''] (ck_repoRoot env)) (\<lambda>_.
        bindIO (files_text m (MakeTemporary (path_join (ck_tmpdir env) ''fiberlatch-paid-resource-'')))
          (\<lambda>temporaryRoot. finallyIO (acceptance m tree json_parse env temporaryRoot)
            (files_unit m (RemoveTree temporaryRoot))))))))"

section \<open>What the check does\<close>

text \<open>
  A forbidden import stops the check before anything is asked of the host.
\<close>

lemma forbidden_import_stops:
  assumes "violations (ck_packageDir env) (tree (ck_packageDir env) (s, [])) \<noteq> []"
    and "ck_npmCli env = Some npm" and "npm \<noteq> []"
  shows "\<exists>message. verify_packed (recorded m) tree json_parse env (s, []) = (Inl (JSError message), (s, []))"
  using assms by (auto simp: verify_packed_def bindIO_def verifyPackageRootImports_def neq_Nil_conv)

text \<open>Only the temporary directory is removed, and only below it something is made or copied.\<close>

definition confined :: "string \<Rightarrow> host_call \<Rightarrow> bool" where
  "confined place c \<longleftrightarrow>
     (case c of
        Files (RemoveTree p) \<Rightarrow> p = place
      | Files (RemoveFile p) \<Rightarrow> False
      | Files (MakeDirectory p) \<Rightarrow> p = path_join place ''packed''
      | Files (CopyTree src dst) \<Rightarrow> dst = path_join place ''consumer''
      | _ \<Rightarrow> True)"

lemma asks_npm_in: "(\<And>c. P (Spawn c)) \<Longrightarrow> asks P (npm_in (recorded m) env piped args cwd)"
  by (simp add: asks_def npm_in_def recorded_def case_prod_beta Let_def)

lemma asks_npm_unit: "(\<And>c. P (Spawn c)) \<Longrightarrow> asks P (npm_unit (recorded m) env args cwd)"
  unfolding npm_unit_def by (intro asks_bind asks_npm_in asks_lift)

lemma asks_read: "asks P (\<lambda>sc. (f sc, sc))"
  by (simp add: asks_def)

lemma acceptance_is_confined: "asks (confined place) (acceptance (recorded m) tree json_parse env place)"
  unfolding acceptance_def Let_def
  by (intro asks_bind asks_npm_in asks_npm_unit asks_files_unit asks_files asks_lift asks_read)
    (simp_all add: confined_def)

end
