(* ===== verification/Store_Package_Check.thy ===== *)
theory Store_Package_Check
  imports Distribution_Check "HOL-Library.Char_ord" "HOL-Library.List_Lexorder"
begin

text \<open>
  The scripts of the PostgreSQL store (\<^verbatim>\<open>packages/postgres-store/scripts/\<close>): the connection string and the
  error codes that may be shown (\<^verbatim>\<open>environment.mjs\<close>), the connection check and the explicit migration
  (\<^verbatim>\<open>database.mjs\<close>), and the check of the packed archive (\<^verbatim>\<open>verify-package.mjs\<close>). The parsers of URLs and
  of JSON and the database client are parameters; console output is left out but for the error code.
\<close>

section \<open>The environment\<close>

text \<open>An error with its \<open>code\<close>, when it has one, and its message.\<close>

record coded_error =
  ce_code :: "string option"
  ce_message :: string

definition plain_error :: "string \<Rightarrow> coded_error" where
  "plain_error message = \<lparr>ce_code = None, ce_message = message\<rparr>"

text \<open>
  What the script uses of URLs: the host name, where an invalid URL throws, and the URL with \<open>sslmode\<close> set to
  \<open>verify-full\<close>. The argument of \<open>databaseUrl\<close> is the variable as the file has it, or the error of reading it.
\<close>

record url_tools =
  ut_hostname :: "string \<Rightarrow> coded_error + string"
  ut_verify_full :: "string \<Rightarrow> string"

definition databaseUrl :: "url_tools \<Rightarrow> coded_error + string option \<Rightarrow> coded_error + string" where
  "databaseUrl tools env_file =
     bindE env_file (\<lambda>configured.
     (case configured of
        None \<Rightarrow> Inl (plain_error ''DATABASE_URL missing from repo .env.local'')
      | Some url \<Rightarrow>
          if url = [] then Inl (plain_error ''DATABASE_URL missing from repo .env.local'')
          else bindE (ut_hostname tools url) (\<lambda>hostname.
            if \<not> ends_with hostname ''.neon.tech'' then Inl (plain_error ''Expected authorized Neon database'')
            else Inr (ut_verify_full tools url))))"

definition code_char :: "char \<Rightarrow> bool" where
  "code_char c \<longleftrightarrow>
     65 \<le> code_unit c \<and> code_unit c \<le> 90 \<or> 48 \<le> code_unit c \<and> code_unit c \<le> 57 \<or> code_unit c = 95"

text \<open>The \<open>code\<close> of an error is a string or absent.\<close>

definition safeErrorCode :: "string option \<Rightarrow> string" where
  "safeErrorCode code =
     (case code of
        Some c \<Rightarrow> if c \<noteq> [] \<and> list_all code_char c then c else ''CHECK_FAILED''
      | None \<Rightarrow> ''CHECK_FAILED'')"

lemma safe_code_is_plain: "safeErrorCode code \<noteq> [] \<and> list_all code_char (safeErrorCode code)"
  by (auto simp: safeErrorCode_def code_char_def code_unit_def split: option.split)

section \<open>The migration\<close>

datatype client_call = Connect | Query string | EndClient

text \<open>A client answers a call, or throws an error with its code.\<close>

type_synonym 't client = "client_call \<Rightarrow> 't \<Rightarrow> (string option + jsval) \<times> 't"

definition recorded_client :: "'t client \<Rightarrow> ('t \<times> client_call list) client" where
  "recorded_client client c = (\<lambda>(s, cs). case client c s of (r, s') \<Rightarrow> (r, (s', cs @ [c])))"

definition then_query :: "'t client \<Rightarrow> client_call \<Rightarrow> (jsval \<Rightarrow> 't \<Rightarrow> (string option + unit) \<times> 't)
    \<Rightarrow> 't \<Rightarrow> (string option + unit) \<times> 't" where
  "then_query client c f s = (case client c s of (Inl e, s') \<Rightarrow> (Inl e, s') | (Inr v, s') \<Rightarrow> f v s')"

definition connected_row :: "jsval \<Rightarrow> bool" where
  "connected_row answer \<longleftrightarrow>
     (case js_get answer ''rows'' of JArr (row # rows) \<Rightarrow> js_get row ''connected'' = JInt 1 | _ \<Rightarrow> False)"

text \<open>The statements, from the connection on; \<open>migration\<close> is the text of the SQL file.\<close>

definition run_statements :: "bool \<Rightarrow> string \<Rightarrow> 't client \<Rightarrow> 't \<Rightarrow> (string option + unit) \<times> 't" where
  "run_statements apply_it migration client =
     then_query client Connect (\<lambda>_.
     then_query client (Query ''SELECT 1 AS connected'') (\<lambda>answer s.
       if \<not> connected_row answer then (Inl None, s)
       else if \<not> apply_it then (Inr (), s)
       else then_query client (Query ''BEGIN'') (\<lambda>_.
         then_query client (Query migration) (\<lambda>_.
         then_query client (Query ''COMMIT'') (\<lambda>_ s. (Inr (), s)))) s))"

text \<open>
  The script: the code it prints when it fails, \<open>None\<close> when it succeeds. A failure before the client exists
  asks nothing of it; later ones roll back, and the client is ended in every case.
\<close>

definition database_main ::
  "url_tools \<Rightarrow> string option \<Rightarrow> coded_error + string option \<Rightarrow> string \<Rightarrow> 't client \<Rightarrow> 't
     \<Rightarrow> string option \<times> 't" where
  "database_main tools action env_file migration client s =
     (if action \<notin> {Some ''check'', Some ''apply''} then (Some ''CHECK_FAILED'', s)
      else (case databaseUrl tools env_file of
          Inl e \<Rightarrow> (Some (safeErrorCode (ce_code e)), s)
        | Inr url \<Rightarrow>
            (case run_statements (action = Some ''apply'') migration client s of
               (Inr _, s1) \<Rightarrow> (None, snd (client EndClient s1))
             | (Inl code, s1) \<Rightarrow>
                 (Some (safeErrorCode code), snd (client EndClient (snd (client (Query ''ROLLBACK'') s1)))))))"

lemma recorded_step:
  "\<exists>r s'. client c s = (r, s') \<and> recorded_client client c (s, cs) = (r, (s', cs @ [c]))"
  by (cases "client c s") (simp add: recorded_client_def)

lemma then_query_cases:
  obtains (thrown) e s' where "then_query (recorded_client client) c f (s, cs) = (Inl e, (s', cs @ [c]))"
  | (answered) v s' where "then_query (recorded_client client) c f (s, cs) = f v (s', cs @ [c])"
proof -
  obtain r s' where "recorded_client client c (s, cs) = (r, (s', cs @ [c]))"
    using recorded_step [of client c s cs] by blast
  then show thesis by (cases r) (auto simp: then_query_def intro: that)
qed

definition all_statements :: "string \<Rightarrow> client_call list" where
  "all_statements migration =
     [Connect, Query ''SELECT 1 AS connected'', Query ''BEGIN'', Query migration, Query ''COMMIT'']"

text \<open>What was asked when the statements ended: all of them, or the first ones.\<close>

definition asked_in_order ::
  "bool \<Rightarrow> string \<Rightarrow> (string option + unit) \<times> ('t \<times> client_call list) \<Rightarrow> bool" where
  "asked_in_order apply_it migration res \<longleftrightarrow>
     (case res of (r, (s, cs)) \<Rightarrow> \<exists>n. 1 \<le> n \<and> n \<le> (if apply_it then 5 else 2)
        \<and> cs = take n (all_statements migration) \<and> (r = Inr () \<longrightarrow> n = (if apply_it then 5 else 2)))"

lemma asked_so_far:
  "1 \<le> n \<Longrightarrow> n \<le> (if apply_it then 5 else 2) \<Longrightarrow> r = Inr () \<longrightarrow> n = (if apply_it then 5 else 2) \<Longrightarrow>
   asked_in_order apply_it migration (r, (s, take n (all_statements migration)))"
  by (auto simp: asked_in_order_def)

lemma asked_next:
  assumes "n < (if apply_it then 5 else 2)" and "all_statements migration ! n = c"
    and "\<And>v s'. asked_in_order apply_it migration (f v (s', take (Suc n) (all_statements migration)))"
  shows "asked_in_order apply_it migration
    (then_query (recorded_client client) c f (s, take n (all_statements migration)))"
proof -
  have "take (Suc n) (all_statements migration) = take n (all_statements migration) @ [c]"
    using assms(1,2) by (subst take_Suc_conv_app_nth) (auto simp: all_statements_def split: if_splits)
  then show ?thesis
    using assms(1,3) asked_so_far [of "Suc n" apply_it "Inl e" migration for e]
    by (cases rule: then_query_cases [of client c f s "take n (all_statements migration)"]) auto
qed

lemma run_statements_in_order:
  "asked_in_order apply_it migration (run_statements apply_it migration (recorded_client client) (s, []))"
proof -
  let ?c = "recorded_client client"
  have all_asked: "asked_in_order apply_it migration (Inr (), (s, take 5 (all_statements migration)))"
    if apply_it for s :: 'a
    by (rule asked_so_far) (use that in simp_all)
  have commit: "asked_in_order apply_it migration (then_query ?c (Query ''COMMIT'') (\<lambda>_ s. (Inr (), s))
      (s, take 4 (all_statements migration)))" if apply_it for s
    using all_asked [OF that] by - (rule asked_next, use that in \<open>simp_all add: all_statements_def\<close>)
  have migrate: "asked_in_order apply_it migration (then_query ?c (Query migration) (\<lambda>_.
      then_query ?c (Query ''COMMIT'') (\<lambda>_ s. (Inr (), s))) (s, take 3 (all_statements migration)))"
    if apply_it for s
    using commit [OF that] by - (rule asked_next, use that in \<open>simp_all add: all_statements_def\<close>)
  have begun: "asked_in_order apply_it migration (then_query ?c (Query ''BEGIN'') (\<lambda>_.
      then_query ?c (Query migration) (\<lambda>_. then_query ?c (Query ''COMMIT'') (\<lambda>_ s. (Inr (), s))))
      (s, take 2 (all_statements migration)))" if apply_it for s
    using migrate [OF that] by - (rule asked_next, use that in \<open>simp_all add: all_statements_def\<close>)
  let ?k = "\<lambda>answer s. if \<not> connected_row answer then (Inl None, s) else if \<not> apply_it then (Inr (), s)
      else then_query ?c (Query ''BEGIN'') (\<lambda>_. then_query ?c (Query migration) (\<lambda>_.
        then_query ?c (Query ''COMMIT'') (\<lambda>_ s. (Inr (), s)))) s"
  have selected: "asked_in_order apply_it migration (then_query ?c (Query ''SELECT 1 AS connected'') ?k
      (s, take 1 (all_statements migration)))" for s
  proof (rule asked_next)
    fix v s'
    have "asked_in_order apply_it migration (?k v (s', take 2 (all_statements migration)))"
      using begun [of s'] asked_so_far [of 2 apply_it _ migration s'] by (cases apply_it) auto
    then show "asked_in_order apply_it migration (?k v (s', take (Suc 1) (all_statements migration)))"
      by (simp only: Suc_1)
  qed (simp_all add: all_statements_def)
  have "asked_in_order apply_it migration (then_query ?c Connect
      (\<lambda>_. then_query ?c (Query ''SELECT 1 AS connected'') ?k) (s, take 0 (all_statements migration)))"
    using selected by - (rule asked_next, simp_all add: all_statements_def)
  then show ?thesis by (simp add: run_statements_def)
qed

text \<open>
  What the script asks of the client: nothing when it is refused before; otherwise the statements in order up
  to the first that fails, a rollback exactly when one failed, and the end of the client in any case.
\<close>

lemma database_session:
  assumes "database_main tools action env_file migration (recorded_client client) (s, []) = (code, (s', cs))"
  shows "cs = [] \<and> code \<noteq> None
    \<or> (\<exists>n. 1 \<le> n \<and> n \<le> (if action = Some ''apply'' then 5 else 2)
        \<and> cs = take n (all_statements migration)
            @ (if code = None then [] else [Query ''ROLLBACK'']) @ [EndClient]
        \<and> (code = None \<longrightarrow> n = (if action = Some ''apply'' then 5 else 2)))"
proof (cases "action \<in> {Some ''check'', Some ''apply''} \<and> (\<exists>url. databaseUrl tools env_file = Inr url)")
  case False
  with assms show ?thesis by (auto simp: database_main_def split: sum.splits if_splits)
next
  case True
  obtain r s1 cs1 where run: "run_statements (action = Some ''apply'') migration (recorded_client client) (s, [])
      = (r, (s1, cs1))" by (metis prod.exhaust)
  from run_statements_in_order [of "action = Some ''apply''" migration client s] run
  obtain n where n: "1 \<le> n" "n \<le> (if action = Some ''apply'' then 5 else 2)"
    "cs1 = take n (all_statements migration)" "r = Inr () \<longrightarrow> n = (if action = Some ''apply'' then 5 else 2)"
    by (auto simp: asked_in_order_def)
  have appended: "snd (snd (recorded_client client c (t, ts))) = ts @ [c]" for c t ts
    by (simp add: recorded_client_def case_prod_beta)
  show ?thesis
  proof (cases r)
    case (Inl e)
    with True run assms have "code = Some (safeErrorCode e)"
      and "cs = cs1 @ [Query ''ROLLBACK''] @ [EndClient]"
      by (auto simp: database_main_def recorded_client_def case_prod_beta)
    with n show ?thesis by auto
  next
    case (Inr u)
    with True run assms have "code = None" and "cs = cs1 @ [EndClient]"
      by (auto simp: database_main_def recorded_client_def case_prod_beta)
    with n Inr show ?thesis by auto
  qed
qed

section \<open>The check of the packed store\<close>

definition within_directory :: "string \<Rightarrow> string \<Rightarrow> js_exn + unit" where
  "within_directory base target =
     (let relative = path_relative base target
      in if relative = [] \<or> starts_with relative ''..'' \<or> path_is_absolute relative
         then Inl (JSError ''Unsafe temporary path'') else Inr ())"

text \<open>A failed command; of a child that may print database errors nothing is passed on.\<close>

definition command_failure :: "bool \<Rightarrow> spawn_call \<Rightarrow> process_result \<Rightarrow> js_exn" where
  "command_failure redact c r =
     (if redact then JSError ''Packed PostgreSQL smoke failed; raw errors withheld''
      else JSError (''Verification command failed: '' @ hd (sc_args c) @ newline
        @ (case pr_stdout r of Some out \<Rightarrow> out | None \<Rightarrow> []) @ newline
        @ (case pr_stderr r of Some err \<Rightarrow> err | None \<Rightarrow> [])))"

definition run_command :: "'t machine \<Rightarrow> bool \<Rightarrow> string \<Rightarrow> string list \<Rightarrow> string \<Rightarrow> ('t, string) io" where
  "run_command m redact command args cwd =
     (let c = \<lparr>sc_command = command, sc_args = args, sc_cwd = cwd, sc_piped = True\<rparr>
      in (\<lambda>s. case mc_spawn m c s of (r, s') \<Rightarrow>
            (if pr_error r \<noteq> None \<or> pr_status r \<noteq> Some 0 then Inl (command_failure redact c r)
             else Inr (case pr_stdout r of Some out \<Rightarrow> out | None \<Rightarrow> []), s')))"

lemma redacted_failure_is_constant:
  assumes "run_command m True command args cwd s = (Inl e, s')"
  shows "e = JSError ''Packed PostgreSQL smoke failed; raw errors withheld''"
  using assms by (auto simp: run_command_def command_failure_def Let_def split: prod.splits if_splits)

definition run_npm :: "'t machine \<Rightarrow> check_env \<Rightarrow> string list \<Rightarrow> string \<Rightarrow> ('t, string) io" where
  "run_npm m env args cwd =
     run_command m False (ck_execPath env) ((case ck_npmCli env of Some p \<Rightarrow> p | None \<Rightarrow> []) # args) cwd"

definition assertIO :: "bool \<Rightarrow> string \<Rightarrow> ('t, unit) io" where
  "assertIO b message = liftIO (if b then Inr () else Inl (JSError message))"

text \<open>The names that \<open>tar\<close> lists, without the directory of the archive, sorted.\<close>

definition strip_cr :: "string \<Rightarrow> string" where
  "strip_cr s = (if s \<noteq> [] \<and> last s = CHR 0x0D then butlast s else s)"

definition listed_files :: "string \<Rightarrow> string list" where
  "listed_files out =
     sort (map (\<lambda>name. if starts_with name ''package/'' then drop 8 name else name)
       (map strip_cr (js_split CHR 0x0A (js_trim out))))"

definition expected_files :: "string list" where
  "expected_files = [''LICENSE'', ''README.md'', ''dist/index.d.ts'', ''dist/index.js'', ''package.json'',
     ''sql/001_access_receipts.sql'']"

definition expected_packages :: "string list" where
  "expected_packages = [''node_modules/@fiberlatch/access'', ''node_modules/@fiberlatch/postgres-store'',
     ''node_modules/jose'', ''node_modules/zod'']"

text \<open>\<open>const [packed] = JSON.parse(\<dots>)\<close> and its checked name, version and file name.\<close>

definition packed_filename :: "jsval \<Rightarrow> js_exn + string" where
  "packed_filename parsed =
     (case parsed of
        JArr (packed # _) \<Rightarrow>
          if packed = JNull \<or> packed = JUndef then Inl (JSTypeError ''Cannot read properties of undefined'')
          else if js_get packed ''name'' \<noteq> JStr ''@fiberlatch/postgres-store'' then Inl (JSError ''name'')
          else if js_get packed ''version'' \<noteq> JStr ''0.1.0'' then Inl (JSError ''version'')
          else (case js_get packed ''filename'' of
              JStr filename \<Rightarrow> Inr filename
            | _ \<Rightarrow> Inl (JSTypeError ''The path argument must be of type string''))
      | _ \<Rightarrow> Inl (JSTypeError ''not iterable''))"

definition archive_checked ::
  "'t machine \<Rightarrow> (string \<Rightarrow> js_exn + jsval) \<Rightarrow> check_env \<Rightarrow> string \<Rightarrow> ('t, string) io" where
  "archive_checked m json_parse env tempRoot =
     bindIO (files_unit m (MakeDirectory (path_join tempRoot ''pack''))) (\<lambda>_.
     bindIO (files_unit m (MakeDirectory (path_join tempRoot ''consumer''))) (\<lambda>_.
     bindIO (run_npm m env [''pack'', ''--json'', ''--pack-destination'', path_join tempRoot ''pack'']
       (ck_packageDir env)) (\<lambda>out.
     bindIO (liftIO (bindE (json_parse out) packed_filename)) (\<lambda>filename.
     bindIO (liftIO (within_directory (path_join tempRoot ''pack'')
       (path_join (path_join tempRoot ''pack'') filename))) (\<lambda>_.
     bindIO (run_command m False ''tar'' [''-tzf'', path_join (path_join tempRoot ''pack'') filename]
       (path_join tempRoot ''pack'')) (\<lambda>listing.
     bindIO (assertIO (listed_files listing = expected_files) ''files'') (\<lambda>_.
     bindIO (files_unit m (ReadText (path_join (path_join tempRoot ''pack'') filename))) (\<lambda>_.
     liftIO (Inr (path_join (path_join tempRoot ''pack'') filename))))))))))"

definition runtime_installed ::
  "'t machine \<Rightarrow> (string \<Rightarrow> js_exn + jsval) \<Rightarrow> check_env \<Rightarrow> string \<Rightarrow> string \<Rightarrow> string \<Rightarrow> ('t, unit) io" where
  "runtime_installed m json_parse env consumer installed archive =
     bindIO (files_unit m (WriteText (path_join consumer ''package.json'')
       ''{\"private\":true,\"type\":\"module\"}'')) (\<lambda>_.
     bindIO (run_npm m env [''install'', ''--ignore-scripts'', ''--no-audit'', ''--no-fund'', archive,
       ''@fiberlatch/access@0.1.1''] consumer) (\<lambda>_.
     bindIO (mc_files m (IsSymbolicLink installed)) (\<lambda>link.
     bindIO (assertIO (\<not> js_truthy link) ''Tarball must not resolve through a workspace link'') (\<lambda>_.
     bindIO (files_text m (ReadText (path_join installed ''package.json''))) (\<lambda>text.
     bindIO (liftIO (json_parse text)) (\<lambda>metadata.
     bindIO (assertIO (js_get metadata ''dependencies'' \<in> {JUndef, JNull, JObj [] []}) ''dependencies'') (\<lambda>_.
     bindIO (assertIO (js_get metadata ''peerDependencies'' = JObj [(''@fiberlatch/access'', JStr ''0.1.1'')] [])
       ''peerDependencies'') (\<lambda>_.
     bindIO (files_text m (ReadText (path_join consumer ''package-lock.json''))) (\<lambda>lockText.
     bindIO (liftIO (json_parse lockText)) (\<lambda>lock.
     assertIO (sort (filter (\<lambda>k. k \<noteq> []) (object_keys (js_get lock ''packages''))) = expected_packages)
       ''packages''))))))))))"

definition consumers_run ::
  "'t machine \<Rightarrow> check_env \<Rightarrow> string \<Rightarrow> string \<Rightarrow> ('t, unit) io" where
  "consumers_run m env consumer installed =
     bindIO (each (\<lambda>name. files_unit m (CopyFile
         (path_join (path_join (ck_packageDir env) ''test-consumers'') name) (path_join consumer name)))
       [''runtime.mjs'', ''types.mts'', ''postgres.mjs'']) (\<lambda>_.
     bindIO (files_text m (ReadText (path_join installed ''sql/001_access_receipts.sql''))) (\<lambda>shipped.
     bindIO (files_text m (ReadText (path_join (ck_packageDir env) ''sql/001_access_receipts.sql''))) (\<lambda>source.
     bindIO (assertIO (shipped = source) ''sql'') (\<lambda>_.
     bindIO (run_command m False (ck_execPath env) [''runtime.mjs''] consumer) (\<lambda>_.
     bindIO (run_npm m env [''install'', ''--save-dev'', ''--ignore-scripts'', ''--no-audit'', ''--no-fund'',
       ''typescript@5.9.3'', ''@types/node@22.19.19'', ''pg@8.23.1'', ''@types/pg@8.20.0''] consumer) (\<lambda>_.
     bindIO (files_unit m (CopyFile (path_join consumer ''types.mts'') (path_join consumer ''types.cts''))) (\<lambda>_.
     bindIO (run_command m False (ck_execPath env) [''node_modules/typescript/bin/tsc'', ''--noEmit'', ''--strict'',
       ''--module'', ''NodeNext'', ''--moduleResolution'', ''NodeNext'', ''--target'', ''ES2022'', ''types.mts'',
       ''types.cts''] consumer) (\<lambda>_. liftIO (Inr ())))))))))"

text \<open>
  With \<open>--neon\<close> (\<open>Some\<close> of what \<open>databaseUrl\<close> returns) the database consumer runs last; the URL is passed to the child in its environment, which
  the calls of the model leave out.
\<close>

definition package_checked ::
  "'t machine \<Rightarrow> (string \<Rightarrow> js_exn + jsval) \<Rightarrow> check_env \<Rightarrow> (coded_error + string) option \<Rightarrow> string
     \<Rightarrow> ('t, unit) io" where
  "package_checked m json_parse env neon tempRoot =
     bindIO (liftIO (within_directory (ck_tmpdir env) tempRoot)) (\<lambda>_.
     bindIO (assertIO (\<not> starts_with tempRoot (ck_packageDir env)) ''Consumer must be outside the package'') (\<lambda>_.
     bindIO (archive_checked m json_parse env tempRoot) (\<lambda>archive.
     bindIO (runtime_installed m json_parse env (path_join tempRoot ''consumer'')
       (path_join tempRoot ''consumer/node_modules/@fiberlatch/postgres-store'') archive) (\<lambda>_.
     bindIO (consumers_run m env (path_join tempRoot ''consumer'')
       (path_join tempRoot ''consumer/node_modules/@fiberlatch/postgres-store'')) (\<lambda>_.
     case neon of
       None \<Rightarrow> liftIO (Inr ())
     | Some url \<Rightarrow>
         bindIO (liftIO (case url of Inl e \<Rightarrow> Inl (JSError (ce_message e)) | Inr u \<Rightarrow> Inr u)) (\<lambda>_.
         bindIO (run_command m True (ck_execPath env) [''postgres.mjs''] (path_join tempRoot ''consumer''))
           (\<lambda>_. liftIO (Inr ()))))))))"

definition base_segment :: "string \<Rightarrow> string" where
  "base_segment p = (if path_segments p = [] then [] else last (path_segments p))"

definition store_clean_up :: "'t machine \<Rightarrow> check_env \<Rightarrow> string \<Rightarrow> ('t, unit) io" where
  "store_clean_up m env tempRoot =
     bindIO (liftIO (within_directory (ck_tmpdir env) tempRoot)) (\<lambda>_.
     bindIO (assertIO (starts_with (base_segment tempRoot) ''fiberlatch-postgres-store-'') ''basename'') (\<lambda>_.
     files_unit m (RemoveTree tempRoot)))"

text \<open>The error of the body is reported by the exit code: \<open>Some\<close> of it, or \<open>None\<close>.\<close>

definition caught :: "('t, unit) io \<Rightarrow> ('t, js_exn option) io" where
  "caught p = (\<lambda>s. case p s of (Inl e, s') \<Rightarrow> (Inr (Some e), s') | (Inr _, s') \<Rightarrow> (Inr None, s'))"

definition verify_package ::
  "'t machine \<Rightarrow> (string \<Rightarrow> js_exn + jsval) \<Rightarrow> check_env \<Rightarrow> url_tools
     \<Rightarrow> coded_error + string option \<Rightarrow> bool \<Rightarrow> ('t, js_exn option) io" where
  "verify_package m json_parse env tools env_file neon =
     (if ck_npmCli env = None \<or> ck_npmCli env = Some []
      then liftIO (Inl (JSError ''Run through npm so npm_execpath is available''))
      else bindIO (files_text m (MakeTemporary (path_join (ck_tmpdir env) ''fiberlatch-postgres-store-'')))
        (\<lambda>tempRoot. finallyIO (caught (package_checked m json_parse env
            (if neon then Some (databaseUrl tools env_file) else None) tempRoot))
          (store_clean_up m env tempRoot)))"

text \<open>
  The check removes nothing but its temporary directory, and that only below the directory of temporary
  files; it makes no other directory than the two below it.
\<close>

definition contained :: "check_env \<Rightarrow> string \<Rightarrow> host_call \<Rightarrow> bool" where
  "contained env tempRoot c \<longleftrightarrow>
     (case c of
        Files (RemoveTree p) \<Rightarrow>
          p = tempRoot \<and> (\<exists>rest. path_segments p = path_segments (ck_tmpdir env) @ rest)
      | Files (RemoveFile p) \<Rightarrow> False
      | Files (MakeDirectory p) \<Rightarrow> p \<in> {path_join tempRoot ''pack'', path_join tempRoot ''consumer''}
      | Files (WriteText p t) \<Rightarrow> p = path_join (path_join tempRoot ''consumer'') ''package.json''
      | Files (CopyTree src dst) \<Rightarrow> False
      | _ \<Rightarrow> True)"

lemma within_directory_below:
  "within_directory base target = Inr u \<Longrightarrow> \<exists>rest. path_segments target = path_segments base @ rest"
  by (auto simp: within_directory_def path_relative_def Let_def split: if_splits dest: relative_below)

lemma asks_command: "(\<And>c. P (Spawn c)) \<Longrightarrow> asks P (run_command (recorded m) redact command args cwd)"
  by (simp add: asks_def run_command_def recorded_def case_prod_beta Let_def)

lemma asks_run_npm: "(\<And>c. P (Spawn c)) \<Longrightarrow> asks P (run_npm (recorded m) env args cwd)"
  unfolding run_npm_def by (rule asks_command)

lemma asks_assert: "asks P (assertIO b message)"
  by (simp add: assertIO_def)

lemmas asks_rules = asks_bind asks_lift asks_assert asks_files asks_files_unit asks_files_text asks_command
  asks_run_npm asks_each

lemma archive_contained: "asks (contained env tempRoot) (archive_checked (recorded m) json_parse env tempRoot)"
  unfolding archive_checked_def by (intro asks_rules) (simp_all add: contained_def)

lemma runtime_contained:
  "asks (contained env tempRoot)
     (runtime_installed (recorded m) json_parse env (path_join tempRoot ''consumer'') installed archive)"
  unfolding runtime_installed_def by (intro asks_rules) (simp_all add: contained_def)

lemma consumers_contained: "asks (contained env tempRoot) (consumers_run (recorded m) env consumer installed)"
  unfolding consumers_run_def by (intro asks_rules) (simp_all add: contained_def)

lemma package_contained: "asks (contained env tempRoot) (package_checked (recorded m) json_parse env neon tempRoot)"
  unfolding package_checked_def
  by (intro asks_rules archive_contained runtime_contained consumers_contained)
    (auto simp: contained_def split: option.split intro!: asks_rules)

lemma clean_up_contained: "asks (contained env tempRoot) (store_clean_up (recorded m) env tempRoot)"
proof (cases "within_directory (ck_tmpdir env) tempRoot")
  case (Inl e)
  then have "store_clean_up (recorded m) env tempRoot = liftIO (Inl e)"
    by (simp add: store_clean_up_def bindIO_def liftIO_def fun_eq_iff)
  then show ?thesis by simp
next
  case (Inr u)
  from within_directory_below [OF this] show ?thesis
    unfolding store_clean_up_def by (intro asks_rules) (simp add: contained_def)
qed

lemma asks_caught: "asks P p \<Longrightarrow> asks P (caught p)"
  by (auto simp: asks_def caught_def case_prod_beta split: sum.split)

lemma store_check_is_contained:
  "asks (contained env tempRoot) (finallyIO (caught (package_checked (recorded m) json_parse env neon tempRoot))
     (store_clean_up (recorded m) env tempRoot))"
  by (intro asks_finally asks_caught package_contained clean_up_contained)

end
