(* ===== verification/Token_Delivery.thy ===== *)
theory Token_Delivery
  imports Http_Properties
begin

text \<open>
  Who is handed the signed token of a receipt. The service returns it only from the creation that issues
  the receipt; the database keeps its hash. With a real Fiber client a creation never issues: the receipt
  follows from a reconciliation, which has nobody to hand a token to. \<open>yields\<close> says what a program can
  return, whatever state its steps find.
\<close>

section \<open>What a program can return\<close>

primrec yields :: "('r \<Rightarrow> bool) \<Rightarrow> ('d, 'r) prog \<Rightarrow> bool" where
  "yields P (Return r) = P r"
| "yields P (Step f) = (\<forall>d. fst (map_prod (yields P) id (f d)))"

lemma yields_Step_D: "yields P (Step f) \<Longrightarrow> f d = (p, d') \<Longrightarrow> yields P p"
  by (metis fst_conv map_prod_simp yields.simps(2))

lemma yields_StepI: "(\<And>d p d'. f d = (p, d') \<Longrightarrow> yields P p) \<Longrightarrow> yields P (Step f)"
  by (metis fst_map_prod prod.collapse yields.simps(2))

declare yields.simps(2) [simp del]

lemma yields_bindP: "(\<And>a. yields P (k a)) \<Longrightarrow> yields P (bindP p k)"
proof (induction p)
  case (Step f)
  show ?case
    unfolding bindP.simps
  proof (rule yields_StepI)
    fix d q d'
    assume "map_prod (\<lambda>p. bindP p k) id (f d) = (q, d')"
    then obtain p where p: "f d = (p, d')" "q = bindP p k" by (cases "f d") simp
    with Step.IH [of "f d" p] Step.prems show "yields P q" using rangeI [of f d] by auto
  qed
qed simp

lemma yields_bindP_Return: "yields (\<lambda>a. P (g a)) p \<Longrightarrow> yields P (bindP p (\<lambda>a. Return (g a)))"
proof (induction p)
  case (Step f)
  show ?case
    unfolding bindP.simps
  proof (rule yields_StepI)
    fix d q d'
    assume "map_prod (\<lambda>p. bindP p (\<lambda>a. Return (g a))) id (f d) = (q, d')"
    then obtain p where p: "f d = (p, d')" "q = bindP p (\<lambda>a. Return (g a))" by (cases "f d") simp
    with Step.IH [of "f d" p] yields_Step_D [OF Step.prems p(1)] show "yields P q"
      using rangeI [of f d] by auto
  qed
qed simp

lemma yields_mono: "yields P p \<Longrightarrow> (\<And>r. P r \<Longrightarrow> Q r) \<Longrightarrow> yields Q p"
proof (induction p)
  case (Step f)
  show ?case
  proof (rule yields_StepI)
    fix d p d'
    assume p: "f d = (p, d')"
    with Step.IH [of "f d" p] yields_Step_D [OF Step.prems(1) p] Step.prems(2) show "yields Q p"
      using rangeI [of f d] by auto
  qed
qed simp

lemma yields_run: "yields P p \<Longrightarrow> P (fst (run p d))"
proof (induction p arbitrary: d)
  case (Step f)
  obtain q d' where f: "f d = (q, d')" by fastforce
  with Step.IH [of "f d" q d'] yields_Step_D [OF Step.prems f] show ?case
    using rangeI [of f d] by auto
qed simp

lemma yields_act: "(\<And>d. P (fst (op d))) \<Longrightarrow> yields P (act op)"
  unfolding act_def by (rule yields_StepI) (metis fst_conv fst_map_prod yields.simps(1))

text \<open>A program that throws, or returns what satisfies \<open>P\<close>.\<close>

definition delivers :: "('a \<Rightarrow> bool) \<Rightarrow> ('d, 'e + 'a) prog \<Rightarrow> bool" where
  "delivers P p \<longleftrightarrow> yields (case_sum (\<lambda>e. True) P) p"

lemma delivers_returnP [simp]: "delivers P (returnP a) \<longleftrightarrow> P a"
  by (simp add: delivers_def returnP_def)

lemma delivers_throwP [simp]: "delivers P (throwP e)"
  by (simp add: delivers_def throwP_def)

lemma delivers_andThen [intro]: "(\<And>a. delivers P (k a)) \<Longrightarrow> delivers P (andThen p k)"
  unfolding delivers_def andThen_def by (rule yields_bindP) (simp split: sum.split)

lemma delivers_transaction [intro]: "delivers P p \<Longrightarrow> delivers P (transaction rollback commit p)"
  unfolding delivers_def transaction_def
proof (rule yields_act)
  fix d
  assume "yields (case_sum (\<lambda>e. True) P) p"
  from yields_run [OF this, of d] show "case_sum (\<lambda>e. True) P (fst (case run p d of
      (Inl e, d') \<Rightarrow> (Inl e, rollback d d')
    | (Inr a, d') \<Rightarrow> (case commit d d' of (Inl e, d'') \<Rightarrow> (Inl e, d'') | (Inr _, d'') \<Rightarrow> (Inr a, d''))))"
    by (auto split: prod.split sum.split)
qed

text \<open>No interleaving lets a program return anything else.\<close>

lemma pool_yields:
  assumes "pool_reachable entry others d0 ps d" and "\<And>p. entry p \<Longrightarrow> yields P p"
  shows "list_all (yields P) ps"
  using assms(1)
proof (induction rule: pool_reachable.induct)
  case (step ps d i f p d')
  then have "yields P p" by (metis list_all_length yields_Step_D)
  with step.IH show ?case
    by (auto simp: list_all_iff dest: set_update_subset_insert [THEN subsetD])
qed (use assms(2) in auto)

lemma pool_never:
  assumes "pool_reachable entry others d0 ps d" and "\<And>p. entry p \<Longrightarrow> yields (\<lambda>r. \<not> bad r) p"
  shows "finished bad ps = 0"
proof -
  have "\<not> is_finished bad p" if "p \<in> set ps" for p
    using pool_yields [OF assms] that by (cases p) (auto simp: list_all_iff)
  then show ?thesis by (simp add: finished_def filter_empty_conv)
qed

section \<open>The views of the service\<close>

definition without_token :: "intent_view \<Rightarrow> bool" where
  "without_token v \<longleftrightarrow> (case nv_accessReceipt v of None \<Rightarrow> True | Some a \<Rightarrow> av_receiptToken a = None)"

lemma view_without_token [simp]: "without_token (toAccessIntentView i None receipt)"
  by (cases receipt) (simp_all add: without_token_def toAccessIntentView_def receipt_view_of_def)

lemma lookup_without_token:
  "delivers (\<lambda>found. case found of None \<Rightarrow> True | Some v \<Rightarrow> without_token v) (getAccessIntent service i)"
  unfolding getAccessIntent_def by (rule delivers_andThen) (simp split: option.split)

lemma created_without_token: "delivers (\<lambda>r. without_token (cr_accessIntent r)) (returnCreated i)"
  by (simp add: returnCreated_def)

text \<open>With a real client a creation issues no receipt, whatever the node answers.\<close>

lemma conclusion_without_token:
  assumes "fls_mode service = RealMode"
  shows "delivers (\<lambda>r. without_token (cr_accessIntent r)) (concludeCreation service env input policy issuedAt fv i)"
  unfolding concludeCreation_def Let_def using assms by (auto intro!: delivers_andThen created_without_token)

lemma creation_without_token:
  assumes "fls_mode service = RealMode"
  shows "delivers (\<lambda>r. without_token (cr_accessIntent r)) (createAccessIntent service env input)"
proof -
  have verified: "delivers (\<lambda>r. without_token (cr_accessIntent r)) (createVerifiedIntent service env input policy fv)"
    for policy fv
    unfolding createVerifiedIntent_def Let_def
    by (auto intro!: delivers_andThen conclusion_without_token [OF assms] split: sum.split)
  show ?thesis
    unfolding createAccessIntent_def inTransaction_def createIntentBody_def Let_def
    by (auto intro!: delivers_transaction delivers_andThen verified split: option.split sum.split)
qed

section \<open>The replies of the application\<close>

definition carries_token :: "app_reply \<Rightarrow> bool" where
  "carries_token reply \<longleftrightarrow>
     js_typeof (js_get (js_get (js_get (reply_body reply) ''accessIntent'') ''accessReceipt'') ''receiptToken'')
       = ''string''"

lemma error_without_token: "\<not> carries_token (errorHandler e)"
  by (cases e) (simp_all add: carries_token_def js_get_def)

text \<open>A field of a parsed object is the parsed field.\<close>

lemma output_field:
  assumes "map_of shape k = Some t" and "\<not> left_out t (js_get v k)"
  shows "js_get (zod_output (ZObject shape) v) k = zod_output t (js_get v k)"
proof -
  have "map_of (zod_output_fields shape v) k = Some (zod_output t (js_get v k))"
    using assms by (induction shape) (auto split: if_splits)
  then show ?thesis by simp
qed

lemma intent_schema_fields:
  "js_get (zod_output (ZObject [(''accessIntent'', AccessIntentSchema)]) v) ''accessIntent''
     = zod_output AccessIntentSchema (js_get v ''accessIntent'')"
  "js_get (zod_output AccessIntentSchema v) ''accessReceipt''
     = zod_output (ZNullable AccessReceiptSummarySchema) (js_get v ''accessReceipt'')"
  "js_get (zod_output AccessReceiptSummarySchema v) ''receiptToken''
     = zod_output (ZNullable (ZString [])) (js_get v ''receiptToken'')"
  subgoal by (rule output_field) (simp_all add: AccessIntentSchema_def)
  subgoal unfolding AccessIntentSchema_def by (rule output_field) simp_all
  subgoal unfolding AccessReceiptSummarySchema_def by (rule output_field) simp_all
  done

lemma intent_json_fields:
  "js_get (intent_view_json v) ''accessReceipt'' = nullable receipt_view_json (nv_accessReceipt v)"
  "js_get (receipt_view_json a) ''receiptToken'' = nullable JStr (av_receiptToken a)"
  by (simp_all add: intent_view_json_def receipt_view_json_def)

lemma sent_view_without_token:
  assumes "without_token v"
  shows "\<not> carries_token \<lparr>reply_status = st, reply_body = zod_output (ZObject [(''accessIntent'', AccessIntentSchema)])
    (JObj [(''accessIntent'', intent_view_json v)] [])\<rparr>"
proof -
  have "js_get (JObj [(''accessIntent'', intent_view_json v)] []) ''accessIntent'' = intent_view_json v" by simp
  then have *: "carries_token \<lparr>reply_status = st, reply_body = zod_output (ZObject [(''accessIntent'', AccessIntentSchema)])
      (JObj [(''accessIntent'', intent_view_json v)] [])\<rparr> \<longleftrightarrow>
    js_typeof (js_get (zod_output (ZNullable AccessReceiptSummarySchema)
      (nullable receipt_view_json (nv_accessReceipt v))) ''receiptToken'') = ''string''"
    unfolding carries_token_def app_reply.simps intent_schema_fields by (simp only: intent_json_fields)
  show ?thesis
  proof (cases "nv_accessReceipt v")
    case None
    then show ?thesis unfolding * by (simp add: js_get_def)
  next
    case (Some a)
    with assms have "av_receiptToken a = None" by (simp add: without_token_def)
    moreover have "zod_output (ZNullable AccessReceiptSummarySchema) (receipt_view_json a)
        = zod_output AccessReceiptSummarySchema (receipt_view_json a)"
      by (simp add: receipt_view_json_def del: zod_output.simps(2))
    ultimately show ?thesis
      unfolding * Some nullable_simps by (simp only: intent_schema_fields intent_json_fields) simp
  qed
qed

text \<open>A response of another schema has no intent.\<close>

lemma output_fields_keys: "(k, w) \<in> set (zod_output_fields shape v) \<Longrightarrow> k \<in> fst ` set shape"
  by (induction shape) (auto split: if_splits)

lemma sent_without_intent:
  assumes "zod_parser d sp" and "send_parsed sp (ZObject shape) st v = Inr reply"
    and "''accessIntent'' \<notin> fst ` set shape"
  shows "\<not> carries_token reply"
proof -
  have "map_of (zod_output_fields shape v) ''accessIntent'' = None"
    using output_fields_keys [of "''accessIntent''" _ shape v] assms(3) by (auto simp: map_of_eq_None_iff)
  then have "js_get (reply_body reply) ''accessIntent'' = JUndef"
    by (simp add: sent_body [OF assms(1,2)] js_get_def)
  then show ?thesis by (simp add: carries_token_def js_get_def)
qed

definition harmless :: "thrown + app_reply \<Rightarrow> bool" where
  "harmless r \<longleftrightarrow> (case r of Inl e \<Rightarrow> True | Inr reply \<Rightarrow> \<not> carries_token reply)"

lemma harmless_sent_intent:
  assumes "zod_parser d sp" and "schema \<in> {CreateAccessIntentResponseSchema, GetAccessIntentResponseSchema}"
    and "without_token v"
  shows "harmless (send_parsed sp schema st (JObj [(''accessIntent'', intent_view_json v)] []))"
proof (cases "send_parsed sp schema st (JObj [(''accessIntent'', intent_view_json v)] [])")
  case (Inr reply)
  from assms(2) have "schema = ZObject [(''accessIntent'', AccessIntentSchema)]"
    by (auto simp: CreateAccessIntentResponseSchema_def GetAccessIntentResponseSchema_def)
  with sent_view_without_token [OF assms(3)] sent_body [OF assms(1) Inr] Inr show ?thesis
    by (simp add: harmless_def carries_token_def)
qed (simp add: harmless_def)

lemma harmless_sent_other:
  assumes "zod_parser d sp"
    and "schema \<in> {VerifyAccessReceiptResponseSchema, RedeemAccessReceiptResponseSchema, JwksResponseSchema,
      HealthResponseSchema}"
  shows "harmless (send_parsed sp schema st v)"
proof (cases "send_parsed sp schema st v")
  case (Inr reply)
  from assms(2) obtain shape where "schema = ZObject shape" "''accessIntent'' \<notin> fst ` set shape"
    by (auto simp: VerifyAccessReceiptResponseSchema_def RedeemAccessReceiptResponseSchema_def
        JwksResponseSchema_def HealthResponseSchema_def)
  with sent_without_intent [OF assms(1)] Inr show ?thesis by (simp add: harmless_def)
qed (simp add: harmless_def)

lemma yields_callService:
  assumes "delivers P p" and "\<And>a. P a \<Longrightarrow> harmless (answer a)"
  shows "yields harmless (callService p answer)"
  unfolding callService_def
  by (rule yields_bindP_Return, rule yields_mono [OF assms(1) [unfolded delivers_def]])
    (use assms(2) in \<open>fastforce simp: harmless_def split: sum.splits\<close>)

lemma delivers_any [simp]: "delivers (\<lambda>a. True) p"
proof -
  have "yields (\<lambda>r. True) p"
  proof (induction p)
    case (Step f)
    show ?case
    proof (rule yields_StepI)
      fix d p d'
      assume "f d = (p, d')"
      with Step.IH [of "f d" p] show "yields (\<lambda>r. True) p" using rangeI [of f d] by auto
    qed
  qed simp
  then show ?thesis unfolding delivers_def by (rule yields_mono) (simp split: sum.split)
qed

lemma handler_harmless:
  assumes sp: "zod_parser Zod3 sp" and mode: "fls_mode (app_service app) = RealMode"
  shows "yields harmless (handler sp app env request)"
proof (cases request)
  case (PostAccessIntents body)
  have "yields harmless (callService (createAccessIntent (app_service app) (re_call env) input)
      (\<lambda>res. send_parsed sp CreateAccessIntentResponseSchema (if cr_created res then 201 else 200)
         (JObj [(''accessIntent'', intent_view_json (cr_accessIntent res))] [])))" for input
    by (rule yields_callService [OF creation_without_token [OF mode]]) (simp add: harmless_sent_intent [OF sp])
  with PostAccessIntents show ?thesis
    by (simp add: postAccessIntents_def throwP_def harmless_def split: sum.split)
next
  case (GetAccessIntent param)
  have "harmless (Inr \<lparr>reply_status = 404, reply_body = JObj
      [(''error'', JStr ''Not Found''), (''message'', JStr ''Access intent not found'')] []\<rparr>)"
    by (simp add: harmless_def carries_token_def js_get_def)
  with GetAccessIntent show ?thesis
    by (auto simp: getAccessIntentRoute_def harmless_sent_intent [OF sp] intro!: yields_callService [OF lookup_without_token]
        split: option.splits)
next
  case (PostReceiptsVerify body)
  then show ?thesis
    by (auto simp: postReceiptsVerify_def throwP_def harmless_sent_other [OF sp] intro!: yields_callService [OF delivers_any]
        split: sum.split) (simp add: harmless_def)
next
  case (PostReceiptsRedeem body)
  then show ?thesis
    by (auto simp: postReceiptsRedeem_def throwP_def harmless_sent_other [OF sp] intro!: yields_callService [OF delivers_any]
        split: sum.split) (simp add: harmless_def)
qed (simp_all add: getJwksRoute_def getHealthRoute_def harmless_sent_other [OF sp])

section \<open>Properties\<close>

text \<open>
  C18: with a real Fiber client no reply of the application hands out a receipt's token, whatever is asked,
  however the requests interleave with each other and with any changes of the database, and whatever the node
  answers: a creation never issues, a lookup never has the token, and the other routes send no intent. The
  receipts that reconciliations issue then have no holder, since the database keeps only the hash of a token.
\<close>

theorem real_mode_hands_out_no_token:
  assumes "zod_parser Zod3 sp" and "fls_mode (app_service app) = RealMode"
    and "pool_reachable (\<lambda>p. \<exists>env request. p = respondTo sp app env request) others d0 ps d"
  shows "finished carries_token ps = 0"
proof (rule pool_never [OF assms(3)])
  fix p
  assume "\<exists>env request. p = respondTo sp app env request"
  then obtain env request where p: "p = respondTo sp app env request" by blast
  show "yields (\<lambda>r. \<not> carries_token r) p"
    unfolding p respondTo_def
    by (rule yields_bindP_Return, rule yields_mono [OF handler_harmless [OF assms(1,2)]])
      (simp add: harmless_def error_without_token split: sum.splits)
qed

definition delivery_app :: "db fiber_latch_app" where
  "delivery_app =
     \<lparr>app_service = sample_service_with RealMode,
      app_signer = \<lparr>ls_sign = (\<lambda>s. Inl (JSError ''not used'')),
        ls_verify = (\<lambda>now token. \<lparr>va_verified = False, va_claims = None, va_reason = None\<rparr>),
        ls_getPublicJwks = JNull\<rparr>\<rparr>"

text \<open>A reconciliation issues the receipt of a paid intent, and the lookup that follows has no token.\<close>

theorem real_mode_hands_out_no_token_witness:
  "\<exists>t reply d'. run (reconcileSingleAccessIntent (app_service delivery_app) (sample_env ''paid'') ''i'') pending_db
       = (Inr OutcomeVerified, t) \<and> map dr_jti (db_receipts t) = [''j'']
     \<and> run (respondTo (zod_reference Zod3) delivery_app sample_request_env (GetAccessIntent (Some ''i''))) t
         = (reply, d') \<and> \<not> carries_token reply"
proof -
  let ?reconcile = "reconcileSingleAccessIntent (app_service delivery_app) (sample_env ''paid'') ''i''"
    and ?p = "respondTo (zod_reference Zod3) delivery_app sample_request_env (GetAccessIntent (Some ''i''))"
  obtain t where t: "run ?reconcile pending_db = (Inr OutcomeVerified, t)" "map dr_jti (db_receipts t) = [''j'']"
    using sample_reconciliation by (auto simp: delivery_app_def)
  obtain reply d' where reply: "run ?p t = (reply, d')" by fastforce
  let ?entry = "\<lambda>p. \<exists>env request. p = respondTo (zod_reference Zod3) delivery_app env request"
    and ?others = "\<lambda>d d'. d' = snd (run ?reconcile d)"
  have "pool_reachable ?entry ?others pending_db [] t"
    by (rule pool_reachable.env [OF pool_reachable.empty]) (simp add: t(1))
  from pool_run [OF this _ reply] have pool: "pool_reachable ?entry ?others pending_db ([] @ [Return reply]) d'"
    by blast
  have "fls_mode (app_service delivery_app) = RealMode" by (simp add: delivery_app_def)
  from real_mode_hands_out_no_token [OF reference.zod_parser_axioms this pool]
  have "\<not> carries_token reply" by (simp add: finished_def split: if_splits)
  with t reply show ?thesis by (intro exI conjI)
qed

end
