(* ===== verification/Record_History.thy ===== *)
theory Record_History
  imports Issuance_Properties
begin

text \<open>
  What becomes of stored rows. No call of the service deletes a row or changes what an intent or a receipt is
  for; events and policies are only added, and a receipt that was closed or used is never reopened or unused.
  \<open>later\<close> is this relation between two states of the tables, and every program of the service keeps it.
\<close>

section \<open>Rows that go on\<close>

text \<open>An intent: its status, the dates of its verification and issuing, and the stored answer may change.\<close>

definition intent_continues :: "intent_row \<Rightarrow> intent_row \<Rightarrow> bool" where
  "intent_continues i j \<longleftrightarrow>
     j = i\<lparr>int_status := int_status j, int_verifiedAt := int_verifiedAt j,
           int_receiptIssuedAt := int_receiptIssuedAt j, int_fiberResponseJson := int_fiberResponseJson j,
           int_updatedAt := int_updatedAt j\<rparr>"

text \<open>A receipt: it may be closed, and its count goes up.\<close>

definition receipt_continues :: "db_receipt \<Rightarrow> db_receipt \<Rightarrow> bool" where
  "receipt_continues r q \<longleftrightarrow>
     q = r\<lparr>dr_status := dr_status q, dr_active := dr_active q, dr_redemptionCount := dr_redemptionCount q,
           dr_redeemedAt := dr_redeemedAt q, dr_exhaustedAt := dr_exhaustedAt q\<rparr>
   \<and> dr_redemptionCount r \<le> dr_redemptionCount q
   \<and> (dr_active q \<longrightarrow> dr_active r) \<and> (dr_status q = ISSUED \<longrightarrow> dr_status r = ISSUED)"

definition later :: "db \<Rightarrow> db \<Rightarrow> bool" where
  "later t t' \<longleftrightarrow>
     (\<exists>es. db_events t' = db_events t @ es) \<and> (\<exists>ps. db_policies t' = db_policies t @ ps)
   \<and> (\<forall>i \<in> set (db_intents t). \<exists>j \<in> set (db_intents t'). intent_continues i j)
   \<and> (\<forall>r \<in> set (db_receipts t). \<exists>q \<in> set (db_receipts t'). receipt_continues r q)"

lemma continues_refl [simp]: "intent_continues i i" "receipt_continues r r"
  by (simp_all add: intent_continues_def receipt_continues_def)

lemma intent_continues_trans: "intent_continues i j \<Longrightarrow> intent_continues j k \<Longrightarrow> intent_continues i k"
  by (cases i; cases j; cases k) (simp add: intent_continues_def)

lemma receipt_continues_trans:
  "receipt_continues r p \<Longrightarrow> receipt_continues p q \<Longrightarrow> receipt_continues r q"
  by (cases r; cases p; cases q) (auto simp: receipt_continues_def)

lemma later_refl [simp]: "later t t"
  by (auto simp: later_def intro: continues_refl)

lemma later_trans:
  assumes "later t u" and "later u v"
  shows "later t v"
proof -
  have "\<exists>es. db_events v = db_events t @ es" "\<exists>ps. db_policies v = db_policies t @ ps"
    using assms by (auto simp: later_def)
  moreover have "\<exists>j \<in> set (db_intents v). intent_continues i j" if "i \<in> set (db_intents t)" for i
    using assms that unfolding later_def by (blast intro: intent_continues_trans)
  moreover have "\<exists>q \<in> set (db_receipts v). receipt_continues r q" if "r \<in> set (db_receipts t)" for r
    using assms that unfolding later_def by (blast intro: receipt_continues_trans)
  ultimately show ?thesis by (simp add: later_def)
qed

text \<open>The effects of the database client on the tables.\<close>

lemma later_additions [simp]:
  "later t (add_event e t)" "later t (add_policy p t)" "later t (add_receipt r t)" "later t (add_intent i t)"
  by (auto simp: later_def intro: continues_refl)

lemma later_change_intent:
  assumes "\<And>i. intent_continues i (f i)"
  shows "later t (change_intent x f t)"
proof -
  have "\<exists>j \<in> set (db_intents (change_intent x f t)). intent_continues i j" if "i \<in> set (db_intents t)" for i
    using that assms by (intro bexI [of _ "if int_id i = x then f i else i"]) auto
  then show ?thesis by (auto simp: later_def intro: continues_refl simp del: intent_effects(1))
qed

lemma later_change_receipts:
  assumes "\<And>r. p r \<Longrightarrow> receipt_continues r (f r)"
  shows "later t (change_receipts p f t)"
proof -
  have "\<exists>q \<in> set (db_receipts (change_receipts p f t)). receipt_continues r q" if "r \<in> set (db_receipts t)" for r
    using that assms by (intro bexI [of _ "if p r then f r else r"]) auto
  then show ?thesis by (auto simp: later_def intro: continues_refl simp del: table_effects(1))
qed

lemma intent_changes_continue [simp]:
  "intent_continues i (stamped now (verified_intent v r) i)"
  "intent_continues i (stamped now (\<lambda>r. r\<lparr>int_status := s\<rparr>) i)"
  "intent_continues i (stamped now (\<lambda>r. r\<lparr>int_fiberResponseJson := x\<rparr>) i)"
  by (simp_all add: intent_continues_def stamped_def verified_intent_def)

lemma receipt_changes_continue [simp]:
  "receipt_continues r (expired_row r)"
  "dr_active r \<Longrightarrow> dr_status r = ISSUED \<Longrightarrow> receipt_continues r (redeemed_row b now r)"
  by (simp_all add: receipt_continues_def expired_row_def redeemed_row_def)

section \<open>The programs of the service\<close>

context prisma_service
begin

lemma keeps_transaction:
  assumes "keeps (\<lambda>d. J (tables d)) p"
  shows "keeps (\<lambda>d. J (tables d)) (transaction (tx_rollback ops) (tx_commit ops) p)"
  unfolding transaction_def
proof (rule keeps_act)
  fix d a d'
  assume J: "J (tables d)"
    and op: "(case run p d of (Inl e, d') \<Rightarrow> (Inl e, tx_rollback ops d d')
      | (Inr a, d') \<Rightarrow> (case tx_commit ops d d' of (Inl e, d'') \<Rightarrow> (Inl e, d'') | (Inr _, d'') \<Rightarrow> (Inr a, d''))) = (a, d')"
  obtain r d1 where p: "run p d = (r, d1)" by fastforce
  with keeps_run [OF assms, OF J] have J1: "J (tables d1)" by simp
  show "J (tables d')"
  proof (cases r)
    case (Inl e)
    with op p J show ?thesis by (auto simp: rolled_back)
  next
    case (Inr b)
    obtain c d2 where c: "tx_commit ops d d1 = (c, d2)" by fastforce
    with op p Inr have "d' = d2" by (cases c) auto
    with commit_tables [OF c] J J1 show ?thesis by auto
  qed
qed

abbreviation goes_on :: "db \<Rightarrow> ('a, 'r) prog \<Rightarrow> bool" where
  "goes_on t \<equiv> keeps (\<lambda>d. later t (tables d))"

lemma goes_on_act: "(\<And>d a d'. op d = (a, d') \<Longrightarrow> later (tables d) (tables d')) \<Longrightarrow> goes_on t (act op)"
  by (rule keeps_act) (metis later_trans)

lemma goes_on_reads:
  "goes_on t (act (receipt_findUnique ops k))" "goes_on t (act (policy_findUnique ops pk))"
  "goes_on t (act (intent_findUnique ops ik))" "goes_on t (act (intent_findMany ops q))"
  by (rule goes_on_act; simp add: receipt_find policy_find intent_find intents_find)+

lemma goes_on_event: "goes_on t (act (event_create ops ev))"
proof (rule goes_on_act)
  fix d a d'
  assume "event_create ops ev d = (a, d')"
  then show "later (tables d) (tables d')" by (cases a) (auto dest: event_created event_not_created)
qed

lemma goes_on_policy: "goes_on t (act (policy_create ops data))"
proof (rule goes_on_act)
  fix d a d'
  assume "policy_create ops data d = (a, d')"
  then show "later (tables d) (tables d')" by (cases a) (auto dest: policy_created policy_not_created)
qed

lemma goes_on_intent: "goes_on t (act (intent_create ops data))"
proof (rule goes_on_act)
  fix d a d'
  assume "intent_create ops data d = (a, d')"
  then show "later (tables d) (tables d')" by (cases a) (auto dest: intent_created intent_not_created)
qed

lemma goes_on_receipt: "goes_on t (act (receipt_create ops data))"
proof (rule goes_on_act)
  fix d a d'
  assume "receipt_create ops data d = (a, d')"
  then show "later (tables d) (tables d')" by (cases a) (auto dest: receipt_created receipt_not_created)
qed

lemma goes_on_intent_update:
  assumes "\<And>now i. intent_continues i (stamped now g i)"
  shows "goes_on t (act (intent_update ops x g))"
proof (rule goes_on_act)
  fix d a d'
  assume "intent_update ops x g d = (a, d')"
  from intent_update_tables [OF this] assms show "later (tables d) (tables d')"
    by (elim disjE exE) (simp_all add: later_change_intent)
qed

lemma goes_on_expired: "goes_on t (act (receipt_update ops i expired_row))"
proof (rule goes_on_act)
  fix d a d'
  assume "receipt_update ops i expired_row d = (a, d')"
  from update_receipts [OF this] show "later (tables d) (tables d')"
    by (elim insertE emptyE) (simp_all add: later_change_receipts)
qed

lemma goes_on_redeemed: "goes_on t (act (receipt_updateMany ops (redeemable_as r now) (redeemed_row b now)))"
proof (rule goes_on_act)
  fix d a d'
  assume "receipt_updateMany ops (redeemable_as r now) (redeemed_row b now) d = (a, d')"
  moreover have "later (tables d) (change_receipts (redeemable_as r now) (redeemed_row b now) (tables d))"
    by (rule later_change_receipts) (simp add: redeemable_as_def)
  ultimately show "later (tables d) (tables d')" by (auto dest: updateMany_receipts)
qed

lemmas goes_on_calls = goes_on_reads goes_on_event goes_on_policy goes_on_intent goes_on_receipt
  goes_on_expired goes_on_redeemed goes_on_intent_update keeps_andThen

lemma goes_on_verify: "goes_on t (verifyAccessReceipt ops verify at' now token)"
  unfolding verifyAccessReceipt_def one_access
  by (auto intro!: goes_on_calls split: sum.split option.split bool.split)

lemma goes_on_redeem: "goes_on t (redeemReceipt ops verify at' now atomicNow token resource subject)"
proof -
  have "goes_on t (redeemAccessReceiptAtomically ops i atomicNow)" for i
    unfolding redeemAccessReceiptAtomically_def Let_def
    by (auto intro!: goes_on_calls split: option.split)
  then have "goes_on t (redeemStored ops at' atomicNow resource subject r)" for r
    unfolding redeemStored_def redeemed_events_def one_access
    by (auto intro!: goes_on_calls split: option.split bool.split)
  then have "goes_on t (redeemLookedUp ops at' now atomicNow resource subject sig found)" for sig found
    unfolding redeemLookedUp_def one_access by (auto intro!: goes_on_calls split: option.split)
  then show ?thesis
    unfolding redeemReceipt_def one_access
    by (auto intro!: goes_on_calls split: sum.split option.split bool.split)
qed

lemma goes_on_hydrated: "goes_on t (hydrated ops i fallback)"
  unfolding hydrated_def one_access by (intro goes_on_calls) simp

lemma goes_on_issuing: "fls_db service = ops \<Longrightarrow> goes_on t (issueReceiptForIntent service env input)"
proof -
  assume db: "fls_db service = ops"
  have adopt: "goes_on t (adoptExisting ops input r)" for r
    unfolding adoptExisting_def one_access by (auto intro!: goes_on_calls goes_on_hydrated)
  have conflict: "goes_on t (adoptConflicting ops input e)" for e
    unfolding adoptConflicting_def one_access by (auto intro!: goes_on_calls adopt split: option.split)
  have finish: "goes_on t (finishIssuance ops input jti token r)" for jti token r
    unfolding finishIssuance_def one_access by (auto intro!: goes_on_calls goes_on_hydrated)
  have "goes_on t (createSigned service env input expiresAt token)" for expiresAt token
    unfolding createSigned_def Let_def db one_access
    by (rule keeps_bindP, rule goes_on_calls) (simp add: finish conflict split: sum.split)
  then show ?thesis
    unfolding issueReceiptForIntent_def db one_access
    by (auto intro!: goes_on_calls adopt split: option.split sum.split)
qed

lemma goes_on_create:
  assumes db: "fls_db service = ops"
  shows "goes_on t (createAccessIntent service env input)"
proof -
  have log: "goes_on t (logWhen b ops ev)" for b ev
    unfolding logWhen_def one_access by (auto intro!: goes_on_calls)
  have "goes_on t (concludeCreation service env input policy issuedAt fv i)" for policy issuedAt fv i
    unfolding concludeCreation_def Let_def db returnCreated_def one_access
    by (auto intro!: goes_on_calls goes_on_hydrated goes_on_issuing [OF db] log)
  then have verified: "goes_on t (createVerifiedIntent service env input policy fv)" for policy fv
    unfolding createVerifiedIntent_def Let_def db one_access
    by (auto intro!: goes_on_calls log split: sum.split)
  have "goes_on t (ensureResourcePolicy ops p)" for p
    unfolding ensureResourcePolicy_def by (auto intro!: goes_on_calls split: option.split sum.split)
  with verified have "goes_on t (createIntentBody service env input)"
    unfolding createIntentBody_def Let_def db one_access
    by (auto intro!: goes_on_calls split: option.split sum.split)
  then show ?thesis
    unfolding createAccessIntent_def inTransaction_def db by (rule keeps_transaction)
qed

lemma goes_on_reconcile:
  assumes db: "fls_db service = ops"
  shows "goes_on t (reconcileSingleAccessIntent service env i)"
proof -
  have "goes_on t (reconcileUnpaid ops now j)" for now j
    unfolding reconcileUnpaid_def one_access by (auto intro!: goes_on_calls)
  moreover have "goes_on t (reconcileAnswered service env w r)" for w r
    unfolding reconcileAnswered_def Let_def db one_access
    by (auto intro!: goes_on_calls goes_on_issuing [OF db])
  ultimately have "goes_on t (reconcileBody service env i)"
    unfolding reconcileBody_def Let_def db one_access
    by (auto intro!: goes_on_calls split: option.split sum.split)
  then show ?thesis
    unfolding reconcileSingleAccessIntent_def inTransaction_def db by (rule keeps_transaction)
qed

lemma goes_on_reconcileOpen:
  assumes db: "fls_db service = ops"
  shows "goes_on t (reconcileOpenAccessIntents service env)"
proof -
  have "goes_on t (reconcileCandidates service env n ws summary)" for n ws summary
    by (induction ws arbitrary: n summary) (auto intro!: goes_on_calls goes_on_reconcile [OF db])
  then show ?thesis
    unfolding reconcileOpenAccessIntents_def db one_access by (auto intro!: goes_on_calls)
qed

lemma goes_on_lookup:
  assumes db: "fls_db service = ops"
  shows "goes_on t (getAccessIntent service i)"
  unfolding getAccessIntent_def db one_access by (auto intro!: goes_on_calls)

end

lemma any_call_goes_on:
  assumes "prisma_service (fls_db service) tables" and "any_call service verify p"
  shows "keeps (\<lambda>d. later t (tables d)) p"
  using assms(2) prisma_service.goes_on_create [OF assms(1) refl] prisma_service.goes_on_lookup [OF assms(1) refl]
    prisma_service.goes_on_reconcileOpen [OF assms(1) refl] prisma_service.goes_on_verify [OF assms(1)]
    prisma_service.goes_on_redeem [OF assms(1)]
  unfolding any_call_def mapP_def by (auto intro!: keeps_andThen)

text \<open>Both invariants at once, for any interleaving.\<close>

lemma pool_goes_on:
  assumes "prisma_service (fls_db service) tables"
    and "pool_reachable (any_call service verify)
      (\<lambda>d d'. later (tables d) (tables d') \<and> (issuance_ok (tables d) \<longrightarrow> issuance_ok (tables d'))) d0 ps d"
    and "issuance_ok (tables d0)"
  shows "later (tables d0) (tables d) \<and> issuance_ok (tables d)"
proof -
  have "later (tables d0) (tables d) \<and> int (finished (\<lambda>_. False) ps) \<le> 0 - 0"
  proof (rule pool_accounts [OF assms(2), where I = "\<lambda>d. later (tables d0) (tables d)" and cnt = "\<lambda>_. 0"])
    show "later (tables d0) (tables d0)" by simp
    show "accounts (\<lambda>d. later (tables d0) (tables d)) (\<lambda>_. 0) (\<lambda>r n. False \<longrightarrow> 1 \<le> n) p 0"
      if "any_call service verify p" for p
      using any_call_goes_on [OF assms(1) that] by (simp add: keeps_def)
    show "later (tables d0) (tables d2) \<and> (0 :: int) \<le> 0" if "later (tables d0) (tables d1)"
      and "later (tables d1) (tables d2) \<and> (issuance_ok (tables d1) \<longrightarrow> issuance_ok (tables d2))" for d1 d2
      using later_trans [OF that(1) conjunct1 [OF that(2)]] by simp
  qed
  then have "later (tables d0) (tables d)" by simp
  moreover have "issuance_ok (tables d)"
    using pool_accounts [OF assms(2), where I = "\<lambda>d. issuance_ok (tables d)" and cnt = "\<lambda>_. 0"
        and good = "\<lambda>_. False"] assms(3) any_call_keeps [OF assms(1)]
    by (auto simp: keeps_def)
  ultimately show ?thesis by blast
qed

lemma issued_stays_issued:
  assumes "issuance_ok t" and "issuance_ok t'" and "later t t'"
    and i: "i \<in> set (db_intents t)" "int_status i = RECEIPT_ISSUED"
    and j: "j \<in> set (db_intents t')" "int_id j = int_id i"
  shows "int_status j = RECEIPT_ISSUED"
proof -
  from assms(1) i obtain r where r: "r \<in> set (db_receipts t)" "dr_accessIntentId r = int_id i"
    unfolding consistent_def by blast
  with assms(3) obtain q where "q \<in> set (db_receipts t')" "receipt_continues r q"
    unfolding later_def by blast
  moreover from this(2) r(2) have "dr_accessIntentId q = int_id i"
    by (cases r; cases q) (simp add: receipt_continues_def)
  moreover from assms(2) j(1) have "int_status j = RECEIPT_ISSUED
      \<longleftrightarrow> (\<exists>r \<in> set (db_receipts t'). dr_accessIntentId r = int_id j)" by (simp add: consistent_def)
  ultimately show ?thesis using j(2) by auto
qed

section \<open>Transitions that the domain's table does not have\<close>

text \<open>
  The service never consults \<open>ACCESS_INTENT_TRANSITIONS\<close>. A verified intent whose payment is later reported failed
  is rejected; and a reconciliation whose intent was closed after the candidates were listed issues a receipt for
  it when the payment is reported paid.
\<close>

lemma verified_intent_is_rejected:
  "case run (reconcileSingleAccessIntent (sample_service_with RealMode) (sample_env ''failed'') ''i'')
      (pending_db\<lparr>db_intents := [sample_pending\<lparr>int_status := VERIFIED\<rparr>]\<rparr>) of
    (Inr OutcomeRejected, t) \<Rightarrow> map int_status (db_intents t) = [REJECTED]
      \<and> \<not> canTransitionAccessIntent VERIFIED REJECTED
  | _ \<Rightarrow> False"
  by code_simp

lemma expired_intent_is_issued:
  "case run (reconcileSingleAccessIntent (sample_service_with RealMode)
        ((sample_env ''paid'')\<lparr>ce_fiber := (\<lambda>ref. Inr ((sample_answer ''paid'')\<lparr>vr_settledAt := None\<rparr>))\<rparr>) ''i'')
      (pending_db\<lparr>db_intents := [sample_pending\<lparr>int_status := EXPIRED\<rparr>]\<rparr>) of
    (Inr OutcomeVerified, t) \<Rightarrow> map int_status (db_intents t) = [RECEIPT_ISSUED]
      \<and> isAccessIntentTerminal EXPIRED \<and> \<not> canTransitionAccessIntent EXPIRED RECEIPT_ISSUED
  | _ \<Rightarrow> False"
  by code_simp

section \<open>Properties\<close>

text \<open>
  C24: nothing that was recorded is lost, whatever calls of the service run at the same time and in whatever
  order their database accesses interleave, next to other code that only goes on in the same way: events and
  policies are only added; every intent keeps its identity, resource, subject, payment reference and expiry, and
  once it is \<open>RECEIPT_ISSUED\<close> it stays so; every receipt keeps what it was signed for, its count never goes down,
  and once it is not \<open>ISSUED\<close> or not active it never is again.
\<close>

theorem records_are_permanent:
  assumes "prisma_service (fls_db service) tables"
    and "pool_reachable (any_call service verify)
      (\<lambda>d d'. later (tables d) (tables d') \<and> (issuance_ok (tables d) \<longrightarrow> issuance_ok (tables d'))) d0 ps d"
    and "issuance_ok (tables d0)"
  shows "(\<exists>es. db_events (tables d) = db_events (tables d0) @ es)
    \<and> (\<exists>ps. db_policies (tables d) = db_policies (tables d0) @ ps)
    \<and> (\<forall>i \<in> set (db_intents (tables d0)). \<exists>j \<in> set (db_intents (tables d)). intent_continues i j
         \<and> (int_status i = RECEIPT_ISSUED \<longrightarrow> int_status j = RECEIPT_ISSUED))
    \<and> (\<forall>r \<in> set (db_receipts (tables d0)). \<exists>q \<in> set (db_receipts (tables d)). receipt_continues r q)"
proof -
  from pool_goes_on [OF assms] have l: "later (tables d0) (tables d)" and ok: "issuance_ok (tables d)" by simp_all
  have issued: "\<exists>j \<in> set (db_intents (tables d)). intent_continues i j
      \<and> (int_status i = RECEIPT_ISSUED \<longrightarrow> int_status j = RECEIPT_ISSUED)"
    if i: "i \<in> set (db_intents (tables d0))" for i
  proof -
    from l i obtain j where j: "j \<in> set (db_intents (tables d))" "intent_continues i j"
      unfolding later_def by blast
    from j(2) have "int_id j = int_id i" by (cases i; cases j) (simp add: intent_continues_def)
    with issued_stays_issued [OF assms(3) ok l i _ j(1)] j show ?thesis by blast
  qed
  show ?thesis
    using l issued unfolding later_def by (elim conjE) (intro conjI ballI; blast)
qed

text \<open>A reconciliation issues the receipt of a stored intent, which goes on as it was asked for.\<close>

theorem records_are_permanent_witness:
  "\<exists>t j. run (reconcileSingleAccessIntent (sample_service_with RealMode) (sample_env ''paid'') ''i'') pending_db
       = (Inr OutcomeVerified, t) \<and> map dr_jti (db_receipts t) = [''j'']
     \<and> j \<in> set (db_intents t) \<and> intent_continues sample_pending j"
proof -
  let ?S = "sample_service_with RealMode"
  let ?others = "\<lambda>d d'. later d d' \<and> (issuance_ok d \<longrightarrow> issuance_ok d')"
  obtain t where run: "run (reconcileSingleAccessIntent ?S (sample_env ''paid'') ''i'') pending_db
      = (Inr OutcomeVerified, t)" and row: "map dr_jti (db_receipts t) = [''j'']"
    using sample_reconciliation by (elim exE conjE)
  have db: "prisma_service (fls_db ?S) (\<lambda>t. t)" by (simp add: relational_service.prisma_service_axioms)
  have ok: "issuance_ok pending_db"
    by (simp add: consistent_def pending_db_def sample_pending_def sample_policy_def policy_for_def)
  have "issuance_ok t"
    using prisma_service.reconcileSingle_tables [OF db refl ok run] by (simp add: reconcile_effect_def)
  moreover have "later pending_db t"
    using keeps_run [OF prisma_service.goes_on_reconcile [OF db refl], of pending_db pending_db
        "sample_env ''paid''" "''i''"] run by simp
  ultimately have pool: "pool_reachable (any_call ?S (\<lambda>_. Inr sample_signature)) ?others pending_db [] t"
    by (intro pool_reachable.env [OF pool_reachable.empty]) simp
  from records_are_permanent [where tables = "\<lambda>t. t", OF db pool ok]
  obtain j where "j \<in> set (db_intents t)" "intent_continues sample_pending j"
    by (auto simp: pending_db_def)
  with run row show ?thesis by (intro exI conjI)
qed

end
