(* ===== verification/Spec2Isabelle.thy ===== *)
theory Spec2Isabelle
  imports Receipt_Verifier Postgres_Store Host_Transactions Paid_Resource_Server Redemption_Decision
    Answered_Requests
    Reconciliation_Worker Testnet_Verify Diagnostics_Report Step_Bounds Package_Consumers
    Protected_Resource_Demo Paid_Resource_Demo Postgres_Consumers Packed_Example_Check Store_Package_Check
    Token_Delivery Record_History
begin

text \<open>
  A verification development for FiberLatch: the access package \<^verbatim>\<open>packages/access\<close> (signed access
  receipts: build, sign, verify, bind, redeem), its PostgreSQL store \<^verbatim>\<open>packages/postgres-store\<close>, the
  example host \<^verbatim>\<open>examples/paid-resource\<close>, the historical service under \<^verbatim>\<open>src/\<close> (access intents,
  payment verification at a Fiber node, receipts kept with Prisma, an HTTP interface and a worker), the two
  scripts that talk to live nodes, and the programs that try the packages out and check their archives.
  The source is TypeScript; every path below is relative to the repository.

  \<^bold>\<open>How the parts interact.\<close> A host builds thirteen claims, and the signer signs their canonical object as
  a compact token. A redemption (\<open>redeemAccessReceipt\<close>) gives the token to a verifier, compares the
  verified claims with the bindings the host expects, and hands one consume command to the host's store,
  whose atomic decision is final. The PostgreSQL store implements that decision as one SQL statement, the
  example host as a map in memory. The historical service creates intents, asks a Fiber node about their
  payment, at once or when the worker reconciles, issues a receipt for a paid one, and redeems it by a
  pre-atomic check on a snapshot and a guarded update.

  \<^bold>\<open>Theories.\<close> Shared by all components:

  \<^item> \<open>FL_Prelude\<close>: sequencing of computations that may throw (\<open>'e + 'a\<close>, \<open>bindE\<close>), the collections
    \<open>result_simps\<close> and \<open>access_defs\<close>, shared list lemmas.
  \<^item> \<open>JS_Values\<close>: JavaScript numbers (a finite double is the rational it denotes), values, property
    access, strings of code units below 256, the exceptions of the modelled code. \<open>JS_Dates\<close>: time values,
    their calendar dates and their ISO strings.
  \<^item> \<open>Zod_Schema\<close>: schemas as data, the documented behaviour of \<open>safeParse\<close> as the locale
    \<open>zod_parser\<close>, interpreted by an executable parser. The library is a parameter of every definition
    that validates. \<open>Jose_Library\<close>: the functions of jose as a record, and the two predicates the source relies
    on, with a concrete library that satisfies them.
  \<^item> \<open>Async_Program\<close>: asynchronous code as programs of atomic steps on a shared state, run alone or in a
    pool with others; \<open>accounts\<close> bounds what a pool can do by what each program accounts for.
    \<open>Program_Logic\<close>: \<open>returns\<close> for a program that runs alone, \<open>keeps\<close> for invariants under interleaving.
    \<open>Step_Bounds\<close>: \<open>ends_within\<close> for the number of steps a program takes, whatever it is answered.

  The packages and the example host:

  \<^item> \<open>Receipt_Claims\<close> (\<^verbatim>\<open>packages/access/src/receipt-claims.ts\<close>, \<^verbatim>\<open>errors.ts\<close>): schema, refinement,
    builder; the record \<open>receipt_claims\<close> is the typed reading of a canonical claim object.
  \<^item> \<open>Receipt_Bindings\<close> (\<^verbatim>\<open>receipt-bindings.ts\<close>): the check of verified claims against the host's values.
    \<open>Ed25519_Jwk\<close> (\<^verbatim>\<open>ed25519-jwk.ts\<close>): validation and import of keys.
  \<^item> \<open>Receipt_Signer\<close> (\<^verbatim>\<open>receipt-signer.ts\<close>), \<open>Receipt_Verifier\<close> (\<^verbatim>\<open>receipt-verifier.ts\<close>): the factories,
    whose closures are functions of the state they capture, and the verification of one token at a clock.
  \<^item> \<open>Access_Receipt_Store\<close> (\<^verbatim>\<open>access-receipt-store.ts\<close>): commands, outcomes, and the store contract as the
    locale \<open>access_receipt_store\<close>, with its consequences for any interleaving of attempts and host changes.
  \<^item> \<open>Redeem_Access_Receipt\<close> (\<^verbatim>\<open>redeem-access-receipt.ts\<close>): the redemption with every branch, and
    redemption sequences over a store that keeps the contract.
  \<^item> \<open>Postgres_Store\<close> (\<^verbatim>\<open>packages/postgres-store/src/index.ts\<close>, \<^verbatim>\<open>sql/001_access_receipts.sql\<close>): the
    table with its constraints, the SQL statement with NULL comparisons and two clock readings, the
    TypeScript around it. The host's executor is a parameter (locale \<open>statement_executor\<close>), of which the
    store contract is a consequence (\<open>sublocale\<close>), and which a concrete database interprets.
    \<open>Host_Transactions\<close>: redemptions inside transactions that the host commits or rolls back.
  \<^item> \<open>Paid_Resource\<close> (\<^verbatim>\<open>paid-resource-service.mjs\<close>): a second store that keeps the contract, and the service
    around it. \<open>Paid_Resource_Server\<close> (\<^verbatim>\<open>server.mjs\<close>): its two routes, and histories of requests.
    \<open>Paid_Resource_Demo\<close> (\<^verbatim>\<open>demo.mjs\<close>): a receipt is issued, used, and refused on its second use.
  \<^item> \<open>Package_Consumers\<close> (\<^verbatim>\<open>packages/access/test-consumers/\<close>): the three programs that use the packed
    access package from end to end, as compositions of its functions. \<open>Postgres_Consumers\<close>
    (\<^verbatim>\<open>packages/postgres-store/test-consumers/\<close>): the same for the store, over an executor of its own and over
    a database; the lemmas \<open>runtime_consumer_passes\<close> and \<open>packed_store_consumer_passes\<close>.
  \<^item> \<open>Packaging_Host\<close>: files, child processes and POSIX paths as a machine of parameters that records what
    it is asked (\<open>asks\<close>). Over it \<open>Distribution_Check\<close> (\<^verbatim>\<open>packages/access/scripts/verify-distribution.mjs\<close>),
    \<open>Packed_Example_Check\<close> (\<^verbatim>\<open>examples/paid-resource/scripts/verify-packed.mjs\<close>) and \<open>Store_Package_Check\<close>
    (\<^verbatim>\<open>packages/postgres-store/scripts/\<close>): what the checks of the packed archives create, install and remove,
    which imports they refuse, and the statements of the migration in order, with rollback and end.

  The historical service:

  \<^item> \<open>Access_State\<close>, \<open>Redemption_Policy\<close> (\<^verbatim>\<open>src/domain/\<close>): statuses, transition tables, pre-atomic denials.
  \<^item> \<open>Fiber_Status_Mapper\<close>, \<open>Fiber_Clients\<close> (\<^verbatim>\<open>src/integrations/fiber/\<close>): normalisation of raw statuses,
    reading of RPC bodies, the real client over a network parameter and the fake client, both
    interpretations of the locale \<open>fiber_client\<close> the service relies on.
  \<^item> \<open>Runtime_Config\<close> (\<^verbatim>\<open>src/config/\<close>): the configuration from the environment, with \<open>Number\<close> on strings.
    \<open>Legacy_Signer\<close> (\<^verbatim>\<open>src/config/signing-key.ts\<close>, \<^verbatim>\<open>src/integrations/receipts/\<close>): keys, tokens, key set.
  \<^item> \<open>Prisma_Database\<close>: the tables of \<^verbatim>\<open>prisma/schema.prisma\<close>, the client's operations as a record and
    their contract as the locale \<open>prisma_client\<close>, with an executable relational instance.
  \<^item> \<open>Receipt_Repository\<close>, \<open>Intent_Repository\<close> (\<^verbatim>\<open>src/repositories/\<close>): every operation on the tables.
  \<^item> \<open>Service_Redemption\<close>, \<open>Service_Issuance\<close> (\<^verbatim>\<open>src/services/fiber-latch-service.ts\<close>): verification and
    redemption of receipts; creation, lookup and reconciliation of intents and the issuing of receipts.
  \<^item> \<open>Issuance_Invariant\<close>, \<open>Intent_Lifecycle\<close>, \<open>Issuance_Samples\<close>, \<open>Issuance_Properties\<close>: the relation
    between intents and receipts, what each operation does to it, sample runs, and the properties.
    \<open>Issue_And_Redeem\<close>: the service with its own signer, from issuing to redemption.
    \<open>Redemption_Decision\<close>: what a redemption that runs alone answers, and what it changes.
    \<open>Record_History\<close>: what can become of a stored row.
  \<^item> \<open>Service_Contracts\<close> (\<^verbatim>\<open>src/contracts/\<close>), \<open>Service_Http\<close> (\<^verbatim>\<open>src/app.ts\<close>, \<^verbatim>\<open>src/routes/\<close>): the schemas of
    bodies and responses, the composition of the application, its handlers and its error handler;
    \<open>Http_Properties\<close>: that the responses of the handlers satisfy their schemas; \<open>Answered_Requests\<close>: the
    creation of an intent, over a client that names and stamps its rows (locale \<open>stamping_client\<close>), and the status of
    every reply; \<open>Token_Delivery\<close>: which replies carry the signed token of a receipt.
  \<^item> \<open>Reconciliation_Worker\<close> (\<^verbatim>\<open>src/workers/\<close>): the timer of the worker as a step relation over calls,
    ticks and the database accesses of the reconciliations under way.
  \<^item> \<open>Protected_Resource_Demo\<close> (\<^verbatim>\<open>scripts/demo-protected-resource.ts\<close>): a gate that asks the HTTP
    interface before it returns its content.

  The scripts: \<open>Testnet_Verify\<close> (\<^verbatim>\<open>scripts/fiber-testnet-verify.ts\<close>), and
  \<^verbatim>\<open>scripts/phase3-routing-diagnostics.mjs\<close> in two theories, over a network that records the calls:
  \<open>Routing_Diagnostics\<close> has its queries and payment attempts, \<open>Diagnostics_Report\<close> its reports of channels,
  peers and balances, the decimal printing of amounts, and the whole script.

  \<^bold>\<open>What the lemmas show.\<close> C1 to C3 characterise claims and bindings completely; C4 that the gate of the
  demonstration returns its content at most as often as a receipt allows; C5 that the packed consumers pass their own
  checks; C6 to C8 say which configurations are accepted; C9 to C11 are soundness, uniform denial and round trip of
  tokens; C12 and C13 the redemption; C14 to C16 the PostgreSQL store, that is its refinement of a typed
  decision, its capacity over transactions of the host, and the truth of what it reports; C17 joins all of them; C18 that
  with a real Fiber client no reply hands out the token of a receipt; C19 the decision of the historical redemption; C20 and C21 the
  payment statuses (the transition tables are characterised by \<open>access_state_machines\<close>); C22 and C23 the Fiber
  clients; C24 that nothing recorded is lost or reopened; C25 and C26 the historical redemption, above all that
  concurrent requests are never granted more than a receipt has left; C27 that every call of the service ends,
  within a number of database accesses that is fixed for a request; C28 the script that checks a live node; C29
  and C30 the example host, whose demonstration passes and whose content is paid for; C31 to C35 intents and
  receipts, that is their consistency under any interleaving, that receipts are issued only for reported
  payments, idempotency, and the count of a reconciliation; C36 that an issued receipt is granted; C37 the
  configuration; C38 the worker; C39 that every request
  is answered with a status of its route, and no response fails its own schema; C40 the bound on what the
  routing diagnostics can pay for invoices that demand what was asked.

  \<^bold>\<open>Third parties.\<close> zod, jose, the SQL executor, \<open>fetch\<close>, Fastify and the Prisma client are parameters. A
  property that needs their documented behaviour has it as a named hypothesis, and its witness instantiates the
  parameter by a concrete function. Clock readings and random identifiers are arguments. Transactions of
  the Prisma client take effect as one step, which is its contract for SQLite.

  \<^bold>\<open>Bounds and termination.\<close> No fuel is used: the loops of the source run over finite lists and are
  structural recursions; the digits of a number and its size in bits are functions with their own termination
  arguments. JavaScript strings are limited to code units below 256, accessors and proxies
  are not represented, and dates are time values in milliseconds.

  \<^bold>\<open>Not modelled.\<close> The entry points (\<^verbatim>\<open>src/server.ts\<close> refuses to start, \<^verbatim>\<open>src/legacy-retirement.ts\<close>
  refuses to listen, the others re-export) and the routing and body parsing of Fastify. The sequences of the
  three demonstrations under \<^verbatim>\<open>scripts/\<close> (\<^verbatim>\<open>demo-protected-resource.ts\<close>, \<^verbatim>\<open>demo-local-access.ts\<close>,
  \<^verbatim>\<open>demo-live-paid-issuance.ts\<close>): they read the token from a wrapper of the signer that remembers
  it, where the service of the model takes a signer without memory; the calls they make are modelled. The
  shape of the module object and the type-level assertions that the packed consumers also test. Console
  output, and what npm, \<^verbatim>\<open>tar\<close> and the file system do. The row lock of PostgreSQL is
  represented by the atomicity of the statement, not by its own steps.
\<close>

section \<open>Properties that span components\<close>

text \<open>
  C17: end to end: a redemption through the package's verifier and its PostgreSQL store succeeds only
  for a compact token that a configured key signed, whose claims are valid, of the configured issuer
  and audience, within their window at the verifier's clock, and agree with the host's bindings; the
  persisted receipt has the same authority, is not revoked, not exhausted and not expired at the
  host's time, and exactly one of its redemptions was taken.
\<close>

theorem redemption_end_to_end:
  assumes "zod_parser Zod4 sp" and "jose_verifies lib signed"
    and "statement_executor query host table" and "table_ok (table s)"
    and "redeemAccessReceipt sp (RedeemInput token expected
           (Some (\<lambda>t. verifyToken sp lib now t st)) (Some (postgres_consume (query w))) time) s
         = (Success b, s')"
  shows "\<exists>tok key payload c. token = JStr tok \<and> compact_form tok \<and> within_size st tok
    \<and> key \<in> snd ` set (vs_keys st) \<and> signed key tok payload \<and> carries payload c
    \<and> claims_valid c \<and> rc_iss c = vs_issuer st \<and> rc_aud c = vs_audience st
    \<and> in_validity_window now (vs_clockTolerance st) c \<and> bindings_agree expected c
    \<and> consumes (table_receipts (table s)) (command_of c expected time) b (table_receipts (table s'))"
proof -
  let ?input = "RedeemInput token expected (Some (\<lambda>t. verifyToken sp lib now t st))
      (Some (postgres_consume (query w))) time"
  obtain c cmd where r: "reaches_store ?input c cmd (postgres_consume (query w))"
    and cons: "consumes (table_receipts (table s)) cmd b (table_receipts (table s'))"
    using access_receipt_store.success_was_admissible
      [OF statement_executor.is_store [OF assms(3)] assms(1,4) _ assms(5), where w = w] by auto
  from r obtain claims where v: "verifyToken sp lib now token st = Inr claims"
    and c: "carries claims c" and e: "bindings_agree expected c"
    and cmd: "cmd = command_of c expected time"
    unfolding reaches_store_def by auto
  from v [unfolded verifyToken_Inr_iff [OF assms(1)]]
  obtain tok kid key payload c' where *: "token = JStr tok" "compact_form tok" "within_size st tok"
    "map_of (vs_keys st) kid = Some key" "claims_valid c'" "carries payload c'"
    and claims: "claims = claims_obj c'"
    and j: "jwtVerify lib now tok key (verify_options st) = Inr payload" by blast
  from c claims carries_unique have "c' = c" by (metis carries_claims_obj)
  moreover from assms(2) j have "signed key tok payload" "jwt_checks now (verify_options st) payload"
    by (auto simp: jose_verifies_def)
  moreover have "key \<in> snd ` set (vs_keys st)"
    using *(4) by (force dest: map_of_SomeD)
  ultimately show ?thesis
    using * jwt_checks_claims e cons cmd by blast
qed

definition sample_full_redemption :: "circumstances \<Rightarrow> receipt_table redeem_input" where
  "sample_full_redemption w = RedeemInput (JStr sample_token) sample_expected
     (Some (\<lambda>t. verifyToken (zod_reference Zod4) sample_jose 150 t sample_verifier_state))
     (Some (postgres_consume (pg_query w))) (JInt 150)"

lemma sample_full_redemption_result:
  "redeemAccessReceipt (zod_reference Zod4) (sample_full_redemption sample_circumstances) sample_table
     = (Success False, sample_table(''j1'' \<mapsto> sample_row\<lparr>row_redemption_count := 2\<rparr>))"
proof -
  have "redeemAccessReceipt (zod_reference Zod4) (sample_full_redemption sample_circumstances)
      sample_table
    = redeemAccessReceipt (zod_reference Zod4) (pg_redemption sample_circumstances) sample_table"
    by (simp add: redeemAccessReceipt_def sample_full_redemption_def pg_redemption_def
        sample_verifyToken)
  then show ?thesis by (simp add: pg_redemption_result)
qed

theorem redemption_end_to_end_witness:
  "\<exists>c. bindings_agree sample_expected c \<and> consumes (table_receipts sample_table)
      (command_of c sample_expected (JInt 150)) False
      (table_receipts (sample_table(''j1'' \<mapsto> sample_row\<lparr>row_redemption_count := 2\<rparr>)))"
proof -
  have "jose_verifies sample_jose (\<lambda>k t p. k = ''pub'' \<and> t = sample_token \<and> p = claims_obj sample_claims)"
    unfolding sample_jose_def by (rule scripted_jose_verifies)
  from redemption_end_to_end [where table = "\<lambda>t. t", OF reference.zod_parser_axioms this
      pg.statement_executor_axioms sample_table_ok
      sample_full_redemption_result [unfolded sample_full_redemption_def]]
  show ?thesis by blast
qed

end
